(* ===== verification/Prelude.thy ===== *)
theory Prelude
  imports Main "HOL-Library.Word"
begin

text \<open>
  Shared vocabulary of the development: the outcome of a Rust call (it returns or it
  panics), machine integers, the parts of the Rust standard library that the sources use
  (\<^verbatim>\<open>str::split\<close>, \<^verbatim>\<open>str::parse\<close>, \<^verbatim>\<open>String::from_utf8\<close>, \<^verbatim>\<open>SystemTime\<close>, \<^verbatim>\<open>Duration\<close>,
  \<^verbatim>\<open>HashMap\<close>), and the generic lemmas on them.

  Conventions of all theories:
  \<^item> \<^verbatim>\<open>Result<T, E>\<close> is the sum \<open>'e + 'a\<close>, \<open>Inl\<close> the error;
  \<^item> a call that can panic returns \<open>'a outcome\<close>;
  \<^item> everything outside the process (API server, file system, git remotes, clocks,
    random numbers, caches filled by the watchers) is an abstract world of type \<open>'w\<close>,
    threaded explicitly; the functions that touch it are fields of environment records;
  \<^item> a string is the list of its UTF-8 bytes.
\<close>

section \<open>Automation collections\<close>

named_theorems rust_simps \<open>unfolding of the standard library models\<close>
named_theorems outcome_intros \<open>how an outcome is obtained\<close>

section \<open>Machine integers\<close>

type_synonym u16 = "16 word"
type_synonym u32 = "32 word"
type_synonym i32 = "32 word"
type_synonym u64 = "64 word"
type_synonym i64 = "64 word"
type_synonym usize = "64 word"

section \<open>Outcomes: returning or panicking\<close>

datatype 'a outcome = Returns 'a | Panics string

fun outcome_bind :: "'a outcome \<Rightarrow> ('a \<Rightarrow> 'b outcome) \<Rightarrow> 'b outcome" where
  "outcome_bind (Returns a) f = f a"
| "outcome_bind (Panics m) f = Panics m"

fun returns :: "'a outcome \<Rightarrow> bool" where
  "returns (Returns a) = True"
| "returns (Panics m) = False"

text \<open>\<^verbatim>\<open>Option::unwrap\<close> and \<^verbatim>\<open>Option::expect\<close>.\<close>

fun expect :: "string \<Rightarrow> 'a option \<Rightarrow> 'a outcome" where
  "expect m None = Panics m"
| "expect m (Some a) = Returns a"

definition unwrap :: "'a option \<Rightarrow> 'a outcome" where
  "unwrap x = expect ''called Option::unwrap() on a None value'' x"

text \<open>\<^verbatim>\<open>Option::unwrap_or\<close>, \<^verbatim>\<open>Option::ok_or\<close>, \<^verbatim>\<open>Result::is_ok\<close>.\<close>

fun unwrap_or :: "'a option \<Rightarrow> 'a \<Rightarrow> 'a" where
  "unwrap_or None d = d"
| "unwrap_or (Some a) d = a"

fun ok_or :: "'a option \<Rightarrow> 'e \<Rightarrow> 'e + 'a" where
  "ok_or None e = Inl e"
| "ok_or (Some a) e = Inr a"

fun is_ok :: "'e + 'a \<Rightarrow> bool" where
  "is_ok (Inl e) = False"
| "is_ok (Inr a) = True"

lemma unwrap_simps [simp]:
  "unwrap None = Panics ''called Option::unwrap() on a None value''"
  "unwrap (Some a) = Returns a"
  by (simp_all add: unwrap_def)

lemma returns_iff: "returns x \<longleftrightarrow> (\<exists>a. x = Returns a)"
  by (cases x) auto

lemma outcome_bind_Returns_iff [simp]:
  "outcome_bind x f = Returns b \<longleftrightarrow> (\<exists>a. x = Returns a \<and> f a = Returns b)"
  by (cases x) auto

lemma outcome_bind_assoc:
  "outcome_bind (outcome_bind x f) g = outcome_bind x (\<lambda>a. outcome_bind (f a) g)"
  by (cases x) auto

lemma unwrap_Returns_iff [simp]: "unwrap x = Returns a \<longleftrightarrow> x = Some a"
  by (cases x) auto

lemma returns_bind [outcome_intros]:
  "x = Returns a \<Longrightarrow> returns (f a) \<Longrightarrow> returns (outcome_bind x f)"
  by simp

text \<open>Case distinctions on results that appear under an existential quantifier.\<close>

lemma case_sum_eq_iff:
  "(case x of Inl e \<Rightarrow> f e | Inr a \<Rightarrow> g a) = y \<longleftrightarrow>
     (\<exists>e. x = Inl e \<and> f e = y) \<or> (\<exists>a. x = Inr a \<and> g a = y)"
  by (cases x) auto

lemma case_option_eq_iff:
  "(case x of None \<Rightarrow> f | Some a \<Rightarrow> g a) = y \<longleftrightarrow>
     x = None \<and> f = y \<or> (\<exists>a. x = Some a \<and> g a = y)"
  by (cases x) auto

lemma is_ok_iff: "is_ok r \<longleftrightarrow> (\<exists>a. r = Inr a)"
  by (cases r) auto

lemma ok_or_Inr_iff [simp]: "ok_or x e = Inr a \<longleftrightarrow> x = Some a"
  by (cases x) auto

section \<open>Strings\<close>

text \<open>\<^verbatim>\<open>str::starts_with\<close> with a string pattern.\<close>

fun starts_with :: "string \<Rightarrow> string \<Rightarrow> bool" where
  "starts_with s [] = True"
| "starts_with [] (p # ps) = False"
| "starts_with (c # s) (p # ps) = (c = p \<and> starts_with s ps)"

lemma starts_with_append: "starts_with s p \<longleftrightarrow> (\<exists>r. s = p @ r)"
  by (induction s p rule: starts_with.induct) auto

text \<open>\<^verbatim>\<open>str::split\<close> with a one-character pattern: there is always at least one piece.\<close>

fun split_on :: "char \<Rightarrow> string \<Rightarrow> string list" where
  "split_on c [] = [[]]"
| "split_on c (x # xs) =
     (if x = c then [] # split_on c xs
      else (case split_on c xs of [] \<Rightarrow> [[x]] | s # ss \<Rightarrow> (x # s) # ss))"

fun join_with :: "char \<Rightarrow> string list \<Rightarrow> string" where
  "join_with c [] = []"
| "join_with c [s] = s"
| "join_with c (s # t # ss) = s @ c # join_with c (t # ss)"

lemma split_on_nonempty [simp]: "split_on c s \<noteq> []"
  by (induction s) (auto split: list.splits)

lemma split_on_no_sep: "c \<notin> set s \<Longrightarrow> split_on c s = [s]"
  by (induction s) auto

lemma split_on_append_sep:
  "c \<notin> set s \<Longrightarrow> split_on c (s @ c # t) = s # split_on c t"
  by (induction s) auto

lemma join_split: "join_with c (split_on c s) = s"
proof (induction s)
  case (Cons x s)
  then show ?case
    by (cases "split_on c s"; cases "tl (split_on c s)") (auto split: list.splits)
qed simp

lemma split_join:
  assumes "ss \<noteq> []" and "\<forall>s \<in> set ss. c \<notin> set s"
  shows "split_on c (join_with c ss) = ss"
  using assms
  by (induction c ss rule: join_with.induct) (auto simp: split_on_no_sep split_on_append_sep)

lemma split_on_pieces: "s \<in> set (split_on c t) \<Longrightarrow> c \<notin> set s"
  by (induction t arbitrary: s) (auto split: list.splits if_splits)

text \<open>Keys of the form \<^verbatim>\<open>format!("{a}/{b}")\<close> are unambiguous when \<open>a\<close> has no slash.\<close>

lemma slash_key_inject:
  assumes "a @ CHR ''/'' # b = a' @ CHR ''/'' # b'"
    and "CHR ''/'' \<notin> set a" and "CHR ''/'' \<notin> set a'"
  shows "a = a' \<and> b = b'"
proof -
  have "split_on CHR ''/'' (a @ CHR ''/'' # b) = split_on CHR ''/'' (a' @ CHR ''/'' # b')"
    using assms(1) by simp
  then have "a = a'" using assms(2,3) by (simp add: split_on_append_sep)
  with assms(1) show ?thesis by simp
qed

text \<open>\<^verbatim>\<open>str::to_lowercase\<close> on the ASCII range, which covers Kubernetes names and base-62 suffixes.\<close>

definition lower_char :: "char \<Rightarrow> char" where
  "lower_char c = (if 65 \<le> (of_char c :: nat) \<and> (of_char c :: nat) \<le> 90
                   then char_of ((of_char c :: nat) + 32) else c)"

definition to_lowercase :: "string \<Rightarrow> string" where
  "to_lowercase s = map lower_char s"

text \<open>\<^verbatim>\<open>str::parse\<close> into an unsigned integer below \<open>bound\<close>: an optional plus sign, then at
  least one digit; an overflow is an error.\<close>

definition is_digit :: "char \<Rightarrow> bool" where
  "is_digit c \<longleftrightarrow> 48 \<le> (of_char c :: nat) \<and> (of_char c :: nat) \<le> 57"

definition digit_val :: "char \<Rightarrow> nat" where
  "digit_val c = (of_char c :: nat) - 48"

fun digits_val :: "nat \<Rightarrow> string \<Rightarrow> nat" where
  "digits_val acc [] = acc"
| "digits_val acc (c # cs) = digits_val (10 * acc + digit_val c) cs"

fun strip_plus :: "string \<Rightarrow> string" where
  "strip_plus [] = []"
| "strip_plus (c # cs) = (if c = CHR ''+'' then cs else c # cs)"

definition parse_uint :: "nat \<Rightarrow> string \<Rightarrow> nat option" where
  "parse_uint bound s =
     (let ds = strip_plus s in
      if ds = [] \<or> \<not> list_all is_digit ds then None
      else if digits_val 0 ds < bound then Some (digits_val 0 ds) else None)"

lemma parse_uint_bound: "parse_uint b s = Some n \<Longrightarrow> n < b"
  by (auto simp: parse_uint_def Let_def split: if_splits)

section \<open>UTF-8 validation\<close>

text \<open>\<^verbatim>\<open>String::from_utf8\<close>: the well-formed byte sequences of RFC 3629.\<close>

definition byte :: "char \<Rightarrow> nat" where
  "byte c = of_char c"

definition is_cont :: "char \<Rightarrow> bool" where
  "is_cont c \<longleftrightarrow> 128 \<le> byte c \<and> byte c < 192"

definition utf8_second :: "nat \<Rightarrow> nat \<Rightarrow> bool" where
  "utf8_second lead b \<longleftrightarrow>
     (if lead = 224 then 160 \<le> b \<and> b < 192
      else if lead = 237 then 128 \<le> b \<and> b < 160
      else if lead = 240 then 144 \<le> b \<and> b < 192
      else if lead = 244 then 128 \<le> b \<and> b < 144
      else 128 \<le> b \<and> b < 192)"

function utf8_valid :: "string \<Rightarrow> bool" where
  "utf8_valid s =
     (case s of
        [] \<Rightarrow> True
      | a # r \<Rightarrow>
          if byte a < 128 then utf8_valid r
          else if 194 \<le> byte a \<and> byte a < 224 then
            (case r of b # r' \<Rightarrow> is_cont b \<and> utf8_valid r' | _ \<Rightarrow> False)
          else if 224 \<le> byte a \<and> byte a < 240 then
            (case r of b # c # r' \<Rightarrow> utf8_second (byte a) (byte b) \<and> is_cont c \<and> utf8_valid r'
             | _ \<Rightarrow> False)
          else if 240 \<le> byte a \<and> byte a < 245 then
            (case r of b # c # d # r' \<Rightarrow>
                 utf8_second (byte a) (byte b) \<and> is_cont c \<and> is_cont d \<and> utf8_valid r'
             | _ \<Rightarrow> False)
          else False)"
  by pat_completeness auto
termination
  by (relation "measure length") auto

declare utf8_valid.simps [simp del]

definition from_utf8 :: "string \<Rightarrow> string option" where
  "from_utf8 bs = (if utf8_valid bs then Some bs else None)"

lemma utf8_valid_ascii: "\<forall>c \<in> set s. byte c < 128 \<Longrightarrow> utf8_valid s"
  by (induction s) (subst utf8_valid.simps; simp)+

lemma from_utf8_ascii: "\<forall>c \<in> set s. byte c < 128 \<Longrightarrow> from_utf8 s = Some s"
  by (simp add: from_utf8_def utf8_valid_ascii)

lemma from_utf8_SomeD: "from_utf8 bs = Some s \<Longrightarrow> s = bs \<and> utf8_valid bs"
  by (simp add: from_utf8_def split: if_splits)

section \<open>Time\<close>

text \<open>
  A \<^verbatim>\<open>Duration\<close> is its nanoseconds, a \<^verbatim>\<open>SystemTime\<close> the nanoseconds since the epoch. The
  seconds of a \<^verbatim>\<open>SystemTime\<close> are a signed 64-bit integer, so an addition past that range is
  \<^verbatim>\<open>None\<close>.
\<close>

type_synonym duration = nat
type_synonym system_time = int

definition from_secs :: "u64 \<Rightarrow> duration" where
  "from_secs s = unat s * 1000000000"

definition system_time_limit :: system_time where
  "system_time_limit = 9223372036854775808 * 1000000000"

definition checked_add :: "system_time \<Rightarrow> duration \<Rightarrow> system_time option" where
  "checked_add t d = (if t + int d < system_time_limit then Some (t + int d) else None)"

text \<open>\<^verbatim>\<open>SystemTime::duration_since\<close>: an error when the other time is later.\<close>

definition duration_since :: "system_time \<Rightarrow> system_time \<Rightarrow> duration option" where
  "duration_since t earlier = (if earlier \<le> t then Some (nat (t - earlier)) else None)"

definition checked_sub :: "duration \<Rightarrow> duration \<Rightarrow> duration option" where
  "checked_sub d e = (if e \<le> d then Some (d - e) else None)"

lemma checked_add_Some_iff:
  "checked_add t d = Some u \<longleftrightarrow> u = t + int d \<and> t + int d < system_time_limit"
  by (auto simp: checked_add_def)

lemma checked_add_None_iff: "checked_add t d = None \<longleftrightarrow> system_time_limit \<le> t + int d"
  by (auto simp: checked_add_def)

section \<open>Hash maps\<close>

text \<open>\<^verbatim>\<open>HashMap::extend\<close> is \<open>(++)\<close>; filtering an iterator over the entries by key:\<close>

definition filter_keys :: "('k \<Rightarrow> bool) \<Rightarrow> ('k \<rightharpoonup> 'v) \<Rightarrow> ('k \<rightharpoonup> 'v)" where
  "filter_keys P m = (\<lambda>k. if P k then m k else None)"

lemma filter_keys_apply [simp]: "filter_keys P m k = (if P k then m k else None)"
  by (simp add: filter_keys_def)

lemma dom_filter_keys: "dom (filter_keys P m) = {k \<in> dom m. P k}"
  by (auto split: if_splits)

lemma filter_keys_idem [simp]: "filter_keys P (filter_keys P m) = filter_keys P m"
  by (rule ext) simp

lemma filter_keys_add: "filter_keys P (m ++ m') = filter_keys P m ++ filter_keys P m'"
  by (rule ext) (simp add: map_add_def split: option.splits)

lemma ran_remove_inj:
  assumes "m k = Some v" and "inj_on m (dom m)"
  shows "ran (m(k := None)) = ran m - {v}"
proof (rule set_eqI)
  fix x
  have uniq: "a = k" if "m a = Some v" for a
    using inj_onD [OF assms(2), of a k] that assms(1) by (simp add: domIff)
  show "x \<in> ran (m(k := None)) \<longleftrightarrow> x \<in> ran m - {v}"
  proof
    assume "x \<in> ran (m(k := None))"
    then obtain a where "a \<noteq> k" "m a = Some x" by (auto simp: ran_def split: if_splits)
    with uniq show "x \<in> ran m - {v}" by (auto simp: ran_def)
  next
    assume "x \<in> ran m - {v}"
    then obtain a where "m a = Some x" "x \<noteq> v" by (auto simp: ran_def)
    with assms(1) have "a \<noteq> k" by auto
    with \<open>m a = Some x\<close> show "x \<in> ran (m(k := None))" by (auto simp: ran_def)
  qed
qed

section \<open>Clock and random numbers\<close>

text \<open>
  Each reading of the clock may advance the world; \<open>format_local\<close> is the formatting of a local
  time by \<^verbatim>\<open>chrono\<close> with the one format the sources use, \<open>sample_alphanumeric\<close> draws a character
  from the distribution \<^verbatim>\<open>Alphanumeric\<close> of the \<^verbatim>\<open>rand\<close> crate.
\<close>

record 'w clock_env =
  now :: "'w \<Rightarrow> system_time \<times> 'w"
  format_local :: "system_time \<Rightarrow> string"
  sample_alphanumeric :: "'w \<Rightarrow> char \<times> 'w"

text \<open>\<^verbatim>\<open>random_string\<close> of \<^verbatim>\<open>src/resources/mod.rs\<close>: the given number of samples.\<close>

fun random_string :: "('w, 'z) clock_env_scheme \<Rightarrow> nat \<Rightarrow> 'w \<Rightarrow> string \<times> 'w" where
  "random_string env 0 w = ('''', w)"
| "random_string env (Suc len) w =
     (case sample_alphanumeric env w of (c, w1) \<Rightarrow>
      (case random_string env len w1 of (cs, w2) \<Rightarrow> (c # cs, w2)))"

declare random_string.simps [simp del]

lemma length_random_string: "random_string env n w = (s, w') \<Longrightarrow> length s = n"
  by (induction n arbitrary: w s w') (auto simp: random_string.simps split: prod.splits)

lemma random_string_chars:
  assumes "\<forall>w. P (fst (sample_alphanumeric env w))" and "random_string env n w = (s, w')"
  shows "\<forall>c \<in> set s. P c"
  using assms(2)
proof (induction n arbitrary: w s w')
  case (Suc n)
  then show ?case using assms(1) [rule_format, of w]
    by (auto simp: random_string.simps split: prod.splits)
qed (simp add: random_string.simps)

lemmas time_simps = checked_add_def duration_since_def checked_sub_def from_secs_def
  system_time_limit_def

end
