(* ===== verification/Kube_Types.thy ===== *)
theory Kube_Types
  imports Prelude
begin

text \<open>
  The Kubernetes objects the sources build and read: the fields they set or look at, named
  after the Kubernetes API; every other field stays at its default. Values that are only
  passed through (affinity, tolerations, owner references) are opaque texts.
\<close>

type_synonym affinity = string
type_synonym toleration = string
type_synonym owner_reference = string

record object_meta =
  om_name :: "string option"
  om_generate_name :: "string option"
  om_namespace :: "string option"
  om_labels :: "(string \<rightharpoonup> string) option"
  om_annotations :: "(string \<rightharpoonup> string) option"
  om_owner_references :: "owner_reference list option"

definition default_object_meta :: object_meta where
  "default_object_meta =
     \<lparr> om_name = None, om_generate_name = None, om_namespace = None, om_labels = None,
       om_annotations = None, om_owner_references = None \<rparr>"

text \<open>\<^verbatim>\<open>ResourceExt::name_any\<close>: the name, else the generate-name, else empty.\<close>

definition name_any :: "object_meta \<Rightarrow> string" where
  "name_any m =
     (case om_name m of
        Some n \<Rightarrow> n
      | None \<Rightarrow> unwrap_or (om_generate_name m) '''')"

record env_var =
  ev_name :: string
  ev_value :: "string option"

record volume_mount =
  vm_name :: string
  vm_mount_path :: string

record container =
  c_name :: string
  c_image :: "string option"
  c_command :: "string list option"
  c_args :: "string list option"
  c_working_dir :: "string option"
  c_env :: "env_var list option"
  c_volume_mounts :: "volume_mount list option"

definition default_container :: container where
  "default_container =
     \<lparr> c_name = '''', c_image = None, c_command = None, c_args = None, c_working_dir = None,
       c_env = None, c_volume_mounts = None \<rparr>"

record volume =
  v_name :: string
  v_empty_dir :: bool

record pod_spec =
  ps_service_account_name :: "string option"
  ps_node_selector :: "(string \<rightharpoonup> string) option"
  ps_affinity :: "affinity option"
  ps_tolerations :: "toleration list option"
  ps_init_containers :: "container list option"
  ps_containers :: "container list"
  ps_restart_policy :: "string option"
  ps_volumes :: "volume list option"

record pod_template_spec =
  pt_metadata :: "object_meta option"
  pt_spec :: "pod_spec option"

record job_spec =
  js_backoff_limit :: "int option"
  js_parallelism :: "int option"
  js_ttl_seconds_after_finished :: "i32 option"
  js_active_deadline_seconds :: "i64 option"
  js_template :: pod_template_spec

text \<open>Of a job's status the sources read three fields; \<open>st_rest\<close> stands for all the others
  (conditions, completion time, active and ready pods, ...), which take part in comparisons.\<close>

record job_status =
  st_succeeded :: "int option"
  st_failed :: "int option"
  st_start_time :: "system_time option"
  st_rest :: string

record job =
  job_meta :: object_meta
  job_spec_of :: "job_spec option"
  job_status_of :: "job_status option"

definition default_job :: job where
  "default_job = \<lparr> job_meta = default_object_meta, job_spec_of = None, job_status_of = None \<rparr>"

definition finished :: "job_status \<Rightarrow> bool" where
  "finished s \<longleftrightarrow> st_succeeded s \<noteq> None \<or> st_failed s \<noteq> None"

end
