(* ===== verification/Errors.thy ===== *)
theory Errors
  imports Prelude
begin

text \<open>
  The crate's error type (\<^verbatim>\<open>src/lib.rs\<close>). A payload that comes from another crate is its
  message; of \<^verbatim>\<open>kube::Error\<close> the sources look at the \<^verbatim>\<open>Api\<close> variant, its status code and the
  messages, and at nothing else.
\<close>

datatype kube_error =
    Api (kube_code: nat) (kube_message: string)
  | OtherKubeError (kube_message: string)

text \<open>\<^verbatim>\<open>kube::runtime::finalizer::Error\<close>, over the error of the reconciler.\<close>

datatype 'e finalizer_error =
    ApplyFailed 'e
  | CleanupFailed 'e
  | AddFinalizer kube_error
  | RemoveFinalizer kube_error
  | UnnamedObject
  | InvalidFinalizer

datatype error =
    KubeError kube_error
  | LeaseManagerError string
  | FinalizerError "error finalizer_error"
  | GitrepoAccessError string
  | SecretDecodingError string
  | RuntimeConfigFormatError
  | TriggerFileAccessError string
  | TriggerDirWalkError string
  | TriggerFilePatternError string
  | SchedulerError string
  | ConfigDeserializationError string
  | ConfigSerializationError string
  | ResourceNotFoundError string
  | JobsQueueError string
  | InvalidRequestRateLimit string

text \<open>The \<^verbatim>\<open>Display\<close> implementation derived from the \<^verbatim>\<open>#[error(...)]\<close> attributes; the text of a
  finalizer error is produced by the kube crate and is an argument.\<close>

fun error_to_string :: "(error finalizer_error \<Rightarrow> string) \<Rightarrow> error \<Rightarrow> string" where
  "error_to_string fe (KubeError e) = ''Kube Error: '' @ kube_message e"
| "error_to_string fe (LeaseManagerError e) = ''LeaseManager Error: '' @ e"
| "error_to_string fe (FinalizerError e) = ''Finalizer Error: '' @ fe e"
| "error_to_string fe (GitrepoAccessError e) = ''GitRepo Access Error: '' @ e"
| "error_to_string fe (SecretDecodingError e) = ''GitRepo Secret Decoding Error: '' @ e"
| "error_to_string fe RuntimeConfigFormatError = ''RuntimeConfig ConfigMap format Error''"
| "error_to_string fe (TriggerFileAccessError e) = ''Trigger file access IO error: '' @ e"
| "error_to_string fe (TriggerDirWalkError e) = ''Trigger dir walk error: '' @ e"
| "error_to_string fe (TriggerFilePatternError e) = ''Trigger file pattern error: '' @ e"
| "error_to_string fe (SchedulerError e) = ''Task scheduler error: '' @ e"
| "error_to_string fe (ConfigDeserializationError e) = ''Config deserialization error: '' @ e"
| "error_to_string fe (ConfigSerializationError e) = ''Config serialization error: '' @ e"
| "error_to_string fe (ResourceNotFoundError e) = ''Resource not found in cache: '' @ e"
| "error_to_string fe (JobsQueueError e) = ''JobsQueue error: '' @ e"
| "error_to_string fe (InvalidRequestRateLimit e) =
     ''Incorrect request rate limit parameter: '' @ e"

end
