(* ===== verification/Resources.thy ===== *)
theory Resources
  imports Kube_Types Errors
begin

text \<open>
  The custom resources: the types of \<^verbatim>\<open>src/resources/git_repo.rs\<close>, \<^verbatim>\<open>src/resources/action.rs\<close> and
  \<^verbatim>\<open>src/resources/trigger.rs\<close> with their defaults and texts, and the traits that the two kinds
  of repositories, actions and triggers share, as records of operations with one instance per
  implementation.
\<close>

section \<open>Git repositories\<close>

record secret_ref =
  sr_name :: string
  sr_namespace :: "string option"

record tls_ca_config =
  ca_secret_ref :: secret_ref
  ca_key :: string

definition default_ca_data_key :: string where
  "default_ca_data_key = ''ca.crt''"

record tls_config =
  no_verify_ssl :: bool
  ca_cert :: "tls_ca_config option"

datatype git_auth_type = Basic | Token | Ssh

record git_auth_secret_keys =
  username_key :: string
  password_key :: string
  token_key :: string
  private_key_key :: string

definition default_git_auth_secret_keys :: git_auth_secret_keys where
  "default_git_auth_secret_keys =
     \<lparr> username_key = ''username'', password_key = ''password'', token_key = ''token'',
       private_key_key = ''ssh-privatekey'' \<rparr>"

record git_auth_config =
  auth_type :: git_auth_type
  auth_secret_ref :: secret_ref
  auth_keys :: git_auth_secret_keys

record git_repo_spec =
  gr_repo_uri :: string
  gr_tls_config :: "tls_config option"
  gr_auth_config :: "git_auth_config option"

record cluster_git_repo_spec =
  cgr_repo_uri :: string
  cgr_tls_config :: "tls_config option"
  cgr_auth_config :: "git_auth_config option"

record git_repo =
  gr_meta :: object_meta
  gr_spec :: git_repo_spec

record cluster_git_repo =
  cgr_meta :: object_meta
  cgr_spec :: cluster_git_repo_spec

datatype git_repo_uri_schema = Http | Https | SshSchema | GitSchema

text \<open>The trait \<^verbatim>\<open>GitRepoInternals\<close> and its two implementations.\<close>

record 'r git_repo_ops =
  auth_config :: "'r \<Rightarrow> git_auth_config option"
  tls_config_of :: "'r \<Rightarrow> tls_config option"
  repo_uri :: "'r \<Rightarrow> string"
  is_namespaced :: "'r \<Rightarrow> bool"

definition git_repo_internals :: "git_repo git_repo_ops" where
  "git_repo_internals =
     \<lparr> auth_config = (\<lambda>r. gr_auth_config (gr_spec r)),
       tls_config_of = (\<lambda>r. gr_tls_config (gr_spec r)),
       repo_uri = (\<lambda>r. gr_repo_uri (gr_spec r)), is_namespaced = (\<lambda>_. True) \<rparr>"

definition cluster_git_repo_internals :: "cluster_git_repo git_repo_ops" where
  "cluster_git_repo_internals =
     \<lparr> auth_config = (\<lambda>r. cgr_auth_config (cgr_spec r)),
       tls_config_of = (\<lambda>r. cgr_tls_config (cgr_spec r)),
       repo_uri = (\<lambda>r. cgr_repo_uri (cgr_spec r)), is_namespaced = (\<lambda>_. False) \<rparr>"

lemma git_repo_ops_simps [simp]:
  "auth_config git_repo_internals r = gr_auth_config (gr_spec r)"
  "tls_config_of git_repo_internals r = gr_tls_config (gr_spec r)"
  "repo_uri git_repo_internals r = gr_repo_uri (gr_spec r)"
  "is_namespaced git_repo_internals r"
  "auth_config cluster_git_repo_internals c = cgr_auth_config (cgr_spec c)"
  "tls_config_of cluster_git_repo_internals c = cgr_tls_config (cgr_spec c)"
  "repo_uri cluster_git_repo_internals c = cgr_repo_uri (cgr_spec c)"
  "\<not> is_namespaced cluster_git_repo_internals c"
  by (simp_all add: git_repo_internals_def cluster_git_repo_internals_def)

section \<open>Triggers\<close>

datatype trigger_source_kind = GitRepo | ClusterGitRepo

fun source_kind_to_string :: "trigger_source_kind \<Rightarrow> string" where
  "source_kind_to_string GitRepo = ''GitRepo''"
| "source_kind_to_string ClusterGitRepo = ''ClusterGitRepo''"

datatype trigger_git_repo_reference = Branch string | Tag string | Commit string

definition default_trigger_git_repo_reference :: trigger_git_repo_reference where
  "default_trigger_git_repo_reference = Branch ''main''"

fun to_refname :: "trigger_git_repo_reference \<Rightarrow> string option \<Rightarrow> string \<times> string" where
  "to_refname (Branch b) p = (unwrap_or p '''' @ ''branch'', b)"
| "to_refname (Tag t) p = (unwrap_or p '''' @ ''tag'', t)"
| "to_refname (Commit c) p = (unwrap_or p '''' @ ''commit'', c)"

definition reference_to_string :: "trigger_git_repo_reference \<Rightarrow> string" where
  "reference_to_string r =
     (case to_refname r None of (ref_type, ref_name) \<Rightarrow> ref_type @ ''/'' @ ref_name)"

record trigger_watch_on =
  on_change_only :: bool
  watch_reference :: trigger_git_repo_reference
  watch_files :: "string list option"

definition default_trigger_watch_on :: trigger_watch_on where
  "default_trigger_watch_on =
     \<lparr> on_change_only = True, watch_reference = default_trigger_git_repo_reference,
       watch_files = None \<rparr>"

definition reference_name :: "trigger_watch_on \<Rightarrow> string" where
  "reference_name w =
     (case watch_reference w of Branch r \<Rightarrow> r | Tag r \<Rightarrow> r | Commit r \<Rightarrow> r)"

record trigger_sources =
  sources_kind :: trigger_source_kind
  source_names :: "string list"
  watch_on :: trigger_watch_on

datatype trigger_schedule = Interval string | Cron string

text \<open>\<^verbatim>\<open>TriggerSchedule::is_valid\<close>; the parsers of \<^verbatim>\<open>humantime\<close> and of the scheduler crate are
  arguments.\<close>

fun is_valid_schedule ::
    "(string \<Rightarrow> duration option) \<Rightarrow> (string \<Rightarrow> bool) \<Rightarrow> trigger_schedule \<Rightarrow> bool" where
  "is_valid_schedule parse_duration cron_ok (Interval interval) = (parse_duration interval \<noteq> None)"
| "is_valid_schedule parse_duration cron_ok (Cron cron) = cron_ok cron"

record trigger_webhook_auth_config =
  hook_secret_name :: string
  hook_key :: string
  hook_header :: "string option"

record trigger_webhook =
  multi_source :: bool
  hook_auth_config :: "trigger_webhook_auth_config option"

datatype trigger_action_kind = ActionKind | ClusterActionKind

fun action_kind_to_string :: "trigger_action_kind \<Rightarrow> string" where
  "action_kind_to_string ActionKind = ''Action''"
| "action_kind_to_string ClusterActionKind = ''ClusterAction''"

record trigger_action =
  ta_kind :: trigger_action_kind
  ta_name :: string

datatype trigger_task_sources = AllSources | SingleSource string

record checked_source_state =
  commit_hash :: "string option"
  file_hash :: "string option"
  changed :: "string option"

definition default_checked_source_state :: checked_source_state where
  "default_checked_source_state = \<lparr> commit_hash = None, file_hash = None, changed = None \<rparr>"

definition is_equal :: "checked_source_state \<Rightarrow> checked_source_state option \<Rightarrow> bool \<Rightarrow> bool" where
  "is_equal self other with_file =
     (case other of
        Some other \<Rightarrow>
          if \<not> with_file then commit_hash self = commit_hash other
          else file_hash self = file_hash other
      | None \<Rightarrow> commit_hash self = None \<and> file_hash self = None)"

datatype trigger_state = Idle | Running | WrongConfig

record trigger_status =
  state :: trigger_state
  last_run :: "string option"
  checked_sources :: "string \<rightharpoonup> checked_source_state"

definition default_trigger_status :: trigger_status where
  "default_trigger_status = \<lparr> state = Idle, last_run = None, checked_sources = Map.empty \<rparr>"

record schedule_trigger_spec =
  st_sources :: trigger_sources
  st_schedule :: trigger_schedule
  st_action :: trigger_action

record webhook_trigger_spec =
  wt_sources :: trigger_sources
  wt_webhook :: trigger_webhook
  wt_action :: trigger_action

record schedule_trigger =
  st_meta :: object_meta
  st_spec :: schedule_trigger_spec
  st_status :: "trigger_status option"

record webhook_trigger =
  wt_meta :: object_meta
  wt_spec :: webhook_trigger_spec
  wt_status :: "trigger_status option"

text \<open>The required methods of the trait \<^verbatim>\<open>Trigger\<close> and its two implementations.\<close>

record 't trigger_ops =
  t_kind :: string
  t_meta :: "'t \<Rightarrow> object_meta"
  t_sources :: "'t \<Rightarrow> trigger_sources"
  t_action :: "'t \<Rightarrow> trigger_action"
  t_status :: "'t \<Rightarrow> trigger_status option"

definition schedule_trigger_ops :: "schedule_trigger trigger_ops" where
  "schedule_trigger_ops =
     \<lparr> t_kind = ''ScheduleTrigger'', t_meta = st_meta, t_sources = (\<lambda>t. st_sources (st_spec t)),
       t_action = (\<lambda>t. st_action (st_spec t)), t_status = st_status \<rparr>"

definition webhook_trigger_ops :: "webhook_trigger trigger_ops" where
  "webhook_trigger_ops =
     \<lparr> t_kind = ''WebhookTrigger'', t_meta = wt_meta, t_sources = (\<lambda>t. wt_sources (wt_spec t)),
       t_action = (\<lambda>t. wt_action (wt_spec t)), t_status = wt_status \<rparr>"

lemma trigger_ops_simps [simp]:
  "t_kind schedule_trigger_ops = ''ScheduleTrigger''" "t_kind webhook_trigger_ops = ''WebhookTrigger''"
  "t_meta schedule_trigger_ops = st_meta" "t_meta webhook_trigger_ops = wt_meta"
  "t_sources schedule_trigger_ops s = st_sources (st_spec s)"
  "t_sources webhook_trigger_ops h = wt_sources (wt_spec h)"
  "t_action schedule_trigger_ops s = st_action (st_spec s)"
  "t_action webhook_trigger_ops h = wt_action (wt_spec h)"
  "t_status schedule_trigger_ops = st_status" "t_status webhook_trigger_ops = wt_status"
  by (simp_all add: schedule_trigger_ops_def webhook_trigger_ops_def)

section \<open>Actions\<close>

record action_source_override =
  aso_kind :: trigger_source_kind
  aso_name :: string
  aso_reference :: trigger_git_repo_reference

datatype trigger_cluster_source_kind = ClusterGitRepoOnly

record cluster_action_source_override =
  caso_kind :: trigger_cluster_source_kind
  caso_name :: string
  caso_reference :: trigger_git_repo_reference

record action_job =
  aj_workdir :: "string option"
  aj_cloner_image :: "string option"
  aj_action_image :: "string option"
  aj_args :: "string list option"
  aj_command :: "string list option"
  aj_service_account :: "string option"
  aj_annotations :: "(string \<rightharpoonup> string) option"
  aj_labels :: "(string \<rightharpoonup> string) option"
  aj_tolerations :: "toleration list option"
  aj_affinity :: "affinity option"
  aj_node_selector :: "(string \<rightharpoonup> string) option"
  aj_ttl_seconds_after_finished :: "i32 option"
  aj_active_deadline_seconds :: "i64 option"
  aj_job_waiting_timeout_seconds :: "u64 option"
  aj_enable_cloner_debug :: bool
  aj_preserve_git_folder :: bool

definition default_action_job :: action_job where
  "default_action_job =
     \<lparr> aj_workdir = None, aj_cloner_image = None, aj_action_image = None, aj_args = None,
       aj_command = None, aj_service_account = None, aj_annotations = None, aj_labels = None,
       aj_tolerations = None, aj_affinity = None, aj_node_selector = None,
       aj_ttl_seconds_after_finished = None, aj_active_deadline_seconds = None,
       aj_job_waiting_timeout_seconds = None, aj_enable_cloner_debug = False,
       aj_preserve_git_folder = False \<rparr>"

record action_spec =
  as_source_override :: "action_source_override option"
  as_action_job :: action_job

record cluster_action_spec =
  cas_source_override :: "cluster_action_source_override option"
  cas_action_job :: action_job

record action_res =
  a_meta :: object_meta
  a_spec :: action_spec

record cluster_action =
  ca_meta :: object_meta
  ca_spec :: cluster_action_spec

text \<open>
  The required methods of \<^verbatim>\<open>ActionInternals\<close>. \<open>owner_ref\<close> stands for
  \<^verbatim>\<open>Resource::controller_owner_ref\<close> of the kube crate.
\<close>

record 'a action_ops =
  action_kind :: string
  action_meta :: "'a \<Rightarrow> object_meta"
  action_job_spec :: "'a \<Rightarrow> action_job"
  source_override_spec :: "'a \<Rightarrow> action_source_override option"
  get_owner_reference :: "'a \<Rightarrow> owner_reference outcome"

definition action_internals :: "(action_res \<Rightarrow> owner_reference option) \<Rightarrow> action_res action_ops" where
  "action_internals owner_ref =
     \<lparr> action_kind = ''Action'', action_meta = a_meta,
       action_job_spec = (\<lambda>a. as_action_job (a_spec a)),
       source_override_spec = (\<lambda>a. as_source_override (a_spec a)),
       get_owner_reference =
         (\<lambda>a. expect ''unable to get owner reference, looks like a BUG!'' (owner_ref a)) \<rparr>"

definition cluster_action_internals ::
    "(cluster_action \<Rightarrow> owner_reference option) \<Rightarrow> cluster_action action_ops" where
  "cluster_action_internals owner_ref =
     \<lparr> action_kind = ''ClusterAction'', action_meta = ca_meta,
       action_job_spec = (\<lambda>a. cas_action_job (ca_spec a)),
       source_override_spec =
         (\<lambda>a. map_option
            (\<lambda>v. \<lparr> aso_kind = ClusterGitRepo, aso_name = caso_name v,
                   aso_reference = caso_reference v \<rparr>)
            (cas_source_override (ca_spec a))),
       get_owner_reference =
         (\<lambda>a. expect ''unable to get owner reference, looks like a BUG!'' (owner_ref a)) \<rparr>"

lemma action_ops_simps [simp]:
  "action_kind (action_internals f) = ''Action''" "action_meta (action_internals f) = a_meta"
  "action_job_spec (action_internals f) a = as_action_job (a_spec a)"
  "source_override_spec (action_internals f) a = as_source_override (a_spec a)"
  "get_owner_reference (action_internals f) a =
     expect ''unable to get owner reference, looks like a BUG!'' (f a)"
  "action_kind (cluster_action_internals g) = ''ClusterAction''"
  "action_meta (cluster_action_internals g) = ca_meta"
  "action_job_spec (cluster_action_internals g) c = cas_action_job (ca_spec c)"
  "source_override_spec (cluster_action_internals g) c =
     map_option (\<lambda>v. \<lparr> aso_kind = ClusterGitRepo, aso_name = caso_name v,
                        aso_reference = caso_reference v \<rparr>) (cas_source_override (ca_spec c))"
  "get_owner_reference (cluster_action_internals g) c =
     expect ''unable to get owner reference, looks like a BUG!'' (g c)"
  by (simp_all add: action_internals_def cluster_action_internals_def)

end
