(* ===== verification/Cache.thy ===== *)
theory Cache
  imports Resources
begin

text \<open>
  The two caches (\<^verbatim>\<open>src/cache.rs\<close>): the stores of the six custom resources, filled by watchers,
  and the cache of secrets with expiration. A reflector store of the kube crate is what its
  \<^verbatim>\<open>get\<close> answers, a function of an object reference; the API server and the clock are the
  environment.
\<close>

section \<open>Custom resources\<close>

record obj_ref =
  or_name :: string
  or_namespace :: "string option"

type_synonym 'a store = "obj_ref \<Rightarrow> 'a option"

record api_cache_store =
  acs_git_repo :: "git_repo store option"
  acs_cluster_git_repo :: "cluster_git_repo store option"
  acs_action :: "action_res store option"
  acs_cluster_action :: "cluster_action store option"
  acs_webhook_trigger :: "webhook_trigger store option"
  acs_schedule_trigger :: "schedule_trigger store option"

definition empty_api_cache_store :: api_cache_store where
  "empty_api_cache_store =
     \<lparr> acs_git_repo = None, acs_cluster_git_repo = None, acs_action = None,
       acs_cluster_action = None, acs_webhook_trigger = None, acs_schedule_trigger = None \<rparr>"

text \<open>The required methods of the trait \<^verbatim>\<open>ApiCache\<close>: reading and setting a \<^verbatim>\<open>OnceLock\<close>.\<close>

record 'a api_cache_ops =
  get_cache_store :: "api_cache_store \<Rightarrow> 'a store outcome"
  set_cache_store :: "'a store \<Rightarrow> api_cache_store \<Rightarrow> api_cache_store outcome"

definition once_set :: "bool \<Rightarrow> api_cache_store \<Rightarrow> api_cache_store outcome" where
  "once_set is_set c =
     (if is_set then Panics ''called Result::unwrap() on an Err value'' else Returns c)"

definition git_repo_cache :: "git_repo api_cache_ops" where
  "git_repo_cache =
     \<lparr> get_cache_store = (\<lambda>c. unwrap (acs_git_repo c)),
       set_cache_store = (\<lambda>s c. once_set (acs_git_repo c \<noteq> None) (c\<lparr> acs_git_repo := Some s \<rparr>)) \<rparr>"

definition cluster_git_repo_cache :: "cluster_git_repo api_cache_ops" where
  "cluster_git_repo_cache =
     \<lparr> get_cache_store = (\<lambda>c. unwrap (acs_cluster_git_repo c)),
       set_cache_store = (\<lambda>s c. once_set (acs_cluster_git_repo c \<noteq> None)
                                  (c\<lparr> acs_cluster_git_repo := Some s \<rparr>)) \<rparr>"

definition action_cache :: "action_res api_cache_ops" where
  "action_cache =
     \<lparr> get_cache_store = (\<lambda>c. unwrap (acs_action c)),
       set_cache_store = (\<lambda>s c. once_set (acs_action c \<noteq> None) (c\<lparr> acs_action := Some s \<rparr>)) \<rparr>"

definition cluster_action_cache :: "cluster_action api_cache_ops" where
  "cluster_action_cache =
     \<lparr> get_cache_store = (\<lambda>c. unwrap (acs_cluster_action c)),
       set_cache_store = (\<lambda>s c. once_set (acs_cluster_action c \<noteq> None)
                                  (c\<lparr> acs_cluster_action := Some s \<rparr>)) \<rparr>"

definition webhook_trigger_cache :: "webhook_trigger api_cache_ops" where
  "webhook_trigger_cache =
     \<lparr> get_cache_store = (\<lambda>c. unwrap (acs_webhook_trigger c)),
       set_cache_store = (\<lambda>s c. once_set (acs_webhook_trigger c \<noteq> None)
                                  (c\<lparr> acs_webhook_trigger := Some s \<rparr>)) \<rparr>"

definition schedule_trigger_cache :: "schedule_trigger api_cache_ops" where
  "schedule_trigger_cache =
     \<lparr> get_cache_store = (\<lambda>c. unwrap (acs_schedule_trigger c)),
       set_cache_store = (\<lambda>s c. once_set (acs_schedule_trigger c \<noteq> None)
                                  (c\<lparr> acs_schedule_trigger := Some s \<rparr>)) \<rparr>"

lemmas api_cache_defs = git_repo_cache_def cluster_git_repo_cache_def action_cache_def
  cluster_action_cache_def webhook_trigger_cache_def schedule_trigger_cache_def once_set_def

text \<open>\<^verbatim>\<open>ApiCache::get\<close>.\<close>

definition cache_key :: "string \<Rightarrow> string option \<Rightarrow> obj_ref" where
  "cache_key name ns = \<lparr> or_name = name, or_namespace = Some (unwrap_or ns ''default'') \<rparr>"

definition api_cache_get ::
    "('a, 'z) api_cache_ops_scheme \<Rightarrow> string \<Rightarrow> string option \<Rightarrow> api_cache_store \<Rightarrow>
     (error + 'a) outcome" where
  "api_cache_get ops name ns c =
     outcome_bind (get_cache_store ops c) (\<lambda>st.
       (case st (cache_key name ns) of
          Some v \<Rightarrow> Returns (Inr v)
        | None \<Rightarrow>
            Returns (Inl (ResourceNotFoundError
              (case ns of Some ns' \<Rightarrow> ns' @ ''/'' @ name | None \<Rightarrow> name)))))"

text \<open>
  \<^verbatim>\<open>ApiCache::watch\<close>: the watcher publishes its store once before it starts to follow the API; the
  stream that keeps the store up to date belongs to the kube crate. The store is given as what it
  answers to a lookup.
\<close>

definition api_watch ::
    "('a, 'z) api_cache_ops_scheme \<Rightarrow> 'a store \<Rightarrow> api_cache_store \<Rightarrow> api_cache_store outcome" where
  "api_watch ops st c = set_cache_store ops st c"

declare api_watch_def [simp]

text \<open>\<^verbatim>\<open>ApiCacheStore::watch\<close>: the six watchers.\<close>

definition api_cache_watch ::
    "git_repo store \<Rightarrow> cluster_git_repo store \<Rightarrow> action_res store \<Rightarrow> cluster_action store \<Rightarrow>
     webhook_trigger store \<Rightarrow> schedule_trigger store \<Rightarrow> api_cache_store \<Rightarrow>
     api_cache_store outcome" where
  "api_cache_watch gr cgr a ca wt st c =
     outcome_bind (api_watch git_repo_cache gr c) (\<lambda>c1.
     outcome_bind (api_watch cluster_git_repo_cache cgr c1) (\<lambda>c2.
     outcome_bind (api_watch action_cache a c2) (\<lambda>c3.
     outcome_bind (api_watch cluster_action_cache ca c3) (\<lambda>c4.
     outcome_bind (api_watch webhook_trigger_cache wt c4) (\<lambda>c5.
       api_watch schedule_trigger_cache st c5)))))"

section \<open>Secrets\<close>

type_synonym secret_data = "string \<rightharpoonup> string"

record secret_value =
  sv_data :: secret_data
  sv_expires_at :: system_time

record secrets_cache =
  expiration_timeout :: duration
  sc_cache :: "string \<rightharpoonup> secret_value"

record 'w secrets_env = "'w clock_env" +
  get_secret :: "string \<Rightarrow> string \<Rightarrow> 'w \<Rightarrow> (kube_error + secret_data option) \<times> 'w"

definition init_secrets_cache ::
    "duration \<Rightarrow> secrets_cache option \<Rightarrow> secrets_cache option outcome" where
  "init_secrets_cache timeout c =
     (case c of
        None \<Rightarrow> Returns (Some \<lparr> expiration_timeout = timeout, sc_cache = Map.empty \<rparr>)
      | Some _ \<Rightarrow> Panics ''failed to init shared secret cache, looks like a BUG!'')"

definition decode_error :: "string \<Rightarrow> string \<Rightarrow> error" where
  "decode_error key secret_name =
     SecretDecodingError (''error converting string `'' @ key @ ''` from UTF8 in the secret `''
                          @ secret_name @ ''`'')"

definition no_key_error :: "string \<Rightarrow> string \<Rightarrow> error" where
  "no_key_error key secret_name =
     SecretDecodingError (''no `'' @ key @ ''` key in the secret `'' @ secret_name @ ''`'')"

definition no_data_error :: "string \<Rightarrow> error" where
  "no_data_error secret_name =
     SecretDecodingError (''no `data` part in the secret `'' @ secret_name @ ''`'')"

lemmas secret_error_defs = decode_error_def no_key_error_def no_data_error_def

definition query_secrets_api ::
    "('w, 'z) secrets_env_scheme \<Rightarrow> string \<Rightarrow> string \<Rightarrow> string \<Rightarrow> 'w \<Rightarrow>
     (error + secret_data \<times> string) \<times> 'w" where
  "query_secrets_api env ns secret_name key w =
     (case get_secret env ns secret_name w of
        (Inl e, w1) \<Rightarrow> (Inl (KubeError e), w1)
      | (Inr None, w1) \<Rightarrow> (Inl (no_data_error secret_name), w1)
      | (Inr (Some raw), w1) \<Rightarrow>
          (case raw key of
             None \<Rightarrow> (Inl (no_key_error key secret_name), w1)
           | Some bytes \<Rightarrow>
               (case from_utf8 bytes of
                  None \<Rightarrow> (Inl (decode_error key secret_name), w1)
                | Some v \<Rightarrow> (Inr (raw, v), w1))))"

text \<open>
  \<^verbatim>\<open>get_key_value\<close> takes the read lock for the first part and the write lock for the second
  one; another task may run between the two. \<open>None\<close> of the first part is its fall-through.
\<close>

definition hash_key :: "string \<Rightarrow> string \<Rightarrow> string" where
  "hash_key ns secret_name = ns @ ''/'' @ secret_name"

definition get_cached ::
    "('w, 'z) clock_env_scheme \<Rightarrow> string \<Rightarrow> string \<Rightarrow> string \<Rightarrow> secrets_cache \<Rightarrow> 'w \<Rightarrow>
     (error + string) option \<times> 'w" where
  "get_cached env ns secret_name key c w =
     (case sc_cache c (hash_key ns secret_name) of
        Some secret \<Rightarrow>
          (case now env w of (t, w1) \<Rightarrow>
             if sv_expires_at secret > t then
               (case sv_data secret key of
                  Some bytes \<Rightarrow> (Some (ok_or (from_utf8 bytes) (decode_error key secret_name)), w1)
                | None \<Rightarrow> (None, w1))
             else (None, w1))
      | None \<Rightarrow> (None, w))"

definition refresh_cached ::
    "('w, 'z) secrets_env_scheme \<Rightarrow> string \<Rightarrow> string \<Rightarrow> string \<Rightarrow> secrets_cache \<times> 'w \<Rightarrow>
     ((error + string) \<times> secrets_cache \<times> 'w) outcome" where
  "refresh_cached env ns secret_name key cw =
     (case cw of (c, w) \<Rightarrow>
      (case query_secrets_api env ns secret_name key w of
         (Inl e, w1) \<Rightarrow> Returns (Inl e, c, w1)
       | (Inr (raw, v), w1) \<Rightarrow>
           (case now env w1 of (t, w2) \<Rightarrow>
              outcome_bind (expect ''looks like a BUG!'' (checked_add t (expiration_timeout c)))
                (\<lambda>expires.
                   Returns (Inr v,
                     c\<lparr> sc_cache := (sc_cache c)(hash_key ns secret_name \<mapsto>
                          \<lparr> sv_data = raw, sv_expires_at = expires \<rparr>) \<rparr>, w2)))))"

definition get_key_value ::
    "('w, 'z) secrets_env_scheme \<Rightarrow> string \<Rightarrow> string \<Rightarrow> string \<Rightarrow> secrets_cache \<times> 'w \<Rightarrow>
     ((error + string) \<times> secrets_cache \<times> 'w) outcome" where
  "get_key_value env ns secret_name key cw =
     (case cw of (c, w) \<Rightarrow>
      (case get_cached env ns secret_name key c w of
         (Some r, w1) \<Rightarrow> Returns (r, c, w1)
       | (None, w1) \<Rightarrow> refresh_cached env ns secret_name key (c, w1)))"

text \<open>\<^verbatim>\<open>SecretsCache::get\<close>: the static must be set.\<close>

definition query_secrets_cache ::
    "('w, 'z) secrets_env_scheme \<Rightarrow> string \<Rightarrow> string \<Rightarrow> string \<Rightarrow> secrets_cache option \<times> 'w \<Rightarrow>
     ((error + string) \<times> secrets_cache option \<times> 'w) outcome" where
  "query_secrets_cache env ns secret_name key cw =
     (case cw of (co, w) \<Rightarrow>
      outcome_bind (expect ''unable to get shared secret cache instance, looks like a BUG!'' co)
        (\<lambda>c. outcome_bind (get_key_value env ns secret_name key (c, w))
               (\<lambda>(r, c', w'). Returns (r, Some c', w'))))"

end
