(* ===== verification/Git_Repo.thy ===== *)
theory Git_Repo
  imports Cache
begin

text \<open>
  Access to git repositories (\<^verbatim>\<open>src/resources/git_repo.rs\<close>): the pattern of valid URIs and the
  schema of a URI, the secrets that a repository needs and where they are read, the callbacks
  handed to libgit2, and \<^verbatim>\<open>fetch_repo_ref\<close>. libgit2, rustls and the certificate store of the
  platform are the environment.
\<close>

section \<open>Regular expressions\<close>

text \<open>The operators that \<^verbatim>\<open>URI_VALIDATION_REGEX\<close> uses, matched by derivatives.\<close>

datatype rx =
    Void
  | Eps
  | Sym "char \<Rightarrow> bool"
  | Seq rx rx
  | Alt rx rx
  | Star rx

fun nullable :: "rx \<Rightarrow> bool" where
  "nullable Void = False"
| "nullable Eps = True"
| "nullable (Sym P) = False"
| "nullable (Seq r s) = (nullable r \<and> nullable s)"
| "nullable (Alt r s) = (nullable r \<or> nullable s)"
| "nullable (Star r) = True"

fun deriv :: "char \<Rightarrow> rx \<Rightarrow> rx" where
  "deriv c Void = Void"
| "deriv c Eps = Void"
| "deriv c (Sym P) = (if P c then Eps else Void)"
| "deriv c (Seq r s) =
     (if nullable r then Alt (Seq (deriv c r) s) (deriv c s) else Seq (deriv c r) s)"
| "deriv c (Alt r s) = Alt (deriv c r) (deriv c s)"
| "deriv c (Star r) = Seq (deriv c r) (Star r)"

fun rx_matches :: "rx \<Rightarrow> string \<Rightarrow> bool" where
  "rx_matches r [] = nullable r"
| "rx_matches r (c # cs) = rx_matches (deriv c r) cs"

fun lit :: "string \<Rightarrow> rx \<Rightarrow> rx" where
  "lit [] r = r"
| "lit (c # cs) r = Seq (Sym (\<lambda>x. x = c)) (lit cs r)"

definition opt :: "rx \<Rightarrow> rx" where
  "opt r = Alt Eps r"

definition plus :: "rx \<Rightarrow> rx" where
  "plus r = Seq r (Star r)"

definition word_char :: "char \<Rightarrow> bool" where
  "word_char c \<longleftrightarrow> is_digit c \<or> c = CHR ''_'' \<or>
     65 \<le> (of_char c :: nat) \<and> (of_char c :: nat) \<le> 90 \<or>
     97 \<le> (of_char c :: nat) \<and> (of_char c :: nat) \<le> 122"

definition name_chars :: rx where
  "name_chars = plus (Sym (\<lambda>c. word_char c \<or> c \<in> set ''.-''))"

definition path_chars :: rx where
  "path_chars = plus (Sym (\<lambda>c. word_char c \<or> c \<in> set ''/.-''))"

definition http_path_chars :: rx where
  "http_path_chars = plus (Sym (\<lambda>c. word_char c \<or> c \<in> set ''/%&=?.-''))"

definition port :: rx where
  "port = (let d = Sym is_digit in
     opt (lit '':'' (Seq d (opt (Seq d (opt (Seq d (opt (Seq d (opt d))))))))))"

definition URI_VALIDATION_REGEX :: rx where
  "URI_VALIDATION_REGEX =
     Alt (lit ''git@'' (Seq name_chars (lit '':'' (Seq name_chars (lit ''/'' path_chars)))))
     (Alt (lit ''ssh://'' (Seq (opt (Seq name_chars (lit ''@'' Eps)))
             (Seq name_chars (Seq port (opt (lit ''/'' (opt path_chars)))))))
          (lit ''http'' (Seq (opt (lit ''s'' Eps))
             (lit ''://'' (Seq name_chars (Seq port (opt (lit ''/'' (opt http_path_chars)))))))))"

section \<open>The schema of a URI\<close>

definition uri_schema :: "('r, 'z) git_repo_ops_scheme \<Rightarrow> 'r \<Rightarrow> git_repo_uri_schema outcome" where
  "uri_schema ops self =
     (if starts_with (repo_uri ops self) ''http://'' then Returns Http
      else if starts_with (repo_uri ops self) ''https://'' then Returns Https
      else if starts_with (repo_uri ops self) ''ssh://'' then Returns SshSchema
      else if starts_with (repo_uri ops self) ''git@'' then Returns GitSchema
      else Panics ''Unknown URI schema'')"

section \<open>Secrets of a repository\<close>

text \<open>
  A \<^verbatim>\<open>HashMap\<close> from the key in the secret to the expected key, as the list of its entries;
  \<open>hash_insert\<close> replaces the entry of an equal key. The order in which the map is iterated is
  not specified: it is the field \<open>hash_order\<close> of the environment.
\<close>

type_synonym secret_keys = "(string \<times> string) list"

definition hash_insert :: "string \<Rightarrow> string \<Rightarrow> secret_keys \<Rightarrow> secret_keys" where
  "hash_insert k v m = filter (\<lambda>e. fst e \<noteq> k) m @ [(k, v)]"

datatype cred = UserpassPlaintext string string | SshKeyFromMemory string string

datatype certificate_check_status = CertificateOk | CertificatePassthrough

text \<open>The fetch options: a callback that is not set is \<open>None\<close>. The arguments of the credentials
  callback are reduced to the user name of the URL; those of the certificate callback are the
  data of an X.509 certificate (or another kind of certificate), the host name and the time.\<close>

record fetch_options =
  credentials :: "(string option \<Rightarrow> cred outcome) option"
  custom_headers :: "string list"
  certificate_check ::
    "(string option \<Rightarrow> string \<Rightarrow> system_time \<Rightarrow> string + certificate_check_status) option"
  depth :: nat

definition default_fetch_options :: fetch_options where
  "default_fetch_options =
     \<lparr> credentials = None, custom_headers = [], certificate_check = None, depth = 0 \<rparr>"

text \<open>A repository is named by the directory it was initialised in.\<close>

type_synonym repository = string

record 'w git_env = "'w secrets_env" +
  hash_order :: "secret_keys \<Rightarrow> secret_keys"
  load_native_certs :: "'w \<Rightarrow> string list option \<times> 'w"
  pem_certs :: "string \<Rightarrow> string list"
  build_verifier :: "string list \<Rightarrow> bool"
  server_name_ok :: "string \<Rightarrow> bool"
  verify_server_cert :: "string list \<Rightarrow> string \<Rightarrow> string \<Rightarrow> system_time \<Rightarrow> bool"
  init_opts :: "string \<Rightarrow> string \<Rightarrow> 'w \<Rightarrow> (string + repository) \<times> 'w"
  find_remote :: "repository \<Rightarrow> string \<Rightarrow> 'w \<Rightarrow> (string + unit) \<times> 'w"
  fetch_remote :: "repository \<Rightarrow> string \<Rightarrow> string list \<Rightarrow> fetch_options \<Rightarrow> 'w \<Rightarrow>
    ((string + unit) \<times> 'w) outcome"

fun collect_secret_strings ::
    "string \<Rightarrow> secret_data \<Rightarrow> secret_keys \<Rightarrow> (string \<rightharpoonup> string) \<Rightarrow> error + (string \<rightharpoonup> string)" where
  "collect_secret_strings secret_name raw [] secrets = Inr secrets"
| "collect_secret_strings secret_name raw ((secret_key, expected_key) # ks) secrets =
     (case raw secret_key of
        None \<Rightarrow> Inl (no_key_error secret_key secret_name)
      | Some bytes \<Rightarrow>
          (case from_utf8 bytes of
             None \<Rightarrow> Inl (decode_error secret_key secret_name)
           | Some v \<Rightarrow>
               collect_secret_strings secret_name raw ks (secrets(expected_key \<mapsto> v))))"

definition get_secret_strings ::
    "('w, 'z) git_env_scheme \<Rightarrow> string \<Rightarrow> secret_keys \<Rightarrow> string \<Rightarrow> 'w \<Rightarrow>
     (error + (string \<rightharpoonup> string)) \<times> 'w" where
  "get_secret_strings env secret_name keys ns w =
     (case get_secret env ns secret_name w of
        (Inl e, w1) \<Rightarrow> (Inl (KubeError e), w1)
      | (Inr None, w1) \<Rightarrow> (Inl (no_data_error secret_name), w1)
      | (Inr (Some raw), w1) \<Rightarrow>
          (collect_secret_strings secret_name raw (hash_order env keys) Map.empty, w1))"

definition auth_secret_keys :: "git_auth_config \<Rightarrow> secret_keys" where
  "auth_secret_keys c =
     (case auth_type c of
        Basic \<Rightarrow> hash_insert (password_key (auth_keys c)) ''password''
                   (hash_insert (username_key (auth_keys c)) ''username'' [])
      | Token \<Rightarrow> hash_insert (token_key (auth_keys c)) ''token'' []
      | Ssh \<Rightarrow> hash_insert (private_key_key (auth_keys c)) ''private_key'' [])"

definition secrets_namespace ::
    "('r, 'z) git_repo_ops_scheme \<Rightarrow> 'r \<Rightarrow> secret_ref \<Rightarrow> string \<Rightarrow> string" where
  "secrets_namespace ops self ref secrets_ns =
     (if is_namespaced ops self then secrets_ns else unwrap_or (sr_namespace ref) secrets_ns)"

definition get_auth_secrets ::
    "('w, 'z) git_env_scheme \<Rightarrow> ('r, 'y) git_repo_ops_scheme \<Rightarrow> 'r \<Rightarrow> string \<Rightarrow> 'w \<Rightarrow>
     (error + (string \<rightharpoonup> string)) \<times> 'w" where
  "get_auth_secrets env ops self secrets_ns w =
     (case auth_config ops self of
        Some c \<Rightarrow> get_secret_strings env (sr_name (auth_secret_ref c)) (auth_secret_keys c)
                    (secrets_namespace ops self (auth_secret_ref c) secrets_ns) w
      | None \<Rightarrow> (Inr Map.empty, w))"

definition get_tls_secrets ::
    "('w, 'z) git_env_scheme \<Rightarrow> ('r, 'y) git_repo_ops_scheme \<Rightarrow> 'r \<Rightarrow> string \<Rightarrow> 'w \<Rightarrow>
     (error + (string \<rightharpoonup> string)) \<times> 'w" where
  "get_tls_secrets env ops self secrets_ns w =
     (case Option.bind (tls_config_of ops self) ca_cert of
        Some ca \<Rightarrow> get_secret_strings env (sr_name (ca_secret_ref ca))
                     (hash_insert (ca_key ca) ''ca.crt'' [])
                     (secrets_namespace ops self (ca_secret_ref ca) secrets_ns) w
      | None \<Rightarrow> (Inr Map.empty, w))"

section \<open>Callbacks\<close>

text \<open>Indexing a \<^verbatim>\<open>HashMap\<close> with a key it does not have panics.\<close>

definition hash_index :: "(string \<rightharpoonup> string) \<Rightarrow> string \<Rightarrow> string outcome" where
  "hash_index m k = expect ''no entry found for key'' (m k)"

text \<open>
  Strings that git2 passes on to libgit2 with \<^verbatim>\<open>CString::new(_).unwrap()\<close>, the custom headers and the
  URL of a new repository: a NUL byte panics. (Where git2 returns the error of \<^verbatim>\<open>CString::new\<close>
  instead, as for credentials and references, it is an error of the call.)
\<close>

definition c_string :: "string \<Rightarrow> string outcome" where
  "c_string s =
     (if CHR 0x00 \<in> set s then Panics ''called Result::unwrap() on an Err value: NulError'' else Returns s)"

definition auth_options ::
    "('r, 'y) git_repo_ops_scheme \<Rightarrow> 'r \<Rightarrow> (string \<rightharpoonup> string) \<Rightarrow> fetch_options \<Rightarrow> fetch_options outcome" where
  "auth_options ops self secrets opts =
     (case auth_config ops self of
        None \<Rightarrow> Returns opts
      | Some c \<Rightarrow>
          (case auth_type c of
             Basic \<Rightarrow> Returns (opts\<lparr> credentials := Some (\<lambda>_.
                outcome_bind (hash_index secrets ''username'') (\<lambda>u.
                outcome_bind (hash_index secrets ''password'') (\<lambda>p.
                  Returns (UserpassPlaintext u p)))) \<rparr>)
           | Token \<Rightarrow> outcome_bind (hash_index secrets ''token'') (\<lambda>t.
                outcome_bind (c_string (''Authorization: '' @ t)) (\<lambda>h.
                  Returns (opts\<lparr> custom_headers := [h] \<rparr>)))
           | Ssh \<Rightarrow> Returns (opts\<lparr> credentials := Some (\<lambda>user.
                outcome_bind (hash_index secrets ''private_key'') (\<lambda>k.
                  Returns (SshKeyFromMemory (unwrap_or user ''git'') k))) \<rparr>)))"

definition custom_ca_check ::
    "('w, 'z) git_env_scheme \<Rightarrow> string list \<Rightarrow> string option \<Rightarrow> string \<Rightarrow> system_time \<Rightarrow>
     string + certificate_check_status" where
  "custom_ca_check env roots cert hostname t =
     (if \<not> build_verifier env roots then Inl ''unable to build root CA store''
      else (case cert of
              None \<Rightarrow> Inl ''unable to parse x509 certificate data''
            | Some end_entity \<Rightarrow>
                if \<not> server_name_ok env hostname then Inl ''unable to get server name''
                else if verify_server_cert env roots end_entity hostname t then Inr CertificateOk
                else Inr CertificatePassthrough))"

definition certificate_options ::
    "('w, 'z) git_env_scheme \<Rightarrow> ('r, 'y) git_repo_ops_scheme \<Rightarrow> 'r \<Rightarrow> (string \<rightharpoonup> string) \<Rightarrow>
     fetch_options \<Rightarrow> 'w \<Rightarrow> (fetch_options \<times> 'w) outcome" where
  "certificate_options env ops self secrets opts w =
     outcome_bind (uri_schema ops self) (\<lambda>schema.
       (case schema of
          Http \<Rightarrow> Returns (opts, w)
        | SshSchema \<Rightarrow> Returns (opts\<lparr> certificate_check := Some (\<lambda>_ _ _. Inr CertificateOk) \<rparr>, w)
        | GitSchema \<Rightarrow> Returns (opts\<lparr> certificate_check := Some (\<lambda>_ _ _. Inr CertificateOk) \<rparr>, w)
        | Https \<Rightarrow>
            (case tls_config_of ops self of
               None \<Rightarrow> Returns (opts, w)
             | Some tls \<Rightarrow>
                 if no_verify_ssl tls
                 then Returns (opts\<lparr> certificate_check := Some (\<lambda>_ _ _. Inr CertificateOk) \<rparr>, w)
                 else if ca_cert tls \<noteq> None then
                   outcome_bind (unwrap (secrets ''ca.crt'')) (\<lambda>ca.
                     (case load_native_certs env w of (native, w1) \<Rightarrow>
                        outcome_bind (expect ''could not load platform certs'' native) (\<lambda>certs.
                          Returns (opts\<lparr> certificate_check :=
                            Some (custom_ca_check env (certs @ pem_certs env ca)) \<rparr>, w1))))
                 else Returns (opts\<lparr> certificate_check :=
                        Some (\<lambda>_ _ _. Inr CertificatePassthrough) \<rparr>, w))))"

definition fetch_depth :: "git_repo_uri_schema \<Rightarrow> nat" where
  "fetch_depth schema =
     (case schema of Http \<Rightarrow> 1 | Https \<Rightarrow> 1 | SshSchema \<Rightarrow> 0 | GitSchema \<Rightarrow> 0)"

section \<open>Fetching\<close>

definition fetch_origin ::
    "('w, 'z) git_env_scheme \<Rightarrow> string \<Rightarrow> string \<Rightarrow> string \<Rightarrow> fetch_options \<Rightarrow> 'w \<Rightarrow>
     ((error + repository) \<times> 'w) outcome" where
  "fetch_origin env uri ref_name path opts w =
     outcome_bind (c_string uri) (\<lambda>origin_url.
     (case init_opts env path origin_url w of
        (Inl e, w1) \<Rightarrow> Returns (Inl (GitrepoAccessError e), w1)
      | (Inr repo, w1) \<Rightarrow>
          (case find_remote env repo ''origin'' w1 of
             (Inl e, w2) \<Rightarrow> Returns (Inl (GitrepoAccessError e), w2)
           | (Inr _, w2) \<Rightarrow>
               outcome_bind (fetch_remote env repo ''origin'' [ref_name] opts w2) (\<lambda>(r, w3).
                 Returns (case r of Inl e \<Rightarrow> Inl (GitrepoAccessError e) | Inr _ \<Rightarrow> Inr repo, w3)))))"

definition fetch_with_secrets ::
    "('w, 'z) git_env_scheme \<Rightarrow> ('r, 'y) git_repo_ops_scheme \<Rightarrow> 'r \<Rightarrow> string \<Rightarrow> string \<Rightarrow>
     (string \<rightharpoonup> string) \<Rightarrow> (string \<rightharpoonup> string) \<Rightarrow> 'w \<Rightarrow> ((error + repository) \<times> 'w) outcome" where
  "fetch_with_secrets env ops self ref_name path auth_secrets tls_secrets w =
     outcome_bind (auth_options ops self auth_secrets default_fetch_options) (\<lambda>opts.
     outcome_bind (certificate_options env ops self tls_secrets opts w) (\<lambda>(opts1, w1).
     outcome_bind (uri_schema ops self) (\<lambda>schema.
       fetch_origin env (repo_uri ops self) ref_name path
         (opts1\<lparr> depth := fetch_depth schema \<rparr>) w1)))"

definition fetch_repo_ref ::
    "('w, 'z) git_env_scheme \<Rightarrow> ('r, 'y) git_repo_ops_scheme \<Rightarrow> 'r \<Rightarrow> string \<Rightarrow> string \<Rightarrow> string \<Rightarrow> 'w \<Rightarrow>
     ((error + repository) \<times> 'w) outcome" where
  "fetch_repo_ref env ops self ref_name path secrets_ns w =
     (case get_auth_secrets env ops self secrets_ns w of
        (Inl e, w1) \<Rightarrow> Returns (Inl e, w1)
      | (Inr auth_secrets, w1) \<Rightarrow>
          (case get_tls_secrets env ops self secrets_ns w1 of
             (Inl e, w2) \<Rightarrow> Returns (Inl e, w2)
           | (Inr tls_secrets, w2) \<Rightarrow>
               fetch_with_secrets env ops self ref_name path auth_secrets tls_secrets w2))"

end
