(* ===== verification/Config.thy ===== *)
theory Config
  imports Errors
begin

text \<open>
  The runtime configuration (\<^verbatim>\<open>src/config.rs\<close>): its structures and defaults, the conversion of
  a ConfigMap, and the watcher that publishes configurations on a watch channel. The YAML
  parser and printer of \<^verbatim>\<open>serde_saphyr\<close> are arguments.
\<close>

section \<open>Structures\<close>

record action_workdir_config =
  mount_path :: string
  volume_name :: string

record action_containers_cloner_config =
  cloner_name :: string
  cloner_image :: string

record action_containers_worker_config =
  worker_name :: string
  worker_image :: string
  variables_prefix :: string

record action_containers_config =
  cloner :: action_containers_cloner_config
  worker :: action_containers_worker_config

record action_config =
  max_running_jobs :: usize
  job_waiting_timeout_seconds :: u64
  default_service_account :: "string option"
  active_deadline_seconds :: i64
  ttl_seconds_after_finished :: i32
  workdir :: action_workdir_config
  containers :: action_containers_config

record trigger_webhook_config =
  default_auth_header :: string

record trigger_config =
  webhook :: trigger_webhook_config

record runtime_config =
  action :: action_config
  trigger :: trigger_config

section \<open>Defaults\<close>

definition CONFIG_MAP_DATA_NAME :: string where
  "CONFIG_MAP_DATA_NAME = ''runtimeConfig''"

definition DEFAULT_CONTAINER_REPO :: string where
  "DEFAULT_CONTAINER_REPO = ''ghcr.io/alex-karpenko/git-events-runner''"

definition DEFAULT_SERVICE_ACCOUNT_NAME_TEMPLATE :: string where
  "DEFAULT_SERVICE_ACCOUNT_NAME_TEMPLATE =
     ''{{ include '' @ [CHR 0x22] @ ''git-events-runner.actionJobServiceAccountName'' @ [CHR 0x22] @ '' . }}''"

text \<open>\<^verbatim>\<open>env!("CARGO_PKG_VERSION")\<close>, the package version of \<^verbatim>\<open>Cargo.toml\<close>.\<close>

definition CARGO_PKG_VERSION :: string where
  "CARGO_PKG_VERSION = ''0.5.0''"

definition default_image :: "string \<Rightarrow> string \<Rightarrow> string" where
  "default_image img tag = DEFAULT_CONTAINER_REPO @ ''/'' @ img @ '':'' @ tag"

definition default_action_workdir_config :: action_workdir_config where
  "default_action_workdir_config =
     \<lparr> mount_path = ''/action_workdir'', volume_name = ''action-workdir'' \<rparr>"

definition default_action_containers_cloner_config :: action_containers_cloner_config where
  "default_action_containers_cloner_config =
     \<lparr> cloner_name = ''action-cloner'',
       cloner_image = default_image ''gitrepo-cloner'' (''v'' @ CARGO_PKG_VERSION) \<rparr>"

definition default_action_containers_worker_config :: action_containers_worker_config where
  "default_action_containers_worker_config =
     \<lparr> worker_name = ''action-worker'',
       worker_image = default_image ''action-worker'' (''v'' @ CARGO_PKG_VERSION),
       variables_prefix = ''ACTION_JOB_'' \<rparr>"

definition default_action_config :: action_config where
  "default_action_config =
     \<lparr> max_running_jobs = 16,
       job_waiting_timeout_seconds = 300,
       default_service_account = None,
       active_deadline_seconds = 3600,
       ttl_seconds_after_finished = 7200,
       workdir = default_action_workdir_config,
       containers =
         \<lparr> cloner = default_action_containers_cloner_config,
           worker = default_action_containers_worker_config \<rparr> \<rparr>"

definition default_trigger_webhook_config :: trigger_webhook_config where
  "default_trigger_webhook_config = \<lparr> default_auth_header = ''x-trigger-auth'' \<rparr>"

definition default_runtime_config :: runtime_config where
  "default_runtime_config =
     \<lparr> action = default_action_config,
       trigger = \<lparr> webhook = default_trigger_webhook_config \<rparr> \<rparr>"

lemmas default_config_defs =
  default_runtime_config_def default_action_config_def default_action_workdir_config_def
  default_action_containers_cloner_config_def default_action_containers_worker_config_def
  default_trigger_webhook_config_def default_image_def DEFAULT_CONTAINER_REPO_def
  CARGO_PKG_VERSION_def

section \<open>Dumping the defaults\<close>

datatype yaml_config_opts = Raw | HelmTemplate

definition helm_template_config :: runtime_config where
  "helm_template_config =
     (let c = default_runtime_config; a = action c;
          cs = containers a;
          cs' = cs\<lparr> cloner := (cloner cs)\<lparr> cloner_image :=
                       default_image ''gitrepo-cloner'' ''{{ .Chart.AppVersion }}'' \<rparr>,
                    worker := (worker cs)\<lparr> worker_image :=
                       default_image ''action-worker'' ''{{ .Chart.AppVersion }}'' \<rparr> \<rparr>
      in c\<lparr> action := a\<lparr> default_service_account := Some DEFAULT_SERVICE_ACCOUNT_NAME_TEMPLATE,
                          containers := cs' \<rparr> \<rparr>)"

fun default_as_yaml_string ::
    "(runtime_config \<Rightarrow> string + string) \<Rightarrow> yaml_config_opts \<Rightarrow> error + string" where
  "default_as_yaml_string to_yaml opts =
     (let config = (case opts of Raw \<Rightarrow> default_runtime_config | HelmTemplate \<Rightarrow> helm_template_config)
      in case to_yaml config of
           Inl e \<Rightarrow> Inl (ConfigSerializationError e)
         | Inr y \<Rightarrow> Inr y)"

section \<open>Reading a ConfigMap\<close>

record config_map =
  cm_namespace :: "string option"
  cm_name :: "string option"
  cm_data :: "(string \<rightharpoonup> string) option"

definition try_from_config_map ::
    "(string \<Rightarrow> string + runtime_config) \<Rightarrow> config_map \<Rightarrow> error + runtime_config" where
  "try_from_config_map from_yaml value =
     (case (unwrap_or (cm_data value) Map.empty) CONFIG_MAP_DATA_NAME of
        Some config_data \<Rightarrow>
          (case from_yaml config_data of
             Inr config \<Rightarrow> Inr config
           | Inl err \<Rightarrow> Inl (ConfigDeserializationError err))
      | None \<Rightarrow> Inl RuntimeConfigFormatError)"

section \<open>The configuration channel\<close>

text \<open>
  The process-wide \<^verbatim>\<open>CONFIG_TX_CHANNEL\<close> is unset (\<open>None\<close>) or holds the published value.
  \<open>channel_set\<close> is \<^verbatim>\<open>let _ = OnceLock::set(...)\<close>: a second call is ignored.
\<close>

type_synonym config_channel = "runtime_config option"

fun channel_set :: "runtime_config \<Rightarrow> config_channel \<Rightarrow> config_channel" where
  "channel_set c None = Some c"
| "channel_set c (Some d) = Some d"

fun send_replace :: "runtime_config \<Rightarrow> config_channel \<Rightarrow> config_channel outcome" where
  "send_replace c None = Panics ''CONFIG_TX_CHANNEL is not set''"
| "send_replace c (Some d) = Returns (Some c)"

definition get_from_watch_channel :: "config_channel \<Rightarrow> runtime_config outcome" where
  "get_from_watch_channel ch = unwrap ch"

text \<open>The part of \<^verbatim>\<open>init_and_watch\<close> before the stream: \<open>initial\<close> is the answer of the API server
  for the ConfigMap.\<close>

definition config_init ::
    "(string \<Rightarrow> string + runtime_config) \<Rightarrow> (kube_error + config_map) \<Rightarrow>
     config_channel \<Rightarrow> config_channel outcome" where
  "config_init from_yaml initial ch =
     (let ch1 = channel_set default_runtime_config ch;
          initial_config =
            (case initial of
               Inr cm \<Rightarrow>
                 (case try_from_config_map from_yaml cm of
                    Inr config \<Rightarrow> config
                  | Inl _ \<Rightarrow> default_runtime_config)
             | Inl _ \<Rightarrow> default_runtime_config)
      in send_replace initial_config ch1)"

text \<open>The closure given to \<^verbatim>\<open>for_each\<close>: one element of the watch stream. The filter by generation in
  front of it belongs to the kube crate; it drops an object whose generation was seen before and
  passes one without a generation, as ConfigMaps are.\<close>

definition config_on_event ::
    "(string \<Rightarrow> string + runtime_config) \<Rightarrow> (string + config_map) \<Rightarrow>
     config_channel \<Rightarrow> config_channel outcome" where
  "config_on_event from_yaml ev ch =
     (case ev of
        Inl _ \<Rightarrow> Returns ch
      | Inr cm \<Rightarrow>
          outcome_bind (unwrap (cm_namespace cm)) (\<lambda>ns.
          outcome_bind (unwrap (cm_name cm)) (\<lambda>name.
            (case try_from_config_map from_yaml cm of
               Inr config \<Rightarrow> send_replace config ch
             | Inl err \<Rightarrow> Returns ch))))"

fun config_watch ::
    "(string \<Rightarrow> string + runtime_config) \<Rightarrow> (string + config_map) list \<Rightarrow>
     config_channel \<Rightarrow> config_channel outcome" where
  "config_watch from_yaml [] ch = Returns ch"
| "config_watch from_yaml (e # es) ch =
     outcome_bind (config_on_event from_yaml e ch) (config_watch from_yaml es)"

definition config_init_and_watch ::
    "(string \<Rightarrow> string + runtime_config) \<Rightarrow> (kube_error + config_map) \<Rightarrow>
     (string + config_map) list \<Rightarrow> config_channel \<Rightarrow> config_channel outcome" where
  "config_init_and_watch from_yaml initial events ch =
     outcome_bind (config_init from_yaml initial ch) (config_watch from_yaml events)"

section \<open>What the channel holds\<close>

text \<open>The configuration an event publishes, if it publishes one.\<close>

definition published ::
    "(string \<Rightarrow> string + runtime_config) \<Rightarrow> (string + config_map) \<Rightarrow> runtime_config option" where
  "published from_yaml ev =
     (case ev of
        Inl _ \<Rightarrow> None
      | Inr cm \<Rightarrow> (case try_from_config_map from_yaml cm of Inr c \<Rightarrow> Some c | Inl _ \<Rightarrow> None))"

definition named_event :: "(string + config_map) \<Rightarrow> bool" where
  "named_event ev =
     (case ev of Inl _ \<Rightarrow> True
      | Inr cm \<Rightarrow> cm_namespace cm \<noteq> None \<and> cm_name cm \<noteq> None)"

fun last_published ::
    "(string \<Rightarrow> string + runtime_config) \<Rightarrow> runtime_config \<Rightarrow> (string + config_map) list \<Rightarrow>
     runtime_config" where
  "last_published from_yaml c [] = c"
| "last_published from_yaml c (e # es) =
     last_published from_yaml (unwrap_or (published from_yaml e) c) es"

lemma config_on_event_named:
  assumes "named_event e"
  shows "config_on_event y e (Some c) = Returns (Some (unwrap_or (published y e) c))"
  using assms
  by (auto simp: config_on_event_def published_def named_event_def split: sum.splits)

lemma config_watch_published:
  assumes "\<forall>e \<in> set es. named_event e"
  shows "config_watch y es (Some c) = Returns (Some (last_published y c es))"
  using assms
  by (induction es arbitrary: c) (simp_all add: config_on_event_named)

lemma config_init_value:
  "config_init y initial ch =
     Returns (Some (case initial of
        Inr cm \<Rightarrow> (case try_from_config_map y cm of Inr c \<Rightarrow> c | Inl _ \<Rightarrow> default_runtime_config)
      | Inl _ \<Rightarrow> default_runtime_config))"
  by (cases ch) (simp_all add: config_init_def Let_def split: sum.splits)

text \<open>
  C26. Once initialised, the configuration channel always holds a configuration: it is the last
  one of the stream that could be read, or the initial ConfigMap's, or the default; a ConfigMap
  that cannot be read (no \<^verbatim>\<open>runtimeConfig\<close> key, or invalid YAML) leaves the previous
  configuration in force. The watched ConfigMaps have a name and a namespace.
\<close>

theorem config_last_readable:
  assumes "\<forall>e \<in> set events. named_event e"
  shows "config_init_and_watch from_yaml initial events ch =
         Returns (Some (last_published from_yaml
           (case initial of
              Inr cm \<Rightarrow> (case try_from_config_map from_yaml cm of
                           Inr c \<Rightarrow> c | Inl _ \<Rightarrow> default_runtime_config)
            | Inl _ \<Rightarrow> default_runtime_config) events))"
  using assms
  by (simp add: config_init_and_watch_def config_init_value config_watch_published)

theorem config_last_readable_witness:
  "config_init_and_watch (\<lambda>_. Inr default_runtime_config) (Inl (Api 404 ''not found''))
     [Inr \<lparr> cm_namespace = Some ''default'', cm_name = Some ''git-events-runner-config'',
            cm_data = None \<rparr>] None
   = Returns (Some default_runtime_config)"
proof -
  let ?cm = "\<lparr> cm_namespace = Some ''default'', cm_name = Some ''git-events-runner-config'',
               cm_data = None \<rparr>"
  have h: "\<forall>e \<in> set [Inr ?cm :: string + config_map]. named_event e"
    by (simp add: named_event_def)
  show ?thesis
    using config_last_readable [OF h, of "\<lambda>_. Inr default_runtime_config"
        "Inl (Api 404 ''not found'')" None]
    by (simp add: published_def try_from_config_map_def)
qed

end
