(* ===== verification/Jobs.thy ===== *)
theory Jobs
  imports Kube_Types Config
begin

text \<open>
  The queue of Kubernetes Jobs (\<^verbatim>\<open>src/jobs.rs\<close>): the waiting channel, the counter of running
  jobs with the statuses it is computed from, the metrics, \<^verbatim>\<open>enqueue\<close>, \<^verbatim>\<open>run_queue\<close> and the
  handler of the watch stream. The API server and the clock are the environment; the
  configuration is the one in force when the operation starts.
\<close>

section \<open>State\<close>

datatype job_completion_status = Succeed | Failed | Expired | Deleted | CreateError

fun completion_status_to_string :: "job_completion_status \<Rightarrow> string" where
  "completion_status_to_string Succeed = ''Succeed''"
| "completion_status_to_string Failed = ''Failed''"
| "completion_status_to_string Expired = ''Expired''"
| "completion_status_to_string Deleted = ''Deleted''"
| "completion_status_to_string CreateError = ''CreateError''"

text \<open>The Prometheus metrics: three gauges, and what was counted and observed, in order.\<close>

record jobs_metrics =
  m_current_limit :: nat
  m_running_jobs :: nat
  m_waiting_jobs :: nat
  m_waiting_duration :: "duration list"
  m_completed_count :: "string list list"
  m_completed_duration :: "(string list \<times> duration) list"

definition default_jobs_metrics :: jobs_metrics where
  "default_jobs_metrics =
     \<lparr> m_current_limit = 0, m_running_jobs = 0, m_waiting_jobs = 0, m_waiting_duration = [],
       m_completed_count = [], m_completed_duration = [] \<rparr>"

record jobs_queue_item =
  item_job :: job
  enqueued_at :: system_time
  expire_after :: "duration option"

text \<open>What \<^verbatim>\<open>run_queue\<close> reports for an item it takes from the queue.\<close>

datatype queue_trace =
    JobCreated jobs_queue_item
  | JobCreateError jobs_queue_item
  | JobExpired jobs_queue_item

fun trace_item :: "queue_trace \<Rightarrow> jobs_queue_item" where
  "trace_item (JobCreated i) = i"
| "trace_item (JobCreateError i) = i"
| "trace_item (JobExpired i) = i"

fun is_created :: "queue_trace \<Rightarrow> bool" where
  "is_created (JobCreated i) = True"
| "is_created (JobCreateError i) = False"
| "is_created (JobExpired i) = False"

text \<open>
  \<open>JobsQueue\<close> with the locals of its event loop: the unbounded channel of waiting items, the
  atomic counter, the map of last seen statuses, whether an event is pending on the watch
  channel, and whether the loop that listens to it is still there.
\<close>

record jobs_queue =
  identity :: string
  queue_jobs :: "jobs_queue_item list"
  running_jobs :: usize
  statuses :: "string \<times> string \<rightharpoonup> job_status"
  queue_event :: bool
  event_loop_alive :: bool
  metrics :: jobs_metrics
  trace :: "queue_trace list"

definition ACTION_JOB_IDENTITY_LABEL :: string where
  "ACTION_JOB_IDENTITY_LABEL = ''git-events-runner.rs/controller-identity''"

definition ACTION_JOB_ACTION_KIND_LABEL :: string where
  "ACTION_JOB_ACTION_KIND_LABEL = ''git-events-runner.rs/action-kind''"

definition ACTION_JOB_ACTION_NAME_LABEL :: string where
  "ACTION_JOB_ACTION_NAME_LABEL = ''git-events-runner.rs/action-name''"

definition ACTION_JOB_SOURCE_KIND_LABEL :: string where
  "ACTION_JOB_SOURCE_KIND_LABEL = ''git-events-runner.rs/source-kind''"

definition ACTION_JOB_SOURCE_NAME_LABEL :: string where
  "ACTION_JOB_SOURCE_NAME_LABEL = ''git-events-runner.rs/source-name''"

definition ACTION_JOB_TRIGGER_KIND_LABEL :: string where
  "ACTION_JOB_TRIGGER_KIND_LABEL = ''git-events-runner.rs/trigger-kind''"

definition ACTION_JOB_TRIGGER_NAME_LABEL :: string where
  "ACTION_JOB_TRIGGER_NAME_LABEL = ''git-events-runner.rs/trigger-name''"

lemmas job_label_defs =
  ACTION_JOB_IDENTITY_LABEL_def ACTION_JOB_ACTION_KIND_LABEL_def ACTION_JOB_ACTION_NAME_LABEL_def
  ACTION_JOB_SOURCE_KIND_LABEL_def ACTION_JOB_SOURCE_NAME_LABEL_def
  ACTION_JOB_TRIGGER_KIND_LABEL_def ACTION_JOB_TRIGGER_NAME_LABEL_def

record 'w jobs_env = "'w clock_env" +
  create_job :: "string \<Rightarrow> job \<Rightarrow> 'w \<Rightarrow> (kube_error + unit) \<times> 'w"

section \<open>Metrics\<close>

text \<open>\<^verbatim>\<open>usize::try_into::<i64>\<close> fails from $2^{63}$ on, and the code unwraps it.\<close>

definition i64_try_from :: "nat \<Rightarrow> nat option" where
  "i64_try_from n = (if n < 9223372036854775808 then Some n else None)"

definition update_gauges :: "runtime_config \<Rightarrow> nat \<Rightarrow> jobs_queue \<Rightarrow> jobs_queue outcome" where
  "update_gauges cfg waiting q =
     outcome_bind (unwrap (i64_try_from (unat (running_jobs q)))) (\<lambda>running.
     outcome_bind (unwrap (i64_try_from (unat (max_running_jobs (action cfg))))) (\<lambda>limit.
     outcome_bind (unwrap (i64_try_from waiting)) (\<lambda>waiting'.
       Returns (q\<lparr> metrics := (metrics q)\<lparr> m_running_jobs := running, m_current_limit := limit,
                                         m_waiting_jobs := waiting' \<rparr> \<rparr>))))"

definition completed_labels :: "job \<Rightarrow> job_completion_status \<Rightarrow> string list outcome" where
  "completed_labels j status =
     outcome_bind (unwrap (om_namespace (job_meta j))) (\<lambda>ns.
     outcome_bind (unwrap (om_labels (job_meta j))) (\<lambda>labels.
     outcome_bind (unwrap (labels ACTION_JOB_ACTION_KIND_LABEL)) (\<lambda>action_kind.
     outcome_bind (unwrap (labels ACTION_JOB_ACTION_NAME_LABEL)) (\<lambda>action_name.
     outcome_bind (unwrap (labels ACTION_JOB_SOURCE_KIND_LABEL)) (\<lambda>source_kind.
     outcome_bind (unwrap (labels ACTION_JOB_SOURCE_NAME_LABEL)) (\<lambda>source_name.
     outcome_bind (unwrap (labels ACTION_JOB_TRIGGER_KIND_LABEL)) (\<lambda>trigger_kind.
     outcome_bind (unwrap (labels ACTION_JOB_TRIGGER_NAME_LABEL)) (\<lambda>trigger_name.
       Returns [ns, trigger_kind, trigger_name, source_kind, source_name, action_kind,
                action_name, completion_status_to_string status]))))))))"

definition count_and_measure_completed ::
    "('w, 'z) clock_env_scheme \<Rightarrow> job \<Rightarrow> job_completion_status \<Rightarrow> jobs_queue \<times> 'w \<Rightarrow>
     (jobs_queue \<times> 'w) outcome" where
  "count_and_measure_completed env j status qw =
     (case qw of (q, w) \<Rightarrow>
       outcome_bind (completed_labels j status) (\<lambda>labels.
         let m = metrics q;
             q1 = q\<lparr> metrics := m\<lparr> m_completed_count := m_completed_count m @ [labels] \<rparr> \<rparr>
         in Returns
           (if status = Succeed \<or> status = Failed then
              (case Option.bind (job_status_of j) st_start_time of
                 Some start \<Rightarrow>
                   (case now env w of (t, w1) \<Rightarrow>
                      (case duration_since t start of
                         Some elapsed \<Rightarrow>
                           (q1\<lparr> metrics := (metrics q1)\<lparr> m_completed_duration :=
                                  m_completed_duration m @ [(labels, elapsed)] \<rparr> \<rparr>, w1)
                       | None \<Rightarrow> (q1, w1)))
               | None \<Rightarrow> (q1, w))
            else (q1, w))))"

definition measure_waiting_duration :: "duration \<Rightarrow> jobs_queue \<Rightarrow> jobs_queue" where
  "measure_waiting_duration d q =
     q\<lparr> metrics := (metrics q)\<lparr> m_waiting_duration := m_waiting_duration (metrics q) @ [d] \<rparr> \<rparr>"

section \<open>Expiration\<close>

definition is_expired ::
    "('w, 'z) clock_env_scheme \<Rightarrow> runtime_config \<Rightarrow> jobs_queue_item \<Rightarrow> 'w \<Rightarrow> (bool \<times> 'w) outcome" where
  "is_expired env cfg item w =
     (let expired_after = unwrap_or (expire_after item)
            (from_secs (job_waiting_timeout_seconds (action cfg)))
      in case now env w of (t, w1) \<Rightarrow>
           outcome_bind (unwrap (checked_add (enqueued_at item) expired_after)) (\<lambda>deadline.
             Returns (t > deadline, w1)))"

section \<open>Running the queue\<close>

text \<open>The body of the loop for one received item: creating the job when it is not expired; the
  flag says whether a job was created.\<close>

definition run_queue_create ::
    "('w, 'z) jobs_env_scheme \<Rightarrow> string \<Rightarrow> jobs_queue_item \<Rightarrow> jobs_queue \<times> 'w \<Rightarrow>
     (bool \<times> jobs_queue \<times> 'w) outcome" where
  "run_queue_create env ns item qw =
     (case qw of (q, w) \<Rightarrow>
      (case now env w of (t, w1) \<Rightarrow>
         outcome_bind (unwrap (duration_since t (enqueued_at item))) (\<lambda>d.
           let q1 = measure_waiting_duration d q in
           case create_job env ns (item_job item) w1 of
             (Inr _, w2) \<Rightarrow> Returns (True, q1\<lparr> trace := trace q @ [JobCreated item] \<rparr>, w2)
           | (Inl e, w2) \<Rightarrow>
               outcome_bind
                 (count_and_measure_completed env (item_job item) CreateError
                    (q1\<lparr> trace := trace q @ [JobCreateError item] \<rparr>, w2))
                 (\<lambda>(q2, w3). Returns (False, q2, w3)))))"

definition run_queue_item ::
    "('w, 'z) jobs_env_scheme \<Rightarrow> runtime_config \<Rightarrow> jobs_queue_item \<Rightarrow> jobs_queue \<times> 'w \<Rightarrow>
     (bool \<times> jobs_queue \<times> 'w) outcome" where
  "run_queue_item env cfg item qw =
     (case qw of (q, w) \<Rightarrow>
      outcome_bind (unwrap (om_namespace (job_meta (item_job item)))) (\<lambda>ns.
      outcome_bind (is_expired env cfg item w) (\<lambda>(expired, w1).
        if \<not> expired then run_queue_create env ns item (q, w1)
        else
          outcome_bind
            (count_and_measure_completed env (item_job item) Expired
               (q\<lparr> trace := trace q @ [JobExpired item] \<rparr>, w1))
            (\<lambda>(q2, w2). Returns (False, q2, w2)))))"

text \<open>
  The loop: \<open>waiting\<close> is the length of the channel when the loop started, so an item is always
  there; the channel is never closed, because its sender lives in the same static object.
\<close>

fun run_queue_loop ::
    "('w, 'z) jobs_env_scheme \<Rightarrow> runtime_config \<Rightarrow> nat \<Rightarrow> usize \<Rightarrow> jobs_queue \<times> 'w \<Rightarrow>
     (jobs_queue \<times> 'w) outcome" where
  "run_queue_loop env cfg 0 free_capacity (q, w) = Returns (q, w)"
| "run_queue_loop env cfg (Suc waiting) free_capacity (q, w) =
     (if free_capacity = 0 then Returns (q, w)
      else (case queue_jobs q of
              [] \<Rightarrow> Returns (q, w)
            | item # rest \<Rightarrow>
                outcome_bind (run_queue_item env cfg item (q\<lparr> queue_jobs := rest \<rparr>, w))
                  (\<lambda>(created, q1, w1).
                     outcome_bind (update_gauges cfg waiting q1) (\<lambda>q2.
                       run_queue_loop env cfg waiting
                         (if created then free_capacity - 1 else free_capacity) (q2, w1)))))"

definition run_queue ::
    "('w, 'z) jobs_env_scheme \<Rightarrow> runtime_config \<Rightarrow> jobs_queue \<times> 'w \<Rightarrow> (jobs_queue \<times> 'w) outcome" where
  "run_queue env cfg qw =
     (case qw of (q, w) \<Rightarrow>
      let running = running_jobs q;
          waiting = length (queue_jobs q);
          limit = max_running_jobs (action cfg)
      in outcome_bind (update_gauges cfg waiting q) (\<lambda>q1.
           if running > limit then Returns (q1, w)
           else run_queue_loop env cfg waiting (limit - running) (q1, w)))"

section \<open>Enqueueing\<close>

definition label_for_queue :: "string \<Rightarrow> string \<Rightarrow> job \<Rightarrow> job" where
  "label_for_queue ident ns j =
     (let labels = unwrap_or (om_labels (job_meta j)) Map.empty
      in j\<lparr> job_meta := (job_meta j)\<lparr> om_namespace := Some ns,
              om_labels := Some (labels(ACTION_JOB_IDENTITY_LABEL \<mapsto> ident)) \<rparr> \<rparr>)"

text \<open>The queue is the content of the static \<^verbatim>\<open>JOBS_QUEUE\<close>, \<open>None\<close> before it is initialised.\<close>

definition enqueue ::
    "('w, 'z) clock_env_scheme \<Rightarrow> job \<Rightarrow> string \<Rightarrow> duration option \<Rightarrow> jobs_queue option \<times> 'w \<Rightarrow>
     (error + unit) \<times> jobs_queue option \<times> 'w" where
  "enqueue env j ns exp qw =
     (case qw of
        (Some q, w) \<Rightarrow>
          (case now env w of (t, w1) \<Rightarrow>
            (let item = \<lparr> item_job = label_for_queue (identity q) ns j, enqueued_at = t,
                          expire_after = exp \<rparr>;
                 q1 = q\<lparr> queue_jobs := queue_jobs q @ [item] \<rparr>
             in if event_loop_alive q
                then (Inr (), Some (q1\<lparr> queue_event := True \<rparr>), w1)
                else (Inl (JobsQueueError ''channel closed''), Some q1, w1)))
      | (None, w) \<Rightarrow> (Inl (JobsQueueError ''jobs queue isn't initialized''), None, w))"

section \<open>Watching jobs\<close>

text \<open>The queue that \<^verbatim>\<open>init_and_watch\<close> creates.\<close>

definition init_jobs_queue :: "string \<Rightarrow> jobs_queue" where
  "init_jobs_queue ident =
     \<lparr> identity = ident, queue_jobs = [], running_jobs = 0, statuses = Map.empty,
       queue_event = False, event_loop_alive = True, metrics = default_jobs_metrics, trace = [] \<rparr>"

text \<open>
  The handler of one element of the stream; \<open>store\<close> is the content of the reflector store at
  that moment, keyed by name and namespace.
\<close>

definition job_status_changed ::
    "('w, 'z) clock_env_scheme \<Rightarrow> job \<Rightarrow> job_status \<Rightarrow> job_status option \<Rightarrow> jobs_queue \<times> 'w \<Rightarrow>
     (jobs_queue \<times> 'w) outcome" where
  "job_status_changed env j store_status prev qw =
     (case qw of (q, w) \<Rightarrow>
      (case prev of
         Some prev_status \<Rightarrow>
           if store_status \<noteq> prev_status then
             if st_succeeded store_status \<noteq> None then
               count_and_measure_completed env j Succeed
                 (q\<lparr> running_jobs := running_jobs q - 1 \<rparr>, w)
             else if st_failed store_status \<noteq> None then
               count_and_measure_completed env j Failed
                 (q\<lparr> running_jobs := running_jobs q - 1 \<rparr>, w)
             else Returns (q, w)
           else Returns (q, w)
       | None \<Rightarrow> Returns (q, w)))"

definition job_touched ::
    "('w, 'z) clock_env_scheme \<Rightarrow> (string \<times> string \<rightharpoonup> job) \<Rightarrow> job \<Rightarrow> jobs_queue \<times> 'w \<Rightarrow>
     (jobs_queue \<times> 'w) outcome" where
  "job_touched env store j qw =
     (case qw of (q, w) \<Rightarrow>
      outcome_bind (unwrap (om_name (job_meta j))) (\<lambda>name.
      outcome_bind (unwrap (om_namespace (job_meta j))) (\<lambda>ns.
        let key = (name, ns) in
        (case Option.bind (store key) job_status_of of
           Some store_status \<Rightarrow>
             outcome_bind (job_status_changed env j store_status (statuses q key) (q, w))
               (\<lambda>(q1, w1).
                  let q2 = q1\<lparr> statuses := (statuses q1)(key \<mapsto> store_status) \<rparr>
                  in Returns (if statuses q1 key = None
                              then q2\<lparr> running_jobs := running_jobs q2 + 1 \<rparr> else q2, w1))
         | None \<Rightarrow>
             (case statuses q key of
                Some status \<Rightarrow>
                  let q1 = q\<lparr> statuses := (statuses q)(key := None) \<rparr> in
                  if st_succeeded status = None \<and> st_failed status = None
                  then count_and_measure_completed env j Deleted
                         (q1\<lparr> running_jobs := running_jobs q1 - 1 \<rparr>, w)
                  else Returns (q1, w)
              | None \<Rightarrow> Returns (q, w))))))"

definition job_stream_event ::
    "('w, 'z) clock_env_scheme \<Rightarrow> (string \<times> string \<rightharpoonup> job) \<Rightarrow> (string + job) \<Rightarrow> jobs_queue \<times> 'w \<Rightarrow>
     (jobs_queue \<times> 'w) outcome" where
  "job_stream_event env store ev qw =
     outcome_bind (case ev of Inr j \<Rightarrow> job_touched env store j qw | Inl _ \<Rightarrow> Returns qw)
       (\<lambda>(q, w). Returns (q\<lparr> queue_event := True \<rparr>, w))"

end
