(* ===== verification/Action.thy ===== *)
theory Action
  imports Resources Jobs
begin

text \<open>
  Actions (\<^verbatim>\<open>src/resources/action.rs\<close>): the Job that an action and a trigger's source describe,
  its environment variables and the arguments of its cloner, and \<^verbatim>\<open>execute\<close>, which hands the Job
  to the queue. The formatted local time and random strings are the environment.
\<close>

section \<open>Job names\<close>



definition job_name :: "('w, 'z) clock_env_scheme \<Rightarrow> ('a, 'y) action_ops_scheme \<Rightarrow> 'a \<Rightarrow> 'w \<Rightarrow> string \<times> 'w" where
  "job_name env ops self w =
     (case now env w of (t, w1) \<Rightarrow>
      (case random_string env 2 w1 of (rnd, w2) \<Rightarrow>
        (to_lowercase (name_any (action_meta ops self) @ ''-'' @ format_local env t @ ''-'' @ rnd), w2)))"

section \<open>Environment variables and cloner arguments\<close>

text \<open>What the trigger tells an action: the arguments that \<^verbatim>\<open>execute\<close> passes along.\<close>

record action_request =
  rq_source_kind :: trigger_source_kind
  rq_source_name :: string
  rq_source_commit :: string
  rq_trigger_ref :: trigger_git_repo_reference
  rq_ns :: string
  rq_trigger_kind :: string
  rq_trigger_name :: string

text \<open>
  Building one Job reads the shared configuration again and again, and a change of the ConfigMap may
  fall between any two reads: what each of them returns. \<open>cr_spec\<close> is the copy that
  \<^verbatim>\<open>create_job_spec\<close> takes for the containers and the volume; \<open>cr_prefix\<close> is read anew for every
  variable, given by its name.
\<close>

record config_reads =
  cr_spec :: runtime_config
  cr_destination :: runtime_config
  cr_service_account :: runtime_config
  cr_ttl :: runtime_config
  cr_deadline :: runtime_config
  cr_workdir :: runtime_config
  cr_prefix :: "string \<Rightarrow> runtime_config"

definition steady :: "runtime_config \<Rightarrow> config_reads" where
  "steady cfg =
     \<lparr> cr_spec = cfg, cr_destination = cfg, cr_service_account = cfg, cr_ttl = cfg, cr_deadline = cfg,
       cr_workdir = cfg, cr_prefix = (\<lambda>_. cfg) \<rparr>"

definition format_action_job_env_var :: "runtime_config \<Rightarrow> string \<Rightarrow> string \<Rightarrow> env_var" where
  "format_action_job_env_var cfg name value =
     \<lparr> ev_name = variables_prefix (worker (containers (action cfg))) @ name, ev_value = Some value \<rparr>"

definition job_workdir :: "runtime_config \<Rightarrow> action_job \<Rightarrow> string" where
  "job_workdir cfg aj = unwrap_or (aj_workdir aj) (mount_path (workdir (action cfg)))"

definition get_action_job_envs ::
    "config_reads \<Rightarrow> ('a, 'y) action_ops_scheme \<Rightarrow> 'a \<Rightarrow> action_request \<Rightarrow> env_var list" where
  "get_action_job_envs reads ops self rq =
     (let var = (\<lambda>name. format_action_job_env_var (cr_prefix reads name) name);
          (ref_type, ref_name) = to_refname (rq_trigger_ref rq) None
      in [var ''WORKDIR'' (job_workdir (cr_workdir reads) (action_job_spec ops self)),
          var ''TRIGGER_SOURCE_KIND'' (source_kind_to_string (rq_source_kind rq)),
          var ''TRIGGER_SOURCE_NAME'' (rq_source_name rq),
          var ''TRIGGER_SOURCE_COMMIT'' (rq_source_commit rq),
          var ''TRIGGER_SOURCE_REF_TYPE'' ref_type,
          var ''TRIGGER_SOURCE_REF_NAME'' ref_name,
          var ''TRIGGER_KIND'' (rq_trigger_kind rq),
          var ''TRIGGER_NAME'' (rq_trigger_name rq)] @
         (if rq_source_kind rq = GitRepo
          then [var ''TRIGGER_SOURCE_NAMESPACE'' (rq_ns rq)] else []) @
         (case source_override_spec ops self of
            None \<Rightarrow> []
          | Some so \<Rightarrow>
              (let (so_ref_type, so_ref_name) = to_refname (aso_reference so) None
               in [var ''ACTION_SOURCE_KIND'' (source_kind_to_string (aso_kind so)),
                   var ''ACTION_SOURCE_NAME'' (aso_name so),
                   var ''ACTION_SOURCE_REF_TYPE'' so_ref_type,
                   var ''ACTION_SOURCE_REF_NAME'' so_ref_name] @
                  (if aso_kind so = GitRepo
                   then [var ''ACTION_SOURCE_NAMESPACE'' (rq_ns rq)] else []))))"

definition get_gitrepo_cloner_args ::
    "runtime_config \<Rightarrow> ('a, 'y) action_ops_scheme \<Rightarrow> 'a \<Rightarrow> trigger_source_kind \<Rightarrow> string \<Rightarrow>
     trigger_git_repo_reference \<Rightarrow> string list" where
  "get_gitrepo_cloner_args cfg ops self source_kind source_name source_ref =
     (let aj = action_job_spec ops self;
          (ref_type, ref_name) = to_refname source_ref (Some ''--'')
      in [''--kind'', source_kind_to_string source_kind, ''--source'', source_name,
          ''--destination'', job_workdir cfg aj] @
         [ref_type, ref_name] @
         (if aj_preserve_git_folder aj then [''--preserve-git-folder''] else []) @
         (if aj_enable_cloner_debug aj then [''--debug''] else []))"

section \<open>The Job\<close>

definition pod_template_metadata :: "action_job \<Rightarrow> object_meta option" where
  "pod_template_metadata aj =
     (if aj_labels aj \<noteq> None \<or> aj_annotations aj \<noteq> None
      then Some (default_object_meta\<lparr> om_labels := aj_labels aj, om_annotations := aj_annotations aj \<rparr>)
      else None)"

definition job_labels ::
    "('a, 'y) action_ops_scheme \<Rightarrow> 'a \<Rightarrow> action_request \<Rightarrow> string \<rightharpoonup> string" where
  "job_labels ops self rq =
     [ACTION_JOB_ACTION_KIND_LABEL \<mapsto> action_kind ops,
      ACTION_JOB_ACTION_NAME_LABEL \<mapsto> name_any (action_meta ops self),
      ACTION_JOB_SOURCE_KIND_LABEL \<mapsto> source_kind_to_string (rq_source_kind rq),
      ACTION_JOB_SOURCE_NAME_LABEL \<mapsto> rq_source_name rq,
      ACTION_JOB_TRIGGER_KIND_LABEL \<mapsto> rq_trigger_kind rq,
      ACTION_JOB_TRIGGER_NAME_LABEL \<mapsto> rq_trigger_name rq] ++
     unwrap_or (aj_labels (action_job_spec ops self)) Map.empty"

definition job_cloner_args ::
    "runtime_config \<Rightarrow> ('a, 'y) action_ops_scheme \<Rightarrow> 'a \<Rightarrow> action_request \<Rightarrow> string list" where
  "job_cloner_args cfg ops self rq =
     (case source_override_spec ops self of
        Some so \<Rightarrow> get_gitrepo_cloner_args cfg ops self (aso_kind so) (aso_name so) (aso_reference so)
      | None \<Rightarrow> get_gitrepo_cloner_args cfg ops self (rq_source_kind rq) (rq_source_name rq)
                  (Commit (rq_source_commit rq)))"

definition cloner_container ::
    "config_reads \<Rightarrow> ('a, 'y) action_ops_scheme \<Rightarrow> 'a \<Rightarrow> action_request \<Rightarrow> container" where
  "cloner_container reads ops self rq =
     (let aj = action_job_spec ops self;
          cfg = cr_spec reads
      in default_container\<lparr>
           c_name := cloner_name (cloner (containers (action cfg))),
           c_image := Some (unwrap_or (aj_cloner_image aj) (cloner_image (cloner (containers (action cfg))))),
           c_args := Some (job_cloner_args (cr_destination reads) ops self rq),
           c_volume_mounts := Some [\<lparr> vm_name = volume_name (workdir (action cfg)),
                                      vm_mount_path = job_workdir cfg aj \<rparr>] \<rparr>)"

definition worker_container ::
    "config_reads \<Rightarrow> ('a, 'y) action_ops_scheme \<Rightarrow> 'a \<Rightarrow> action_request \<Rightarrow> container" where
  "worker_container reads ops self rq =
     (let aj = action_job_spec ops self;
          cfg = cr_spec reads
      in default_container\<lparr>
           c_name := worker_name (worker (containers (action cfg))),
           c_image := Some (unwrap_or (aj_action_image aj) (worker_image (worker (containers (action cfg))))),
           c_working_dir := Some (job_workdir cfg aj),
           c_command := aj_command aj,
           c_args := aj_args aj,
           c_env := Some (get_action_job_envs reads ops self rq),
           c_volume_mounts := Some [\<lparr> vm_name = volume_name (workdir (action cfg)),
                                      vm_mount_path = job_workdir cfg aj \<rparr>] \<rparr>)"

definition job_pod_spec ::
    "config_reads \<Rightarrow> ('a, 'y) action_ops_scheme \<Rightarrow> 'a \<Rightarrow> action_request \<Rightarrow> pod_spec" where
  "job_pod_spec reads ops self rq =
     (let aj = action_job_spec ops self;
          cfg = cr_spec reads
      in \<lparr> ps_service_account_name =
             (case aj_service_account aj of Some sa \<Rightarrow> Some sa
              | None \<Rightarrow> default_service_account (action (cr_service_account reads))),
           ps_node_selector = aj_node_selector aj,
           ps_affinity = aj_affinity aj,
           ps_tolerations = aj_tolerations aj,
           ps_init_containers = Some [cloner_container reads ops self rq],
           ps_containers = [worker_container reads ops self rq],
           ps_restart_policy = Some ''Never'',
           ps_volumes = Some [\<lparr> v_name = volume_name (workdir (action cfg)), v_empty_dir = True \<rparr>] \<rparr>)"

definition job_spec_for ::
    "config_reads \<Rightarrow> ('a, 'y) action_ops_scheme \<Rightarrow> 'a \<Rightarrow> action_request \<Rightarrow> job_spec" where
  "job_spec_for reads ops self rq =
     (let aj = action_job_spec ops self
      in \<lparr> js_backoff_limit = Some 0,
           js_parallelism = Some 1,
           js_ttl_seconds_after_finished =
             Some (unwrap_or (aj_ttl_seconds_after_finished aj)
                      (ttl_seconds_after_finished (action (cr_ttl reads)))),
           js_active_deadline_seconds =
             Some (unwrap_or (aj_active_deadline_seconds aj)
                      (active_deadline_seconds (action (cr_deadline reads)))),
           js_template = \<lparr> pt_metadata = pod_template_metadata aj,
                           pt_spec = Some (job_pod_spec reads ops self rq) \<rparr> \<rparr>)"

definition create_job_spec ::
    "('w, 'z) clock_env_scheme \<Rightarrow> config_reads \<Rightarrow> ('a, 'y) action_ops_scheme \<Rightarrow> 'a \<Rightarrow>
     action_request \<Rightarrow> 'w \<Rightarrow> ((error + job) \<times> 'w) outcome" where
  "create_job_spec env reads ops self rq w =
     (case job_name env ops self w of (name, w1) \<Rightarrow>
        outcome_bind (get_owner_reference ops self) (\<lambda>owner.
          Returns (Inr
            \<lparr> job_meta = default_object_meta\<lparr>
                om_name := Some name,
                om_labels := Some (job_labels ops self rq),
                om_annotations := aj_annotations (action_job_spec ops self),
                om_owner_references := Some [owner] \<rparr>,
              job_spec_of = Some (job_spec_for reads ops self rq),
              job_status_of = None \<rparr>, w1)))"

section \<open>Execution\<close>

definition execute ::
    "('w, 'z) clock_env_scheme \<Rightarrow> config_reads \<Rightarrow> ('a, 'y) action_ops_scheme \<Rightarrow> 'a \<Rightarrow>
     action_request \<Rightarrow> jobs_queue option \<times> 'w \<Rightarrow>
     ((error + unit) \<times> jobs_queue option \<times> 'w) outcome" where
  "execute env reads ops self rq qw =
     (case qw of (q, w) \<Rightarrow>
      outcome_bind (create_job_spec env reads ops self rq w) (\<lambda>(r, w1).
        (case r of
           Inl e \<Rightarrow> Returns (Inl e, q, w1)
         | Inr j \<Rightarrow>
             Returns (enqueue env j (rq_ns rq)
               (map_option from_secs (aj_job_waiting_timeout_seconds (action_job_spec ops self)))
               (q, w1)))))"

end
