(* ===== verification/Trigger.thy ===== *)
theory Trigger
  imports Git_Repo Action
begin

text \<open>
  Triggers (\<^verbatim>\<open>src/resources/trigger.rs\<close>): the status of a trigger and its updates, the task that
  checks the sources of a trigger and runs its action, the commit and the hash of files of a
  source. The API server, the file system, libgit2, the glob walker and SHA-256 are the
  environment; the caches are what the watchers have stored at the moment of a lookup.
\<close>

record 'w trigger_env = "'w git_env" +
  caches :: "'w \<Rightarrow> api_cache_store"
  action_owner_ref :: "action_res \<Rightarrow> owner_reference option"
  cluster_action_owner_ref :: "cluster_action \<Rightarrow> owner_reference option"
  patch_status :: "string \<Rightarrow> string \<Rightarrow> string \<Rightarrow> trigger_status \<Rightarrow> 'w \<Rightarrow> (kube_error + unit) \<times> 'w"
  to_rfc3339 :: "system_time \<Rightarrow> string"
  set_order :: "string list \<Rightarrow> string list"
  remove_dir_all :: "string \<Rightarrow> 'w \<Rightarrow> (string + unit) \<times> 'w"
  create_dir_all :: "string \<Rightarrow> 'w \<Rightarrow> (string + unit) \<times> 'w"
  resolve_short_name :: "repository \<Rightarrow> string \<Rightarrow> 'w \<Rightarrow> (string + string option) \<times> 'w"
  oid_from_str :: "string \<Rightarrow> string + string"
  find_object :: "repository \<Rightarrow> string \<Rightarrow> 'w \<Rightarrow> (string + unit) \<times> 'w"
  checkout_tree :: "repository \<Rightarrow> string \<Rightarrow> 'w \<Rightarrow> (string + unit) \<times> 'w"
  glob_walk :: "string \<Rightarrow> string list \<Rightarrow> 'w \<Rightarrow> (string + (string + string) list) \<times> 'w"
  read_file :: "string \<Rightarrow> 'w \<Rightarrow> (string + string) \<times> 'w"
  sha256 :: "string \<Rightarrow> string"
  hex_encode :: "string \<Rightarrow> string"

section \<open>Status\<close>

definition NEVER_LAST_RUN_STR :: string where
  "NEVER_LAST_RUN_STR = ''Never''"

definition trigger_hash_key :: "('t, 'y) trigger_ops_scheme \<Rightarrow> 't \<Rightarrow> string outcome" where
  "trigger_hash_key ops self =
     outcome_bind (expect ''unable to get resource namespace, looks like a BUG!''
         (om_namespace (t_meta ops self)))
       (\<lambda>ns. Returns (ns @ ''/'' @ name_any (t_meta ops self)))"

text \<open>The status that \<^verbatim>\<open>update_trigger_status\<close> computes from the cached one.\<close>

definition new_trigger_status ::
    "(system_time \<Rightarrow> string) \<Rightarrow> trigger_status option \<Rightarrow> string list \<Rightarrow> trigger_state option \<Rightarrow>
     (string \<rightharpoonup> checked_source_state) option \<Rightarrow> system_time option \<Rightarrow> trigger_status" where
  "new_trigger_status rfc3339 old names st checked lr =
     (case old of
        Some status \<Rightarrow>
          \<lparr> state = unwrap_or st (state status),
            last_run = (case lr of Some t \<Rightarrow> Some (rfc3339 t) | None \<Rightarrow> last_run status),
            checked_sources = filter_keys (\<lambda>k. k \<in> set names)
              (checked_sources status ++ unwrap_or checked Map.empty) \<rparr>
      | None \<Rightarrow>
          \<lparr> state = unwrap_or st Idle,
            last_run = (case lr of Some t \<Rightarrow> Some (rfc3339 t) | None \<Rightarrow> Some NEVER_LAST_RUN_STR),
            checked_sources = unwrap_or checked Map.empty \<rparr>)"

definition update_trigger_status ::
    "('w, 'z) trigger_env_scheme \<Rightarrow> ('t, 'y) trigger_ops_scheme \<Rightarrow> ('t, 'x) api_cache_ops_scheme \<Rightarrow>
     't \<Rightarrow> trigger_state option \<Rightarrow> (string \<rightharpoonup> checked_source_state) option \<Rightarrow> system_time option \<Rightarrow>
     'w \<Rightarrow> ((error + unit) \<times> 'w) outcome" where
  "update_trigger_status env ops cops self st checked lr w =
     (let name = name_any (t_meta ops self) in
      outcome_bind (unwrap (om_namespace (t_meta ops self))) (\<lambda>ns.
      outcome_bind (api_cache_get cops name (Some ns) (caches env w)) (\<lambda>r.
        (case r of
           Inl e \<Rightarrow> Returns (Inl e, w)
         | Inr trg \<Rightarrow>
             (case patch_status env (t_kind ops) ns name
                     (new_trigger_status (to_rfc3339 env) (t_status ops trg)
                        (source_names (t_sources ops trg)) st checked lr) w of
                (Inl e, w1) \<Rightarrow> Returns (Inl (KubeError e), w1)
              | (Inr _, w1) \<Rightarrow> Returns (Inr (), w1))))))"

section \<open>The content of a source\<close>

definition resolve_target ::
    "('w, 'z) trigger_env_scheme \<Rightarrow> repository \<Rightarrow> string \<Rightarrow> 'w \<Rightarrow> ((error + string) \<times> 'w) outcome" where
  "resolve_target env repo short_name w =
     (case resolve_short_name env repo short_name w of
        (Inl e, w1) \<Rightarrow> Returns (Inl (GitrepoAccessError e), w1)
      | (Inr target, w1) \<Rightarrow> outcome_bind (unwrap target) (\<lambda>oid. Returns (Inr oid, w1)))"

definition get_latest_commit ::
    "('w, 'z) trigger_env_scheme \<Rightarrow> repository \<Rightarrow> trigger_git_repo_reference \<Rightarrow> 'w \<Rightarrow>
     ((error + string) \<times> 'w) outcome" where
  "get_latest_commit env repo reference w =
     outcome_bind
       (case reference of
          Branch r \<Rightarrow> resolve_target env repo (''origin/'' @ r) w
        | Tag r \<Rightarrow> resolve_target env repo r w
        | Commit r \<Rightarrow> Returns (case oid_from_str env r of
                                Inl e \<Rightarrow> Inl (GitrepoAccessError e) | Inr oid \<Rightarrow> Inr oid, w))
       (\<lambda>(r, w1).
          (case r of
             Inl e \<Rightarrow> Returns (Inl e, w1)
           | Inr oid \<Rightarrow>
               (case find_object env repo oid w1 of
                  (Inl e, w2) \<Rightarrow> Returns (Inl (GitrepoAccessError e), w2)
                | (Inr _, w2) \<Rightarrow>
                    (case checkout_tree env repo oid w2 of
                       (Inl e, w3) \<Rightarrow> Returns (Inl (GitrepoAccessError e), w3)
                     | (Inr _, w3) \<Rightarrow> Returns (Inr oid, w3)))))"

definition calc_buffer_hash :: "('w, 'z) trigger_env_scheme \<Rightarrow> string \<Rightarrow> string" where
  "calc_buffer_hash env buf = sha256 env buf"

definition calc_file_hash ::
    "('w, 'z) trigger_env_scheme \<Rightarrow> string \<Rightarrow> 'w \<Rightarrow> (error + string) \<times> 'w" where
  "calc_file_hash env path w =
     (case read_file env path w of
        (Inl e, w1) \<Rightarrow> (Inl (TriggerFileAccessError e), w1)
      | (Inr buf, w1) \<Rightarrow> (Inr (calc_buffer_hash env buf), w1))"

text \<open>The loop over the files found; \<open>acc\<close> is what was fed to the hasher so far.\<close>

fun hash_files ::
    "('w, 'z) trigger_env_scheme \<Rightarrow> (string + string) list \<Rightarrow> string \<Rightarrow> 'w \<Rightarrow> (error + string) \<times> 'w" where
  "hash_files env [] acc w = (Inr (sha256 env acc), w)"
| "hash_files env (Inl e # fs) acc w = (Inl (TriggerDirWalkError e), w)"
| "hash_files env (Inr path # fs) acc w =
     (case calc_file_hash env path w of
        (Inl e, w1) \<Rightarrow> (Inl e, w1)
      | (Inr h, w1) \<Rightarrow> hash_files env fs (acc @ h) w1)"

definition get_file_glob_hash ::
    "('w, 'z) trigger_env_scheme \<Rightarrow> string \<Rightarrow> string list \<Rightarrow> 'w \<Rightarrow> (error + string) \<times> 'w" where
  "get_file_glob_hash env folder glob w =
     (case glob_walk env folder glob w of
        (Inl e, w1) \<Rightarrow> (Inl (TriggerFilePatternError e), w1)
      | (Inr files, w1) \<Rightarrow> hash_files env files [] w1)"

section \<open>The task of a trigger\<close>

text \<open>The schedules of the scheduler crate that the sources use.\<close>

datatype task_schedule =
    TaskOnce
  | TaskInterval duration
  | TaskIntervalDelayed duration duration
  | TaskCron string bool bool

text \<open>A task: its schedule and the values moved into its closure, which \<open>run_trigger_task\<close> runs.\<close>

record trigger_task =
  tt_schedule :: task_schedule
  tt_name :: string
  tt_ns :: string
  tt_sources :: trigger_task_sources
  tt_folder :: string

definition create_trigger_task ::
    "('t, 'y) trigger_ops_scheme \<Rightarrow> 't \<Rightarrow> task_schedule \<Rightarrow> trigger_task_sources \<Rightarrow> string \<Rightarrow>
     trigger_task outcome" where
  "create_trigger_task ops self schedule sources folder =
     outcome_bind (expect ''unable to get resource namespace, looks like a BUG!''
         (om_namespace (t_meta ops self)))
       (\<lambda>ns. Returns \<lparr> tt_schedule = schedule, tt_name = name_any (t_meta ops self), tt_ns = ns,
                       tt_sources = sources, tt_folder = folder \<rparr>)"

text \<open>Getting the repository of a source from the cache and fetching the watched reference.\<close>

definition fetch_source ::
    "('w, 'z) trigger_env_scheme \<Rightarrow> trigger_sources \<Rightarrow> string \<Rightarrow> string \<Rightarrow> string \<Rightarrow> 'w \<Rightarrow>
     ((error + repository) \<times> 'w) outcome" where
  "fetch_source env srcs ns source repo_path w =
     (case sources_kind srcs of
        GitRepo \<Rightarrow>
          outcome_bind (api_cache_get git_repo_cache source (Some ns) (caches env w)) (\<lambda>r.
            (case r of
               Inl e \<Rightarrow> Returns (Inl e, w)
             | Inr gitrepo \<Rightarrow>
                 fetch_repo_ref env git_repo_internals gitrepo (reference_name (watch_on srcs))
                   repo_path ns w))
      | ClusterGitRepo \<Rightarrow>
          outcome_bind (api_cache_get cluster_git_repo_cache source None (caches env w)) (\<lambda>r.
            (case r of
               Inl e \<Rightarrow> Returns (Inl e, w)
             | Inr gitrepo \<Rightarrow>
                 fetch_repo_ref env cluster_git_repo_internals gitrepo (reference_name (watch_on srcs))
                   repo_path ns w)))"

text \<open>The new state of a source: its latest commit and, when files are watched, their hash. A
  failure to hash leaves the hash empty; every other failure skips the source.\<close>

definition source_state ::
    "('w, 'z) trigger_env_scheme \<Rightarrow> trigger_sources \<Rightarrow> string \<Rightarrow> string \<Rightarrow> string \<Rightarrow> 'w \<Rightarrow>
     ((error + checked_source_state) \<times> 'w) outcome" where
  "source_state env srcs ns source repo_path w =
     outcome_bind (fetch_source env srcs ns source repo_path w) (\<lambda>(r, w1).
       (case r of
          Inl e \<Rightarrow> Returns (Inl e, w1)
        | Inr repo \<Rightarrow>
            outcome_bind (get_latest_commit env repo (watch_reference (watch_on srcs)) w1) (\<lambda>(r2, w2).
              (case r2 of
                 Inl e \<Rightarrow> Returns (Inl e, w2)
               | Inr commit \<Rightarrow>
                   (let st = default_checked_source_state\<lparr> commit_hash := Some commit \<rparr> in
                    case watch_files (watch_on srcs) of
                      None \<Rightarrow> Returns (Inr st, w2)
                    | Some files \<Rightarrow>
                        (case get_file_glob_hash env repo_path files w2 of
                           (Inl e, w3) \<Rightarrow> Returns (Inr st, w3)
                         | (Inr h, w3) \<Rightarrow> Returns (Inr (st\<lparr> file_hash := Some (hex_encode env h) \<rparr>), w3)))))))"

text \<open>Getting the action of the trigger from the cache and executing it.\<close>

definition run_action ::
    "('w, 'z) trigger_env_scheme \<Rightarrow> config_reads \<Rightarrow> trigger_action \<Rightarrow> action_request \<Rightarrow>
     jobs_queue option \<times> 'w \<Rightarrow> ((error + unit) \<times> jobs_queue option \<times> 'w) outcome" where
  "run_action env reads ta rq qw =
     (case qw of (q, w) \<Rightarrow>
      (case ta_kind ta of
         ActionKind \<Rightarrow>
           outcome_bind (api_cache_get action_cache (ta_name ta) (Some (rq_ns rq)) (caches env w)) (\<lambda>r.
             (case r of
                Inl e \<Rightarrow> Returns (Inl e, q, w)
              | Inr a \<Rightarrow> execute env reads (action_internals (action_owner_ref env)) a rq (q, w)))
       | ClusterActionKind \<Rightarrow>
           outcome_bind (api_cache_get cluster_action_cache (ta_name ta) None (caches env w)) (\<lambda>r.
             (case r of
                Inl e \<Rightarrow> Returns (Inl e, q, w)
              | Inr a \<Rightarrow>
                  execute env reads (cluster_action_internals (cluster_action_owner_ref env)) a rq (q, w)))))"

text \<open>A status update whose error is only logged.\<close>

definition try_update_status ::
    "('w, 'z) trigger_env_scheme \<Rightarrow> ('t, 'y) trigger_ops_scheme \<Rightarrow> ('t, 'x) api_cache_ops_scheme \<Rightarrow>
     't \<Rightarrow> trigger_state option \<Rightarrow> (string \<rightharpoonup> checked_source_state) option \<Rightarrow> system_time option \<Rightarrow>
     'w \<Rightarrow> 'w outcome" where
  "try_update_status env ops cops self st checked lr w =
     outcome_bind (update_trigger_status env ops cops self st checked lr w) (\<lambda>(r, w1). Returns w1)"

definition source_request ::
    "('t, 'y) trigger_ops_scheme \<Rightarrow> trigger_sources \<Rightarrow> trigger_task \<Rightarrow> string \<Rightarrow> string \<Rightarrow> action_request" where
  "source_request ops srcs task source commit =
     \<lparr> rq_source_kind = sources_kind srcs, rq_source_name = source, rq_source_commit = commit,
       rq_trigger_ref = watch_reference (watch_on srcs), rq_ns = tt_ns task,
       rq_trigger_kind = t_kind ops, rq_trigger_name = tt_name task \<rparr>"

text \<open>A changed source, or any source when the trigger does not watch for changes only: run the
  action, then record the source as checked.\<close>

definition source_fired ::
    "('w, 'z) trigger_env_scheme \<Rightarrow> config_reads \<Rightarrow> ('t, 'y) trigger_ops_scheme \<Rightarrow>
     ('t, 'x) api_cache_ops_scheme \<Rightarrow> trigger_task \<Rightarrow> 't \<Rightarrow> string \<Rightarrow> checked_source_state \<Rightarrow>
     jobs_queue option \<times> 'w \<Rightarrow> (jobs_queue option \<times> 'w) outcome" where
  "source_fired env reads ops cops task trg source st qw =
     outcome_bind (unwrap (commit_hash st)) (\<lambda>commit.
     outcome_bind (run_action env reads (t_action ops trg)
         (source_request ops (t_sources ops trg) task source commit) qw) (\<lambda>(r, q1, w1).
       (case r of
          Inl e \<Rightarrow> Returns (q1, w1)
        | Inr _ \<Rightarrow>
            (case now env w1 of (t, w2) \<Rightarrow>
            (case now env w2 of (t', w3) \<Rightarrow>
               outcome_bind
                 (try_update_status env ops cops trg (Some Running)
                    (Some [source \<mapsto> st\<lparr> changed := Some (to_rfc3339 env t) \<rparr>]) (Some t') w3)
                 (\<lambda>w4. Returns (q1, w4)))))))"

text \<open>An unchanged source: keep the time of the last change.\<close>

definition source_unchanged ::
    "('w, 'z) trigger_env_scheme \<Rightarrow> ('t, 'y) trigger_ops_scheme \<Rightarrow> ('t, 'x) api_cache_ops_scheme \<Rightarrow>
     't \<Rightarrow> string \<Rightarrow> checked_source_state \<Rightarrow> checked_source_state option \<Rightarrow> 'w \<Rightarrow> 'w outcome" where
  "source_unchanged env ops cops trg source st old w =
     (let st' = (case old of Some o' \<Rightarrow> st\<lparr> changed := changed o' \<rparr> | None \<Rightarrow> st)
      in try_update_status env ops cops trg None (Some [source \<mapsto> st']) None w)"

definition check_source ::
    "('w, 'z) trigger_env_scheme \<Rightarrow> config_reads \<Rightarrow> ('t, 'y) trigger_ops_scheme \<Rightarrow>
     ('t, 'x) api_cache_ops_scheme \<Rightarrow> trigger_task \<Rightarrow> 't \<Rightarrow> (string \<rightharpoonup> checked_source_state) \<Rightarrow>
     string \<Rightarrow> checked_source_state \<Rightarrow> jobs_queue option \<times> 'w \<Rightarrow> (jobs_queue option \<times> 'w) outcome" where
  "check_source env reads ops cops task trg checked source st qw =
     (case qw of (q, w) \<Rightarrow>
      let watch = watch_on (t_sources ops trg) in
      if \<not> is_equal st (checked source) (watch_files watch \<noteq> None) \<or> \<not> on_change_only watch
      then source_fired env reads ops cops task trg source st (q, w)
      else outcome_bind (source_unchanged env ops cops trg source st (checked source) w)
             (\<lambda>w1. Returns (q, w1)))"

definition process_source ::
    "('w, 'z) trigger_env_scheme \<Rightarrow> config_reads \<Rightarrow> ('t, 'y) trigger_ops_scheme \<Rightarrow>
     ('t, 'x) api_cache_ops_scheme \<Rightarrow> trigger_task \<Rightarrow> 't \<Rightarrow> string \<Rightarrow>
     (string \<rightharpoonup> checked_source_state) \<Rightarrow> string \<Rightarrow>
     jobs_queue option \<times> 'w \<Rightarrow> (jobs_queue option \<times> 'w) outcome" where
  "process_source env reads ops cops task trg base_temp_dir checked source qw =
     (case qw of (q, w) \<Rightarrow>
      let repo_path = base_temp_dir @ ''/'' @ source in
      case create_dir_all env repo_path (snd (remove_dir_all env repo_path w)) of
        (Inl e, w1) \<Rightarrow> Returns (q, w1)
      | (Inr _, w1) \<Rightarrow>
          outcome_bind (source_state env (t_sources ops trg) (tt_ns task) source repo_path w1) (\<lambda>(r, w2).
            (case r of
               Inl e \<Rightarrow> Returns (q, w2)
             | Inr st \<Rightarrow>
                 outcome_bind (check_source env reads ops cops task trg checked source st (q, w2))
                   (\<lambda>(q3, w3). Returns (q3, snd (remove_dir_all env repo_path w3))))))"

text \<open>Every source that fires reads the configuration for itself.\<close>

fun process_sources ::
    "('w, 'z) trigger_env_scheme \<Rightarrow> (string \<Rightarrow> config_reads) \<Rightarrow> ('t, 'y) trigger_ops_scheme \<Rightarrow>
     ('t, 'x) api_cache_ops_scheme \<Rightarrow> trigger_task \<Rightarrow> 't \<Rightarrow> string \<Rightarrow>
     (string \<rightharpoonup> checked_source_state) \<Rightarrow> string list \<Rightarrow>
     jobs_queue option \<times> 'w \<Rightarrow> (jobs_queue option \<times> 'w) outcome" where
  "process_sources env reads ops cops task trg base checked [] qw = Returns qw"
| "process_sources env reads ops cops task trg base checked (s # ss) qw =
     outcome_bind (process_source env (reads s) ops cops task trg base checked s qw)
       (\<lambda>qw'. process_sources env reads ops cops task trg base checked ss qw')"

text \<open>The set of sources to check, in the unspecified order of a \<^verbatim>\<open>HashSet\<close>.\<close>

definition sources_to_check :: "('w, 'z) trigger_env_scheme \<Rightarrow> trigger_task_sources \<Rightarrow> string list \<Rightarrow> string list" where
  "sources_to_check env ts names =
     (case ts of AllSources \<Rightarrow> set_order env (remdups names) | SingleSource s \<Rightarrow> [s])"

definition known_checked_sources :: "('t, 'y) trigger_ops_scheme \<Rightarrow> 't \<Rightarrow> string \<rightharpoonup> checked_source_state" where
  "known_checked_sources ops trg =
     filter_keys (\<lambda>k. k \<in> set (source_names (t_sources ops trg)))
       (checked_sources (unwrap_or (t_status ops trg) default_trigger_status))"

text \<open>The closure of the task up to its metrics.\<close>

definition run_trigger_task ::
    "('w, 'z) trigger_env_scheme \<Rightarrow> (string \<Rightarrow> config_reads) \<Rightarrow> ('t, 'y) trigger_ops_scheme \<Rightarrow>
     ('t, 'x) api_cache_ops_scheme \<Rightarrow> trigger_task \<Rightarrow>
     jobs_queue option \<times> 'w \<Rightarrow> (jobs_queue option \<times> 'w) outcome" where
  "run_trigger_task env reads ops cops task qw =
     (case qw of (q, w) \<Rightarrow>
      outcome_bind (api_cache_get cops (tt_name task) (Some (tt_ns task)) (caches env w)) (\<lambda>r.
        (case r of
           Inl e \<Rightarrow> Returns (q, w)
         | Inr trg \<Rightarrow>
             (case random_string env 8 w of (rnd, w1) \<Rightarrow>
              (let base = tt_folder task @ ''/'' @ tt_ns task @ ''/'' @ tt_name task @ ''/'' @ rnd in
               outcome_bind (try_update_status env ops cops trg (Some Running) None None w1) (\<lambda>w2.
               outcome_bind
                 (process_sources env reads ops cops task trg base (known_checked_sources ops trg)
                    (sources_to_check env (tt_sources task) (source_names (t_sources ops trg))) (q, w2))
                 (\<lambda>(q3, w3).
                   (case now env w3 of (t, w4) \<Rightarrow>
                      outcome_bind (try_update_status env ops cops trg (Some Idle) None (Some t) w4)
                        (\<lambda>w5. Returns (q3, w5))))))))))"

text \<open>The metrics of the checks: namespace, kind and name of the trigger of every run, in order.\<close>

record trigger_metrics =
  trigger_check_count :: "(string \<times> string \<times> string) list"

definition count_check :: "string \<Rightarrow> string \<Rightarrow> string \<Rightarrow> trigger_metrics \<Rightarrow> trigger_metrics" where
  "count_check ns kind name m = m\<lparr> trigger_check_count := trigger_check_count m @ [(ns, kind, name)] \<rparr>"

text \<open>The whole closure: a run is counted whether or not the trigger was found.\<close>

definition run_counted_task ::
    "('w, 'z) trigger_env_scheme \<Rightarrow> (string \<Rightarrow> config_reads) \<Rightarrow> ('t, 'y) trigger_ops_scheme \<Rightarrow>
     ('t, 'x) api_cache_ops_scheme \<Rightarrow> trigger_task \<Rightarrow>
     trigger_metrics \<times> jobs_queue option \<times> 'w \<Rightarrow> (trigger_metrics \<times> jobs_queue option \<times> 'w) outcome" where
  "run_counted_task env reads ops cops task mqw =
     (case mqw of (m, qw) \<Rightarrow>
      outcome_bind (run_trigger_task env reads ops cops task qw) (\<lambda>qw'.
        Returns (count_check (tt_ns task) (t_kind ops) (tt_name task) m, qw')))"

end
