(* ===== verification/Schedule.thy ===== *)
theory Schedule
  imports Trigger
begin

text \<open>
  Reconciliation of schedule triggers (\<^verbatim>\<open>src/resources/trigger.rs\<close>): the maps of running tasks
  and of the schedules they were created from, and how a changed, new or deleted trigger updates
  them. The task scheduler (the \<^verbatim>\<open>sacs\<close> crate), the parsers of intervals, cron expressions and
  time stamps and the event recorder are the environment.
\<close>

type_synonym task_id = string

datatype cancel_opts = CancelIgnore | CancelKill

datatype reconcile_action = AwaitChange | Requeue duration

text \<open>The state shared by the reconciler's calls (\<^verbatim>\<open>controller::State\<close>, field \<^verbatim>\<open>triggers\<close>).\<close>

record triggers_state =
  tasks :: "string \<rightharpoonup> task_id"
  schedules :: "string \<rightharpoonup> trigger_schedule"

definition empty_triggers_state :: triggers_state where
  "empty_triggers_state = \<lparr> tasks = Map.empty, schedules = Map.empty \<rparr>"

record 'w schedule_env = "'w trigger_env" +
  parse_duration :: "string \<Rightarrow> duration option"
  cron_ok :: "string \<Rightarrow> bool"
  parse_rfc3339 :: "string \<Rightarrow> system_time option"
  scheduler_add :: "trigger_task \<Rightarrow> 'w \<Rightarrow> (string + task_id) \<times> 'w"
  scheduler_cancel :: "task_id \<Rightarrow> cancel_opts \<Rightarrow> 'w \<Rightarrow> (string + unit) \<times> 'w"
  publish_event :: "object_meta \<Rightarrow> string \<Rightarrow> string \<Rightarrow> 'w \<Rightarrow> (kube_error + unit) \<times> 'w"

section \<open>The schedule of a task\<close>

definition get_task_schedule ::
    "('w, 'z) schedule_env_scheme \<Rightarrow> trigger_schedule \<Rightarrow> system_time option \<Rightarrow> 'w \<Rightarrow>
     ((unit + task_schedule) \<times> 'w) outcome" where
  "get_task_schedule env sched lr w =
     (if is_valid_schedule (parse_duration env) (cron_ok env) sched then
        (case sched of
           Interval s \<Rightarrow>
             (case parse_duration env s of
                None \<Rightarrow> Returns (Inl (), w)
              | Some interval \<Rightarrow>
                  (case lr of
                     None \<Rightarrow> Returns (Inr (TaskInterval interval), w)
                   | Some t0 \<Rightarrow>
                       (case now env w of (t, w1) \<Rightarrow>
                          outcome_bind (expect ''wrong time of trigger last run, looks like a BUG''
                              (duration_since t t0)) (\<lambda>since.
                            Returns (Inr (TaskIntervalDelayed interval
                              (unwrap_or (checked_sub interval since) 0)), w1)))))
         | Cron s \<Rightarrow> Returns (Inr (TaskCron s (lr = None) False), w))
      else Returns (Inl (), w))"

text \<open>The time of the last run as \<^verbatim>\<open>reconcile\<close> reads it from the status.\<close>

definition reconcile_last_run ::
    "('w, 'z) schedule_env_scheme \<Rightarrow> trigger_status option \<Rightarrow> system_time option outcome" where
  "reconcile_last_run env st =
     (case st of
        None \<Rightarrow> Returns None
      | Some s \<Rightarrow>
          (case last_run s of
             None \<Rightarrow> Returns None
           | Some lr \<Rightarrow>
               if lr = NEVER_LAST_RUN_STR
               then outcome_bind (expect ''Incorrect time format in LastRun field, looks like a BUG.''
                        (parse_rfc3339 env lr)) (\<lambda>t. Returns (Some t))
               else Returns None))"

section \<open>Reconciling\<close>

definition cancel_existing ::
    "('w, 'z) schedule_env_scheme \<Rightarrow> cancel_opts \<Rightarrow> string \<Rightarrow> triggers_state \<times> 'w \<Rightarrow> triggers_state \<times> 'w" where
  "cancel_existing env copts key sw =
     (case sw of (s, w) \<Rightarrow>
      (case tasks s key of
         Some tid \<Rightarrow> (s\<lparr> tasks := (tasks s)(key := None) \<rparr>, snd (scheduler_cancel env tid copts w))
       | None \<Rightarrow> (s, w)))"

definition publish_trigger_validation_event ::
    "('w, 'z) schedule_env_scheme \<Rightarrow> schedule_trigger \<Rightarrow> string \<Rightarrow> string \<Rightarrow> 'w \<Rightarrow> (error + unit) \<times> 'w" where
  "publish_trigger_validation_event env self note act w =
     (case publish_event env (st_meta self) note act w of
        (Inl e, w1) \<Rightarrow> (Inl (KubeError e), w1)
      | (Inr _, w1) \<Rightarrow> (Inr (), w1))"

text \<open>Adding the new task, or reporting an invalid schedule.\<close>

definition schedule_task ::
    "('w, 'z) schedule_env_scheme \<Rightarrow> string \<Rightarrow> schedule_trigger \<Rightarrow> string \<Rightarrow> (unit + task_schedule) \<Rightarrow>
     triggers_state \<times> 'w \<Rightarrow> ((error + unit) \<times> triggers_state \<times> 'w) outcome" where
  "schedule_task env folder self key sched sw =
     (case sw of (s, w) \<Rightarrow>
      (case sched of
         Inr ts \<Rightarrow>
           outcome_bind (create_trigger_task schedule_trigger_ops self ts AllSources folder) (\<lambda>task.
             (case scheduler_add env task w of
                (Inl e, w1) \<Rightarrow> Returns (Inl (SchedulerError e), s, w1)
              | (Inr tid, w1) \<Rightarrow> Returns (Inr (), s\<lparr> tasks := (tasks s)(key \<mapsto> tid) \<rparr>, w1)))
       | Inl _ \<Rightarrow>
           (case publish_trigger_validation_event env self
                   ''Unable to parse schedule expression, scheduler is disabled''
                   ''ValidateTriggerConfig'' w of
              (r, w1) \<Rightarrow> Returns (r, s, w1))))"

definition reconcile_changed ::
    "('w, 'z) schedule_env_scheme \<Rightarrow> string \<Rightarrow> schedule_trigger \<Rightarrow> string \<Rightarrow> triggers_state \<times> 'w \<Rightarrow>
     ((error + reconcile_action) \<times> triggers_state \<times> 'w) outcome" where
  "reconcile_changed env folder self key sw =
     (case cancel_existing env CancelIgnore key sw of (s1, w1) \<Rightarrow>
      outcome_bind (reconcile_last_run env (st_status self)) (\<lambda>lr.
      outcome_bind (get_task_schedule env (st_schedule (st_spec self)) lr w1) (\<lambda>(sched, w2).
      outcome_bind (schedule_task env folder self key sched (s1, w2)) (\<lambda>(r, s3, w3).
        (case r of
           Inl e \<Rightarrow> Returns (Inl e, s3, w3)
         | Inr _ \<Rightarrow>
             outcome_bind (update_trigger_status env schedule_trigger_ops schedule_trigger_cache self
                 None None None w3) (\<lambda>(r4, w4).
               (case r4 of
                  Inl e \<Rightarrow> Returns (Inl e, s3, w4)
                | Inr _ \<Rightarrow>
                    Returns (Inr AwaitChange,
                      s3\<lparr> schedules := (schedules s3)(key \<mapsto> st_schedule (st_spec self)) \<rparr>, w4))))))))"

definition reconcile ::
    "('w, 'z) schedule_env_scheme \<Rightarrow> string \<Rightarrow> schedule_trigger \<Rightarrow> triggers_state \<times> 'w \<Rightarrow>
     ((error + reconcile_action) \<times> triggers_state \<times> 'w) outcome" where
  "reconcile env folder self sw =
     (case sw of (s, w) \<Rightarrow>
      outcome_bind (trigger_hash_key schedule_trigger_ops self) (\<lambda>key.
        if Some (st_schedule (st_spec self)) \<noteq> schedules s key
        then reconcile_changed env folder self key (s, w)
        else Returns (Inr AwaitChange, s, w)))"

definition cleanup ::
    "('w, 'z) schedule_env_scheme \<Rightarrow> schedule_trigger \<Rightarrow> triggers_state \<times> 'w \<Rightarrow>
     ((error + reconcile_action) \<times> triggers_state \<times> 'w) outcome" where
  "cleanup env self sw =
     (case sw of (s, w) \<Rightarrow>
      outcome_bind (trigger_hash_key schedule_trigger_ops self) (\<lambda>key.
        (case cancel_existing env CancelKill key
                (s\<lparr> schedules := (schedules s)(key := None) \<rparr>, w) of
           (s1, w1) \<Rightarrow> Returns (Inr AwaitChange, s1, w1))))"

definition finalizer_name :: "string option" where
  "finalizer_name = Some ''scheduletriggers.git-events-runner.rs''"

end
