(* ===== verification/Web.thy ===== *)
theory Web
  imports Schedule
begin

text \<open>
  The web servers (\<^verbatim>\<open>src/web.rs\<close>): the handlers of the two webhooks with their authorisation, the
  responses and status codes, readiness and metrics, and the loop that shuts the task scheduler of
  the webhooks down. Request headers are what \<^verbatim>\<open>HeaderMap::get\<close> answers; routing and the HTTP server
  itself are axum's. The rate limits are in \<^verbatim>\<open>Rate_Limit.thy\<close>.
\<close>

section \<open>Responses\<close>

datatype web_response_status = WebOk | WebErr

record web_response_json =
  wr_status :: web_response_status
  wr_message :: string
  wr_task_id :: "string option"

datatype web_error =
    ForbiddenMultiSource
  | TriggerNotFound
  | SourceNotFound
  | Unauthorized
  | Forbidden
  | AuthorizationError
  | WebKubeError string
  | WebSchedulerError string
  | UnknownError string

fun web_error_to_string :: "web_error \<Rightarrow> string" where
  "web_error_to_string ForbiddenMultiSource = ''multi-source hook isn't allowed''"
| "web_error_to_string TriggerNotFound = ''trigger doesn't exist''"
| "web_error_to_string SourceNotFound = ''source doesn't exist in the trigger''"
| "web_error_to_string Unauthorized = ''authorization is required''"
| "web_error_to_string Forbidden = ''forbidden''"
| "web_error_to_string AuthorizationError = ''unable to complete authorization''"
| "web_error_to_string (WebKubeError msg) = ''KubeError: '' @ msg"
| "web_error_to_string (WebSchedulerError msg) = ''TaskScheduler: '' @ msg"
| "web_error_to_string (UnknownError msg) = ''Unknown: '' @ msg"

fun web_error_status :: "web_error \<Rightarrow> nat" where
  "web_error_status ForbiddenMultiSource = 400"
| "web_error_status TriggerNotFound = 404"
| "web_error_status SourceNotFound = 404"
| "web_error_status Unauthorized = 401"
| "web_error_status Forbidden = 403"
| "web_error_status (WebKubeError msg) = 500"
| "web_error_status (WebSchedulerError msg) = 500"
| "web_error_status AuthorizationError = 500"
| "web_error_status (UnknownError msg) = 500"

definition response_of_error :: "web_error \<Rightarrow> nat \<times> web_response_json" where
  "response_of_error e =
     (web_error_status e, \<lparr> wr_status = WebErr, wr_message = web_error_to_string e, wr_task_id = None \<rparr>)"

definition response_of_json :: "web_response_json \<Rightarrow> nat \<times> web_response_json" where
  "response_of_json r = (202, r)"

definition into_response :: "web_error + web_response_json \<Rightarrow> nat \<times> web_response_json" where
  "into_response r = (case r of Inl e \<Rightarrow> response_of_error e | Inr j \<Rightarrow> response_of_json j)"

definition response_of_task_id :: "task_id \<Rightarrow> web_response_json" where
  "response_of_task_id tid =
     \<lparr> wr_status = WebOk, wr_message = ''job has been scheduled'', wr_task_id = Some tid \<rparr>"

definition response_of_string :: "string \<Rightarrow> web_response_json" where
  "response_of_string s = \<lparr> wr_status = WebOk, wr_message = s, wr_task_id = None \<rparr>"

definition web_error_of_kube :: "kube_error \<Rightarrow> web_error" where
  "web_error_of_kube e =
     (case e of
        Api code msg \<Rightarrow> if code = 404 then TriggerNotFound else WebKubeError msg
      | OtherKubeError msg \<Rightarrow> WebKubeError msg)"

definition web_error_of_scheduler :: "string \<Rightarrow> web_error" where
  "web_error_of_scheduler msg = WebSchedulerError msg"

definition web_error_of_error :: "(error finalizer_error \<Rightarrow> string) \<Rightarrow> error \<Rightarrow> web_error" where
  "web_error_of_error fe e =
     (case e of
        ResourceNotFoundError _ \<Rightarrow> TriggerNotFound
      | KubeError ke \<Rightarrow>
          (case ke of
             Api code msg \<Rightarrow> if code = 404 then TriggerNotFound else WebKubeError msg
           | OtherKubeError msg \<Rightarrow> WebKubeError msg)
      | _ \<Rightarrow> UnknownError (error_to_string fe e))"

section \<open>Authorisation\<close>

text \<open>The state of the web server in the process: the shared cache of secrets and the counted
  requests (namespace, trigger and status of each, in order).\<close>

record web_state =
  ws_secrets :: "secrets_cache option"
  ws_requests :: "(string \<times> string \<times> nat) list"

type_synonym headers = "string \<Rightarrow> string option"

definition check_hook_authorization ::
    "('w, 'z) secrets_env_scheme \<Rightarrow> runtime_config \<Rightarrow> headers \<Rightarrow> webhook_trigger_spec \<Rightarrow> string \<Rightarrow>
     web_state \<times> 'w \<Rightarrow> ((web_error + unit) \<times> web_state \<times> 'w) outcome" where
  "check_hook_authorization env cfg request_headers spec ns sw =
     (case sw of (s, w) \<Rightarrow>
      (case hook_auth_config (wt_webhook spec) of
         None \<Rightarrow> Returns (Inr (), s, w)
       | Some ac \<Rightarrow>
           (case request_headers (unwrap_or (hook_header ac) (default_auth_header (webhook (trigger cfg)))) of
              None \<Rightarrow> Returns (Inl Unauthorized, s, w)
            | Some header \<Rightarrow>
                outcome_bind (query_secrets_cache env ns (hook_secret_name ac) (hook_key ac) (ws_secrets s, w))
                  (\<lambda>(r, c, w1).
                     let s1 = s\<lparr> ws_secrets := c \<rparr> in
                     (case r of
                        Inl e \<Rightarrow> Returns (Inl AuthorizationError, s1, w1)
                      | Inr secret \<Rightarrow>
                          Returns (if secret = header then Inr () else Inl Forbidden, s1, w1))))))"

section \<open>The webhooks\<close>

definition count_request ::
    "string \<Rightarrow> string \<Rightarrow> web_error + web_response_json \<Rightarrow> web_state \<Rightarrow> web_state" where
  "count_request ns trigger_name result s =
     s\<lparr> ws_requests := ws_requests s @ [(ns, trigger_name, fst (into_response result))] \<rparr>"

text \<open>Adding the task of a trigger to the scheduler of the webhooks.\<close>

definition schedule_hook_task ::
    "('w, 'z) schedule_env_scheme \<Rightarrow> string \<Rightarrow> webhook_trigger \<Rightarrow> trigger_task_sources \<Rightarrow>
     web_state \<times> 'w \<Rightarrow> ((web_error + web_response_json) \<times> web_state \<times> 'w) outcome" where
  "schedule_hook_task env folder trg sources sw =
     (case sw of (s, w) \<Rightarrow>
      outcome_bind (create_trigger_task webhook_trigger_ops trg TaskOnce sources folder) (\<lambda>task.
        (case scheduler_add env task w of
           (Inl e, w1) \<Rightarrow> Returns (Inl (web_error_of_scheduler e), s, w1)
         | (Inr tid, w1) \<Rightarrow> Returns (Inr (response_of_task_id tid), s, w1))))"

text \<open>What both handlers do first: the trigger from the cache, its key, the authorisation.\<close>

definition authorised_trigger ::
    "('w, 'z) schedule_env_scheme \<Rightarrow> runtime_config \<Rightarrow> (error finalizer_error \<Rightarrow> string) \<Rightarrow> headers \<Rightarrow>
     string \<Rightarrow> string \<Rightarrow> web_state \<times> 'w \<Rightarrow> ((web_error + webhook_trigger) \<times> web_state \<times> 'w) outcome" where
  "authorised_trigger env cfg fe request_headers ns trigger_name sw =
     (case sw of (s, w) \<Rightarrow>
      outcome_bind (api_cache_get webhook_trigger_cache trigger_name (Some ns) (caches env w)) (\<lambda>r.
        (case r of
           Inl e \<Rightarrow> Returns (Inl (web_error_of_error fe e), s, w)
         | Inr trg \<Rightarrow>
             outcome_bind (trigger_hash_key webhook_trigger_ops trg) (\<lambda>_.
             outcome_bind (check_hook_authorization env cfg request_headers (wt_spec trg) ns (s, w))
               (\<lambda>(a, s1, w1). Returns (case a of Inl e \<Rightarrow> Inl e | Inr _ \<Rightarrow> Inr trg, s1, w1))))))"

definition trigger_webhook_result ::
    "('w, 'z) schedule_env_scheme \<Rightarrow> runtime_config \<Rightarrow> (error finalizer_error \<Rightarrow> string) \<Rightarrow> string \<Rightarrow>
     headers \<Rightarrow> string \<Rightarrow> string \<Rightarrow> web_state \<times> 'w \<Rightarrow>
     ((web_error + web_response_json) \<times> web_state \<times> 'w) outcome" where
  "trigger_webhook_result env cfg fe folder request_headers ns trigger_name sw =
     outcome_bind (authorised_trigger env cfg fe request_headers ns trigger_name sw) (\<lambda>(r, s1, w1).
       (case r of
          Inl e \<Rightarrow> Returns (Inl e, s1, w1)
        | Inr trg \<Rightarrow>
            if multi_source (wt_webhook (wt_spec trg))
            then schedule_hook_task env folder trg AllSources (s1, w1)
            else Returns (Inl ForbiddenMultiSource, s1, w1)))"

definition source_webhook_result ::
    "('w, 'z) schedule_env_scheme \<Rightarrow> runtime_config \<Rightarrow> (error finalizer_error \<Rightarrow> string) \<Rightarrow> string \<Rightarrow>
     headers \<Rightarrow> string \<Rightarrow> string \<Rightarrow> string \<Rightarrow> web_state \<times> 'w \<Rightarrow>
     ((web_error + web_response_json) \<times> web_state \<times> 'w) outcome" where
  "source_webhook_result env cfg fe folder request_headers ns trigger_name source sw =
     outcome_bind (authorised_trigger env cfg fe request_headers ns trigger_name sw) (\<lambda>(r, s1, w1).
       (case r of
          Inl e \<Rightarrow> Returns (Inl e, s1, w1)
        | Inr trg \<Rightarrow>
            if source \<in> set (source_names (wt_sources (wt_spec trg)))
            then schedule_hook_task env folder trg (SingleSource source) (s1, w1)
            else Returns (Inl SourceNotFound, s1, w1)))"

definition handle_post_trigger_webhook ::
    "('w, 'z) schedule_env_scheme \<Rightarrow> runtime_config \<Rightarrow> (error finalizer_error \<Rightarrow> string) \<Rightarrow> string \<Rightarrow>
     headers \<Rightarrow> string \<Rightarrow> string \<Rightarrow> web_state \<times> 'w \<Rightarrow>
     ((web_error + web_response_json) \<times> web_state \<times> 'w) outcome" where
  "handle_post_trigger_webhook env cfg fe folder request_headers ns trigger_name sw =
     outcome_bind (trigger_webhook_result env cfg fe folder request_headers ns trigger_name sw)
       (\<lambda>(r, s1, w1). Returns (r, count_request ns trigger_name r s1, w1))"

definition handle_post_source_webhook ::
    "('w, 'z) schedule_env_scheme \<Rightarrow> runtime_config \<Rightarrow> (error finalizer_error \<Rightarrow> string) \<Rightarrow> string \<Rightarrow>
     headers \<Rightarrow> string \<Rightarrow> string \<Rightarrow> string \<Rightarrow> web_state \<times> 'w \<Rightarrow>
     ((web_error + web_response_json) \<times> web_state \<times> 'w) outcome" where
  "handle_post_source_webhook env cfg fe folder request_headers ns trigger_name source sw =
     outcome_bind (source_webhook_result env cfg fe folder request_headers ns trigger_name source sw)
       (\<lambda>(r, s1, w1). Returns (r, count_request ns trigger_name r s1, w1))"

section \<open>Readiness, metrics and shutdown\<close>

definition handle_ready :: "bool \<Rightarrow> nat \<times> string" where
  "handle_ready ready = (if ready then (200, ''Ready'') else (500, ''Not ready''))"

text \<open>The text encoder of the metrics and its registry are Prometheus'; \<open>gathered\<close> is its output.\<close>

definition handle_metrics :: "string option \<Rightarrow> (nat \<times> string) outcome" where
  "handle_metrics gathered =
     outcome_bind (unwrap gathered) (\<lambda>buffer.
     outcome_bind (unwrap (from_utf8 buffer)) (\<lambda>output. Returns (200, output)))"

text \<open>
  The loop after the hooks server has stopped: it polls the number of references to the scheduler
  and shuts it down as soon as it holds the only one. The result says whether it did; \<open>n\<close> is the
  number of polls left.
\<close>

record 'w shutdown_env =
  strong_count :: "'w \<Rightarrow> nat \<times> 'w"
  into_inner :: "'w \<Rightarrow> bool \<times> 'w"
  scheduler_shutdown :: "'w \<Rightarrow> 'w"
  sleep_ms :: "nat \<Rightarrow> 'w \<Rightarrow> 'w"

fun shutdown_loop :: "('w, 'z) shutdown_env_scheme \<Rightarrow> nat \<Rightarrow> 'w \<Rightarrow> (bool \<times> 'w) outcome" where
  "shutdown_loop env 0 w = Returns (False, w)"
| "shutdown_loop env (Suc n) w =
     (case strong_count env w of (refs, w1) \<Rightarrow>
        if refs \<le> 1 then
          (case into_inner env w1 of (ok, w2) \<Rightarrow>
             if ok then Returns (True, scheduler_shutdown env w2)
             else Panics ''more than one copies of scheduler is present, looks like a BUG!'')
        else shutdown_loop env n (sleep_ms env 100 w1))"

definition hooks_web_shutdown :: "('w, 'z) shutdown_env_scheme \<Rightarrow> 'w \<Rightarrow> (bool \<times> 'w) outcome" where
  "hooks_web_shutdown env w = shutdown_loop env 10 w"

end
