(* ===== verification/Jobs_Correct.thy ===== *)
theory Jobs_Correct
  imports Jobs
begin

text \<open>
  Correctness of the jobs queue of \<open>Jobs\<close>: what \<^verbatim>\<open>run_queue\<close> does with the waiting items and
  when it cannot panic, what \<^verbatim>\<open>enqueue\<close> stores, when the counter of running jobs equals the
  number of unfinished jobs the watcher knows, and the invariant of all reachable queues.
\<close>

section \<open>Frame lemmas\<close>

named_theorems queue_frame \<open>what an operation leaves unchanged of the queue\<close>

lemma update_gauges_frame [queue_frame]:
  "update_gauges cfg n q = Returns q' \<Longrightarrow> \<exists>m. q' = q\<lparr> metrics := m \<rparr>"
  by (auto simp: update_gauges_def)

lemma count_and_measure_completed_frame [queue_frame]:
  "count_and_measure_completed env j s (q, w) = Returns (q', w') \<Longrightarrow> \<exists>m. q' = q\<lparr> metrics := m \<rparr>"
  by (auto simp: count_and_measure_completed_def Let_def split: if_splits option.splits prod.splits)

lemma count_and_measure_completed_counts:
  "count_and_measure_completed env j s (q, w) = Returns (q', w') \<Longrightarrow>
   \<exists>ls. completed_labels j s = Returns ls \<and>
        m_completed_count (metrics q') = m_completed_count (metrics q) @ [ls]"
  by (cases "completed_labels j s") (auto simp: count_and_measure_completed_def Let_def split: if_splits option.splits prod.splits)

lemma is_expired_Returns:
  "is_expired env cfg item w = Returns (b, w') \<longleftrightarrow>
   w' = snd (now env w) \<and>
   (\<exists>d. checked_add (enqueued_at item)
          (unwrap_or (expire_after item) (from_secs (job_waiting_timeout_seconds (action cfg)))) = Some d
        \<and> b = (d < fst (now env w)))"
  by (auto simp: is_expired_def Let_def split: prod.splits)

text \<open>When an item counts as expired at the time \<open>t\<close>.\<close>

definition past_deadline :: "runtime_config \<Rightarrow> jobs_queue_item \<Rightarrow> system_time \<Rightarrow> bool" where
  "past_deadline cfg item t \<longleftrightarrow>
     enqueued_at item + int (unwrap_or (expire_after item)
       (from_secs (job_waiting_timeout_seconds (action cfg)))) < t"

text \<open>Why an item has its place in the trace: the clock reading that decided whether it is expired,
  and the answer of the API server.\<close>

fun trace_justified :: "('w, 'z) jobs_env_scheme \<Rightarrow> runtime_config \<Rightarrow> queue_trace \<Rightarrow> bool" where
  "trace_justified env cfg (JobCreated i) =
     ((\<exists>w. \<not> past_deadline cfg i (fst (now env w))) \<and>
      (\<exists>ns w. om_namespace (job_meta (item_job i)) = Some ns \<and>
              fst (create_job env ns (item_job i) w) = Inr ()))"
| "trace_justified env cfg (JobCreateError i) =
     ((\<exists>w. \<not> past_deadline cfg i (fst (now env w))) \<and>
      (\<exists>ns w e. om_namespace (job_meta (item_job i)) = Some ns \<and>
                fst (create_job env ns (item_job i) w) = Inl e))"
| "trace_justified env cfg (JobExpired i) = (\<exists>w. past_deadline cfg i (fst (now env w)))"

lemma run_queue_create_Returns:
  assumes "run_queue_create env ns item (q, w) = Returns (c, q', w')"
  shows "\<exists>m tr. q' = q\<lparr> metrics := m, trace := trace q @ [tr] \<rparr> \<and>
                ((c \<and> tr = JobCreated item \<and> (\<exists>w. fst (create_job env ns (item_job item) w) = Inr ())) \<or>
                 (\<not> c \<and> tr = JobCreateError item \<and>
                  (\<exists>w e. fst (create_job env ns (item_job item) w) = Inl e)))"
proof -
  obtain t w1 where n: "now env w = (t, w1)" by force
  obtain r w2 where cr: "create_job env ns (item_job item) w1 = (r, w2)" by force
  from assms n obtain d where d: "duration_since t (enqueued_at item) = Some d"
    by (auto simp: run_queue_create_def)
  let ?q1 = "measure_waiting_duration d q"
  show ?thesis
  proof (cases r)
    case (Inr u)
    with assms n cr d have "q' = ?q1\<lparr> trace := trace q @ [JobCreated item] \<rparr>" and c
      by (simp_all add: run_queue_create_def)
    moreover have "\<exists>w. fst (create_job env ns (item_job item) w) = Inr ()"
      using cr Inr by (metis fst_conv old.unit.exhaust)
    ultimately show ?thesis
      by (intro exI [of _ "metrics ?q1"] exI [of _ "JobCreated item"])
        (simp add: measure_waiting_duration_def)
  next
    case (Inl e)
    with assms n cr d have \<open>\<not> c\<close> and
      "count_and_measure_completed env (item_job item) CreateError
         (?q1\<lparr> trace := trace q @ [JobCreateError item] \<rparr>, w2) = Returns (q', w')"
      by (auto simp: run_queue_create_def)
    moreover from count_and_measure_completed_frame [OF this(2)] obtain m where
      "q' = (?q1\<lparr> trace := trace q @ [JobCreateError item] \<rparr>)\<lparr> metrics := m \<rparr>" by auto
    moreover have "\<exists>w e. fst (create_job env ns (item_job item) w) = Inl e"
      using cr Inl by (metis fst_conv)
    ultimately show ?thesis
      by (intro exI [of _ m] exI [of _ "JobCreateError item"])
        (simp add: measure_waiting_duration_def)
  qed
qed

lemma run_queue_item_Returns:
  assumes "run_queue_item env cfg item (q, w) = Returns (c, q', w')"
  shows "\<exists>m tr. q' = q\<lparr> metrics := m, trace := trace q @ [tr] \<rparr> \<and> trace_item tr = item \<and>
                c = is_created tr \<and> trace_justified env cfg tr"
proof -
  from assms obtain ns b w1 where ns: "om_namespace (job_meta (item_job item)) = Some ns"
    and exp: "is_expired env cfg item w = Returns (b, w1)"
    and body: "(if \<not> b then run_queue_create env ns item (q, w1)
      else outcome_bind (count_and_measure_completed env (item_job item) Expired
             (q\<lparr> trace := trace q @ [JobExpired item] \<rparr>, w1))
             (\<lambda>(q2, w2). Returns (False, q2, w2))) = Returns (c, q', w')"
    by (auto simp: run_queue_item_def)
  from exp have b: "b \<longleftrightarrow> past_deadline cfg item (fst (now env w))"
    by (auto simp: is_expired_Returns past_deadline_def checked_add_Some_iff)
  show ?thesis
  proof (cases b)
    case True
    with body have "\<not> c" and "count_and_measure_completed env (item_job item) Expired
         (q\<lparr> trace := trace q @ [JobExpired item] \<rparr>, w1) = Returns (q', w')" by auto
    moreover from count_and_measure_completed_frame [OF this(2)]
    obtain m where "q' = (q\<lparr> trace := trace q @ [JobExpired item] \<rparr>)\<lparr> metrics := m \<rparr>" by auto
    ultimately show ?thesis using True b
      by (intro exI [of _ m] exI [of _ "JobExpired item"]) auto
  next
    case False
    with body have "run_queue_create env ns item (q, w1) = Returns (c, q', w')" by simp
    from run_queue_create_Returns [OF this] obtain m tr where
      q': "q' = q\<lparr> metrics := m, trace := trace q @ [tr] \<rparr>"
      and tr: "(c \<and> tr = JobCreated item \<and> (\<exists>w. fst (create_job env ns (item_job item) w) = Inr ())) \<or>
               (\<not> c \<and> tr = JobCreateError item \<and>
                (\<exists>w e. fst (create_job env ns (item_job item) w) = Inl e))" by blast
    from tr False b ns have "trace_item tr = item \<and> c = is_created tr \<and> trace_justified env cfg tr"
      by (elim disjE conjE exE) (auto intro: exI)
    with q' show ?thesis by blast
  qed
qed

section \<open>What the loop does\<close>

text \<open>
  The specification of \<^verbatim>\<open>run_queue\<close>: \<open>done\<close> are the items handled, a prefix of the queue in
  order; each is created, refused by the API server or expired; at most \<open>free\<close> are created;
  and the loop stops only when the queue of \<open>n\<close> items or the capacity is exhausted.
\<close>

definition loop_result ::
    "('w, 'z) jobs_env_scheme \<Rightarrow> runtime_config \<Rightarrow> nat \<Rightarrow> nat \<Rightarrow> jobs_queue \<Rightarrow> jobs_queue \<Rightarrow>
     queue_trace list \<Rightarrow> bool" where
  "loop_result env cfg n free q q' done \<longleftrightarrow>
     (\<exists>m. q' = q\<lparr> metrics := m, trace := trace q @ done,
                  queue_jobs := drop (length done) (queue_jobs q) \<rparr>) \<and>
     map trace_item done = take (length done) (queue_jobs q) \<and>
     (\<forall>tr \<in> set done. trace_justified env cfg tr) \<and>
     length done \<le> n \<and>
     length (filter is_created done) \<le> free \<and>
     (length done = n \<or> length (filter is_created done) = free)"

lemma loop_result_Nil: "n = 0 \<or> free = 0 \<Longrightarrow> loop_result env cfg n free q q []"
  by (auto simp: loop_result_def intro!: exI [of _ "metrics q"])

lemma loop_result_Cons:
  assumes "queue_jobs q = item # rest"
    and "q1 = q\<lparr> metrics := m, trace := trace q @ [tr], queue_jobs := rest \<rparr>"
    and "trace_item tr = item" and "trace_justified env cfg tr"
    and "loop_result env cfg n (if is_created tr then free - 1 else free) q1 q' done"
    and "free \<noteq> 0"
  shows "loop_result env cfg (Suc n) free q q' (tr # done)"
  using assms by (auto simp: loop_result_def)

lemma run_queue_loop_result:
  assumes "run_queue_loop env cfg n free (q, w) = Returns (q', w')"
    and "n \<le> length (queue_jobs q)"
  shows "\<exists>done. loop_result env cfg n (unat free) q q' done"
  using assms
proof (induction n arbitrary: free q w)
  case 0
  then show ?case by (auto intro: loop_result_Nil)
next
  case (Suc n)
  show ?case
  proof (cases "free = 0")
    case True
    with Suc.prems show ?thesis by (auto intro: loop_result_Nil)
  next
    case False
    from Suc.prems(2) obtain item rest where qj: "queue_jobs q = item # rest"
      by (cases "queue_jobs q") auto
    from Suc.prems(1) False qj obtain c q1 w1 q2 where
      item: "run_queue_item env cfg item (q\<lparr> queue_jobs := rest \<rparr>, w) = Returns (c, q1, w1)"
      and gauges: "update_gauges cfg n q1 = Returns q2"
      and loop: "run_queue_loop env cfg n (if c then free - 1 else free) (q2, w1) = Returns (q', w')"
      by auto
    from run_queue_item_Returns [OF item] obtain m tr where
      q1: "q1 = q\<lparr> queue_jobs := rest, metrics := m, trace := trace q @ [tr] \<rparr>"
      and tr: "trace_item tr = item" "c = is_created tr" "trace_justified env cfg tr"
      by auto
    from update_gauges_frame [OF gauges] obtain m' where "q2 = q1\<lparr> metrics := m' \<rparr>" by auto
    with q1 have q2: "q2 = q\<lparr> metrics := m', trace := trace q @ [tr], queue_jobs := rest \<rparr>" by simp
    have "n \<le> length (queue_jobs q2)" using Suc.prems(2) qj q2 by simp
    from Suc.IH [OF loop this] obtain don where
      ih: "loop_result env cfg n (unat (if c then free - 1 else free)) q2 q' don" by blast
    have "unat (if c then free - 1 else free) = (if is_created tr then unat free - 1 else unat free)"
      using False tr(2) by (simp add: unat_minus_one)
    with ih have ih': "loop_result env cfg n (if is_created tr then unat free - 1 else unat free) q2 q' don"
      by simp
    have "unat free \<noteq> 0" using False by (simp add: unat_eq_0)
    from loop_result_Cons [OF qj q2 tr(1,3) ih' this] show ?thesis by blast
  qed
qed

text \<open>The capacity that is free when \<^verbatim>\<open>run_queue\<close> starts.\<close>

definition free_capacity :: "runtime_config \<Rightarrow> jobs_queue \<Rightarrow> nat" where
  "free_capacity cfg q = unat (max_running_jobs (action cfg)) - unat (running_jobs q)"

lemma run_queue_result:
  assumes "run_queue env cfg (q, w) = Returns (q', w')"
  shows "\<exists>done. loop_result env cfg (length (queue_jobs q)) (free_capacity cfg q) q q' done"
proof -
  from assms obtain q1 where g: "update_gauges cfg (length (queue_jobs q)) q = Returns q1"
    and body: "(if running_jobs q > max_running_jobs (action cfg) then Returns (q1, w)
                else run_queue_loop env cfg (length (queue_jobs q))
                       (max_running_jobs (action cfg) - running_jobs q) (q1, w)) = Returns (q', w')"
    by (auto simp: run_queue_def Let_def)
  from update_gauges_frame [OF g] obtain m where q1: "q1 = q\<lparr> metrics := m \<rparr>" by blast
  show ?thesis
  proof (cases "running_jobs q > max_running_jobs (action cfg)")
    case True
    then have "free_capacity cfg q = 0"
      by (simp add: free_capacity_def word_less_nat_alt)
    with True body q1 show ?thesis
      by (intro exI [of _ "[]"]) (auto simp: loop_result_def intro!: exI [of _ m])
  next
    case False
    with body have "run_queue_loop env cfg (length (queue_jobs q))
        (max_running_jobs (action cfg) - running_jobs q) (q1, w) = Returns (q', w')" by simp
    from run_queue_loop_result [OF this] q1 obtain don where
      "loop_result env cfg (length (queue_jobs q))
         (unat (max_running_jobs (action cfg) - running_jobs q)) q1 q' don" by auto
    moreover have "unat (max_running_jobs (action cfg) - running_jobs q) = free_capacity cfg q"
      using False by (simp add: free_capacity_def unat_sub)
    ultimately show ?thesis using q1 by (auto simp: loop_result_def)
  qed
qed


lemma loop_result_split:
  assumes "loop_result env cfg n free q q' done"
  shows "trace q' = trace q @ done" "queue_jobs q' = drop (length done) (queue_jobs q)"
    "map trace_item done @ queue_jobs q' = queue_jobs q"
    "running_jobs q' = running_jobs q" "statuses q' = statuses q" "identity q' = identity q"
    "event_loop_alive q' = event_loop_alive q"
  using assms by (auto simp: loop_result_def)

text \<open>
  C1. One pass of \<^verbatim>\<open>run_queue\<close> never creates more jobs than the limit leaves room for (none when
  the limit is already exceeded), and it stops only when the queue is empty or that room is used
  up: as many jobs as possible are started. It handles a prefix of the waiting items in their order
  and leaves the rest untouched; each handled item is accounted for exactly once, as created (the
  API server accepted it), as refused by the API server or as expired; an item is submitted only at
  a clock reading within its waiting time, and dropped as expired only at one after it.
\<close>

theorem run_queue_respects_limit:
  assumes "run_queue env cfg (q, w) = Returns (q', w')"
  shows "\<exists>done. trace q' = trace q @ done \<and>
           length (filter is_created done)
             \<le> unat (max_running_jobs (action cfg)) - unat (running_jobs q) \<and>
           (queue_jobs q' = [] \<or>
            length (filter is_created done)
              = unat (max_running_jobs (action cfg)) - unat (running_jobs q)) \<and>
           map trace_item done @ queue_jobs q' = queue_jobs q \<and>
           (\<forall>tr \<in> set done. trace_justified env cfg tr)"
proof -
  from run_queue_result [OF assms] obtain don where
    r: "loop_result env cfg (length (queue_jobs q)) (free_capacity cfg q) q q' don" by blast
  with loop_result_split [OF r] show ?thesis
    by (intro exI [of _ don]) (auto simp: loop_result_def free_capacity_def)
qed

section \<open>When the queue does not panic\<close>

text \<open>The labels \<^verbatim>\<open>count_and_measure_completed\<close> unwraps.\<close>

definition metric_labels :: "string list" where
  "metric_labels =
     [ACTION_JOB_ACTION_KIND_LABEL, ACTION_JOB_ACTION_NAME_LABEL, ACTION_JOB_SOURCE_KIND_LABEL,
      ACTION_JOB_SOURCE_NAME_LABEL, ACTION_JOB_TRIGGER_KIND_LABEL, ACTION_JOB_TRIGGER_NAME_LABEL]"

definition measurable :: "job \<Rightarrow> bool" where
  "measurable j \<longleftrightarrow>
     om_namespace (job_meta j) \<noteq> None \<and>
     (case om_labels (job_meta j) of
        None \<Rightarrow> False
      | Some ls \<Rightarrow> list_all (\<lambda>l. ls l \<noteq> None) metric_labels)"

lemma measurable_returns: "measurable j \<Longrightarrow> returns (completed_labels j s)"
  by (auto simp: measurable_def metric_labels_def completed_labels_def split: option.splits)

lemma count_and_measure_completed_returns:
  "measurable j \<Longrightarrow> \<exists>q' w'. count_and_measure_completed env j s (q, w) = Returns (q', w')"
proof -
  assume "measurable j"
  from measurable_returns [OF this, of s] obtain ls where "completed_labels j s = Returns ls"
    by (auto simp: returns_iff)
  then have "\<exists>x. count_and_measure_completed env j s (q, w) = Returns x"
    by (simp add: count_and_measure_completed_def Let_def)
  then show ?thesis by force
qed

text \<open>What an item needs so that handling it cannot panic: the labels, a deadline that a
  \<^verbatim>\<open>SystemTime\<close> can hold, and a clock that has not gone back before it was enqueued.\<close>

definition item_ok :: "('w, 'z) clock_env_scheme \<Rightarrow> runtime_config \<Rightarrow> jobs_queue_item \<Rightarrow> bool" where
  "item_ok env cfg item \<longleftrightarrow>
     measurable (item_job item) \<and>
     checked_add (enqueued_at item)
       (unwrap_or (expire_after item) (from_secs (job_waiting_timeout_seconds (action cfg)))) \<noteq> None \<and>
     (\<forall>w. enqueued_at item \<le> fst (now env w))"

lemma run_queue_item_returns:
  assumes "item_ok env cfg item"
  shows "\<exists>c q' w'. run_queue_item env cfg item (q, w) = Returns (c, q', w')"
proof -
  from assms obtain ns where ns: "om_namespace (job_meta (item_job item)) = Some ns"
    by (auto simp: item_ok_def measurable_def)
  from assms have m: "measurable (item_job item)" by (simp add: item_ok_def)
  from assms obtain b w1 where e: "is_expired env cfg item w = Returns (b, w1)"
    by (cases "now env w") (auto simp: item_ok_def is_expired_def Let_def)
  have "\<exists>c q' w'. run_queue_create env ns item (q, w1) = Returns (c, q', w')"
  proof -
    obtain t w2 where n: "now env w1 = (t, w2)" by force
    with assms have "enqueued_at item \<le> t" by (metis fst_conv item_ok_def)
    then obtain d where d: "duration_since t (enqueued_at item) = Some d"
      by (auto simp: duration_since_def)
    obtain r w3 where "create_job env ns (item_job item) w2 = (r, w3)" by force
    with n d count_and_measure_completed_returns [OF m, of env CreateError
        "(measure_waiting_duration d q)\<lparr> trace := trace q @ [JobCreateError item] \<rparr>" w3]
    show ?thesis by (cases r) (auto simp: run_queue_create_def)
  qed
  with ns e count_and_measure_completed_returns [OF m, of env Expired
      "q\<lparr> trace := trace q @ [JobExpired item] \<rparr>" w1]
  show ?thesis by (cases b) (auto simp: run_queue_item_def)
qed

definition gauges_ok :: "runtime_config \<Rightarrow> jobs_queue \<Rightarrow> bool" where
  "gauges_ok cfg q \<longleftrightarrow>
     unat (running_jobs q) < 9223372036854775808 \<and>
     unat (max_running_jobs (action cfg)) < 9223372036854775808 \<and>
     length (queue_jobs q) < 9223372036854775808"

lemma update_gauges_returns:
  "unat (running_jobs q) < 9223372036854775808 \<Longrightarrow>
   unat (max_running_jobs (action cfg)) < 9223372036854775808 \<Longrightarrow> n < 9223372036854775808 \<Longrightarrow>
   \<exists>q'. update_gauges cfg n q = Returns q'"
  by (simp add: update_gauges_def i64_try_from_def)

lemma run_queue_loop_returns:
  assumes "\<forall>item \<in> set (queue_jobs q). item_ok env cfg item"
    and "unat (running_jobs q) < 9223372036854775808"
    and "unat (max_running_jobs (action cfg)) < 9223372036854775808" and "n < 9223372036854775808"
  shows "returns (run_queue_loop env cfg n free (q, w))"
  using assms
proof (induction n arbitrary: free q w)
  case 0
  then show ?case by simp
next
  case (Suc n)
  show ?case
  proof (cases "free = 0 \<or> queue_jobs q = []")
    case True
    then show ?thesis by auto
  next
    case False
    then obtain item rest where qj: "queue_jobs q = item # rest" by (cases "queue_jobs q") auto
    with Suc.prems have "item_ok env cfg item" by simp
    from run_queue_item_returns [OF this] obtain c q1 w1 where
      item: "run_queue_item env cfg item (q\<lparr> queue_jobs := rest \<rparr>, w) = Returns (c, q1, w1)" by blast
    from run_queue_item_Returns [OF item] have q1: "queue_jobs q1 = rest" "running_jobs q1 = running_jobs q"
      by auto
    with Suc.prems obtain q2 where g: "update_gauges cfg n q1 = Returns q2"
      using update_gauges_returns [of q1 cfg n] by auto
    from update_gauges_frame [OF g] q1 have "queue_jobs q2 = rest" "running_jobs q2 = running_jobs q"
      by auto
    then have "returns (run_queue_loop env cfg n (if c then free - 1 else free) (q2, w1))"
      using Suc.prems qj by (intro Suc.IH) auto
    with False qj item g show ?thesis by simp
  qed
qed

lemma run_queue_returns:
  assumes "\<forall>item \<in> set (queue_jobs q). item_ok env cfg item" and "gauges_ok cfg q"
  shows "returns (run_queue env cfg (q, w))"
proof -
  from assms(2) obtain q1 where g: "update_gauges cfg (length (queue_jobs q)) q = Returns q1"
    using update_gauges_returns [of q cfg "length (queue_jobs q)"] by (auto simp: gauges_ok_def)
  from update_gauges_frame [OF g] obtain m where q1: "q1 = q\<lparr> metrics := m \<rparr>" by blast
  have "returns (run_queue_loop env cfg (length (queue_jobs q))
          (max_running_jobs (action cfg) - running_jobs q) (q1, w))"
    using assms q1 by (intro run_queue_loop_returns) (auto simp: gauges_ok_def)
  with g show ?thesis by (simp add: run_queue_def Let_def)
qed

section \<open>A concrete queue\<close>

text \<open>A clock that stands at five seconds and an API server that accepts every job; one item
  enqueued a second ago, and one that has waited longer than its time.\<close>

definition sample_env :: "unit jobs_env" where
  "sample_env = \<lparr> now = (\<lambda>w. (5000000000, w)), format_local = (\<lambda>_. ''20240101-000000''),
     sample_alphanumeric = (\<lambda>w. (CHR ''a'', w)), create_job = (\<lambda>ns j w. (Inr (), w)) \<rparr>"

definition sample_job :: job where
  "sample_job = default_job\<lparr> job_meta := default_object_meta\<lparr> om_name := Some ''job-1'',
     om_namespace := Some ''default'',
     om_labels := Some [ACTION_JOB_ACTION_KIND_LABEL \<mapsto> ''Action'',
       ACTION_JOB_ACTION_NAME_LABEL \<mapsto> ''act'', ACTION_JOB_SOURCE_KIND_LABEL \<mapsto> ''GitRepo'',
       ACTION_JOB_SOURCE_NAME_LABEL \<mapsto> ''repo'', ACTION_JOB_TRIGGER_KIND_LABEL \<mapsto> ''WebhookTrigger'',
       ACTION_JOB_TRIGGER_NAME_LABEL \<mapsto> ''trg''] \<rparr> \<rparr>"

definition sample_queue :: jobs_queue where
  "sample_queue = (init_jobs_queue ''me'')\<lparr> queue_jobs :=
     [\<lparr> item_job = sample_job, enqueued_at = 4000000000, expire_after = None \<rparr>,
      \<lparr> item_job = sample_job, enqueued_at = 1000000000, expire_after = Some 2000000000 \<rparr>] \<rparr>"

lemma sample_job_measurable: "measurable sample_job"
  by (simp add: sample_job_def default_job_def default_object_meta_def measurable_def
      metric_labels_def job_label_defs)

lemma sample_queue_ok:
  "\<forall>item \<in> set (queue_jobs sample_queue). item_ok sample_env default_runtime_config item"
  by (simp add: sample_queue_def item_ok_def sample_job_measurable sample_env_def time_simps
      default_runtime_config_def default_action_config_def)

lemma sample_queue_gauges: "gauges_ok default_runtime_config sample_queue"
  by (simp add: gauges_ok_def sample_queue_def init_jobs_queue_def default_runtime_config_def
      default_action_config_def)

lemma sample_queue_runs:
  "\<exists>q' w'. run_queue sample_env default_runtime_config (sample_queue, ()) = Returns (q', w')"
  using run_queue_returns [OF sample_queue_ok sample_queue_gauges, of "()"]
  by (auto simp: returns_iff)

lemma sample_queue_values [simp]:
  "length (queue_jobs sample_queue) = 2" "running_jobs sample_queue = 0"
  "trace sample_queue = []" "unat (max_running_jobs (action default_runtime_config)) = 16"
  by (simp_all add: sample_queue_def init_jobs_queue_def default_runtime_config_def
      default_action_config_def)

theorem run_queue_respects_limit_witness:
  "\<exists>q' w'. run_queue sample_env default_runtime_config (sample_queue, ()) = Returns (q', w') \<and>
     (\<exists>done. trace q' = done \<and> length (filter is_created done) \<le> 16 \<and>
        (queue_jobs q' = [] \<or> length (filter is_created done) = 16) \<and>
        map trace_item done @ queue_jobs q' = queue_jobs sample_queue)"
proof -
  from sample_queue_runs obtain q' w' where
    r: "run_queue sample_env default_runtime_config (sample_queue, ()) = Returns (q', w')" by blast
  from run_queue_respects_limit [OF r] r show ?thesis by auto
qed

section \<open>Enqueueing\<close>

text \<open>A job that the watcher of the controller \<open>ident\<close> selects and that can be submitted.\<close>

definition owned_by :: "string \<Rightarrow> job \<Rightarrow> bool" where
  "owned_by ident j \<longleftrightarrow>
     om_namespace (job_meta j) \<noteq> None \<and>
     (case om_labels (job_meta j) of
        None \<Rightarrow> False
      | Some ls \<Rightarrow> ls ACTION_JOB_IDENTITY_LABEL = Some ident)"

lemma label_for_queue_owned: "owned_by ident (label_for_queue ident ns j)"
  by (simp add: owned_by_def label_for_queue_def Let_def)

lemma label_for_queue_meta [simp]:
  "om_namespace (job_meta (label_for_queue ident ns j)) = Some ns"
  "om_name (job_meta (label_for_queue ident ns j)) = om_name (job_meta j)"
  "om_annotations (job_meta (label_for_queue ident ns j)) = om_annotations (job_meta j)"
  "om_owner_references (job_meta (label_for_queue ident ns j)) = om_owner_references (job_meta j)"
  "job_spec_of (label_for_queue ident ns j) = job_spec_of j"
  "job_status_of (label_for_queue ident ns j) = job_status_of j"
  by (simp_all add: label_for_queue_def Let_def)

lemma metric_labels_not_identity: "l \<in> set metric_labels \<Longrightarrow> l \<noteq> ACTION_JOB_IDENTITY_LABEL"
  by (auto simp: metric_labels_def job_label_defs)

text \<open>The labels an action gave its job survive: enqueueing adds one label and replaces none of
  them.\<close>

lemma label_for_queue_measurable:
  assumes "om_labels (job_meta j) = Some ls" and "\<forall>l \<in> set metric_labels. ls l \<noteq> None"
  shows "measurable (label_for_queue ident ns j)"
  using assms metric_labels_not_identity
  by (auto simp: measurable_def label_for_queue_def Let_def list_all_iff)

section \<open>The counter of running jobs\<close>

text \<open>The jobs the watcher has seen and that were not finished when it last saw them.\<close>

definition active_keys :: "jobs_queue \<Rightarrow> (string \<times> string) set" where
  "active_keys q = {k. \<exists>s. statuses q k = Some s \<and> \<not> finished s}"

definition counter_exact :: "jobs_queue \<Rightarrow> bool" where
  "counter_exact q \<longleftrightarrow>
     finite (dom (statuses q)) \<and> running_jobs q = word_of_nat (card (active_keys q))"

lemma finite_active_keys: "finite (dom (statuses q)) \<Longrightarrow> finite (active_keys q)"
  by (rule finite_subset [of _ "dom (statuses q)"]) (auto simp: active_keys_def)

text \<open>
  A regular event: a job is first seen unfinished, and once it is seen finished its status does
  not change any more while it exists.
\<close>

definition regular_event :: "jobs_queue \<Rightarrow> (string \<times> string \<rightharpoonup> job) \<Rightarrow> job \<Rightarrow> bool" where
  "regular_event q store j \<longleftrightarrow>
     (case (om_name (job_meta j), om_namespace (job_meta j)) of
        (Some n, Some ns) \<Rightarrow>
          (case Option.bind (store (n, ns)) job_status_of of
             None \<Rightarrow> True
           | Some s \<Rightarrow>
               (case statuses q (n, ns) of
                  None \<Rightarrow> \<not> finished s
                | Some p \<Rightarrow> finished p \<longrightarrow> s = p))
      | _ \<Rightarrow> True)"

lemma active_keys_insert:
  "\<not> finished s \<Longrightarrow> active_keys (q\<lparr> statuses := (statuses q)(k \<mapsto> s) \<rparr>) = insert k (active_keys q)"
  by (auto simp: active_keys_def)

lemma active_keys_remove:
  "finished s \<Longrightarrow> active_keys (q\<lparr> statuses := (statuses q)(k \<mapsto> s) \<rparr>) = active_keys q - {k}"
  "active_keys (q\<lparr> statuses := (statuses q)(k := None) \<rparr>) = active_keys q - {k}"
  by (auto simp: active_keys_def)

lemma active_keys_cong: "statuses q = statuses q' \<Longrightarrow> active_keys q = active_keys q'"
  by (simp add: active_keys_def)

lemma card_remove_word:
  assumes "finite A" and "k \<in> A"
  shows "word_of_nat (card (A - {k})) = (word_of_nat (card A) - 1 :: usize)"
proof -
  have "card A = Suc (card (A - {k}))" using assms by (rule card.remove)
  then show ?thesis by simp
qed

lemma job_status_changed_frame:
  assumes "job_status_changed env j s prev (q, w) = Returns (q', w')"
  shows "\<exists>m. q' = q\<lparr> metrics := m, running_jobs :=
           (if prev \<noteq> None \<and> prev \<noteq> Some s \<and> finished s then running_jobs q - 1
            else running_jobs q) \<rparr>"
proof (cases "prev \<noteq> None \<and> prev \<noteq> Some s \<and> finished s")
  case True
  then obtain st where
    "count_and_measure_completed env j st (q\<lparr> running_jobs := running_jobs q - 1 \<rparr>, w) = Returns (q', w')"
    using assms by (auto simp: job_status_changed_def finished_def split: if_splits)
  from count_and_measure_completed_frame [OF this] obtain m where
    "q' = q\<lparr> running_jobs := running_jobs q - 1, metrics := m \<rparr>" by auto
  with True show ?thesis by (intro exI [of _ m]) simp
next
  case False
  then have "q' = q" using assms
    by (auto simp: job_status_changed_def finished_def split: option.splits if_splits)
  with False show ?thesis by (auto intro!: exI [of _ "metrics q"])
qed

text \<open>What one event does to the statuses and to the counter.\<close>

lemma job_touched_effect:
  assumes "job_touched env store j (q, w) = Returns (q', w')"
  shows "\<exists>n ns. om_name (job_meta j) = Some n \<and> om_namespace (job_meta j) = Some ns \<and>
     (\<exists>m. q' =
        (case Option.bind (store (n, ns)) job_status_of of
           Some s \<Rightarrow>
             q\<lparr> metrics := m, statuses := (statuses q)(((n, ns)) \<mapsto> s),
                running_jobs :=
                  (case statuses q (n, ns) of
                     None \<Rightarrow> running_jobs q + 1
                   | Some p \<Rightarrow> if p \<noteq> s \<and> finished s then running_jobs q - 1 else running_jobs q) \<rparr>
         | None \<Rightarrow>
             q\<lparr> metrics := m, statuses := (statuses q)((n, ns) := None),
                running_jobs :=
                  (case statuses q (n, ns) of
                     None \<Rightarrow> running_jobs q
                   | Some p \<Rightarrow> if finished p then running_jobs q else running_jobs q - 1) \<rparr>))"
proof -
  from assms obtain n ns where n: "om_name (job_meta j) = Some n"
    and ns: "om_namespace (job_meta j) = Some ns" by (auto simp: job_touched_def)
  show ?thesis
  proof (cases "Option.bind (store (n, ns)) job_status_of")
    case None
    show ?thesis
    proof (cases "statuses q (n, ns)")
      case None': None
      then have "(statuses q)((n, ns) := None) = statuses q" by auto
      with None None' assms n ns show ?thesis
        by (auto simp: job_touched_def intro!: exI [of _ "metrics q"])
    next
      case (Some p)
      let ?q1 = "q\<lparr> statuses := (statuses q)((n, ns) := None) \<rparr>"
      show ?thesis
      proof (cases "finished p")
        case True
        with None Some assms n ns have "q' = ?q1"
          by (auto simp: job_touched_def finished_def Let_def)
        with None Some True n ns show ?thesis by (auto intro!: exI [of _ "metrics q"])
      next
        case False
        with None Some assms n ns have
          "count_and_measure_completed env j Deleted (?q1\<lparr> running_jobs := running_jobs q - 1 \<rparr>, w)
             = Returns (q', w')"
          by (auto simp: job_touched_def finished_def Let_def)
        from count_and_measure_completed_frame [OF this] obtain m where
          "q' = ?q1\<lparr> running_jobs := running_jobs q - 1, metrics := m \<rparr>" by auto
        with None Some False n ns show ?thesis by (auto intro!: exI [of _ m])
      qed
    qed
  next
    case (Some s)
    with assms n ns obtain q1 where
      ch: "job_status_changed env j s (statuses q (n, ns)) (q, w) = Returns (q1, w')"
      and q': "q' = (let q2 = q1\<lparr> statuses := (statuses q1)((n, ns) \<mapsto> s) \<rparr>
                in if statuses q1 (n, ns) = None then q2\<lparr> running_jobs := running_jobs q2 + 1 \<rparr> else q2)"
      by (auto simp: job_touched_def Let_def)
    from job_status_changed_frame [OF ch] obtain m where
      q1: "q1 = q\<lparr> metrics := m, running_jobs :=
         (if statuses q (n, ns) \<noteq> None \<and> statuses q (n, ns) \<noteq> Some s \<and> finished s
          then running_jobs q - 1 else running_jobs q) \<rparr>" by blast
    show ?thesis
      using Some n ns q' q1
      by (cases "statuses q (n, ns)") (auto simp: Let_def intro!: exI [of _ m])
  qed
qed


lemma counter_exact_update:
  assumes "counter_exact q"
    and "\<not> finished s \<Longrightarrow> r = (if k \<in> active_keys q then running_jobs q else running_jobs q + 1)"
    and "finished s \<Longrightarrow> r = (if k \<in> active_keys q then running_jobs q - 1 else running_jobs q)"
  shows "counter_exact (q\<lparr> metrics := m, statuses := (statuses q)(k \<mapsto> s), running_jobs := r \<rparr>)"
proof -
  let ?q = "q\<lparr> metrics := m, statuses := (statuses q)(k \<mapsto> s), running_jobs := r \<rparr>"
  have fin: "finite (active_keys q)" using assms(1) by (simp add: counter_exact_def finite_active_keys)
  have ak: "active_keys ?q = active_keys (q\<lparr> statuses := (statuses q)(k \<mapsto> s) \<rparr>)"
    by (rule active_keys_cong) simp
  have run: "running_jobs q = word_of_nat (card (active_keys q))"
    using assms(1) by (simp add: counter_exact_def)
  have "r = word_of_nat (card (active_keys ?q))"
  proof (cases "finished s")
    case True
    with assms(3) run ak fin card_remove_word [OF fin, of k] show ?thesis
      by (simp add: active_keys_remove(1))
  next
    case False
    with assms(2) run ak fin show ?thesis
      by (simp add: active_keys_insert insert_absorb)
  qed
  with assms(1) show ?thesis by (simp add: counter_exact_def)
qed

lemma counter_exact_delete:
  assumes "counter_exact q"
    and "r = (if k \<in> active_keys q then running_jobs q - 1 else running_jobs q)"
  shows "counter_exact (q\<lparr> metrics := m, statuses := (statuses q)(k := None), running_jobs := r \<rparr>)"
proof -
  let ?q = "q\<lparr> metrics := m, statuses := (statuses q)(k := None), running_jobs := r \<rparr>"
  have fin: "finite (active_keys q)" using assms(1) by (simp add: counter_exact_def finite_active_keys)
  have ak: "active_keys ?q = active_keys q - {k}"
    by (auto simp: active_keys_def)
  have "r = word_of_nat (card (active_keys ?q))"
    using assms fin ak card_remove_word [OF fin, of k] by (simp add: counter_exact_def)
  with assms(1) show ?thesis by (simp add: counter_exact_def)
qed

text \<open>
  Under regular events the counter of running jobs is exact: if it equals the number of
  unfinished jobs the watcher knows before an event (a job appears, changes, finishes or is
  deleted), it does so after it.
\<close>

lemma running_counter_exact:
  assumes "counter_exact q" and "regular_event q store j"
    and "job_touched env store j (q, w) = Returns (q', w')"
  shows "counter_exact q'"
proof -
  from job_touched_effect [OF assms(3)] obtain n ns m where
    nm: "om_name (job_meta j) = Some n" "om_namespace (job_meta j) = Some ns" and
    q': "q' =
        (case Option.bind (store (n, ns)) job_status_of of
           Some s \<Rightarrow>
             q\<lparr> metrics := m, statuses := (statuses q)(((n, ns)) \<mapsto> s),
                running_jobs :=
                  (case statuses q (n, ns) of
                     None \<Rightarrow> running_jobs q + 1
                   | Some p \<Rightarrow> if p \<noteq> s \<and> finished s then running_jobs q - 1 else running_jobs q) \<rparr>
         | None \<Rightarrow>
             q\<lparr> metrics := m, statuses := (statuses q)((n, ns) := None),
                running_jobs :=
                  (case statuses q (n, ns) of
                     None \<Rightarrow> running_jobs q
                   | Some p \<Rightarrow> if finished p then running_jobs q else running_jobs q - 1) \<rparr>)"
    by blast
  have act: "(n, ns) \<in> active_keys q \<longleftrightarrow> (\<exists>p. statuses q (n, ns) = Some p \<and> \<not> finished p)"
    by (simp add: active_keys_def)
  show ?thesis
  proof (cases "Option.bind (store (n, ns)) job_status_of")
    case None
    have "counter_exact (q\<lparr> metrics := m, statuses := (statuses q)((n, ns) := None),
        running_jobs := (case statuses q (n, ns) of None \<Rightarrow> running_jobs q
           | Some p \<Rightarrow> if finished p then running_jobs q else running_jobs q - 1) \<rparr>)"
      by (rule counter_exact_delete [OF assms(1)]) (simp add: act split: option.splits)
    with None q' show ?thesis by simp
  next
    case (Some s)
    have reg: "case statuses q (n, ns) of None \<Rightarrow> \<not> finished s | Some p \<Rightarrow> finished p \<longrightarrow> s = p"
      using assms(2) nm Some by (simp add: regular_event_def)
    have "counter_exact (q\<lparr> metrics := m, statuses := (statuses q)((n, ns) \<mapsto> s),
        running_jobs := (case statuses q (n, ns) of None \<Rightarrow> running_jobs q + 1
           | Some p \<Rightarrow> if p \<noteq> s \<and> finished s then running_jobs q - 1 else running_jobs q) \<rparr>)"
      using reg by (intro counter_exact_update [OF assms(1)]) (auto simp: act split: option.splits)
    with Some q' show ?thesis by simp
  qed
qed


lemma counter_exact_frame:
  "running_jobs q' = running_jobs q \<Longrightarrow> statuses q' = statuses q \<Longrightarrow> counter_exact q' = counter_exact q"
  by (simp add: counter_exact_def active_keys_def)

lemma counter_exact_init: "counter_exact (init_jobs_queue ident)"
  by (simp add: counter_exact_def active_keys_def init_jobs_queue_def)

definition running_status :: job_status where
  "running_status = \<lparr> st_succeeded = None, st_failed = None, st_start_time = Some 4000000000,
                      st_rest = ''active=1'' \<rparr>"

definition job_with_status :: "job_status \<Rightarrow> job" where
  "job_with_status s = sample_job\<lparr> job_status_of := Some s \<rparr>"

lemma job_with_status_meta [simp]:
  "om_name (job_meta (job_with_status s)) = Some ''job-1''"
  "om_namespace (job_meta (job_with_status s)) = Some ''default''"
  "job_status_of (job_with_status s) = Some s"
  by (simp_all add: job_with_status_def sample_job_def default_job_def default_object_meta_def)

lemma job_with_status_measurable: "measurable (job_with_status s)"
  using sample_job_measurable by (simp add: measurable_def job_with_status_def)

definition store_with_status :: "job_status \<Rightarrow> (string \<times> string \<rightharpoonup> job)" where
  "store_with_status s = [(''job-1'', ''default'') \<mapsto> job_with_status s]"

lemma first_seen_touched:
  "job_touched env (store_with_status s) (job_with_status s) (init_jobs_queue ident, w) =
     Returns ((init_jobs_queue ident)\<lparr> running_jobs := 1,
                statuses := [(''job-1'', ''default'') \<mapsto> s] \<rparr>, w)"
  by (simp add: job_touched_def job_status_changed_def store_with_status_def init_jobs_queue_def
      Let_def)

lemma running_counter_exact_example:
  "counter_exact ((init_jobs_queue ''me'')\<lparr> running_jobs := 1,
     statuses := [(''job-1'', ''default'') \<mapsto> running_status] \<rparr>)"
proof -
  have reg: "regular_event (init_jobs_queue ''me'') (store_with_status running_status)
      (job_with_status running_status)"
    by (simp add: regular_event_def store_with_status_def init_jobs_queue_def finished_def
        running_status_def)
  show ?thesis
    by (rule running_counter_exact [OF counter_exact_init reg
          first_seen_touched [of sample_env running_status "''me''" "()"]])
qed

text \<open>
  C24. After a job has been seen finished, every further change of its status (a condition, the
  completion time, ...) decrements the counter again: the counter is then one less than before,
  although the set of unfinished jobs is unchanged. From an exact counter with no other job
  running it wraps around to $2^{64} - 1$, and from then on \<^verbatim>\<open>update_gauges\<close>, and so every
  \<^verbatim>\<open>run_queue\<close>, panics.
\<close>

theorem running_counter_double_decrement:
  assumes "om_name (job_meta j) = Some n" and "om_namespace (job_meta j) = Some ns"
    and "statuses q (n, ns) = Some p" and "finished p"
    and "Option.bind (store (n, ns)) job_status_of = Some s" and "finished s" and "s \<noteq> p"
    and "job_touched env store j (q, w) = Returns (q', w')"
  shows "active_keys q' = active_keys q \<and> running_jobs q' = running_jobs q - 1 \<and>
         (running_jobs q = 0 \<longrightarrow>
            running_jobs q' = 18446744073709551615 \<and>
            (\<forall>cfg w''. \<not> returns (run_queue env2 cfg (q', w''))))"
proof -
  from job_touched_effect [OF assms(8)] assms(1-7) obtain m where
    q': "q' = q\<lparr> metrics := m, statuses := (statuses q)((n, ns) \<mapsto> s), running_jobs := running_jobs q - 1 \<rparr>"
    by auto
  have "active_keys q' = active_keys q"
    using q' assms(3,4,6) by (auto simp: active_keys_def)
  moreover have "\<not> returns (run_queue env2 cfg (q', w''))" if "running_jobs q = 0" for cfg w''
  proof -
    have "running_jobs q' = 18446744073709551615" using q' that by simp
    then have "unat (running_jobs q') = 18446744073709551615" by simp
    then have "i64_try_from (unat (running_jobs q')) = None" by (simp add: i64_try_from_def)
    then show ?thesis by (simp add: run_queue_def update_gauges_def Let_def)
  qed
  ultimately show ?thesis using q' by simp
qed

lemma job_touched_returns:
  assumes "measurable j" and "om_name (job_meta j) \<noteq> None"
  shows "\<exists>q' w'. job_touched env store j (q, w) = Returns (q', w')"
proof -
  from assms obtain n ns where nm: "om_name (job_meta j) = Some n" "om_namespace (job_meta j) = Some ns"
    by (auto simp: measurable_def)
  have ret: "\<exists>x. count_and_measure_completed env j st (q1, w1) = Returns x" for st q1 w1
    using count_and_measure_completed_returns [OF assms(1), of env st q1 w1] by blast
  have ch: "\<exists>x. job_status_changed env j s prev (q, w) = Returns x" for s prev
    using ret by (auto simp: job_status_changed_def split: option.splits)
  have "\<exists>x. job_touched env store j (q, w) = Returns x"
  proof (cases "Option.bind (store (n, ns)) job_status_of")
    case None
    then show ?thesis using nm ret
      by (cases "statuses q (n, ns)") (auto simp: job_touched_def Let_def)
  next
    case (Some s)
    from ch obtain q1 w1 where "job_status_changed env j s (statuses q (n, ns)) (q, w) = Returns (q1, w1)"
      by force
    with Some nm show ?thesis by (simp add: job_touched_def Let_def)
  qed
  then show ?thesis by force
qed

definition succeeded_status :: "string \<Rightarrow> job_status" where
  "succeeded_status rest = \<lparr> st_succeeded = Some 1, st_failed = None,
                             st_start_time = Some 4000000000, st_rest = rest \<rparr>"

theorem running_counter_double_decrement_witness:
  "\<exists>q' w'. job_touched sample_env (store_with_status (succeeded_status ''complete''))
       (job_with_status (succeeded_status ''complete''))
       ((init_jobs_queue ''me'')\<lparr> statuses := [(''job-1'', ''default'') \<mapsto> succeeded_status ''ready=0''] \<rparr>, ())
       = Returns (q', w') \<and>
     running_jobs q' = 18446744073709551615 \<and>
     \<not> returns (run_queue sample_env default_runtime_config (q', ()))"
proof -
  let ?s = "succeeded_status ''complete''" and ?p = "succeeded_status ''ready=0''"
  let ?q = "(init_jobs_queue ''me'')\<lparr> statuses := [(''job-1'', ''default'') \<mapsto> ?p] \<rparr>"
  obtain q' w' where r: "job_touched sample_env (store_with_status ?s) (job_with_status ?s) (?q, ())
      = Returns (q', w')"
    using job_touched_returns [OF job_with_status_measurable, of ?s sample_env
        "store_with_status ?s" ?q "()"] by auto
  have "active_keys q' = active_keys ?q \<and> running_jobs q' = running_jobs ?q - 1 \<and>
         (running_jobs ?q = 0 \<longrightarrow> running_jobs q' = 18446744073709551615 \<and>
            (\<forall>cfg w''. \<not> returns (run_queue sample_env cfg (q', w''))))"
    by (rule running_counter_double_decrement [where n = "''job-1''" and ns = "''default''"
          and p = ?p and s = ?s, OF _ _ _ _ _ _ _ r])
      (simp_all add: finished_def succeeded_status_def store_with_status_def)
  with r show ?thesis by (auto simp: init_jobs_queue_def)
qed

section \<open>Filling the capacity, and the limits of the limit\<close>

lemma run_queue_all_created:
  assumes "run_queue env cfg (q, w) = Returns (q', w')"
    and "\<forall>ns j w. fst (create_job env ns j w) = Inr ()"
    and "\<forall>item \<in> set (queue_jobs q). \<forall>w. \<not> past_deadline cfg item (fst (now env w))"
  shows "queue_jobs q' = drop (min (length (queue_jobs q)) (free_capacity cfg q)) (queue_jobs q) \<and>
         trace q' = trace q @ map JobCreated (take (min (length (queue_jobs q)) (free_capacity cfg q)) (queue_jobs q)) \<and>
         running_jobs q' = running_jobs q"
proof -
  let ?n = "length (queue_jobs q)" and ?f = "free_capacity cfg q"
  from run_queue_result [OF assms(1)] obtain don where
    r: "loop_result env cfg ?n ?f q q' don" by blast
  note sp = loop_result_split [OF r]
  have pre: "map trace_item don = take (length don) (queue_jobs q)"
    using r by (simp add: loop_result_def)
  have "tr = JobCreated (trace_item tr)" if "tr \<in> set don" for tr
  proof -
    have j: "trace_justified env cfg tr" using r that by (simp add: loop_result_def)
    have "trace_item tr \<in> set (queue_jobs q)"
      using pre that by (metis image_eqI in_set_takeD list.set_map)
    with assms(2,3) j show ?thesis by (cases tr) auto
  qed
  then have don: "don = map JobCreated (map trace_item don)"
    by (induction don) auto
  have "filter is_created don = don"
    by (subst (1 2) don) (simp add: filter_id_conv)
  with r have "length don = min ?n ?f" by (auto simp: loop_result_def)
  with sp don pre show ?thesis by simp
qed

text \<open>
  C25. The limit bounds one pass, not the number of jobs running at the same time: created jobs are
  counted only when the watcher reports them. Two passes that both run before the first report,
  with enough jobs waiting, create twice the limit.
\<close>

theorem run_queue_exceeds_limit:
  assumes "run_queue env cfg (q, w) = Returns (q1, w1)"
    and "run_queue env cfg (q1, w2) = Returns (q2, w3)"
    and "\<forall>ns j w. fst (create_job env ns j w) = Inr ()"
    and "\<forall>item \<in> set (queue_jobs q). \<forall>w. \<not> past_deadline cfg item (fst (now env w))"
    and "running_jobs q = 0"
    and "2 * unat (max_running_jobs (action cfg)) \<le> length (queue_jobs q)"
  shows "length (filter is_created (trace q2)) =
         length (filter is_created (trace q)) + 2 * unat (max_running_jobs (action cfg))"
proof -
  let ?L = "unat (max_running_jobs (action cfg))"
  have f: "free_capacity cfg q = ?L" using assms(5) by (simp add: free_capacity_def)
  note p1 = run_queue_all_created [OF assms(1,3,4), unfolded f]
  have q1: "queue_jobs q1 = drop ?L (queue_jobs q)" "running_jobs q1 = 0"
    using p1 assms(5,6) by simp_all
  have "\<forall>item \<in> set (queue_jobs q1). \<forall>w. \<not> past_deadline cfg item (fst (now env w))"
    using q1 assms(4) by (metis in_set_dropD)
  note p2 = run_queue_all_created [OF assms(2,3) this]
  have c: "filter is_created (map JobCreated xs) = map JobCreated xs" for xs
    by (simp add: filter_id_conv)
  show ?thesis using p1 p2 q1 assms(6) by (simp add: free_capacity_def c)
qed

text \<open>
  A waiting timeout of $2^{63}$ seconds or more is accepted by the configuration and by the
  action's specification (both are \<^verbatim>\<open>u64\<close>), but makes \<^verbatim>\<open>run_queue\<close> panic as soon as the item is at the head of
  the queue and there is room for it: its deadline does not fit a \<^verbatim>\<open>SystemTime\<close>.
\<close>

lemma run_queue_huge_timeout_panics:
  assumes "queue_jobs q = item # rest" and "running_jobs q < max_running_jobs (action cfg)"
    and "om_namespace (job_meta (item_job item)) = Some ns" and "0 \<le> enqueued_at item"
    and "expire_after item = Some (from_secs t) \<or>
         expire_after item = None \<and> t = job_waiting_timeout_seconds (action cfg)"
    and "9223372036854775808 \<le> unat t"
  shows "\<not> returns (run_queue env cfg (q, w))"
proof -
  have "int 9223372036854775808 \<le> int (unat t)" using assms(6) by (simp only: of_nat_le_iff)
  then have "system_time_limit \<le> enqueued_at item + int (from_secs t)"
    using assms(4) by (simp add: system_time_limit_def from_secs_def)
  then have "checked_add (enqueued_at item) (unwrap_or (expire_after item)
      (from_secs (job_waiting_timeout_seconds (action cfg)))) = None"
    using assms(5) by (auto simp: checked_add_None_iff)
  then have it: "\<not> returns (run_queue_item env cfg item (q1, w1))" for q1 w1
    using assms(3) by (simp add: run_queue_item_def is_expired_def Let_def split: prod.splits)
  have free: "max_running_jobs (action cfg) - running_jobs q \<noteq> 0"
    using assms(2) by auto
  show ?thesis
  proof (cases "update_gauges cfg (length (queue_jobs q)) q")
    case (Returns q1)
    from update_gauges_frame [OF this] assms(1) have "queue_jobs q1 = item # rest" by auto
    with Returns assms(1,2) free it [of "q1\<lparr> queue_jobs := rest \<rparr>" w] show ?thesis
      by (cases "run_queue_item env cfg item (q1\<lparr> queue_jobs := rest \<rparr>, w)")
        (auto simp: run_queue_def Let_def)
  qed (simp add: run_queue_def Let_def)
qed

text \<open>A limit of one, and two jobs that wait for up to a minute.\<close>

definition limit_one :: runtime_config where
  "limit_one = default_runtime_config\<lparr> action := default_action_config\<lparr> max_running_jobs := 1 \<rparr> \<rparr>"

definition two_waiting :: jobs_queue where
  "two_waiting = (init_jobs_queue ''me'')\<lparr> queue_jobs :=
     replicate 2 \<lparr> item_job = sample_job, enqueued_at = 4000000000, expire_after = Some 60000000000 \<rparr> \<rparr>"

lemma two_waiting_ok:
  "\<forall>item \<in> set (queue_jobs two_waiting). item_ok sample_env limit_one item"
  "\<forall>item \<in> set (queue_jobs two_waiting). \<forall>w. \<not> past_deadline limit_one item (fst (now sample_env w))"
  "gauges_ok limit_one two_waiting" "running_jobs two_waiting = 0"
  "length (queue_jobs two_waiting) = 2"
  by (simp_all add: two_waiting_def item_ok_def sample_job_measurable sample_env_def time_simps
      past_deadline_def gauges_ok_def init_jobs_queue_def limit_one_def numeral_2_eq_2)

lemma limit_one_value [simp]: "unat (max_running_jobs (action limit_one)) = 1"
  by (simp add: limit_one_def)

lemma accepting_env: "\<forall>ns j w. fst (create_job sample_env ns j w) = Inr ()"
  by (simp add: sample_env_def)

theorem run_queue_exceeds_limit_witness:
  "\<exists>q1 w1 q2 w2. run_queue sample_env limit_one (two_waiting, ()) = Returns (q1, w1) \<and>
     run_queue sample_env limit_one (q1, w1) = Returns (q2, w2) \<and>
     length (filter is_created (trace q2)) = 2"
proof -
  from run_queue_returns [OF two_waiting_ok(1,3), of "()"] obtain q1 w1 where
    r1: "run_queue sample_env limit_one (two_waiting, ()) = Returns (q1, w1)"
    by (auto simp: returns_iff)
  note q1 = run_queue_all_created [OF r1 accepting_env two_waiting_ok(2)]
  have "\<forall>item \<in> set (queue_jobs q1). item_ok sample_env limit_one item"
    using q1 two_waiting_ok(1) by (metis in_set_dropD)
  moreover have "gauges_ok limit_one q1"
    using q1 by (simp add: gauges_ok_def two_waiting_ok(4,5))
  ultimately obtain q2 w2 where r2: "run_queue sample_env limit_one (q1, w1) = Returns (q2, w2)"
    using run_queue_returns [of q1 sample_env limit_one w1] by (auto simp: returns_iff)
  have "trace two_waiting = []" by (simp add: two_waiting_def init_jobs_queue_def)
  with run_queue_exceeds_limit [OF r1 r2 accepting_env two_waiting_ok(2,4)] r1 r2
  show ?thesis by (auto simp: two_waiting_ok(5))
qed

definition never_expiring :: jobs_queue_item where
  "never_expiring = \<lparr> item_job = sample_job, enqueued_at = 4000000000,
     expire_after = Some (from_secs 18446744073709551615) \<rparr>"

lemma run_queue_huge_timeout_example:
  "\<not> returns (run_queue sample_env default_runtime_config
      ((init_jobs_queue ''me'')\<lparr> queue_jobs := [never_expiring] \<rparr>, ()))"
  by (rule run_queue_huge_timeout_panics
        [where ns = "''default''" and t = 18446744073709551615 and item = never_expiring and rest = "[]"])
    (simp_all add: never_expiring_def init_jobs_queue_def default_runtime_config_def
      default_action_config_def sample_job_def default_job_def default_object_meta_def)

section \<open>The invariant of the queue\<close>

text \<open>What the callers of \<^verbatim>\<open>enqueue\<close> provide: the labels an action gives its jobs.\<close>

definition labelled :: "job \<Rightarrow> bool" where
  "labelled j \<longleftrightarrow>
     (case om_labels (job_meta j) of
        None \<Rightarrow> False
      | Some ls \<Rightarrow> list_all (\<lambda>l. ls l \<noteq> None) metric_labels)"

text \<open>All waiting and all handled jobs belong to the controller, and the waiting ones can be counted.\<close>

definition queue_inv :: "string \<Rightarrow> jobs_queue \<Rightarrow> bool" where
  "queue_inv ident q \<longleftrightarrow>
     identity q = ident \<and>
     (\<forall>item \<in> set (queue_jobs q). owned_by ident (item_job item) \<and> measurable (item_job item)) \<and>
     (\<forall>tr \<in> set (trace q). owned_by ident (item_job (trace_item tr)))"

lemma job_stream_event_inv:
  assumes "job_stream_event env store ev (q, w) = Returns (q', w')" and "queue_inv ident q"
  shows "queue_inv ident q'"
proof (cases ev)
  case (Inr j)
  with assms(1) obtain q1 w1 where t: "job_touched env store j (q, w) = Returns (q1, w1)"
    and q': "q' = q1\<lparr> queue_event := True \<rparr>" by (auto simp: job_stream_event_def)
  from job_touched_effect [OF t] have "identity q1 = identity q" "queue_jobs q1 = queue_jobs q"
      "trace q1 = trace q"
    by (auto split: option.splits)
  with assms(2) q' show ?thesis by (simp add: queue_inv_def)
qed (use assms in \<open>auto simp: job_stream_event_def queue_inv_def\<close>)

lemma enqueue_inv:
  assumes "enqueue env j ns exp (Some q, w) = (r, Some q', w')" and "labelled j" and "queue_inv ident q"
  shows "queue_inv ident q'"
proof -
  from assms(2) obtain ls where "om_labels (job_meta j) = Some ls"
    and "\<forall>l \<in> set metric_labels. ls l \<noteq> None"
    by (auto simp: labelled_def list_all_iff split: option.splits)
  from label_for_queue_measurable [OF this] have "measurable (label_for_queue ident ns j)" .
  with assms(1,3) label_for_queue_owned [of ident ns j] show ?thesis
    by (auto simp: enqueue_def Let_def queue_inv_def split: if_splits prod.splits)
qed

end
