(* ===== verification/Action_Correct.thy ===== *)
theory Action_Correct
  imports Action Jobs_Correct
begin

text \<open>
  What is proved of actions: the labels of the Job, which sources it clones, and that executing an
  action puts exactly one job into the queue, in the namespace of the trigger. The containers of
  the Job are the subject of \<^verbatim>\<open>Cloner_Correct\<close>.
\<close>

section \<open>The Job of an action\<close>

text \<open>The interface of \<^verbatim>\<open>ActionInternals\<close>: the kinds of sources that an override may name.\<close>

locale action_kind_ops =
  fixes ops :: "'a action_ops" and override_kinds :: "trigger_source_kind set"
  assumes override_allowed: "source_override_spec ops a = Some so \<Longrightarrow> aso_kind so \<in> override_kinds"
begin

lemma cloned_kind:
  "\<exists>k rest. job_cloner_args cfg ops a rq = ''--kind'' # source_kind_to_string k # rest \<and>
     (k \<in> override_kinds \<or> source_override_spec ops a = None \<and> k = rq_source_kind rq)"
  using override_allowed [of a]
  by (auto simp: job_cloner_args_def get_gitrepo_cloner_args_def Let_def split: option.splits prod.splits)

end

interpretation action_ops: action_kind_ops "action_internals owner_ref" "{GitRepo, ClusterGitRepo}" for owner_ref
  by unfold_locales (use trigger_source_kind.exhaust in auto)

interpretation cluster_action_ops: action_kind_ops "cluster_action_internals owner_ref" "{ClusterGitRepo}"
  for owner_ref
  by unfold_locales auto

lemma job_labels_present: "l \<in> set metric_labels \<Longrightarrow> job_labels ops a rq l \<noteq> None"
  by (auto simp: job_labels_def metric_labels_def map_add_def split: option.splits)

lemma create_job_spec_ok:
  assumes "create_job_spec env reads ops a rq w = Returns (r, w')"
  shows "\<exists>name owner. job_name env ops a w = (name, w') \<and> get_owner_reference ops a = Returns owner \<and>
           r = Inr \<lparr> job_meta = default_object_meta\<lparr> om_name := Some name,
                       om_labels := Some (job_labels ops a rq),
                       om_annotations := aj_annotations (action_job_spec ops a),
                       om_owner_references := Some [owner] \<rparr>,
                     job_spec_of = Some (job_spec_for reads ops a rq), job_status_of = None \<rparr>"
  using assms by (auto simp: create_job_spec_def split: prod.splits)

lemma create_job_spec_labelled:
  "create_job_spec env reads ops a rq w = Returns (Inr j, w') \<Longrightarrow> labelled j"
  using job_labels_present by (auto dest!: create_job_spec_ok simp: labelled_def list_all_iff)

section \<open>Executing an action\<close>

lemma execute_enqueues:
  assumes "execute env reads ops a rq (q, w) = Returns (r, q', w')"
  shows "\<exists>j w1. create_job_spec env reads ops a rq w = Returns (Inr j, w1) \<and>
           enqueue env j (rq_ns rq)
             (map_option from_secs (aj_job_waiting_timeout_seconds (action_job_spec ops a))) (q, w1) =
           (r, q', w')"
proof -
  from assms obtain r1 w1 where c: "create_job_spec env reads ops a rq w = Returns (r1, w1)"
    by (auto simp: execute_def)
  from create_job_spec_ok [OF c] obtain j where "r1 = Inr j" by blast
  with assms c show ?thesis by (auto simp: execute_def)
qed

text \<open>What a request adds to a queue: one item, at the end, for the trigger's namespace.\<close>

definition item_for ::
    "('w, 'z) clock_env_scheme \<Rightarrow> config_reads \<Rightarrow> ('a, 'y) action_ops_scheme \<Rightarrow> 'a \<Rightarrow>
     action_request \<Rightarrow> string \<Rightarrow> jobs_queue_item \<Rightarrow> bool" where
  "item_for env reads ops a rq ident item \<longleftrightarrow>
     owned_by ident (item_job item) \<and> measurable (item_job item) \<and>
     om_namespace (job_meta (item_job item)) = Some (rq_ns rq) \<and>
     job_spec_of (item_job item) = Some (job_spec_for reads ops a rq) \<and>
     expire_after item = map_option from_secs (aj_job_waiting_timeout_seconds (action_job_spec ops a))"

lemma execute_queue:
  assumes "execute env reads ops a rq (Some q, w) = Returns (r, q', w')"
  shows "\<exists>item. item_for env reads ops a rq (identity q) item \<and>
     q' = Some (q\<lparr> queue_jobs := queue_jobs q @ [item],
                   queue_event := (event_loop_alive q \<or> queue_event q) \<rparr>) \<and>
     r = (if event_loop_alive q then Inr () else Inl (JobsQueueError ''channel closed''))"
proof -
  from execute_enqueues [OF assms] obtain j w1 where
    j: "create_job_spec env reads ops a rq w = Returns (Inr j, w1)" and
    e: "enqueue env j (rq_ns rq) (map_option from_secs
          (aj_job_waiting_timeout_seconds (action_job_spec ops a))) (Some q, w1) = (r, q', w')" by blast
  define item where "item = \<lparr> item_job = label_for_queue (identity q) (rq_ns rq) j,
    enqueued_at = fst (now env w1),
    expire_after = map_option from_secs (aj_job_waiting_timeout_seconds (action_job_spec ops a)) \<rparr>"
  have "measurable (item_job item)"
    using create_job_spec_labelled [OF j] label_for_queue_measurable
    by (auto simp: item_def labelled_def list_all_iff split: option.splits)
  moreover have "job_spec_of j = Some (job_spec_for reads ops a rq)"
    using create_job_spec_ok [OF j] by auto
  ultimately have "item_for env reads ops a rq (identity q) item"
    by (simp add: item_for_def item_def label_for_queue_owned)
  with e show ?thesis
    by (cases "now env w1") (auto simp: enqueue_def item_def split: if_splits)
qed

section \<open>An example\<close>

definition sample_action :: action_res where
  "sample_action =
     \<lparr> a_meta = default_object_meta\<lparr> om_name := Some ''build'', om_namespace := Some ''apps'' \<rparr>,
       a_spec = \<lparr> as_source_override = None,
                  as_action_job = default_action_job\<lparr>
                    aj_labels := Some [ACTION_JOB_ACTION_NAME_LABEL \<mapsto> ''mine''],
                    aj_job_waiting_timeout_seconds := Some 30 \<rparr> \<rparr> \<rparr>"

definition sample_owner_ref :: "'a \<Rightarrow> owner_reference option" where
  "sample_owner_ref a = Some ''uid''"

abbreviation sample_action_ops :: "action_res action_ops" where
  "sample_action_ops \<equiv> action_internals sample_owner_ref"

definition sample_request :: action_request where
  "sample_request =
     \<lparr> rq_source_kind = GitRepo, rq_source_name = ''repo'', rq_source_commit = ''abc'',
       rq_trigger_ref = Branch ''main'', rq_ns = ''apps'', rq_trigger_kind = ''ScheduleTrigger'',
       rq_trigger_name = ''nightly'' \<rparr>"

lemma sample_create_job_spec:
  "\<exists>j. create_job_spec sample_env reads sample_action_ops sample_action sample_request () =
     Returns (Inr j, ())"
  by (simp add: create_job_spec_def job_name_def random_string.simps numeral_2_eq_2 sample_env_def sample_owner_ref_def)

end
