(* ===== verification/Cache_Correct.thy ===== *)
theory Cache_Correct
  imports Cache
begin

text \<open>
  What the caches promise: a store is published once and answers for its own kind only; a
  value that the cache of secrets returns was read during the call or by an earlier read of the API
  that has not expired; until then all keys are answered from one and the same read.
\<close>

section \<open>The stores of custom resources\<close>

text \<open>The interface every implementation of the trait \<^verbatim>\<open>ApiCache\<close> provides to \<open>api_cache_get\<close>.
  \<open>slot\<close> is the part of the static object that the implementation owns.\<close>

locale api_cache =
  fixes ops :: "'a api_cache_ops" and slot :: "api_cache_store \<Rightarrow> 'a store option"
  assumes get_store: "get_cache_store ops c = unwrap (slot c)"
    and set_store: "set_cache_store ops s c = Returns c' \<Longrightarrow> slot c = None \<and> slot c' = Some s"
    and set_unset: "slot c = None \<Longrightarrow> \<exists>c'. set_cache_store ops s c = Returns c'"
begin

lemma get_found: "slot c = Some st \<Longrightarrow> st (cache_key name ns) = Some v \<Longrightarrow>
    api_cache_get ops name ns c = Returns (Inr v)"
  by (simp add: api_cache_get_def get_store)

lemma get_not_found: "slot c = Some st \<Longrightarrow> st (cache_key name ns) = None \<Longrightarrow>
    api_cache_get ops name ns c = Returns (Inl (ResourceNotFoundError
      (case ns of Some ns' \<Rightarrow> ns' @ ''/'' @ name | None \<Rightarrow> name)))"
  by (simp add: api_cache_get_def get_store)

lemma get_value: "slot c = Some st \<Longrightarrow>
    api_cache_get ops name ns c = Returns (Inr v) \<longleftrightarrow> st (cache_key name ns) = Some v"
  by (simp add: api_cache_get_def get_store split: option.splits)

lemma get_unpublished: "returns (api_cache_get ops name ns c) \<longleftrightarrow> slot c \<noteq> None"
  by (cases "slot c") (simp_all add: api_cache_get_def get_store split: option.splits)

lemma set_twice: "set_cache_store ops s c = Returns c' \<Longrightarrow> \<not> returns (set_cache_store ops s' c')"
  by (auto simp: returns_iff dest!: set_store)

end

interpretation gr: api_cache git_repo_cache acs_git_repo
  by unfold_locales (auto simp: api_cache_defs split: if_splits)

interpretation cgr: api_cache cluster_git_repo_cache acs_cluster_git_repo
  by unfold_locales (auto simp: api_cache_defs split: if_splits)

interpretation act: api_cache action_cache acs_action
  by unfold_locales (auto simp: api_cache_defs split: if_splits)

interpretation cact: api_cache cluster_action_cache acs_cluster_action
  by unfold_locales (auto simp: api_cache_defs split: if_splits)

interpretation wt: api_cache webhook_trigger_cache acs_webhook_trigger
  by unfold_locales (auto simp: api_cache_defs split: if_splits)

interpretation st: api_cache schedule_trigger_cache acs_schedule_trigger
  by unfold_locales (auto simp: api_cache_defs split: if_splits)

lemma api_cache_watch_stores:
  "api_cache_watch gr cgr a ca wt st c = Returns c' \<Longrightarrow>
     c' = \<lparr> acs_git_repo = Some gr, acs_cluster_git_repo = Some cgr, acs_action = Some a,
            acs_cluster_action = Some ca, acs_webhook_trigger = Some wt,
            acs_schedule_trigger = Some st \<rparr>"
  by (cases c) (auto simp: api_cache_watch_def api_cache_defs split: if_splits)

lemma api_cache_watch_empty: "returns (api_cache_watch gr cgr a ca wt st empty_api_cache_store)"
  by (simp add: api_cache_watch_def api_cache_defs empty_api_cache_store_def)

text \<open>
  The documented lookup of a reflector store over the objects its watcher holds: the object of that
  name and namespace, and otherwise the cluster-scoped object of that name.
\<close>

definition store_of :: "('a \<Rightarrow> object_meta) \<Rightarrow> 'a list \<Rightarrow> 'a store" where
  "store_of meta objs k =
     (case find (\<lambda>x. om_name (meta x) = Some (or_name k) \<and> om_namespace (meta x) = or_namespace k) objs of
        Some x \<Rightarrow> Some x
      | None \<Rightarrow> find (\<lambda>x. om_name (meta x) = Some (or_name k) \<and> om_namespace (meta x) = None) objs)"

text \<open>The objects of a namespaced and of a cluster-scoped kind, no two of the same key.\<close>

definition namespaced_objects :: "('a \<Rightarrow> object_meta) \<Rightarrow> 'a list \<Rightarrow> bool" where
  "namespaced_objects meta objs \<longleftrightarrow>
     distinct (map (\<lambda>x. (om_name (meta x), om_namespace (meta x))) objs) \<and>
     list_all (\<lambda>x. om_namespace (meta x) \<noteq> None) objs"

definition cluster_objects :: "('a \<Rightarrow> object_meta) \<Rightarrow> 'a list \<Rightarrow> bool" where
  "cluster_objects meta objs \<longleftrightarrow>
     distinct (map (\<lambda>x. om_name (meta x)) objs) \<and> list_all (\<lambda>x. om_namespace (meta x) = None) objs"

lemma find_unique:
  assumes "distinct (map f xs)"
  shows "find (\<lambda>x. f x = k) xs = Some v \<longleftrightarrow> v \<in> set xs \<and> f v = k"
  using assms by (induction xs) auto

lemma store_of_namespaced:
  assumes "namespaced_objects meta objs"
  shows "store_of meta objs (cache_key name ns) = Some v \<longleftrightarrow>
     v \<in> set objs \<and> om_name (meta v) = Some name \<and> om_namespace (meta v) = Some (unwrap_or ns ''default'')"
proof -
  let ?f = "\<lambda>x. (om_name (meta x), om_namespace (meta x))"
  have "find (\<lambda>x. om_name (meta x) = Some name \<and> om_namespace (meta x) = None) objs = None"
    using assms by (auto simp: find_None_iff namespaced_objects_def list_all_iff)
  then have "store_of meta objs (cache_key name ns) =
      find (\<lambda>x. ?f x = (Some name, Some (unwrap_or ns ''default''))) objs"
    by (simp add: store_of_def cache_key_def split: option.split)
  moreover have "distinct (map ?f objs)" using assms by (simp add: namespaced_objects_def)
  ultimately show ?thesis
    using find_unique [of ?f objs "(Some name, Some (unwrap_or ns ''default''))" v] by simp
qed

lemma store_of_cluster:
  assumes "cluster_objects meta objs"
  shows "store_of meta objs (cache_key name ns) = Some v \<longleftrightarrow> v \<in> set objs \<and> om_name (meta v) = Some name"
proof -
  have "find (\<lambda>x. om_name (meta x) = Some name \<and> om_namespace (meta x) = Some (unwrap_or ns ''default'')) objs = None"
    using assms by (auto simp: find_None_iff cluster_objects_def list_all_iff)
  moreover have "find (\<lambda>x. om_name (meta x) = Some name \<and> om_namespace (meta x) = None) objs =
      find (\<lambda>x. om_name (meta x) = Some name) objs"
    using assms by (intro find_cong) (auto simp: cluster_objects_def list_all_iff)
  moreover have "distinct (map (\<lambda>x. om_name (meta x)) objs)" using assms by (simp add: cluster_objects_def)
  ultimately show ?thesis
    using find_unique [of "\<lambda>x. om_name (meta x)" objs "Some name" v] by (simp add: store_of_def cache_key_def)
qed

text \<open>Lookups that never panic and find exactly the object of that name in that namespace, or in
  \<^verbatim>\<open>default\<close> when none is given; or exactly the cluster-scoped object of that name.\<close>

definition finds_namespaced ::
    "(string \<Rightarrow> string option \<Rightarrow> (error + 'a) outcome) \<Rightarrow> ('a \<Rightarrow> object_meta) \<Rightarrow> 'a list \<Rightarrow> bool" where
  "finds_namespaced get meta objs \<longleftrightarrow>
     (\<forall>name ns. returns (get name ns) \<and>
        (\<forall>v. get name ns = Returns (Inr v) \<longleftrightarrow> v \<in> set objs \<and> om_name (meta v) = Some name \<and>
           om_namespace (meta v) = Some (unwrap_or ns ''default'')))"

definition finds_cluster ::
    "(string \<Rightarrow> string option \<Rightarrow> (error + 'a) outcome) \<Rightarrow> ('a \<Rightarrow> object_meta) \<Rightarrow> 'a list \<Rightarrow> bool" where
  "finds_cluster get meta objs \<longleftrightarrow>
     (\<forall>name ns. returns (get name ns) \<and>
        (\<forall>v. get name ns = Returns (Inr v) \<longleftrightarrow> v \<in> set objs \<and> om_name (meta v) = Some name))"

text \<open>
  C28. Resolution of names: after the watchers have started, a lookup never panics and finds, for
  repositories, actions and triggers of a namespace, exactly the object of that name in the asked
  namespace (or in \<^verbatim>\<open>default\<close> when none is given), never one of another namespace, and for
  cluster-scoped repositories and actions exactly the object of that name, although the key always
  carries a namespace. Starting the watchers a second time panics.
\<close>

theorem api_cache_watch_publishes:
  assumes "api_cache_watch (store_of gr_meta grs) (store_of cgr_meta cgrs) (store_of a_meta as)
      (store_of ca_meta cas) (store_of wt_meta wts) (store_of st_meta sts) c = Returns c'"
    and "namespaced_objects gr_meta grs" "cluster_objects cgr_meta cgrs" "namespaced_objects a_meta as"
      "cluster_objects ca_meta cas" "namespaced_objects wt_meta wts" "namespaced_objects st_meta sts"
  shows "finds_namespaced (\<lambda>name ns. api_cache_get git_repo_cache name ns c') gr_meta grs \<and>
         finds_cluster (\<lambda>name ns. api_cache_get cluster_git_repo_cache name ns c') cgr_meta cgrs \<and>
         finds_namespaced (\<lambda>name ns. api_cache_get action_cache name ns c') a_meta as \<and>
         finds_cluster (\<lambda>name ns. api_cache_get cluster_action_cache name ns c') ca_meta cas \<and>
         finds_namespaced (\<lambda>name ns. api_cache_get webhook_trigger_cache name ns c') wt_meta wts \<and>
         finds_namespaced (\<lambda>name ns. api_cache_get schedule_trigger_cache name ns c') st_meta sts \<and>
         (\<forall>gr cgr a ca wt st. \<not> returns (api_cache_watch gr cgr a ca wt st c'))"
proof -
  note c' = api_cache_watch_stores [OF assms(1)]
  have "\<not> returns (set_cache_store git_repo_cache gr c')" for gr
    by (simp add: c' api_cache_defs)
  then have "\<not> returns (api_cache_watch gr cgr a ca wt st c')" for gr cgr a ca wt st
    by (auto simp: api_cache_watch_def returns_iff)
  with c' show ?thesis
    by (simp add: finds_namespaced_def finds_cluster_def gr.get_value cgr.get_value act.get_value
        cact.get_value wt.get_value st.get_value gr.get_unpublished cgr.get_unpublished act.get_unpublished
        cact.get_unpublished wt.get_unpublished st.get_unpublished
        store_of_namespaced [OF assms(2)] store_of_cluster [OF assms(3)] store_of_namespaced [OF assms(4)]
        store_of_cluster [OF assms(5)] store_of_namespaced [OF assms(6)] store_of_namespaced [OF assms(7)])
qed

definition sample_git_repo :: git_repo where
  "sample_git_repo =
     \<lparr> gr_meta = default_object_meta\<lparr> om_name := Some ''repo'', om_namespace := Some ''default'' \<rparr>,
       gr_spec = \<lparr> gr_repo_uri = ''https://example.com/repo.git'', gr_tls_config = None,
                   gr_auth_config = None \<rparr> \<rparr>"

theorem api_cache_watch_publishes_witness:
  "\<exists>c'. api_cache_watch (store_of gr_meta [sample_git_repo]) (store_of cgr_meta []) (store_of a_meta [])
          (store_of ca_meta []) (store_of wt_meta []) (store_of st_meta []) empty_api_cache_store = Returns c' \<and>
        api_cache_get git_repo_cache ''repo'' None c' = Returns (Inr sample_git_repo) \<and>
        api_cache_get git_repo_cache ''repo'' (Some ''other'') c' \<noteq> Returns (Inr sample_git_repo)"
proof -
  obtain c' where c': "api_cache_watch (store_of gr_meta [sample_git_repo]) (store_of cgr_meta [])
      (store_of a_meta []) (store_of ca_meta []) (store_of wt_meta []) (store_of st_meta [])
      empty_api_cache_store = Returns c'"
    using api_cache_watch_empty by (fastforce simp: returns_iff)
  have objs: "namespaced_objects gr_meta [sample_git_repo]"
    by (simp add: namespaced_objects_def sample_git_repo_def)
  have "finds_namespaced (\<lambda>name ns. api_cache_get git_repo_cache name ns c') gr_meta [sample_git_repo]"
    by (rule conjunct1 [OF api_cache_watch_publishes [OF c' objs]])
      (simp_all add: namespaced_objects_def cluster_objects_def)
  then have "\<forall>ns. api_cache_get git_repo_cache ''repo'' ns c' = Returns (Inr sample_git_repo) \<longleftrightarrow>
      unwrap_or ns ''default'' = ''default''"
    by (auto simp: finds_namespaced_def sample_git_repo_def)
  with c' show ?thesis by auto
qed

section \<open>Secrets\<close>

text \<open>
  The clock and the API server: \<open>clock\<close> reads the time of a world, which no call moves
  backwards, and \<open>contents\<close> is what the API server holds over time; an answer is what it held
  at some moment of the call.
\<close>

definition timed_env ::
    "('w, 'z) secrets_env_scheme \<Rightarrow> ('w \<Rightarrow> system_time) \<Rightarrow>
     (system_time \<Rightarrow> string \<Rightarrow> string \<Rightarrow> secret_data option) \<Rightarrow> bool" where
  "timed_env env clock contents \<longleftrightarrow>
     (\<forall>w. fst (now env w) = clock w \<and> clock w \<le> clock (snd (now env w))) \<and>
     (\<forall>ns n w. clock w \<le> clock (snd (get_secret env ns n w))) \<and>
     (\<forall>ns n w d. fst (get_secret env ns n w) = Inr (Some d) \<longrightarrow>
        (\<exists>t. clock w \<le> t \<and> t \<le> clock (snd (get_secret env ns n w)) \<and> contents t ns n = Some d))"

lemma timed_now:
  "timed_env env clock contents \<Longrightarrow> now env w = (t, w') \<Longrightarrow> t = clock w \<and> clock w \<le> clock w'"
  by (metis fst_conv snd_conv timed_env_def)

lemma timed_get_secret:
  "timed_env env clock contents \<Longrightarrow> get_secret env ns n w = (r, w') \<Longrightarrow> clock w \<le> clock w'"
  by (metis snd_conv timed_env_def)

lemma timed_get_secret_data:
  assumes "timed_env env clock contents" and "get_secret env ns n w = (Inr (Some d), w')"
  shows "\<exists>t. clock w \<le> t \<and> t \<le> clock w' \<and> contents t ns n = Some d"
proof -
  have "fst (get_secret env ns n w) = Inr (Some d)" using assms(2) by simp
  with assms(1) have "\<exists>t. clock w \<le> t \<and> t \<le> clock (snd (get_secret env ns n w)) \<and> contents t ns n = Some d"
    unfolding timed_env_def by blast
  with assms(2) show ?thesis by simp
qed

lemma query_secrets_api_ok:
  "query_secrets_api env ns n key w = (Inr (raw, v), w') \<longleftrightarrow>
     get_secret env ns n w = (Inr (Some raw), w') \<and> raw key = Some v \<and> utf8_valid v"
  by (auto simp: query_secrets_api_def from_utf8_def
      split: prod.splits sum.splits option.splits if_splits)

lemma query_secrets_api_world:
  "query_secrets_api env ns n key w = (r, w') \<Longrightarrow> \<exists>r'. get_secret env ns n w = (r', w')"
  by (auto simp: query_secrets_api_def split: prod.splits sum.splits option.splits if_splits)

text \<open>A read of a secret from the API server: what was asked, what came back, and when the call
  started and ended.\<close>

record secret_read =
  rd_ns :: string
  rd_name :: string
  rd_data :: secret_data
  rd_started :: system_time
  rd_ended :: system_time

definition api_reads ::
    "('w, 'z) secrets_env_scheme \<Rightarrow> ('w \<Rightarrow> system_time) \<Rightarrow> string \<Rightarrow> string \<Rightarrow> 'w \<Rightarrow> secret_read list" where
  "api_reads env clock ns n w =
     (case get_secret env ns n w of
        (Inr (Some d), w1) \<Rightarrow>
          [\<lparr> rd_ns = ns, rd_name = n, rd_data = d, rd_started = clock w, rd_ended = clock w1 \<rparr>]
      | _ \<Rightarrow> [])"

text \<open>What was read was in the secret at some moment of the call.\<close>

definition read_true ::
    "(system_time \<Rightarrow> string \<Rightarrow> string \<Rightarrow> secret_data option) \<Rightarrow> secret_read \<Rightarrow> bool" where
  "read_true contents e \<longleftrightarrow>
     (\<exists>t. rd_started e \<le> t \<and> t \<le> rd_ended e \<and> contents t (rd_ns e) (rd_name e) = Some (rd_data e))"

lemma api_reads_true:
  assumes "timed_env env clock contents" and "e \<in> set (api_reads env clock ns n w)"
  shows "read_true contents e"
proof -
  obtain r w1 where g: "get_secret env ns n w = (r, w1)" by force
  with assms(2) obtain d where r: "r = Inr (Some d)"
    by (auto simp: api_reads_def split: sum.splits option.splits)
  from timed_get_secret_data [OF assms(1) g [unfolded r]] assms(2) g r show ?thesis
    by (auto simp: api_reads_def read_true_def)
qed

text \<open>An entry of the cache comes from one of the reads so far and expires a timeout after its end.\<close>

definition entry_read :: "secret_read list \<Rightarrow> duration \<Rightarrow> string \<Rightarrow> secret_value \<Rightarrow> bool" where
  "entry_read reads timeout hk sv \<longleftrightarrow>
     (\<exists>e \<in> set reads. hk = hash_key (rd_ns e) (rd_name e) \<and> CHR ''/'' \<notin> set (rd_ns e) \<and>
        rd_data e = sv_data sv \<and> sv_expires_at sv = rd_ended e + int timeout)"

definition cache_read :: "secret_read list \<Rightarrow> duration \<Rightarrow> secrets_cache \<Rightarrow> bool" where
  "cache_read reads timeout c \<longleftrightarrow>
     expiration_timeout c = timeout \<and>
     (\<forall>hk sv. sc_cache c hk = Some sv \<longrightarrow> entry_read reads timeout hk sv)"

lemma cache_read_mono: "cache_read reads timeout c \<Longrightarrow> cache_read (reads @ later) timeout c"
  unfolding cache_read_def entry_read_def by (metis Un_iff set_append)

lemma refresh_cached_ok:
  assumes "refresh_cached env ns n key (c, w) = Returns (Inr v, c', w')"
  shows "\<exists>raw w1 t. get_secret env ns n w = (Inr (Some raw), w1) \<and> raw key = Some v \<and> utf8_valid v \<and>
           now env w1 = (t, w') \<and>
           c' = c\<lparr> sc_cache := (sc_cache c)(hash_key ns n \<mapsto>
                  \<lparr> sv_data = raw, sv_expires_at = t + int (expiration_timeout c) \<rparr>) \<rparr>"
  using assms
  by (auto simp: refresh_cached_def checked_add_def query_secrets_api_ok
      split: prod.splits sum.splits if_splits)

lemma refresh_cached_err:
  assumes "refresh_cached env ns n key (c, w) = Returns (Inl e, c', w')"
  shows "c' = c \<and> query_secrets_api env ns n key w = (Inl e, w')"
  using assms by (auto simp: refresh_cached_def split: prod.splits sum.splits)

lemma refresh_cached_cache_read:
  assumes env: "timed_env env clock contents"
    and r: "refresh_cached env ns n key (c, w) = Returns (res, c', w')"
    and ns: "CHR ''/'' \<notin> set ns" and c: "cache_read reads timeout c"
  shows "cache_read (reads @ api_reads env clock ns n w) timeout c'"
proof (cases res)
  case (Inl e)
  with r have "c' = c" using refresh_cached_err [of env ns n key c w e c' w'] by simp
  with c show ?thesis by (simp add: cache_read_mono)
next
  case (Inr v)
  with r obtain raw w1 t where g: "get_secret env ns n w = (Inr (Some raw), w1)"
    and t: "now env w1 = (t, w')"
    and c': "c' = c\<lparr> sc_cache := (sc_cache c)(hash_key ns n \<mapsto>
              \<lparr> sv_data = raw, sv_expires_at = t + int (expiration_timeout c) \<rparr>) \<rparr>"
    using refresh_cached_ok [of env ns n key c w v c' w'] by auto
  have "t = clock w1" using timed_now [OF env t] by simp
  then have "entry_read (reads @ api_reads env clock ns n w) timeout (hash_key ns n)
          \<lparr> sv_data = raw, sv_expires_at = t + int timeout \<rparr>"
    using ns g by (simp add: entry_read_def api_reads_def)
  with c' cache_read_mono [OF c] c show ?thesis
    by (auto simp: cache_read_def)
qed

text \<open>
  Every interleaving of the calls of \<^verbatim>\<open>get_key_value\<close>: their first parts change nothing, their
  second parts run one at a time under the write lock, and time goes on in between. \<open>reads\<close> is the
  history of the reads of the API server.
\<close>

inductive secrets_reachable ::
    "('w, 'z) secrets_env_scheme \<Rightarrow> ('w \<Rightarrow> system_time) \<Rightarrow> duration \<Rightarrow> secret_read list \<Rightarrow>
     secrets_cache \<times> 'w \<Rightarrow> bool"
  for env clock timeout where
  initial: "init_secrets_cache timeout None = Returns (Some c) \<Longrightarrow>
     secrets_reachable env clock timeout [] (c, w)"
| refreshed: "secrets_reachable env clock timeout reads (c, w) \<Longrightarrow> CHR ''/'' \<notin> set ns \<Longrightarrow>
     refresh_cached env ns n key (c, w) = Returns (r, c', w') \<Longrightarrow>
     secrets_reachable env clock timeout (reads @ api_reads env clock ns n w) (c', w')"
| waited: "secrets_reachable env clock timeout reads (c, w) \<Longrightarrow> clock w \<le> clock w' \<Longrightarrow>
     secrets_reachable env clock timeout reads (c, w')"

lemma secrets_reachable_cache_read:
  assumes "timed_env env clock contents" and "secrets_reachable env clock timeout reads (c, w)"
  shows "cache_read reads timeout c \<and> (\<forall>e \<in> set reads. read_true contents e)"
proof -
  have "cache_read reads timeout (fst s) \<and> (\<forall>e \<in> set reads. read_true contents e)"
    if "secrets_reachable env clock timeout reads s" for s
    using that
  proof (induction rule: secrets_reachable.induct)
    case (initial c w)
    then show ?case by (auto simp: init_secrets_cache_def cache_read_def)
  next
    case (refreshed reads c w ns n key r c' w')
    then show ?case
      using refresh_cached_cache_read [OF assms(1) refreshed.hyps(3)] api_reads_true [OF assms(1)] by auto
  qed simp
  from this [OF assms(2)] show ?thesis by simp
qed

lemma get_cached_hit:
  assumes "get_cached env ns n key c w = (Some (Inr v), w')"
  shows "\<exists>sv t. sc_cache c (hash_key ns n) = Some sv \<and> now env w = (t, w') \<and> t < sv_expires_at sv \<and>
           sv_data sv key = Some v \<and> utf8_valid v"
  using assms
  by (auto simp: get_cached_def from_utf8_def split: option.splits prod.splits if_splits)

lemma get_cached_clock:
  assumes "timed_env env clock contents" and "get_cached env ns n key c w = (r, w')"
  shows "clock w \<le> clock w'"
  using assms(2) timed_now [OF assms(1), of w]
  by (auto simp: get_cached_def split: option.splits prod.splits if_splits)

text \<open>A value comes from a read of that key of that secret, one of the history or one between the
  two times, which returned what the secret contained at some moment of it and ended at most the
  timeout before the first of the two times.\<close>

definition recently_read ::
    "(system_time \<Rightarrow> string \<Rightarrow> string \<Rightarrow> secret_data option) \<Rightarrow> duration \<Rightarrow> secret_read list \<Rightarrow>
     system_time \<Rightarrow> system_time \<Rightarrow> string \<Rightarrow> string \<Rightarrow> string \<Rightarrow> string \<Rightarrow> bool" where
  "recently_read contents timeout reads began ended ns n key v \<longleftrightarrow>
     (\<exists>e. (e \<in> set reads \<or> began \<le> rd_started e \<and> rd_ended e \<le> ended) \<and>
        rd_ns e = ns \<and> rd_name e = n \<and> rd_data e key = Some v \<and> utf8_valid v \<and>
        read_true contents e \<and> began \<le> rd_ended e + int timeout)"

lemma get_key_value_recent:
  assumes "timed_env env clock contents" and "secrets_reachable env clock timeout reads (c, w)"
    and "CHR ''/'' \<notin> set ns" and "get_key_value env ns n key (c, w) = Returns (Inr v, c', w')"
  shows "recently_read contents timeout reads (clock w) (clock w') ns n key v"
proof (cases "get_cached env ns n key c w")
  case (Pair r w1)
  note reach = secrets_reachable_cache_read [OF assms(1,2)]
  show ?thesis
  proof (cases r)
    case (Some x)
    with Pair assms(4) have hit: "get_cached env ns n key c w = (Some (Inr v), w')"
      by (simp add: get_key_value_def)
    from get_cached_hit [OF this] obtain sv t where sv: "sc_cache c (hash_key ns n) = Some sv"
      "now env w = (t, w')" "t < sv_expires_at sv" "sv_data sv key = Some v" "utf8_valid v" by blast
    from reach sv(1) obtain e where e: "e \<in> set reads" "hash_key ns n = hash_key (rd_ns e) (rd_name e)"
        "CHR ''/'' \<notin> set (rd_ns e)" "rd_data e = sv_data sv" "sv_expires_at sv = rd_ended e + int timeout"
      unfolding cache_read_def entry_read_def by blast
    have "rd_ns e = ns" "rd_name e = n"
      using slash_key_inject [of ns n "rd_ns e" "rd_name e"] e(2,3) assms(3) by (simp_all add: hash_key_def)
    with e sv reach timed_now [OF assms(1) sv(2)] show ?thesis
      unfolding recently_read_def by fastforce
  next
    case None
    with Pair assms(4) have r: "refresh_cached env ns n key (c, w1) = Returns (Inr v, c', w')"
      by (simp add: get_key_value_def)
    from refresh_cached_ok [OF this] obtain raw w2 t where
      g: "get_secret env ns n w1 = (Inr (Some raw), w2)" "raw key = Some v" "utf8_valid v"
        "now env w2 = (t, w')" by blast
    let ?e = "\<lparr> rd_ns = ns, rd_name = n, rd_data = raw, rd_started = clock w1, rd_ended = clock w2 \<rparr>"
    have "?e \<in> set (api_reads env clock ns n w1)" using g(1) by (simp add: api_reads_def)
    from api_reads_true [OF assms(1) this] g timed_now [OF assms(1) g(4)] timed_get_secret [OF assms(1) g(1)]
      get_cached_clock [OF assms(1) Pair]
    show ?thesis unfolding recently_read_def by (intro exI [of _ ?e]) auto
  qed
qed

text \<open>
  C15. Bounded staleness: whatever the interleaving of earlier calls was, a value that
  \<^verbatim>\<open>get_key_value\<close> returns is valid UTF-8 and comes from a read of the asked key of the asked secret
  from the API server: a read of the history that ended at most the expiration timeout before the
  call began, or a read during the call. That read returned what the secret contained at some
  moment between its start and its end.
\<close>

theorem secret_value_staleness:
  assumes "timed_env env clock contents" and "secrets_reachable env clock timeout reads (c, w)"
    and "CHR ''/'' \<notin> set ns" and "get_key_value env ns n key (c, w) = Returns (Inr v, c', w')"
  shows "\<exists>e. (e \<in> set reads \<and> clock w \<le> rd_ended e + int timeout \<or>
              clock w \<le> rd_started e \<and> rd_ended e \<le> clock w') \<and>
           rd_ns e = ns \<and> rd_name e = n \<and> rd_data e key = Some v \<and> utf8_valid v \<and>
           (\<exists>t. rd_started e \<le> t \<and> t \<le> rd_ended e \<and> contents t ns n = Some (rd_data e))"
  using get_key_value_recent [OF assms] unfolding recently_read_def read_true_def by blast

lemma get_key_value_miss:
  assumes "sc_cache c (hash_key ns n) = None"
  shows "get_key_value env ns n key (c, w) = refresh_cached env ns n key (c, w)"
  using assms by (simp add: get_key_value_def get_cached_def)

text \<open>A world that is a counter of seconds since some start; reading a secret takes one second.\<close>

definition sample_secrets_env :: "nat secrets_env" where
  "sample_secrets_env =
     \<lparr> now = (\<lambda>w. (int w * 1000000000, w)), format_local = (\<lambda>_. ''20240101-000000''),
       sample_alphanumeric = (\<lambda>w. (CHR ''a'', w)),
       get_secret = (\<lambda>ns n w. (if ns = ''apps'' \<and> n = ''hook''
          then Inr (Some [''token'' \<mapsto> ''s3cret'']) else Inl (Api 404 ''not found''), Suc w)) \<rparr>"

definition sample_contents :: "system_time \<Rightarrow> string \<Rightarrow> string \<Rightarrow> secret_data option" where
  "sample_contents t ns n = (if ns = ''apps'' \<and> n = ''hook'' then Some [''token'' \<mapsto> ''s3cret''] else None)"

abbreviation sample_clock :: "nat \<Rightarrow> system_time" where
  "sample_clock w \<equiv> int w * 1000000000"

definition sample_secrets_cache :: secrets_cache where
  "sample_secrets_cache = \<lparr> expiration_timeout = 60 * 1000000000, sc_cache = Map.empty \<rparr>"

lemma sample_timed: "timed_env sample_secrets_env sample_clock sample_contents"
  by (auto simp: timed_env_def sample_secrets_env_def sample_contents_def split: if_splits)

lemma sample_utf8 [simp]: "utf8_valid ''s3cret''"
  by (rule utf8_valid_ascii) (simp add: byte_def)

definition sample_filled_cache :: secrets_cache where
  "sample_filled_cache = sample_secrets_cache\<lparr> sc_cache := [hash_key ''apps'' ''hook'' \<mapsto>
     \<lparr> sv_data = [''token'' \<mapsto> ''s3cret''], sv_expires_at = 161 * 1000000000 \<rparr>] \<rparr>"

lemma sample_refresh:
  "refresh_cached sample_secrets_env ''apps'' ''hook'' ''token'' (sample_secrets_cache, 100) =
     Returns (Inr ''s3cret'', sample_filled_cache, 101)"
  by (simp add: refresh_cached_def query_secrets_api_def sample_secrets_env_def checked_add_def
      from_utf8_def sample_secrets_cache_def sample_filled_cache_def system_time_limit_def)

definition sample_read :: secret_read where
  "sample_read = \<lparr> rd_ns = ''apps'', rd_name = ''hook'', rd_data = [''token'' \<mapsto> ''s3cret''],
     rd_started = 100 * 1000000000, rd_ended = 101 * 1000000000 \<rparr>"

lemma sample_reachable:
  "secrets_reachable sample_secrets_env sample_clock (60 * 1000000000) [sample_read] (sample_filled_cache, 101)"
  using secrets_reachable.refreshed [OF secrets_reachable.initial _ sample_refresh,
      of "60 * 1000000000" sample_clock]
  by (simp add: init_secrets_cache_def sample_secrets_cache_def api_reads_def sample_secrets_env_def sample_read_def)

lemma sample_hit:
  "get_key_value sample_secrets_env ''apps'' ''hook'' ''token'' (sample_filled_cache, 101) =
     Returns (Inr ''s3cret'', sample_filled_cache, 101)"
  by (simp add: get_key_value_def get_cached_def sample_filled_cache_def sample_secrets_env_def
      from_utf8_def)

theorem secret_value_staleness_witness:
  "\<exists>e. (e = sample_read \<or> 101 * 1000000000 \<le> rd_started e \<and> rd_ended e \<le> 101 * 1000000000) \<and>
     rd_data e ''token'' = Some ''s3cret''"
  using secret_value_staleness [OF sample_timed sample_reachable _ sample_hit] by auto

text \<open>What other tasks do to the cache meanwhile: they read other secrets, and time goes on.\<close>

inductive other_secrets ::
    "('w, 'z) secrets_env_scheme \<Rightarrow> string \<Rightarrow> string \<Rightarrow> secrets_cache \<times> 'w \<Rightarrow> secrets_cache \<times> 'w \<Rightarrow> bool"
  for env ns n where
  other_read: "CHR ''/'' \<notin> set ns' \<Longrightarrow> (ns', n') \<noteq> (ns, n) \<Longrightarrow>
     refresh_cached env ns' n' key (c, w) = Returns (r, c', w') \<Longrightarrow>
     other_secrets env ns n (c, w) (c', w')"
| other_wait: "other_secrets env ns n (c, w) (c, w')"

lemma other_secrets_keep:
  assumes "(other_secrets env ns n)\<^sup>*\<^sup>* s s'" and "CHR ''/'' \<notin> set ns"
  shows "sc_cache (fst s') (hash_key ns n) = sc_cache (fst s) (hash_key ns n)"
  using assms(1)
proof (induction rule: rtranclp_induct)
  case (step s' s'')
  from step.hyps(2) have "sc_cache (fst s'') (hash_key ns n) = sc_cache (fst s') (hash_key ns n)"
  proof (cases rule: other_secrets.cases)
    case (other_read ns' n' key c w r c' w')
    have "hash_key ns n \<noteq> hash_key ns' n'"
      using slash_key_inject [of ns n ns' n'] other_read(3,4) assms(2) by (auto simp: hash_key_def)
    with other_read show ?thesis
      by (cases r) (auto dest: refresh_cached_ok refresh_cached_err)
  qed simp
  with step.IH show ?case by simp
qed simp

text \<open>
  C27. After a successful read of a secret, and whatever other secrets are read meanwhile: until the
  entry expires, a call for any key that the read contained is answered from that one read, without
  asking the API server, and leaves the cache as it is; a call for a key that it did not contain,
  and every call after the expiration, asks the API server again.
\<close>

theorem secret_cached_after_get:
  assumes "refresh_cached env ns n key (c, w) = Returns (Inr v, c1, w1)" and "CHR ''/'' \<notin> set ns"
    and "(other_secrets env ns n)\<^sup>*\<^sup>* (c1, w1) (c2, w2)" and "now env w2 = (t, w3)"
  shows "\<exists>raw w0. get_secret env ns n w = (Inr (Some raw), w0) \<and> raw key = Some v \<and>
    (\<forall>key'. get_key_value env ns n key' (c2, w2) =
       (if t < fst (now env w0) + int (expiration_timeout c)
        then (case raw key' of
                Some bytes \<Rightarrow> Returns (ok_or (from_utf8 bytes) (decode_error key' n), c2, w3)
              | None \<Rightarrow> refresh_cached env ns n key' (c2, w3))
        else refresh_cached env ns n key' (c2, w3)))"
proof -
  from refresh_cached_ok [OF assms(1)] obtain raw w0 t1 where g:
    "get_secret env ns n w = (Inr (Some raw), w0)" "raw key = Some v" "now env w0 = (t1, w1)"
    "c1 = c\<lparr> sc_cache := (sc_cache c)(hash_key ns n \<mapsto>
            \<lparr> sv_data = raw, sv_expires_at = t1 + int (expiration_timeout c) \<rparr>) \<rparr>" by blast
  have "sc_cache c2 (hash_key ns n) = Some \<lparr> sv_data = raw, sv_expires_at = t1 + int (expiration_timeout c) \<rparr>"
    using other_secrets_keep [OF assms(3,2)] g(4) by simp
  with g(1-3) assms(4) show ?thesis
    by (intro exI [of _ raw] exI [of _ w0]) (simp add: get_key_value_def get_cached_def split: option.split)
qed

theorem secret_cached_after_get_witness:
  "get_key_value sample_secrets_env ''apps'' ''hook'' ''token'' (sample_filled_cache, 160) =
     Returns (Inr ''s3cret'', sample_filled_cache, 160) \<and>
   get_key_value sample_secrets_env ''apps'' ''hook'' ''other'' (sample_filled_cache, 160) =
     refresh_cached sample_secrets_env ''apps'' ''hook'' ''other'' (sample_filled_cache, 160)"
proof -
  have wait: "(other_secrets sample_secrets_env ''apps'' ''hook'')\<^sup>*\<^sup>* (sample_filled_cache, 101) (sample_filled_cache, 160)"
    by (blast intro: other_secrets.other_wait)
  have n: "now sample_secrets_env w = (int w * 1000000000, w)" for w by (simp add: sample_secrets_env_def)
  have "get_secret sample_secrets_env ''apps'' ''hook'' 100 = (Inr (Some [''token'' \<mapsto> ''s3cret'']), 101)"
    by (simp add: sample_secrets_env_def)
  moreover have "from_utf8 ''s3cret'' = Some ''s3cret''" by (simp add: from_utf8_def)
  ultimately show ?thesis
    using secret_cached_after_get [OF sample_refresh _ wait n]
    by (auto simp: n sample_secrets_cache_def)
qed

text \<open>
  The errors of the secrets cache: when nothing unexpired is cached, a call fails with the
  error of the API server, or because the secret has no data, has not the key, or the key is
  not valid UTF-8, and each failure leaves the cache unchanged; the call panics only when the
  clock plus the expiration timeout exceeds the range of \<^verbatim>\<open>SystemTime\<close>.
\<close>

lemma secret_miss_outcomes:
  assumes "sc_cache c (hash_key ns n) = None"
  shows "case get_secret env ns n w of
           (Inl e, w1) \<Rightarrow> get_key_value env ns n key (c, w) = Returns (Inl (KubeError e), c, w1)
         | (Inr None, w1) \<Rightarrow>
             get_key_value env ns n key (c, w) = Returns (Inl (no_data_error n), c, w1)
         | (Inr (Some raw), w1) \<Rightarrow>
             (case raw key of
                None \<Rightarrow> get_key_value env ns n key (c, w) = Returns (Inl (no_key_error key n), c, w1)
              | Some v \<Rightarrow>
                  if \<not> utf8_valid v
                  then get_key_value env ns n key (c, w) = Returns (Inl (decode_error key n), c, w1)
                  else returns (get_key_value env ns n key (c, w)) \<longleftrightarrow>
                         fst (now env w1) + int (expiration_timeout c) < system_time_limit)"
  unfolding get_key_value_miss [OF assms]
  by (auto simp: refresh_cached_def query_secrets_api_def from_utf8_def checked_add_def
      split: prod.splits sum.splits option.splits)

end
