(* ===== verification/Git_Repo_Correct.thy ===== *)
theory Git_Repo_Correct
  imports Git_Repo Cache_Correct "HOL-Library.Multiset"
begin

text \<open>
  What is proved of the access to git repositories: URIs that the resource definition admits
  have a known schema; a namespaced repository reads secrets of its own namespace only; which
  server certificates are accepted; which credentials are sent; exactly when fetching panics.
\<close>

section \<open>URIs\<close>

lemma rx_matches_Void [simp]: "\<not> rx_matches Void s"
  by (induction s) auto

lemma rx_matches_Alt [simp]: "rx_matches (Alt r1 r2) s \<longleftrightarrow> rx_matches r1 s \<or> rx_matches r2 s"
  by (induction s arbitrary: r1 r2) auto

lemma rx_matches_Seq_Void [simp]: "\<not> rx_matches (Seq Void r) s"
  by (induction s) auto

lemma rx_matches_Seq_Eps [simp]: "rx_matches (Seq Eps r) s \<longleftrightarrow> rx_matches r s"
  by (cases s) auto

lemma rx_matches_Sym_Seq:
  "rx_matches (Seq (Sym P) r) s \<longleftrightarrow> (\<exists>c s'. s = c # s' \<and> P c \<and> rx_matches r s')"
  by (cases s) auto

lemma rx_matches_Eps [simp]: "rx_matches Eps s \<longleftrightarrow> s = []"
  by (cases s) auto

lemma rx_matches_lit: "rx_matches (lit p r) s \<longleftrightarrow> (\<exists>s'. s = p @ s' \<and> rx_matches r s')"
  by (induction p arbitrary: s) (auto simp: rx_matches_Sym_Seq)

lemma rx_matches_Seq_Alt:
  "rx_matches (Seq (Alt r1 r2) r) s \<longleftrightarrow> rx_matches (Seq r1 r) s \<or> rx_matches (Seq r2 r) s"
  by (induction s arbitrary: r1 r2) auto

lemma rx_matches_Seq_Seq: "rx_matches (Seq (Seq r1 r2) r) s \<longleftrightarrow> rx_matches (Seq r1 (Seq r2 r)) s"
  by (induction s arbitrary: r1 r2) (auto simp: rx_matches_Seq_Alt)

lemmas rx_matches_simps = rx_matches_lit rx_matches_Seq_Alt rx_matches_Seq_Seq rx_matches_Sym_Seq

lemma uri_schema_known:
  "returns (uri_schema ops r) \<longleftrightarrow>
     (\<exists>p \<in> {''http://'', ''https://'', ''ssh://'', ''git@''}. starts_with (repo_uri ops r) p)"
  by (auto simp: uri_schema_def)

text \<open>
  A repository whose URI matches the pattern of the custom resource definition has a schema:
  the panic of \<^verbatim>\<open>uri_schema\<close> is not reachable through admitted resources, for both kinds of
  repositories.
\<close>

lemma valid_uri_has_schema:
  assumes "rx_matches URI_VALIDATION_REGEX (repo_uri ops r)"
  shows "returns (uri_schema ops r)"
proof -
  from assms have "(\<exists>s. repo_uri ops r = ''git@'' @ s) \<or> (\<exists>s. repo_uri ops r = ''ssh://'' @ s) \<or>
      (\<exists>s. repo_uri ops r = ''http://'' @ s) \<or> (\<exists>s. repo_uri ops r = ''https://'' @ s)"
    unfolding URI_VALIDATION_REGEX_def opt_def by (auto simp: rx_matches_simps)
  then show ?thesis by (auto simp: uri_schema_known starts_with_append)
qed

section \<open>Which secrets are read\<close>

text \<open>
  The environment in which the secrets outside of the namespaces \<open>nss\<close> are replaced by the
  answers of \<open>g\<close>: what does not depend on \<open>g\<close> reads no secret outside of \<open>nss\<close>.
\<close>

definition secrets_outside ::
    "string set \<Rightarrow> (string \<Rightarrow> string \<Rightarrow> 'w \<Rightarrow> (kube_error + secret_data option) \<times> 'w) \<Rightarrow>
     'w git_env \<Rightarrow> 'w git_env" where
  "secrets_outside nss g env =
     env\<lparr> get_secret := (\<lambda>ns. if ns \<in> nss then get_secret env ns else g ns) \<rparr>"

lemma secrets_outside_get_secret_strings:
  "ns \<in> nss \<Longrightarrow> get_secret_strings (secrets_outside nss g env) n ks ns w = get_secret_strings env n ks ns w"
  by (simp add: get_secret_strings_def secrets_outside_def
      split: prod.splits sum.splits option.splits)

lemma secrets_outside_fetch_with_secrets:
  "fetch_with_secrets (secrets_outside nss g env) ops r ref path a t w =
   fetch_with_secrets env ops r ref path a t w"
proof -
  have "custom_ca_check (secrets_outside nss g env) = custom_ca_check env"
    by (intro ext) (simp add: custom_ca_check_def secrets_outside_def split: option.splits)
  then have "certificate_options (secrets_outside nss g env) ops r t opts w =
      certificate_options env ops r t opts w" for opts w
    by (cases "uri_schema ops r")
      (auto simp: certificate_options_def secrets_outside_def
        split: git_repo_uri_schema.splits option.splits prod.splits)
  moreover have "fetch_origin (secrets_outside nss g env) = fetch_origin env"
    by (intro ext) (simp add: fetch_origin_def c_string_def secrets_outside_def split: prod.splits sum.splits)
  ultimately show ?thesis by (simp add: fetch_with_secrets_def)
qed

text \<open>The interface of \<^verbatim>\<open>GitRepoInternals\<close> that decides where secrets are read.\<close>

locale git_repo_kind =
  fixes ops :: "'r git_repo_ops" and allowed :: "'r \<Rightarrow> string \<Rightarrow> string set"
  assumes auth_namespace: "auth_config ops r = Some c \<Longrightarrow>
      secrets_namespace ops r (auth_secret_ref c) ns \<in> allowed r ns"
    and tls_namespace: "tls_config_of ops r = Some tls \<Longrightarrow> ca_cert tls = Some ca \<Longrightarrow>
      secrets_namespace ops r (ca_secret_ref ca) ns \<in> allowed r ns"
begin

lemma fetch_reads_allowed_only:
  "fetch_repo_ref (secrets_outside (allowed r ns) g env) ops r ref path ns w =
   fetch_repo_ref env ops r ref path ns w"
proof -
  have "get_auth_secrets (secrets_outside (allowed r ns) g env) ops r ns w = get_auth_secrets env ops r ns w"
    for w
    using auth_namespace [of r _ ns]
    by (auto simp: get_auth_secrets_def secrets_outside_get_secret_strings split: option.splits)
  moreover have "get_tls_secrets (secrets_outside (allowed r ns) g env) ops r ns w =
      get_tls_secrets env ops r ns w" for w
    using tls_namespace [of r _ _ ns]
    by (auto simp: get_tls_secrets_def secrets_outside_get_secret_strings bind_eq_Some_conv
        split: option.splits)
  ultimately show ?thesis
    by (simp add: fetch_repo_ref_def secrets_outside_fetch_with_secrets
        split: prod.splits sum.splits)
qed

end

text \<open>The namespaces a cluster-wide repository refers to, the trigger's one when it names none.\<close>

definition referred_namespaces :: "cluster_git_repo \<Rightarrow> string \<Rightarrow> string set" where
  "referred_namespaces r ns =
     (\<lambda>ref. unwrap_or (sr_namespace ref) ns) `
       (set_option (map_option auth_secret_ref (cgr_auth_config (cgr_spec r))) \<union>
        set_option (map_option ca_secret_ref (Option.bind (cgr_tls_config (cgr_spec r)) ca_cert)))"

interpretation namespaced: git_repo_kind git_repo_internals "\<lambda>_ ns. {ns}"
  by unfold_locales (simp_all add: secrets_namespace_def)

interpretation cluster_wide: git_repo_kind cluster_git_repo_internals referred_namespaces
  by unfold_locales (auto simp: secrets_namespace_def referred_namespaces_def)

text \<open>
  C13. Secrets isolation: fetching a \<^verbatim>\<open>GitRepo\<close> does not depend on any secret outside of the
  namespace given by the caller, whatever namespace its references name; fetching a
  \<^verbatim>\<open>ClusterGitRepo\<close> does not depend on any secret outside of the namespaces it refers to.
\<close>

theorem fetch_secrets_isolated:
  "fetch_repo_ref (secrets_outside {ns} g env) git_repo_internals r ref path ns w =
     fetch_repo_ref env git_repo_internals r ref path ns w \<and>
   fetch_repo_ref (secrets_outside (referred_namespaces cr ns) g env) cluster_git_repo_internals cr
       ref path ns w =
     fetch_repo_ref env cluster_git_repo_internals cr ref path ns w"
  by (intro conjI namespaced.fetch_reads_allowed_only cluster_wide.fetch_reads_allowed_only)

section \<open>Certificates\<close>

text \<open>
  C14. Server certificates: over https, with a TLS section that does not switch verification off,
  a certificate is accepted by the callback only when it verifies against the platform roots
  together with the configured CA, and everything else is left to the normal verification of
  libgit2; without a CA section the callback never accepts a certificate by itself.
\<close>

theorem https_certificate_accepted:
  assumes "uri_schema ops r = Returns Https" and "tls_config_of ops r = Some tls"
    and "\<not> no_verify_ssl tls"
    and "certificate_options env ops r secrets opts w = Returns (opts', w')"
    and "certificate_check opts' = Some f" and "f cert host t = Inr CertificateOk"
  shows "\<exists>ca_ref ca native w1 x509. ca_cert tls = Some ca_ref \<and> secrets ''ca.crt'' = Some ca \<and>
           load_native_certs env w = (Some native, w1) \<and> cert = Some x509 \<and>
           verify_server_cert env (native @ pem_certs env ca) x509 host t"
proof (cases "ca_cert tls")
  case None
  with assms show ?thesis by (auto simp: certificate_options_def)
next
  case (Some ca_ref)
  from assms(1-4) Some obtain ca native w1 where "secrets ''ca.crt'' = Some ca"
    and "load_native_certs env w = (Some native, w1)"
    and "opts' = opts\<lparr> certificate_check := Some (custom_ca_check env (native @ pem_certs env ca)) \<rparr>"
    by (cases "load_native_certs env w"; cases "fst (load_native_certs env w)")
      (auto simp: certificate_options_def)
  with assms(5,6) Some show ?thesis
    by (auto simp: custom_ca_check_def split: if_splits option.splits)
qed

definition sample_git_env :: "nat git_env" where
  "sample_git_env =
     \<lparr> now = (\<lambda>w. (int w * 1000000000, w)), format_local = (\<lambda>_. ''20240101-000000''),
       sample_alphanumeric = (\<lambda>w. (CHR ''a'', w)),
       get_secret = (\<lambda>ns n w. (if n = ''git''
          then Inr (Some [''user'' \<mapsto> ''joe'', ''pass'' \<mapsto> ''pw'', ''ca.crt'' \<mapsto> ''PEM''])
          else Inl (Api 404 ''not found''), Suc w)),
       hash_order = rev, load_native_certs = (\<lambda>w. (Some [''root''], w)), pem_certs = (\<lambda>s. [s]),
       build_verifier = (\<lambda>_. True), server_name_ok = (\<lambda>_. True),
       verify_server_cert = (\<lambda>roots cert host t. cert \<in> set roots),
       init_opts = (\<lambda>path uri w. (Inr path, w)), find_remote = (\<lambda>repo name w. (Inr (), w)),
       fetch_remote = (\<lambda>repo name refs opts w.
         (case credentials opts of
            None \<Rightarrow> Returns (Inr (), Suc w)
          | Some f \<Rightarrow> outcome_bind (f None) (\<lambda>_. Returns (Inr (), Suc w)))) \<rparr>"

definition sample_tls :: tls_config where
  "sample_tls = \<lparr> no_verify_ssl = False, ca_cert = Some \<lparr> ca_secret_ref =
     \<lparr> sr_name = ''git'', sr_namespace = None \<rparr>, ca_key = ''ca.crt'' \<rparr> \<rparr>"

definition sample_tls_repo :: git_repo where
  "sample_tls_repo = sample_git_repo\<lparr> gr_spec := (gr_spec sample_git_repo)\<lparr> gr_tls_config := Some sample_tls \<rparr> \<rparr>"

lemma sample_tls_repo_schema: "uri_schema git_repo_internals sample_tls_repo = Returns Https"
  by (simp add: uri_schema_def sample_tls_repo_def sample_git_repo_def)

theorem https_certificate_accepted_witness:
  "\<exists>opts' w' f. certificate_options sample_git_env git_repo_internals sample_tls_repo
       [''ca.crt'' \<mapsto> ''PEM''] default_fetch_options 0 = Returns (opts', w') \<and>
     certificate_check opts' = Some f \<and> f (Some ''PEM'') ''example.com'' 0 = Inr CertificateOk \<and>
     verify_server_cert sample_git_env [''root'', ''PEM''] ''PEM'' ''example.com'' 0"
proof -
  have tls: "tls_config_of git_repo_internals sample_tls_repo = Some sample_tls"
    by (simp add: sample_tls_repo_def)
  let ?f = "custom_ca_check sample_git_env [''root'', ''PEM'']"
  have c: "certificate_options sample_git_env git_repo_internals sample_tls_repo
      [''ca.crt'' \<mapsto> ''PEM''] default_fetch_options 0 =
      Returns (default_fetch_options\<lparr> certificate_check := Some ?f \<rparr>, 0)"
    unfolding certificate_options_def sample_tls_repo_schema tls
    by (simp add: sample_tls_def sample_git_env_def)
  have f: "?f (Some ''PEM'') ''example.com'' 0 = Inr CertificateOk"
    by (simp add: custom_ca_check_def sample_git_env_def)
  have "\<not> no_verify_ssl sample_tls" by (simp add: sample_tls_def)
  from https_certificate_accepted [OF sample_tls_repo_schema tls this c, of ?f "Some ''PEM''"] f
  have "verify_server_cert sample_git_env [''root'', ''PEM''] ''PEM'' ''example.com'' 0"
    by (simp add: sample_git_env_def)
  with c f show ?thesis by simp
qed

section \<open>Credentials\<close>

lemma collect_secret_strings_ok:
  assumes "collect_secret_strings n raw ks m0 = Inr m" and "distinct (map snd ks)"
  shows "(\<forall>(k, e) \<in> set ks. \<exists>v. raw k = Some v \<and> utf8_valid v \<and> m e = Some v) \<and>
         (\<forall>e. e \<notin> snd ` set ks \<longrightarrow> m e = m0 e)"
  using assms
proof (induction n raw ks m0 rule: collect_secret_strings.induct)
  case (2 n raw k e ks m0)
  from 2(2) obtain v where v: "raw k = Some v" "utf8_valid v"
    and r: "collect_secret_strings n raw ks (m0(e \<mapsto> v)) = Inr m"
    by (auto simp: from_utf8_def split: option.splits if_splits)
  have "from_utf8 v = Some v" using v by (simp add: from_utf8_def)
  from 2(1) [OF v(1) this r] 2(3) v show ?case by (auto simp: image_iff)
qed simp

lemma get_secret_strings_ok:
  assumes "get_secret_strings env n ks ns w = (Inr m, w1)" and "distinct (map snd ks)"
    and "\<forall>ks. mset (hash_order env ks) = mset ks"
  shows "\<exists>raw. get_secret env ns n w = (Inr (Some raw), w1) \<and>
           (\<forall>(k, e) \<in> set ks. \<exists>v. raw k = Some v \<and> m e = Some v) \<and>
           (\<forall>e. e \<notin> snd ` set ks \<longrightarrow> m e = None)"
proof -
  from assms(1) obtain raw where raw: "get_secret env ns n w = (Inr (Some raw), w1)"
    and c: "collect_secret_strings n raw (hash_order env ks) Map.empty = Inr m"
    by (auto simp: get_secret_strings_def split: prod.splits sum.splits option.splits)
  have "set (hash_order env ks) = set ks" using assms(3) mset_eq_setD by blast
  moreover have "distinct (map snd (hash_order env ks))"
    using assms(2,3) by (metis mset_eq_imp_distinct_iff mset_map)
  ultimately show ?thesis using collect_secret_strings_ok [OF c] raw by auto
qed

lemma auth_secret_keys_cases:
  "auth_secret_keys c =
     (case auth_type c of
        Basic \<Rightarrow> if username_key (auth_keys c) = password_key (auth_keys c)
                 then [(password_key (auth_keys c), ''password'')]
                 else [(username_key (auth_keys c), ''username''), (password_key (auth_keys c), ''password'')]
      | Token \<Rightarrow> [(token_key (auth_keys c), ''token'')]
      | Ssh \<Rightarrow> [(private_key_key (auth_keys c), ''private_key'')])"
  by (simp add: auth_secret_keys_def hash_insert_def split: git_auth_type.splits)

lemma auth_options_token:
  assumes "auth_config ops r = Some c" and "auth_type c = Token" and "secrets ''token'' = Some t"
  shows "CHR 0x00 \<in> set t \<Longrightarrow> \<not> returns (auth_options ops r secrets opts)"
    and "CHR 0x00 \<notin> set t \<Longrightarrow> auth_options ops r secrets opts =
           Returns (opts\<lparr> custom_headers := [''Authorization: '' @ t] \<rparr>)"
  using assms by (simp_all add: auth_options_def hash_index_def c_string_def)

text \<open>The credentials that a secret gives a configuration.\<close>

definition expected_cred :: "git_auth_config \<Rightarrow> secret_data \<Rightarrow> string option \<Rightarrow> cred option" where
  "expected_cred c raw user =
     (case auth_type c of
        Basic \<Rightarrow> Option.bind (raw (username_key (auth_keys c))) (\<lambda>u.
                   map_option (UserpassPlaintext u) (raw (password_key (auth_keys c))))
      | Token \<Rightarrow> None
      | Ssh \<Rightarrow> map_option (SshKeyFromMemory (unwrap_or user ''git'')) (raw (private_key_key (auth_keys c))))"

text \<open>
  C29. Credentials: once the secret of a repository was read, a token becomes the only Authorization
  header, and the fetch panics when it contains a NUL byte; for the other types of authentication
  the credentials callback answers with the values of the configured keys of that secret, unless the
  authentication is \<^verbatim>\<open>Basic\<close> with the same key for the user name and the password: then the callback
  panics whenever it is called. Nothing else is set.
\<close>

theorem auth_options_credentials:
  assumes "auth_config ops r = Some c" and "get_auth_secrets env ops r ns w = (Inr secrets, w1)"
    and "\<forall>ks. mset (hash_order env ks) = mset ks"
  shows "\<exists>raw.
     get_secret env (secrets_namespace ops r (auth_secret_ref c) ns) (sr_name (auth_secret_ref c)) w =
       (Inr (Some raw), w1) \<and>
     (auth_type c = Token \<longrightarrow> (\<exists>t. raw (token_key (auth_keys c)) = Some t \<and>
        (if CHR 0x00 \<in> set t then \<not> returns (auth_options ops r secrets default_fetch_options)
         else auth_options ops r secrets default_fetch_options =
                Returns (default_fetch_options\<lparr> custom_headers := [''Authorization: '' @ t] \<rparr>)))) \<and>
     (auth_type c \<noteq> Token \<longrightarrow>
        (\<exists>f. auth_options ops r secrets default_fetch_options =
               Returns (default_fetch_options\<lparr> credentials := Some f \<rparr>) \<and>
          (\<forall>user. if auth_type c = Basic \<and> username_key (auth_keys c) = password_key (auth_keys c)
                  then \<not> returns (f user)
                  else \<exists>cr. expected_cred c raw user = Some cr \<and> f user = Returns cr)))"
proof -
  have d: "distinct (map snd (auth_secret_keys c))"
    by (simp add: auth_secret_keys_cases split: git_auth_type.splits)
  from assms(1,2) have "get_secret_strings env (sr_name (auth_secret_ref c)) (auth_secret_keys c)
      (secrets_namespace ops r (auth_secret_ref c) ns) w = (Inr secrets, w1)"
    by (simp add: get_auth_secrets_def)
  from get_secret_strings_ok [OF this d assms(3)] obtain raw where
    raw: "get_secret env (secrets_namespace ops r (auth_secret_ref c) ns) (sr_name (auth_secret_ref c)) w =
       (Inr (Some raw), w1)"
    and s: "\<forall>(k, e) \<in> set (auth_secret_keys c). \<exists>v. raw k = Some v \<and> secrets e = Some v"
    and n: "\<forall>e. e \<notin> snd ` set (auth_secret_keys c) \<longrightarrow> secrets e = None" by blast
  show ?thesis
  proof (cases "auth_type c")
    case Basic
    define f where "f = (\<lambda>_ :: string option. outcome_bind (hash_index secrets ''username'') (\<lambda>u.
      outcome_bind (hash_index secrets ''password'') (\<lambda>p. Returns (UserpassPlaintext u p))))"
    have opts: "auth_options ops r secrets default_fetch_options =
        Returns (default_fetch_options\<lparr> credentials := Some f \<rparr>)"
      by (simp add: auth_options_def assms(1) Basic f_def)
    have "if username_key (auth_keys c) = password_key (auth_keys c) then \<not> returns (f user)
          else \<exists>cr. expected_cred c raw user = Some cr \<and> f user = Returns cr" for user
    proof (cases "username_key (auth_keys c) = password_key (auth_keys c)")
      case True
      with n Basic have "secrets ''username'' = None" by (simp add: auth_secret_keys_cases)
      with True show ?thesis by (simp add: f_def hash_index_def)
    next
      case False
      with s Basic obtain u p where "raw (username_key (auth_keys c)) = Some u"
        "secrets ''username'' = Some u" "raw (password_key (auth_keys c)) = Some p"
        "secrets ''password'' = Some p" by (auto simp: auth_secret_keys_cases)
      with False Basic show ?thesis by (simp add: f_def hash_index_def expected_cred_def)
    qed
    with opts raw Basic show ?thesis by (auto intro!: exI [of _ f])
  next
    case Token
    with s obtain t where "raw (token_key (auth_keys c)) = Some t" "secrets ''token'' = Some t"
      by (auto simp: auth_secret_keys_cases)
    with auth_options_token [OF assms(1) Token] raw Token show ?thesis
      by (auto simp del: append.simps)
  next
    case Ssh
    with s assms(1) raw show ?thesis
      by (auto simp: auth_secret_keys_cases auth_options_def hash_index_def expected_cred_def)
  qed
qed

definition sample_basic_repo :: "string \<Rightarrow> git_repo" where
  "sample_basic_repo user_key = sample_git_repo\<lparr> gr_spec := (gr_spec sample_git_repo)\<lparr> gr_auth_config :=
     Some \<lparr> auth_type = Basic, auth_secret_ref = \<lparr> sr_name = ''git'', sr_namespace = Some ''other'' \<rparr>,
            auth_keys = \<lparr> username_key = user_key, password_key = ''pass'', token_key = ''token'',
                          private_key_key = ''key'' \<rparr> \<rparr> \<rparr> \<rparr>"

lemma sample_git_env_order: "\<forall>ks. mset (hash_order sample_git_env ks) = mset ks"
  by (simp add: sample_git_env_def)

lemma sample_basic_secrets:
  "get_auth_secrets sample_git_env git_repo_internals (sample_basic_repo ''user'') ''apps'' 0 =
     (Inr [''password'' \<mapsto> ''pw'', ''username'' \<mapsto> ''joe''], 1)"
proof -
  have "from_utf8 ''joe'' = Some ''joe''" "from_utf8 ''pw'' = Some ''pw''"
    by (simp_all add: from_utf8_ascii byte_def)
  then show ?thesis
    by (simp add: get_auth_secrets_def sample_basic_repo_def get_secret_strings_def
        auth_secret_keys_cases sample_git_env_def)
qed

theorem auth_options_credentials_witness:
  "\<exists>f. auth_options git_repo_internals (sample_basic_repo ''user'')
       [''password'' \<mapsto> ''pw'', ''username'' \<mapsto> ''joe''] default_fetch_options =
         Returns (default_fetch_options\<lparr> credentials := Some f \<rparr>) \<and>
     f None = Returns (UserpassPlaintext ''joe'' ''pw'')"
proof -
  obtain c where c: "auth_config git_repo_internals (sample_basic_repo ''user'') = Some c"
    "auth_type c = Basic" "username_key (auth_keys c) = ''user''" "password_key (auth_keys c) = ''pass''"
    "auth_secret_ref c = \<lparr> sr_name = ''git'', sr_namespace = Some ''other'' \<rparr>"
    by (simp add: sample_basic_repo_def)
  from auth_options_credentials [OF c(1) sample_basic_secrets sample_git_env_order] c(2-5)
  show ?thesis by (auto simp: expected_cred_def sample_git_env_def)
qed

section \<open>Fetching returns\<close>

text \<open>libgit2 does not panic by itself, only the credentials callback can; and a \<^verbatim>\<open>HashMap\<close> yields each
  of its entries once.\<close>

definition fetch_safe :: "('w, 'z) git_env_scheme \<Rightarrow> bool" where
  "fetch_safe env \<longleftrightarrow>
     (\<forall>repo remote refs opts w. (\<forall>f u. credentials opts = Some f \<longrightarrow> returns (f u)) \<longrightarrow>
        returns (fetch_remote env repo remote refs opts w)) \<and>
     (\<forall>ks. mset (hash_order env ks) = mset ks)"

definition distinct_basic_keys :: "git_auth_config \<Rightarrow> bool" where
  "distinct_basic_keys c \<longleftrightarrow>
     (auth_type c = Basic \<longrightarrow> username_key (auth_keys c) \<noteq> password_key (auth_keys c))"

text \<open>What makes building the fetch options panic: a token with a NUL byte, and certificates of the
  platform that cannot be loaded when a CA of the repository is to be added to them.\<close>

definition nul_token :: "('r, 'y) git_repo_ops_scheme \<Rightarrow> 'r \<Rightarrow> (string \<rightharpoonup> string) \<Rightarrow> bool" where
  "nul_token ops r secrets \<longleftrightarrow>
     (\<exists>c t. auth_config ops r = Some c \<and> auth_type c = Token \<and> secrets ''token'' = Some t \<and>
        CHR 0x00 \<in> set t)"

definition native_certs_missing ::
    "('w, 'z) git_env_scheme \<Rightarrow> ('r, 'y) git_repo_ops_scheme \<Rightarrow> 'r \<Rightarrow> 'w \<Rightarrow> bool" where
  "native_certs_missing env ops r w \<longleftrightarrow>
     uri_schema ops r = Returns Https \<and> fst (load_native_certs env w) = None \<and>
     (\<exists>tls. tls_config_of ops r = Some tls \<and> \<not> no_verify_ssl tls \<and> ca_cert tls \<noteq> None)"

lemma fetch_origin_returns:
  assumes "fetch_safe env" and "\<forall>f u. credentials opts = Some f \<longrightarrow> returns (f u)"
    and "CHR 0x00 \<notin> set uri"
  shows "returns (fetch_origin env uri ref path opts w)"
proof -
  have "\<exists>x. fetch_remote env repo ''origin'' [ref] opts w = Returns x" for repo w
    using assms unfolding fetch_safe_def returns_iff by blast
  with assms(3) show ?thesis
    by (fastforce simp: fetch_origin_def c_string_def returns_iff split: prod.splits sum.splits)
qed

lemma auth_options_cases:
  assumes "fetch_safe env" and "get_auth_secrets env ops r ns w = (Inr secrets, w1)"
    and "\<forall>c. auth_config ops r = Some c \<longrightarrow> distinct_basic_keys c"
  shows "if nul_token ops r secrets then \<not> returns (auth_options ops r secrets default_fetch_options)
         else \<exists>opts. auth_options ops r secrets default_fetch_options = Returns opts \<and>
           (\<forall>f u. credentials opts = Some f \<longrightarrow> returns (f u))"
proof (cases "auth_config ops r")
  case None
  then show ?thesis by (simp add: auth_options_def default_fetch_options_def nul_token_def)
next
  case (Some c)
  have "\<forall>ks. mset (hash_order env ks) = mset ks" using assms(1) by (simp add: fetch_safe_def)
  note auth_options_credentials_cases = get_secret_strings_ok [OF _ _ this]
  have d: "distinct (map snd (auth_secret_keys c))"
    by (simp add: auth_secret_keys_cases split: git_auth_type.splits)
  from assms(2) Some have "get_secret_strings env (sr_name (auth_secret_ref c)) (auth_secret_keys c)
      (secrets_namespace ops r (auth_secret_ref c) ns) w = (Inr secrets, w1)"
    by (simp add: get_auth_secrets_def)
  from auth_options_credentials_cases [OF this d]
  have "\<forall>(k, e) \<in> set (auth_secret_keys c). \<exists>v. secrets e = Some v" by fastforce
  note s = this
  show ?thesis
  proof (cases "auth_type c")
    case Token
    with s obtain t where "secrets ''token'' = Some t" by (auto simp: auth_secret_keys_cases)
    with auth_options_token [OF Some Token] Token Some show ?thesis
      by (simp add: nul_token_def default_fetch_options_def)
  qed (use s assms(3) Some in \<open>auto simp: auth_secret_keys_cases auth_options_def hash_index_def
        default_fetch_options_def distinct_basic_keys_def nul_token_def\<close>)
qed

lemma certificate_options_cases:
  assumes "fetch_safe env" and "returns (uri_schema ops r)"
    and "get_tls_secrets env ops r ns w0 = (Inr secrets, w1)"
  shows "if native_certs_missing env ops r w then \<not> returns (certificate_options env ops r secrets opts w)
         else \<exists>opts' w'. certificate_options env ops r secrets opts w = Returns (opts', w') \<and>
           credentials opts' = credentials opts"
proof -
  obtain native w2 where nat: "load_native_certs env w = (native, w2)" by force
  have ca: "secrets ''ca.crt'' \<noteq> None" if "tls_config_of ops r = Some tls" "ca_cert tls = Some x" for tls x
  proof -
    from assms(3) that have "get_secret_strings env (sr_name (ca_secret_ref x)) [(ca_key x, ''ca.crt'')]
        (secrets_namespace ops r (ca_secret_ref x) ns) w0 = (Inr secrets, w1)"
      by (simp add: get_tls_secrets_def hash_insert_def)
    from get_secret_strings_ok [OF this] assms(1) show ?thesis by (auto simp: fetch_safe_def)
  qed
  from assms(2) obtain sch where "uri_schema ops r = Returns sch" by (auto simp: returns_iff)
  with nat show ?thesis
    by (cases sch; cases "tls_config_of ops r"; cases "ca_cert (the (tls_config_of ops r))"; cases native)
      (use ca in \<open>fastforce simp: certificate_options_def native_certs_missing_def\<close>)+
qed

text \<open>The pattern of URIs admits no NUL byte.\<close>

primrec rx_over :: "(char \<Rightarrow> bool) \<Rightarrow> rx \<Rightarrow> bool" where
  "rx_over Q Void = True"
| "rx_over Q Eps = True"
| "rx_over Q (Sym P) = (\<forall>c. P c \<longrightarrow> Q c)"
| "rx_over Q (Seq r s) = (rx_over Q r \<and> rx_over Q s)"
| "rx_over Q (Alt r s) = (rx_over Q r \<and> rx_over Q s)"
| "rx_over Q (Star r) = rx_over Q r"

lemma rx_over_lit [simp]: "rx_over Q (lit p r) \<longleftrightarrow> list_all Q p \<and> rx_over Q r"
  by (induction p) auto

lemma rx_over_deriv: "rx_over Q r \<Longrightarrow> rx_over Q (deriv c r)"
  by (induction r) auto

lemma rx_matches_Seq_empty: "(\<And>t. \<not> rx_matches r t) \<Longrightarrow> \<not> rx_matches (Seq r s) t"
proof (induction t arbitrary: r)
  case Nil
  from Nil [of "[]"] show ?case by simp
next
  case (Cons c t)
  have "\<not> nullable r" using Cons.prems [of "[]"] by simp
  moreover have "\<not> rx_matches (deriv c r) t'" for t' using Cons.prems [of "c # t'"] by simp
  ultimately show ?case using Cons.IH by simp
qed

lemma rx_over_first: "rx_over Q r \<Longrightarrow> \<not> Q c \<Longrightarrow> \<not> rx_matches (deriv c r) t"
  by (induction r arbitrary: t) (auto simp: rx_matches_Seq_empty)

lemma rx_over_matches: "rx_over Q r \<Longrightarrow> rx_matches r s \<Longrightarrow> list_all Q s"
proof (induction s arbitrary: r)
  case (Cons c s)
  from Cons.prems have "Q c" "rx_over Q (deriv c r)" "rx_matches (deriv c r) s"
    using rx_over_first [of Q r c s] by (auto simp: rx_over_deriv)
  with Cons.IH show ?case by simp
qed simp

lemma word_char_no_nul: "word_char c \<Longrightarrow> c \<noteq> CHR 0x00" "is_digit c \<Longrightarrow> c \<noteq> CHR 0x00"
  by (auto simp: word_char_def is_digit_def)

lemma valid_uri_no_nul:
  assumes "rx_matches URI_VALIDATION_REGEX uri"
  shows "CHR 0x00 \<notin> set uri"
proof -
  have "rx_over (\<lambda>c. c \<noteq> CHR 0x00) URI_VALIDATION_REGEX"
    unfolding URI_VALIDATION_REGEX_def opt_def plus_def name_chars_def path_chars_def http_path_chars_def
      port_def Let_def
    by (auto dest: word_char_no_nul)
  from rx_over_matches [OF this assms] show ?thesis by (auto simp: list_all_iff)
qed

text \<open>
  C30. When fetching a repository panics, for a URI that matches the pattern of the custom resource
  definition (so that the panic of \<^verbatim>\<open>uri_schema\<close> is not reachable through admitted resources) and
  \<^verbatim>\<open>Basic\<close> authentication with two different keys: exactly when the secrets of the repository were
  read and the token of \<^verbatim>\<open>Token\<close> authentication contains a NUL byte, or the certificates of the
  platform cannot be loaded although a CA of the repository is to be added to them. Missing secrets,
  missing keys and every failure of git are errors.
\<close>

theorem fetch_repo_ref_no_panic:
  assumes "fetch_safe env" and "rx_matches URI_VALIDATION_REGEX (repo_uri ops r)"
    and "\<forall>c. auth_config ops r = Some c \<longrightarrow> distinct_basic_keys c"
  shows "returns (fetch_repo_ref env ops r ref path ns w) \<longleftrightarrow>
    \<not> (\<exists>a w1 t w2. get_auth_secrets env ops r ns w = (Inr a, w1) \<and>
         get_tls_secrets env ops r ns w1 = (Inr t, w2) \<and>
         (nul_token ops r a \<or> native_certs_missing env ops r w2))"
proof -
  note schema = valid_uri_has_schema [OF assms(2)]
  have "returns (fetch_with_secrets env ops r ref path a t w3) \<longleftrightarrow>
      \<not> nul_token ops r a \<and> \<not> native_certs_missing env ops r w3"
    if a: "get_auth_secrets env ops r ns w = (Inr a, w1)" and t: "get_tls_secrets env ops r ns w1 = (Inr t, w3)"
    for a t w1 w3
  proof -
    from schema obtain sch where sch: "uri_schema ops r = Returns sch" by (auto simp: returns_iff)
    show ?thesis
    proof (cases "nul_token ops r a")
      case True
      with auth_options_cases [OF assms(1) a assms(3)] show ?thesis
        by (cases "auth_options ops r a default_fetch_options") (auto simp: fetch_with_secrets_def)
    next
      case False
      with auth_options_cases [OF assms(1) a assms(3)] obtain opts where
        o1: "auth_options ops r a default_fetch_options = Returns opts"
          "\<forall>f u. credentials opts = Some f \<longrightarrow> returns (f u)" by auto
      note o2 = certificate_options_cases [OF assms(1) schema t, of w3 opts]
      from o1 False o2 sch show ?thesis
        by (cases "certificate_options env ops r t opts w3")
          (auto simp: fetch_with_secrets_def fetch_origin_returns [OF assms(1) _ valid_uri_no_nul [OF assms(2)]]
            split: if_splits)
    qed
  qed
  then show ?thesis
    by (fastforce simp: fetch_repo_ref_def split: prod.splits sum.splits)
qed

lemma sample_git_env_safe: "fetch_safe sample_git_env"
  by (auto simp: fetch_safe_def sample_git_env_def returns_iff split: option.splits)

lemma sample_uri_c_string [simp]:
  "c_string ''https://example.com/repo.git'' = Returns ''https://example.com/repo.git''"
  by (simp add: c_string_def)

lemma sample_uri_valid: "rx_matches URI_VALIDATION_REGEX ''https://example.com/repo.git''"
  by code_simp

theorem fetch_repo_ref_no_panic_witness:
  "returns (fetch_repo_ref sample_git_env git_repo_internals (sample_basic_repo ''user'')
     ''main'' ''/tmp/x'' ''apps'' 0)"
proof -
  have "rx_matches URI_VALIDATION_REGEX (repo_uri git_repo_internals (sample_basic_repo ''user''))"
    using sample_uri_valid by (simp only: sample_basic_repo_def sample_git_repo_def) simp
  moreover have "\<forall>c. auth_config git_repo_internals (sample_basic_repo ''user'') = Some c \<longrightarrow>
      distinct_basic_keys c"
    by (simp add: sample_basic_repo_def sample_git_repo_def distinct_basic_keys_def)
  ultimately show ?thesis
    by (simp add: fetch_repo_ref_no_panic [OF sample_git_env_safe])
      (simp add: nul_token_def native_certs_missing_def sample_git_env_def sample_basic_repo_def
        sample_git_repo_def)
qed

end
