(* ===== verification/Trigger_Correct.thy ===== *)
theory Trigger_Correct
  imports Trigger Action_Correct Git_Repo_Correct
begin

text \<open>
  What is proved of triggers: how status updates accumulate and when one is lost; which jobs a
  task adds to the queue, and that it adds none without a change; what the hash of files detects.
\<close>

section \<open>Status updates\<close>

lemma new_trigger_status_present:
  "checked_sources (new_trigger_status rfc (Some old) names st checked lr) k =
     (if k \<in> set names
      then (case unwrap_or checked Map.empty k of Some x \<Rightarrow> Some x | None \<Rightarrow> checked_sources old k)
      else None)"
  by (simp add: new_trigger_status_def map_add_def)

text \<open>A series of updates by a trigger's task, each computed from a cache that has seen the one
  before.\<close>

fun status_updates ::
    "(system_time \<Rightarrow> string) \<Rightarrow> string list \<Rightarrow> trigger_status \<Rightarrow>
     (string \<times> checked_source_state \<times> system_time option) list \<Rightarrow> trigger_status" where
  "status_updates rfc names st [] = st"
| "status_updates rfc names st ((source, s, lr) # us) =
     status_updates rfc names
       (new_trigger_status rfc (Some st) names (Some Running) (Some [source \<mapsto> s]) lr) us"

lemma status_updates_other:
  "k \<notin> fst ` set us \<Longrightarrow> us \<noteq> [] \<Longrightarrow>
     checked_sources (status_updates rfc names st us) k =
       (if k \<in> set names then checked_sources st k else None)"
proof (induction rfc names st us rule: status_updates.induct)
  case (2 rfc names st source s lr us)
  then show ?case by (cases us) (auto simp: new_trigger_status_present)
qed simp

lemma stale_status_update:
  assumes "s1 \<noteq> s2"
  shows "checked_sources (new_trigger_status rfc (Some old) names st2 (Some [s2 \<mapsto> x2]) lr2) s1 =
           (if s1 \<in> set names then checked_sources old s1 else None) \<and>
         checked_sources (new_trigger_status rfc None names st2 (Some [s2 \<mapsto> x2]) lr2) s2 = Some x2"
  using assms by (simp add: new_trigger_status_present) (simp add: new_trigger_status_def)

lemma status_updates_sources:
  assumes "distinct (map fst us)" and "us \<noteq> []"
  shows "checked_sources (status_updates rfc names st us) k =
     (if k \<notin> set names then None
      else if k \<in> fst ` set us then Some (fst (the (map_of us k)))
      else checked_sources st k)"
  using assms
proof (induction rfc names st us rule: status_updates.induct)
  case (2 rfc names st source s lr us)
  show ?case
  proof (cases "us = []")
    case True
    then show ?thesis by (auto simp: new_trigger_status_present)
  next
    case False
    then have "checked_sources (status_updates rfc names
        (new_trigger_status rfc (Some st) names (Some Running) (Some [source \<mapsto> s]) lr) us) source =
        (if source \<in> set names then Some s else None)"
      using 2(2) by (subst status_updates_other) (auto simp: new_trigger_status_present)
    with 2 False show ?thesis by (auto simp: new_trigger_status_present image_iff)
  qed
qed simp

text \<open>
  C32. When the cache keeps up, the updates of the sources of one task accumulate: afterwards every
  source that was updated and still belongs to the trigger has the state of its update, every
  other source of the trigger keeps the state it had, and no source that was removed from the
  trigger stays in the status. When it does not keep up an update is lost: of two updates computed
  from the same cached status the second one, applied last, throws away what the first one recorded
  for its source, so the next check sees that source as changed again; and for a trigger without a
  status even a source that does not belong to it is recorded.
\<close>

theorem status_updates_accumulate:
  assumes "distinct (map fst us)" and "us \<noteq> []" and "s1 \<noteq> s2"
  shows "(\<forall>k. checked_sources (status_updates rfc names st us) k =
       (if k \<notin> set names then None
        else if k \<in> fst ` set us then Some (fst (the (map_of us k)))
        else checked_sources st k)) \<and>
     checked_sources (new_trigger_status rfc (Some st) names st2 (Some [s2 \<mapsto> x2]) lr2) s1 =
       (if s1 \<in> set names then checked_sources st s1 else None) \<and>
     checked_sources (new_trigger_status rfc None names st2 (Some [s2 \<mapsto> x2]) lr2) s2 = Some x2"
  using status_updates_sources [OF assms(1,2)] stale_status_update [OF assms(3)] by blast

theorem status_updates_accumulate_witness:
  "checked_sources (status_updates (\<lambda>_. ''t'') [''a'', ''b'', ''c'']
       (default_trigger_status\<lparr> checked_sources := [''c'' \<mapsto> default_checked_source_state] \<rparr>)
       [(''a'', default_checked_source_state\<lparr> commit_hash := Some ''1'' \<rparr>, None),
        (''b'', default_checked_source_state\<lparr> commit_hash := Some ''2'' \<rparr>, Some 5)]) ''a'' =
     Some (default_checked_source_state\<lparr> commit_hash := Some ''1'' \<rparr>) \<and>
   checked_sources (new_trigger_status (\<lambda>_. ''t'')
       (Some (default_trigger_status\<lparr> checked_sources := [''c'' \<mapsto> default_checked_source_state] \<rparr>))
       [''a'', ''b'', ''c''] (Some Running) (Some [''b'' \<mapsto> default_checked_source_state]) None) ''a'' = None"
  using status_updates_accumulate [of "[(''a'', default_checked_source_state\<lparr> commit_hash := Some ''1'' \<rparr>, None),
        (''b'', default_checked_source_state\<lparr> commit_hash := Some ''2'' \<rparr>, Some 5)]" "''a''" "''b''" "\<lambda>_. ''t''"
      "[''a'', ''b'', ''c'']" "default_trigger_status\<lparr> checked_sources := [''c'' \<mapsto> default_checked_source_state] \<rparr>"
      "Some Running" default_checked_source_state None]
  by simp

section \<open>Jobs of a task\<close>

text \<open>A queue with \<open>items\<close> added at its end.\<close>

definition grown :: "jobs_queue \<Rightarrow> jobs_queue_item list \<Rightarrow> jobs_queue \<Rightarrow> bool" where
  "grown q items q' \<longleftrightarrow>
     (\<exists>ev. q' = q\<lparr> queue_jobs := queue_jobs q @ items, queue_event := ev \<rparr>)"

lemma grown_refl [intro, simp]: "grown q [] q"
  by (auto simp: grown_def intro!: exI [of _ "queue_event q"])

lemma grown_trans: "grown q xs q1 \<Longrightarrow> grown q1 ys q2 \<Longrightarrow> grown q (xs @ ys) q2"
  unfolding grown_def by auto

lemma run_action_cases:
  assumes "run_action env reads ta rq (q, w) = Returns (r, q', w')"
  shows "(\<exists>e. r = Inl e \<and> q' = q) \<or>
     (\<exists>a. execute env reads (action_internals (action_owner_ref env)) a rq (q, w) = Returns (r, q', w')) \<or>
     (\<exists>a. execute env reads (cluster_action_internals (cluster_action_owner_ref env)) a rq (q, w) =
          Returns (r, q', w'))"
proof (cases "ta_kind ta")
  case ActionKind
  with assms obtain x where "(case x of Inl e \<Rightarrow> Returns (Inl e, q, w)
      | Inr a \<Rightarrow> execute env reads (action_internals (action_owner_ref env)) a rq (q, w)) = Returns (r, q', w')"
    by (auto simp: run_action_def)
  then show ?thesis by (cases x) auto
next
  case ClusterActionKind
  with assms obtain x where "(case x of Inl e \<Rightarrow> Returns (Inl e, q, w)
      | Inr a \<Rightarrow> execute env reads (cluster_action_internals (cluster_action_owner_ref env)) a rq (q, w)) =
      Returns (r, q', w')"
    by (auto simp: run_action_def)
  then show ?thesis by (cases x) auto
qed

definition request_items :: "string \<Rightarrow> string \<Rightarrow> jobs_queue_item list \<Rightarrow> bool" where
  "request_items ns ident items \<longleftrightarrow>
     (\<forall>item \<in> set items. owned_by ident (item_job item) \<and> measurable (item_job item) \<and>
        om_namespace (job_meta (item_job item)) = Some ns)"

lemma execute_grown:
  assumes "execute env reads ops a rq (Some q, w) = Returns (r, q', w')"
  shows "\<exists>item q1. q' = Some q1 \<and> grown q [item] q1 \<and> request_items (rq_ns rq) (identity q) [item]"
proof -
  from execute_queue [OF assms] obtain item where i: "item_for env reads ops a rq (identity q) item"
    and q': "q' = Some (q\<lparr> queue_jobs := queue_jobs q @ [item],
                   queue_event := (event_loop_alive q \<or> queue_event q) \<rparr>)" by blast
  from q' have "grown q [item] (the q')" by (auto simp: grown_def)
  moreover from i have "request_items (rq_ns rq) (identity q) [item]"
    by (simp add: request_items_def item_for_def)
  ultimately show ?thesis using q' by (metis option.sel)
qed

lemma run_action_queue:
  assumes "run_action env reads ta rq (Some q, w) = Returns (r, q', w')"
  shows "\<exists>items q1. q' = Some q1 \<and> grown q items q1 \<and> length items \<le> 1 \<and>
     (r = Inr () \<longrightarrow> length items = 1) \<and> request_items (rq_ns rq) (identity q) items"
  using run_action_cases [OF assms]
proof (elim disjE exE conjE)
  fix e assume "r = Inl e" and "q' = Some q"
  then show ?thesis by (intro exI [of _ "[]"] exI [of _ q]) (simp add: request_items_def)
next
  fix a assume "execute env reads (action_internals (action_owner_ref env)) a rq (Some q, w) =
    Returns (r, q', w')"
  from execute_grown [OF this] obtain item q1 where "q' = Some q1" "grown q [item] q1"
    "request_items (rq_ns rq) (identity q) [item]" by blast
  then show ?thesis by (intro exI [of _ "[item]"] exI [of _ q1]) simp
next
  fix a assume "execute env reads (cluster_action_internals (cluster_action_owner_ref env)) a rq (Some q, w) =
    Returns (r, q', w')"
  from execute_grown [OF this] obtain item q1 where "q' = Some q1" "grown q [item] q1"
    "request_items (rq_ns rq) (identity q) [item]" by blast
  then show ?thesis by (intro exI [of _ "[item]"] exI [of _ q1]) simp
qed

lemma check_source_queue:
  assumes "check_source env reads ops cops task trg checked source st (Some q, w) = Returns (q', w')"
  shows "\<exists>items q1. q' = Some q1 \<and> grown q items q1 \<and> length items \<le> 1 \<and>
     request_items (tt_ns task) (identity q) items \<and>
     (is_equal st (checked source) (watch_files (watch_on (t_sources ops trg)) \<noteq> None) \<and>
      on_change_only (watch_on (t_sources ops trg)) \<longrightarrow> items = [])"
proof (cases "\<not> is_equal st (checked source) (watch_files (watch_on (t_sources ops trg)) \<noteq> None) \<or>
              \<not> on_change_only (watch_on (t_sources ops trg))")
  case True
  with assms have "source_fired env reads ops cops task trg source st (Some q, w) = Returns (q', w')"
    by (simp add: check_source_def Let_def)
  then obtain commit r q1 w1 where ra: "run_action env reads (t_action ops trg)
      (source_request ops (t_sources ops trg) task source commit) (Some q, w) = Returns (r, q1, w1)"
    and rest: "(case r of Inl e \<Rightarrow> Returns (q1, w1)
       | Inr _ \<Rightarrow> (case now env w1 of (t, w2) \<Rightarrow> (case now env w2 of (t', w3) \<Rightarrow>
           outcome_bind (try_update_status env ops cops trg (Some Running)
              (Some [source \<mapsto> st\<lparr> changed := Some (to_rfc3339 env t) \<rparr>]) (Some t') w3)
             (\<lambda>w4. Returns (q1, w4))))) = Returns (q', w')"
    by (auto simp: source_fired_def)
  from rest have "q' = q1" by (cases r) (auto split: prod.splits)
  with True run_action_queue [OF ra] show ?thesis by (auto simp: source_request_def)
next
  case False
  with assms have "q' = Some q" by (auto simp: check_source_def Let_def)
  then show ?thesis by (intro exI [of _ "[]"] exI [of _ q]) (simp add: request_items_def)
qed

text \<open>Some check of the source, at some moment, finds a state that differs from the recorded one.\<close>

definition source_changed ::
    "('w, 'z) trigger_env_scheme \<Rightarrow> trigger_sources \<Rightarrow> string \<Rightarrow> (string \<rightharpoonup> checked_source_state) \<Rightarrow>
     string \<Rightarrow> bool" where
  "source_changed env srcs ns checked source \<longleftrightarrow>
     (\<exists>path w1 st w2. source_state env srcs ns source path w1 = Returns (Inr st, w2) \<and>
        \<not> is_equal st (checked source) (watch_files (watch_on srcs) \<noteq> None))"

lemma process_source_queue:
  assumes "process_source env reads ops cops task trg base checked source (Some q, w) = Returns (q', w')"
  shows "\<exists>items q1. q' = Some q1 \<and> grown q items q1 \<and> length items \<le> 1 \<and>
     request_items (tt_ns task) (identity q) items \<and>
     (on_change_only (watch_on (t_sources ops trg)) \<longrightarrow> items = [] \<or>
        source_changed env (t_sources ops trg) (tt_ns task) checked source)"
proof -
  let ?p = "base @ ''/'' @ source"
  obtain r0 w1 where c: "create_dir_all env ?p (snd (remove_dir_all env ?p w)) = (r0, w1)"
    by (cases "create_dir_all env ?p (snd (remove_dir_all env ?p w))")
  have skip: ?thesis if "q' = Some q"
    using that by (intro exI [of _ "[]"] exI [of _ q]) (simp add: request_items_def)
  show ?thesis
  proof (cases r0)
    case (Inl e)
    with assms c show ?thesis by (intro skip) (simp add: process_source_def Let_def)
  next
    case (Inr u)
    with assms c obtain r w2 where s: "source_state env (t_sources ops trg) (tt_ns task) source ?p w1 =
        Returns (r, w2)" by (auto simp: process_source_def Let_def)
    show ?thesis
    proof (cases r)
      case (Inl e)
      with assms c s Inr show ?thesis by (intro skip) (simp add: process_source_def Let_def)
    next
      case (Inr st)
      with assms c s \<open>r0 = Inr u\<close> obtain w3 where
        k: "check_source env reads ops cops task trg checked source st (Some q, w2) = Returns (q', w3)"
        by (auto simp: process_source_def Let_def)
      from check_source_queue [OF k] s Inr show ?thesis
        unfolding source_changed_def by blast
    qed
  qed
qed

lemma process_sources_queue:
  assumes "process_sources env reads ops cops task trg base checked ss (Some q, w) = Returns (q', w')"
  shows "\<exists>items q1. q' = Some q1 \<and> grown q items q1 \<and> length items \<le> length ss \<and>
     request_items (tt_ns task) (identity q) items \<and>
     (on_change_only (watch_on (t_sources ops trg)) \<longrightarrow>
        length items \<le> length (filter (source_changed env (t_sources ops trg) (tt_ns task) checked) ss))"
  using assms
proof (induction ss arbitrary: q w)
  case Nil
  then show ?case by (intro exI [of _ "[]"] exI [of _ q]) (simp add: request_items_def)
next
  case (Cons s ss)
  from Cons.prems obtain qm wm where
    p: "process_source env (reads s) ops cops task trg base checked s (Some q, w) = Returns (qm, wm)"
    and rest: "process_sources env reads ops cops task trg base checked ss (qm, wm) = Returns (q', w')"
    by auto
  from process_source_queue [OF p] obtain i1 q1 where a: "qm = Some q1" "grown q i1 q1" "length i1 \<le> 1"
    "request_items (tt_ns task) (identity q) i1"
    "on_change_only (watch_on (t_sources ops trg)) \<longrightarrow> i1 = [] \<or>
       source_changed env (t_sources ops trg) (tt_ns task) checked s" by blast
  from Cons.IH [OF rest [unfolded a(1)]] obtain i2 q2 where b: "q' = Some q2" "grown q1 i2 q2"
    "length i2 \<le> length ss" "request_items (tt_ns task) (identity q1) i2"
    "on_change_only (watch_on (t_sources ops trg)) \<longrightarrow>
        length i2 \<le> length (filter (source_changed env (t_sources ops trg) (tt_ns task) checked) ss)"
    by blast
  have "identity q1 = identity q" using a(2) by (auto simp: grown_def)
  with a b grown_trans [OF a(2) b(2)] show ?case
    by (intro exI [of _ "i1 @ i2"] exI [of _ q2]) (auto simp: request_items_def)
qed

lemma run_trigger_task_queue:
  assumes "run_trigger_task env reads ops cops task (Some q, w) = Returns (q', w')"
  shows "q' = Some q \<or>
     (\<exists>trg items q1. api_cache_get cops (tt_name task) (Some (tt_ns task)) (caches env w) = Returns (Inr trg) \<and>
        q' = Some q1 \<and> grown q items q1 \<and> request_items (tt_ns task) (identity q) items \<and>
        length items \<le> length (sources_to_check env (tt_sources task) (source_names (t_sources ops trg))) \<and>
        (on_change_only (watch_on (t_sources ops trg)) \<longrightarrow>
           length items \<le> length (filter (source_changed env (t_sources ops trg) (tt_ns task)
               (known_checked_sources ops trg))
             (sources_to_check env (tt_sources task) (source_names (t_sources ops trg))))))"
proof -
  from assms obtain r where g: "api_cache_get cops (tt_name task) (Some (tt_ns task)) (caches env w) = Returns r"
    by (auto simp: run_trigger_task_def)
  show ?thesis
  proof (cases r)
    case (Inl e)
    with assms g show ?thesis by (simp add: run_trigger_task_def)
  next
    case (Inr trg)
    with assms g obtain base w2 q3 w3 where
      p: "process_sources env reads ops cops task trg base (known_checked_sources ops trg)
         (sources_to_check env (tt_sources task) (source_names (t_sources ops trg))) (Some q, w2) =
         Returns (q3, w3)" and "q' = q3"
      by (auto simp: run_trigger_task_def Let_def case_prod_beta)
    with process_sources_queue [OF p] g Inr show ?thesis by auto
  qed
qed

text \<open>
  C11. What a run of a trigger's task adds to the jobs queue: at most one job per source to check,
  each in the trigger's namespace, owned by this controller and with the labels the metrics read;
  when the trigger watches for changes only, at most one job per source whose commit (or whose file
  hash, when files are watched) can differ from the recorded one, so none without a change. No
  other part of the queue changes.
\<close>

theorem trigger_task_jobs:
  assumes "run_trigger_task env reads ops cops task (Some q, w) = Returns (q', w')"
  shows "q' = Some q \<or>
     (\<exists>trg items q1. api_cache_get cops (tt_name task) (Some (tt_ns task)) (caches env w) = Returns (Inr trg) \<and>
        q' = Some q1 \<and> grown q items q1 \<and> request_items (tt_ns task) (identity q) items \<and>
        length items \<le> length (sources_to_check env (tt_sources task) (source_names (t_sources ops trg))) \<and>
        (on_change_only (watch_on (t_sources ops trg)) \<longrightarrow>
           length items \<le> length (filter (source_changed env (t_sources ops trg) (tt_ns task)
               (known_checked_sources ops trg))
             (sources_to_check env (tt_sources task) (source_names (t_sources ops trg))))))"
  using run_trigger_task_queue [OF assms] .

section \<open>A changed source runs the action\<close>

lemma update_trigger_status_returns:
  assumes "om_namespace (t_meta ops trg) = Some ns"
    and "\<forall>n ns w. returns (api_cache_get cops n ns (caches env w))"
  shows "\<exists>r w'. update_trigger_status env ops cops trg st checked lr w = Returns (r, w')"
proof -
  from assms(2) obtain r where "api_cache_get cops (name_any (t_meta ops trg)) (Some ns) (caches env w) = Returns r"
    by (metis returns_iff)
  with assms(1) show ?thesis
    by (cases r) (auto simp: update_trigger_status_def Let_def split: prod.splits sum.splits)
qed

lemma try_update_status_returns:
  assumes "om_namespace (t_meta ops trg) = Some ns"
    and "\<forall>n ns w. returns (api_cache_get cops n ns (caches env w))"
  shows "\<exists>w'. try_update_status env ops cops trg st checked lr w = Returns w'"
  using update_trigger_status_returns [OF assms, of st checked lr w]
  by (auto simp: try_update_status_def)

lemma execute_returns:
  assumes "get_owner_reference ops a = Returns owner"
  shows "\<exists>r q' w'. execute env reads ops a rq (q, w) = Returns (r, q', w')"
proof -
  obtain j w1 where "create_job_spec env reads ops a rq w = Returns (Inr j, w1)"
    using assms by (cases "job_name env ops a w") (auto simp: create_job_spec_def)
  then show ?thesis by (simp add: execute_def) (metis prod.exhaust)
qed

text \<open>The action of a trigger is in the cache of its kind and has an owner reference; the item that
  executing it adds to the queue.\<close>

definition action_ready ::
    "('w, 'z) trigger_env_scheme \<Rightarrow> trigger_action \<Rightarrow> string \<Rightarrow> 'w \<Rightarrow> bool" where
  "action_ready env ta ns w \<longleftrightarrow>
     (case ta_kind ta of
        ActionKind \<Rightarrow> (\<exists>a. api_cache_get action_cache (ta_name ta) (Some ns) (caches env w) = Returns (Inr a) \<and>
          action_owner_ref env a \<noteq> None)
      | ClusterActionKind \<Rightarrow> (\<exists>a. api_cache_get cluster_action_cache (ta_name ta) None (caches env w) =
          Returns (Inr a) \<and> cluster_action_owner_ref env a \<noteq> None))"

definition action_item ::
    "('w, 'z) trigger_env_scheme \<Rightarrow> config_reads \<Rightarrow> trigger_action \<Rightarrow> action_request \<Rightarrow> string \<Rightarrow> 'w \<Rightarrow>
     jobs_queue_item \<Rightarrow> bool" where
  "action_item env reads ta rq ident w item \<longleftrightarrow>
     (case ta_kind ta of
        ActionKind \<Rightarrow> (\<exists>a. api_cache_get action_cache (ta_name ta) (Some (rq_ns rq)) (caches env w) =
          Returns (Inr a) \<and> item_for env reads (action_internals (action_owner_ref env)) a rq ident item)
      | ClusterActionKind \<Rightarrow> (\<exists>a. api_cache_get cluster_action_cache (ta_name ta) None (caches env w) =
          Returns (Inr a) \<and>
          item_for env reads (cluster_action_internals (cluster_action_owner_ref env)) a rq ident item))"

lemma execute_adds_item:
  assumes "get_owner_reference ops a = Returns owner" and "event_loop_alive q"
  shows "\<exists>item q' w'. execute env reads ops a rq (Some q, w) = Returns (Inr (), Some q', w') \<and>
     item_for env reads ops a rq (identity q) item \<and> queue_jobs q' = queue_jobs q @ [item]"
proof -
  from execute_returns [OF assms(1), of env reads rq "Some q" w] obtain r q1 w1 where
    ex: "execute env reads ops a rq (Some q, w) = Returns (r, q1, w1)" by blast
  from execute_queue [OF ex] assms(2) ex show ?thesis by auto
qed

lemma run_action_ready:
  assumes "action_ready env ta (rq_ns rq) w" and "event_loop_alive q"
  shows "\<exists>item q' w'. run_action env reads ta rq (Some q, w) = Returns (Inr (), Some q', w') \<and>
     action_item env reads ta rq (identity q) w item \<and> queue_jobs q' = queue_jobs q @ [item]"
proof (cases "ta_kind ta")
  case ActionKind
  with assms(1) obtain a owner where a: "api_cache_get action_cache (ta_name ta) (Some (rq_ns rq)) (caches env w) =
      Returns (Inr a)" "action_owner_ref env a = Some owner" by (auto simp: action_ready_def)
  then have "get_owner_reference (action_internals (action_owner_ref env)) a = Returns owner" by simp
  from execute_adds_item [OF this assms(2), of env reads rq w] a ActionKind show ?thesis
    by (auto simp: run_action_def action_item_def)
next
  case ClusterActionKind
  with assms(1) obtain a owner where a: "api_cache_get cluster_action_cache (ta_name ta) None (caches env w) =
      Returns (Inr a)" "cluster_action_owner_ref env a = Some owner" by (auto simp: action_ready_def)
  then have "get_owner_reference (cluster_action_internals (cluster_action_owner_ref env)) a = Returns owner"
    by simp
  from execute_adds_item [OF this assms(2), of env reads rq w] a ClusterActionKind show ?thesis
    by (auto simp: run_action_def action_item_def)
qed

text \<open>The status that a check which ran the action sends to the API server, from the cached trigger
  \<open>cur\<close>.\<close>

definition fired_status ::
    "('w, 'z) trigger_env_scheme \<Rightarrow> ('t, 'y) trigger_ops_scheme \<Rightarrow> 't \<Rightarrow> string \<Rightarrow> checked_source_state \<Rightarrow>
     system_time \<Rightarrow> system_time \<Rightarrow> trigger_status" where
  "fired_status env ops cur source st t lr =
     new_trigger_status (to_rfc3339 env) (t_status ops cur) (source_names (t_sources ops cur)) (Some Running)
       (Some [source \<mapsto> st\<lparr> changed := Some (to_rfc3339 env t) \<rparr>]) (Some lr)"

text \<open>At a moment, the cache has the trigger, in whatever version, and that version has the source.\<close>

definition stays_cached ::
    "('w, 'z) trigger_env_scheme \<Rightarrow> ('t, 'y) trigger_ops_scheme \<Rightarrow> ('t, 'x) api_cache_ops_scheme \<Rightarrow> 't \<Rightarrow>
     string \<Rightarrow> string \<Rightarrow> 'w \<Rightarrow> bool" where
  "stays_cached env ops cops trg ns source w \<longleftrightarrow>
     (\<exists>cur. api_cache_get cops (name_any (t_meta ops trg)) (Some ns) (caches env w) = Returns (Inr cur) \<and>
        source \<in> set (source_names (t_sources ops cur)))"

lemma changed_source_fires:
  assumes "commit_hash st = Some commit"
    and "\<not> is_equal st (checked source) (watch_files (watch_on (t_sources ops trg)) \<noteq> None) \<or>
         \<not> on_change_only (watch_on (t_sources ops trg))"
    and "action_ready env (t_action ops trg) (tt_ns task) w" and "event_loop_alive q"
    and "om_namespace (t_meta ops trg) = Some ns"
    and "\<forall>w. stays_cached env ops cops trg ns source w"
  shows "\<exists>q' w' item t lr w3 cur.
     check_source env reads ops cops task trg checked source st (Some q, w) = Returns (Some q', w') \<and>
     action_item env reads (t_action ops trg) (source_request ops (t_sources ops trg) task source commit)
       (identity q) w item \<and>
     queue_jobs q' = queue_jobs q @ [item] \<and>
     api_cache_get cops (name_any (t_meta ops trg)) (Some ns) (caches env w3) = Returns (Inr cur) \<and>
     source \<in> set (source_names (t_sources ops cur)) \<and>
     w' = snd (patch_status env (t_kind ops) ns (name_any (t_meta ops trg))
                (fired_status env ops cur source st t lr) w3)"
proof -
  let ?rq = "source_request ops (t_sources ops trg) task source commit"
  have "action_ready env (t_action ops trg) (rq_ns ?rq) w" using assms(3) by (simp add: source_request_def)
  from run_action_ready [OF this assms(4), of reads] obtain item q1 w1 where
    ra: "run_action env reads (t_action ops trg) ?rq (Some q, w) = Returns (Inr (), Some q1, w1)"
    and item: "action_item env reads (t_action ops trg) ?rq (identity q) w item"
      "queue_jobs q1 = queue_jobs q @ [item]" by blast
  obtain t w2 lr w3 where n: "now env w1 = (t, w2)" "now env w2 = (lr, w3)" by (metis prod.exhaust)
  from assms(6) obtain cur where cur: "source \<in> set (source_names (t_sources ops cur))"
    "api_cache_get cops (name_any (t_meta ops trg)) (Some ns) (caches env w3) = Returns (Inr cur)"
    unfolding stays_cached_def by blast
  let ?w4 = "snd (patch_status env (t_kind ops) ns (name_any (t_meta ops trg))
                (fired_status env ops cur source st t lr) w3)"
  have "try_update_status env ops cops trg (Some Running)
      (Some [source \<mapsto> st\<lparr> changed := Some (to_rfc3339 env t) \<rparr>]) (Some lr) w3 = Returns ?w4"
    using assms(5) cur(2)
    by (simp add: try_update_status_def update_trigger_status_def Let_def fired_status_def
        split: prod.splits sum.splits)
  with ra n have "source_fired env reads ops cops task trg source st (Some q, w) = Returns (Some q1, ?w4)"
    by (simp add: source_fired_def assms(1))
  then have "check_source env reads ops cops task trg checked source st (Some q, w) = Returns (Some q1, ?w4)"
    using assms(2) by (auto simp: check_source_def Let_def)
  with item cur show ?thesis by blast
qed

text \<open>Once the recorded state is in the status of the trigger, the same content is not a change.\<close>

lemma recorded_source_keeps_queue:
  assumes "t_status ops trg = Some (fired_status env ops cur source st t lr)"
    and "source \<in> set (source_names (t_sources ops cur))" "source \<in> set (source_names (t_sources ops trg))"
    and "on_change_only (watch_on (t_sources ops trg))"
    and "commit_hash st' = commit_hash st" "file_hash st' = file_hash st"
    and "check_source env' reads ops cops task trg (known_checked_sources ops trg) source st' (q, w) =
         Returns (q', w')"
  shows "q' = q"
proof -
  have "known_checked_sources ops trg source = Some (st\<lparr> changed := Some (to_rfc3339 env t) \<rparr>)"
    using assms(1-3)
    by (cases "t_status ops cur") (simp_all add: known_checked_sources_def fired_status_def new_trigger_status_def)
  then have "is_equal st' (known_checked_sources ops trg source) b" for b
    using assms(5,6) by (simp add: is_equal_def)
  with assms(4,7) show ?thesis by (auto simp: check_source_def Let_def)
qed

text \<open>
  C12. A source that changed (or any source of a trigger that does not watch for changes only) runs
  the action, once. When the action, of either kind, is in the cache with an owner reference, the
  queue is alive and the trigger stays in the cache with this source, the check returns with exactly
  one more job at the end of the queue, the Job of that action for this source at the commit that
  was seen, and sends a status to the API server, computed from the version of the trigger that is
  then in the cache. A later check of a trigger that has that status adds nothing for the same
  commit and file hash, provided that this trigger watches for changes only (with
  \<^verbatim>\<open>onChangeOnly: false\<close> it runs the action again, by the first part).
\<close>

theorem changed_source_runs_action:
  assumes "commit_hash st = Some commit"
    and "\<not> is_equal st (checked source) (watch_files (watch_on (t_sources ops trg)) \<noteq> None) \<or>
         \<not> on_change_only (watch_on (t_sources ops trg))"
    and "action_ready env (t_action ops trg) (tt_ns task) w" and "event_loop_alive q"
    and "om_namespace (t_meta ops trg) = Some ns"
    and "\<forall>w. stays_cached env ops cops trg ns source w"
  shows "\<exists>q' w' item t lr w3 cur.
     check_source env reads ops cops task trg checked source st (Some q, w) = Returns (Some q', w') \<and>
     action_item env reads (t_action ops trg) (source_request ops (t_sources ops trg) task source commit)
       (identity q) w item \<and>
     queue_jobs q' = queue_jobs q @ [item] \<and>
     api_cache_get cops (name_any (t_meta ops trg)) (Some ns) (caches env w3) = Returns (Inr cur) \<and>
     w' = snd (patch_status env (t_kind ops) ns (name_any (t_meta ops trg))
                (fired_status env ops cur source st t lr) w3) \<and>
     (\<forall>trg' st' reads' task' q2 w2 q3 w4.
        t_status ops trg' = Some (fired_status env ops cur source st t lr) \<and>
        source \<in> set (source_names (t_sources ops trg')) \<and> on_change_only (watch_on (t_sources ops trg')) \<and>
        commit_hash st' = commit_hash st \<and> file_hash st' = file_hash st \<and>
        check_source env reads' ops cops task' trg' (known_checked_sources ops trg') source st' (q2, w2) =
          Returns (q3, w4) \<longrightarrow> q3 = q2)"
proof -
  from changed_source_fires [where checked = checked and source = source, OF assms(1-6), of reads]
  obtain q' w' item t lr w3 cur where
    "check_source env reads ops cops task trg checked source st (Some q, w) = Returns (Some q', w')"
    "action_item env reads (t_action ops trg) (source_request ops (t_sources ops trg) task source commit)
       (identity q) w item" "queue_jobs q' = queue_jobs q @ [item]"
    "api_cache_get cops (name_any (t_meta ops trg)) (Some ns) (caches env w3) = Returns (Inr cur)"
    "w' = snd (patch_status env (t_kind ops) ns (name_any (t_meta ops trg))
                (fired_status env ops cur source st t lr) w3)"
    and named: "source \<in> set (source_names (t_sources ops cur))" by blast
  moreover have "q3 = q2"
    if "t_status ops trg' = Some (fired_status env ops cur source st t lr) \<and>
        source \<in> set (source_names (t_sources ops trg')) \<and> on_change_only (watch_on (t_sources ops trg')) \<and>
        commit_hash st' = commit_hash st \<and> file_hash st' = file_hash st \<and>
        check_source env reads' ops cops task' trg' (known_checked_sources ops trg') source st' (q2, w2) =
          Returns (q3, w4)" for trg' st' reads' task' q2 w2 q3 w4
    using that recorded_source_keeps_queue [OF _ named, of trg' env st t lr st' env reads' cops task' q2 w2 q3 w4]
    by blast
  ultimately show ?thesis by blast
qed

section \<open>Hashes of files\<close>

lemma hash_files_ok:
  "hash_files env fs acc w = (Inr h, w') \<Longrightarrow>
     \<exists>cs. list_all2 (\<lambda>f c. \<exists>p w1 w2. f = Inr p \<and> read_file env p w1 = (Inr c, w2)) fs cs \<and>
          h = sha256 env (acc @ concat (map (sha256 env) cs))"
proof (induction env fs acc w arbitrary: h w' rule: hash_files.induct)
  case (3 env path fs acc w)
  from "3.prems" obtain c w1 where r: "read_file env path w = (Inr c, w1)"
    and rest: "hash_files env fs (acc @ sha256 env c) w1 = (Inr h, w')"
    by (auto simp: calc_file_hash_def calc_buffer_hash_def split: prod.splits sum.splits)
  have "calc_file_hash env path w = (Inr (sha256 env c), w1)"
    using r by (simp add: calc_file_hash_def calc_buffer_hash_def)
  from "3.IH" [OF this [symmetric] refl rest] obtain cs where
    "list_all2 (\<lambda>f c. \<exists>p w1 w2. f = Inr p \<and> read_file env p w1 = (Inr c, w2)) fs cs"
    "h = sha256 env ((acc @ sha256 env c) @ concat (map (sha256 env) cs))" by blast
  with r show ?case by (intro exI [of _ "c # cs"]) auto
qed auto

lemma concat_blocks_inject:
  assumes "\<forall>x \<in> set xs. length x = n" and "\<forall>y \<in> set ys. length y = n" and "0 < n"
    and "concat xs = concat ys"
  shows "xs = ys"
proof -
  have "length (concat zs) = n * length zs" if "\<forall>z \<in> set zs. length z = n" for zs :: "'a list list"
    using that by (induction zs) auto
  from this [OF assms(1)] this [OF assms(2)] assms(3,4) have "length xs = length ys" by simp
  with assms show ?thesis by (intro concat_injective ballI) (auto simp: set_zip)
qed

text \<open>The contents of the files that a pattern selected, in the order of their paths, with the
  moments they were read at.\<close>

definition glob_contents ::
    "('w, 'z) trigger_env_scheme \<Rightarrow> string \<Rightarrow> string list \<Rightarrow> 'w \<Rightarrow> string list \<Rightarrow> bool" where
  "glob_contents env folder globs w cs \<longleftrightarrow>
     (\<exists>fs w1. glob_walk env folder globs w = (Inr fs, w1) \<and>
        list_all2 (\<lambda>f c. \<exists>p w1 w2. f = Inr p \<and> read_file env p w1 = (Inr c, w2)) fs cs)"

lemma get_file_glob_hash_ok:
  assumes "get_file_glob_hash env folder globs w = (Inr h, w')"
  shows "\<exists>cs. glob_contents env folder globs w cs \<and> h = sha256 env (concat (map (sha256 env) cs))"
proof -
  from assms obtain fs w1 where "glob_walk env folder globs w = (Inr fs, w1)"
    and "hash_files env fs [] w1 = (Inr h, w')"
    by (auto simp: get_file_glob_hash_def split: prod.splits sum.splits)
  with hash_files_ok [of env fs "[]" w1 h w'] show ?thesis by (auto simp: glob_contents_def)
qed

text \<open>Everything that is given to SHA-256 for files of these contents: each content, and the
  concatenation of their digests.\<close>

definition hashed_inputs :: "('w, 'z) trigger_env_scheme \<Rightarrow> string list \<Rightarrow> string set" where
  "hashed_inputs env cs = insert (concat (map (sha256 env) cs)) (set cs)"

lemma same_digest_contents:
  assumes "\<forall>x. length (sha256 env x) = 32" and "inj_on (sha256 env) (hashed_inputs env cs1 \<union> hashed_inputs env cs2)"
    and "sha256 env (concat (map (sha256 env) cs1)) = sha256 env (concat (map (sha256 env) cs2))"
  shows "cs1 = cs2"
proof -
  have "concat (map (sha256 env) cs1) = concat (map (sha256 env) cs2)"
    using inj_onD [OF assms(2,3)] by (simp add: hashed_inputs_def)
  then have "map (sha256 env) cs1 = map (sha256 env) cs2"
    using assms(1) by (intro concat_blocks_inject [where n = 32]) auto
  moreover have "inj_on (sha256 env) (set cs1 \<union> set cs2)"
    using assms(2) by (rule inj_on_subset) (auto simp: hashed_inputs_def)
  ultimately show ?thesis by (simp add: inj_on_map_eq_map)
qed

text \<open>
  C33. The hash of files detects every change of content, up to a collision that the two checks
  themselves exhibit. Each check hashes the contents of the files that its pattern selects, in the
  order of their paths, and the concatenation of their digests, and nothing else; when the two
  results are equal, the contents are the same in the same order, unless two different strings
  among those that were hashed have the same digest. (Paths are not part of the hash: a renamed file
  that keeps its place in the order is not a change.)
\<close>

theorem file_hash_detects_change:
  assumes "get_file_glob_hash env folder1 globs1 w1 = (Inr h1, w1')"
    and "get_file_glob_hash env folder2 globs2 w2 = (Inr h2, w2')"
    and "\<forall>x. length (sha256 env x) = 32"
  shows "\<exists>cs1 cs2. glob_contents env folder1 globs1 w1 cs1 \<and> glob_contents env folder2 globs2 w2 cs2 \<and>
     h1 = sha256 env (concat (map (sha256 env) cs1)) \<and> h2 = sha256 env (concat (map (sha256 env) cs2)) \<and>
     (h1 = h2 \<and> inj_on (sha256 env) (hashed_inputs env cs1 \<union> hashed_inputs env cs2) \<longrightarrow> cs1 = cs2)"
proof -
  from get_file_glob_hash_ok [OF assms(1)] obtain cs1 where
    c1: "glob_contents env folder1 globs1 w1 cs1" "h1 = sha256 env (concat (map (sha256 env) cs1))" by blast
  from get_file_glob_hash_ok [OF assms(2)] obtain cs2 where
    c2: "glob_contents env folder2 globs2 w2 cs2" "h2 = sha256 env (concat (map (sha256 env) cs2))" by blast
  with c1 same_digest_contents [OF assms(3), of cs1 cs2] show ?thesis by blast
qed

section \<open>An example\<close>

definition sample_trigger :: webhook_trigger where
  "sample_trigger =
     \<lparr> wt_meta = default_object_meta\<lparr> om_name := Some ''nightly'', om_namespace := Some ''apps'' \<rparr>,
       wt_spec = \<lparr> wt_sources = \<lparr> sources_kind = GitRepo, source_names = [''repo''],
                                  watch_on = default_trigger_watch_on \<rparr>,
                   wt_webhook = \<lparr> multi_source = False, hook_auth_config = None \<rparr>,
                   wt_action = \<lparr> ta_kind = ActionKind, ta_name = ''build'' \<rparr> \<rparr>,
       wt_status = None \<rparr>"

definition sample_caches :: api_cache_store where
  "sample_caches =
     \<lparr> acs_git_repo = Some (\<lambda>_. Some sample_git_repo), acs_cluster_git_repo = Some Map.empty,
       acs_action = Some (\<lambda>_. Some sample_action), acs_cluster_action = Some Map.empty,
       acs_webhook_trigger = Some (\<lambda>_. Some sample_trigger), acs_schedule_trigger = Some Map.empty \<rparr>"

definition sample_trigger_env :: "nat trigger_env" where
  "sample_trigger_env = git_env.extend sample_git_env
     \<lparr> caches = (\<lambda>_. sample_caches), action_owner_ref = sample_owner_ref,
       cluster_action_owner_ref = sample_owner_ref, patch_status = (\<lambda>kind ns name st w. (Inr (), Suc w)),
       to_rfc3339 = (\<lambda>_. ''2024-01-01T00:00:00Z''), set_order = (\<lambda>ss. ss),
       remove_dir_all = (\<lambda>p w. (Inr (), w)), create_dir_all = (\<lambda>p w. (Inr (), w)),
       resolve_short_name = (\<lambda>r n w. (Inr (Some ''abc''), w)), oid_from_str = Inr,
       find_object = (\<lambda>r oid w. (Inr (), w)), checkout_tree = (\<lambda>r oid w. (Inr (), w)),
       glob_walk = (\<lambda>folder globs w. (Inr [Inr ''a.txt''], w)),
       read_file = (\<lambda>p w. (Inr ''content'', w)),
       sha256 = (\<lambda>s. take 32 (s @ replicate 32 CHR ''0'')), hex_encode = (\<lambda>s. s) \<rparr>"

definition sample_task :: trigger_task where
  "sample_task = \<lparr> tt_schedule = TaskOnce, tt_name = ''nightly'', tt_ns = ''apps'',
     tt_sources = AllSources, tt_folder = ''/tmp'' \<rparr>"

lemma sample_caches_returns:
  "returns (api_cache_get webhook_trigger_cache n ns (caches sample_trigger_env w))"
  by (simp add: wt.get_unpublished sample_trigger_env_def git_env.defs sample_caches_def)

lemma sample_env_fields [simp]:
  "caches sample_trigger_env w = sample_caches"
  "action_owner_ref sample_trigger_env = sample_owner_ref"
  "sha256 sample_trigger_env = (\<lambda>s. take 32 (s @ replicate 32 CHR ''0''))"
  by (simp_all add: sample_trigger_env_def git_env.defs)

lemma sample_trigger_env_git:
  "get_secret sample_trigger_env = get_secret sample_git_env"
  "fetch_remote sample_trigger_env = fetch_remote sample_git_env"
  "init_opts sample_trigger_env = init_opts sample_git_env"
  "find_remote sample_trigger_env = find_remote sample_git_env"
  "now sample_trigger_env = now sample_git_env"
  "sample_alphanumeric sample_trigger_env = sample_alphanumeric sample_git_env"
  "format_local sample_trigger_env = format_local sample_git_env"
  by (simp_all add: sample_trigger_env_def git_env.defs)

lemma sample_action_ready:
  "action_ready sample_trigger_env (t_action webhook_trigger_ops sample_trigger) (tt_ns sample_task) w"
  by (simp add: action_ready_def sample_trigger_def act.get_value sample_caches_def sample_owner_ref_def)

lemma sample_trigger_ns: "om_namespace (t_meta webhook_trigger_ops sample_trigger) = Some ''apps''"
  by (simp add: sample_trigger_def)

lemma sample_trigger_cached:
  "\<forall>w. stays_cached sample_trigger_env webhook_trigger_ops webhook_trigger_cache sample_trigger ns ''repo'' w"
  by (simp add: stays_cached_def wt.get_value sample_caches_def) (simp add: sample_trigger_def)

theorem changed_source_runs_action_witness:
  "\<exists>q' w' item. check_source sample_trigger_env (steady default_runtime_config) webhook_trigger_ops
       webhook_trigger_cache sample_task sample_trigger Map.empty ''repo''
       (default_checked_source_state\<lparr> commit_hash := Some ''abc'' \<rparr>) (Some (init_jobs_queue ''me''), 0) =
       Returns (Some q', w') \<and> queue_jobs q' = [item] \<and>
     om_namespace (job_meta (item_job item)) = Some ''apps''"
proof -
  let ?st = "default_checked_source_state\<lparr> commit_hash := Some ''abc'' \<rparr>"
  have changed: "\<not> is_equal ?st (Map.empty ''repo'')
      (watch_files (watch_on (t_sources webhook_trigger_ops sample_trigger)) \<noteq> None) \<or>
      \<not> on_change_only (watch_on (t_sources webhook_trigger_ops sample_trigger))"
    by (simp add: is_equal_def)
  have queue: "event_loop_alive (init_jobs_queue ''me'')" "queue_jobs (init_jobs_queue ''me'') = []"
    by (simp_all add: init_jobs_queue_def)
  have commit: "commit_hash ?st = Some ''abc''" by simp
  from changed_source_runs_action [where checked = Map.empty and reads = "steady default_runtime_config",
      OF commit changed sample_action_ready [of 0] queue(1) sample_trigger_ns sample_trigger_cached]
  obtain q' w' item where
    "check_source sample_trigger_env (steady default_runtime_config) webhook_trigger_ops webhook_trigger_cache
       sample_task sample_trigger Map.empty ''repo'' ?st (Some (init_jobs_queue ''me''), 0) =
       Returns (Some q', w')" "queue_jobs q' = queue_jobs (init_jobs_queue ''me'') @ [item]"
    "action_item sample_trigger_env (steady default_runtime_config) (t_action webhook_trigger_ops sample_trigger)
       (source_request webhook_trigger_ops (t_sources webhook_trigger_ops sample_trigger) sample_task
         ''repo'' ''abc'') (identity (init_jobs_queue ''me'')) 0 item" by blast
  moreover from this(3) have "om_namespace (job_meta (item_job item)) = Some ''apps''"
    by (auto simp: action_item_def sample_trigger_def item_for_def source_request_def sample_task_def)
  ultimately show ?thesis using queue(2) by auto
qed

theorem file_hash_detects_change_witness:
  "\<exists>cs1 cs2. glob_contents sample_trigger_env ''/a'' [''*''] 0 cs1 \<and>
     glob_contents sample_trigger_env ''/b'' [''*''] 7 cs2 \<and> cs1 = cs2"
proof -
  have c: "cs = [''content'']" if "glob_contents sample_trigger_env folder [''*''] w cs" for folder w cs
    using that by (auto simp: glob_contents_def sample_trigger_env_def git_env.defs list_all2_Cons1)
  obtain h where h: "get_file_glob_hash sample_trigger_env folder [''*''] w = (Inr h, w)" for folder w
    by (simp add: get_file_glob_hash_def sample_trigger_env_def git_env.defs calc_file_hash_def
        calc_buffer_hash_def)
  have "\<forall>x. length (sha256 sample_trigger_env x) = 32" by (simp add: min_def)
  from file_hash_detects_change [OF h [of "''/a''" 0] h [of "''/b''" 7] this] c show ?thesis by blast
qed

lemma sample_fetch:
  "fetch_repo_ref sample_trigger_env git_repo_internals sample_git_repo ref path ns w =
     Returns (Inr path, Suc w)"
proof -
  have "uri_schema git_repo_internals sample_git_repo = Returns Https"
    by (simp add: uri_schema_def sample_git_repo_def)
  then show ?thesis
    by (simp add: fetch_repo_ref_def get_auth_secrets_def get_tls_secrets_def fetch_with_secrets_def
        auth_options_def certificate_options_def fetch_origin_def sample_git_repo_def
        sample_trigger_env_git default_fetch_options_def)
      (simp add: sample_trigger_env_git sample_git_env_def)
qed

lemma sample_source_state:
  "source_state sample_trigger_env (t_sources webhook_trigger_ops sample_trigger) ''apps'' ''repo'' path w =
     Returns (Inr (default_checked_source_state\<lparr> commit_hash := Some ''abc'' \<rparr>), Suc w)"
proof -
  have "fetch_source sample_trigger_env (t_sources webhook_trigger_ops sample_trigger) ''apps'' ''repo'' path w =
      Returns (Inr path, Suc w)"
    by (simp add: fetch_source_def sample_trigger_def api_cache_get_def git_repo_cache_def sample_caches_def
        sample_fetch)
  moreover have "get_latest_commit sample_trigger_env repo (Branch r) w' = Returns (Inr ''abc'', w')" for repo r w'
    by (simp add: get_latest_commit_def resolve_target_def sample_trigger_env_def git_env.defs)
  ultimately show ?thesis
    by (simp add: source_state_def) (simp add: sample_trigger_def default_trigger_watch_on_def
        default_trigger_git_repo_reference_def)
qed

lemma sample_run_returns:
  "\<exists>q' w'. run_trigger_task sample_trigger_env (\<lambda>_. steady default_runtime_config) webhook_trigger_ops
     webhook_trigger_cache sample_task (Some (init_jobs_queue ''me''), 0) = Returns (q', w')"
proof -
  have g: "api_cache_get webhook_trigger_cache n ns (caches sample_trigger_env w) = Returns (Inr sample_trigger)"
    for n ns w by (simp add: wt.get_value sample_caches_def)
  note upd = try_update_status_returns [OF sample_trigger_ns, of webhook_trigger_cache sample_trigger_env]
  have u: "\<exists>w'. try_update_status sample_trigger_env webhook_trigger_ops webhook_trigger_cache sample_trigger
      st checked lr w = Returns w'" for st checked lr w using upd sample_caches_returns by blast
  have c: "\<exists>q' w'. check_source sample_trigger_env (steady default_runtime_config) webhook_trigger_ops
      webhook_trigger_cache sample_task sample_trigger checked ''repo''
      (default_checked_source_state\<lparr> commit_hash := Some ''abc'' \<rparr>) (Some (init_jobs_queue ''me''), w) =
      Returns (Some q', w')"
    if "checked ''repo'' = None" for checked w
  proof -
    let ?st = "default_checked_source_state\<lparr> commit_hash := Some ''abc'' \<rparr>"
    have "event_loop_alive (init_jobs_queue ''me'')" by (simp add: init_jobs_queue_def)
    moreover have "\<not> is_equal ?st (checked ''repo'')
        (watch_files (watch_on (t_sources webhook_trigger_ops sample_trigger)) \<noteq> None) \<or>
        \<not> on_change_only (watch_on (t_sources webhook_trigger_ops sample_trigger))"
      using that by (simp add: is_equal_def)
    moreover have "commit_hash ?st = Some ''abc''" by simp
    ultimately show ?thesis
      using changed_source_fires [OF _ _ sample_action_ready _ sample_trigger_ns sample_trigger_cached,
          where st = ?st and checked = checked and q = "init_jobs_queue ''me''"
            and reads = "steady default_runtime_config"] by blast
  qed
  have p: "\<exists>q' w'. process_source sample_trigger_env (steady default_runtime_config) webhook_trigger_ops
      webhook_trigger_cache sample_task sample_trigger base checked ''repo''
      (Some (init_jobs_queue ''me''), w) = Returns (q', w')" if "checked ''repo'' = None" for base checked w
  proof -
    have dirs: "create_dir_all sample_trigger_env path w' = (Inr (), w')"
      "remove_dir_all sample_trigger_env path w' = (Inr (), w')" for path w'
      by (simp_all add: sample_trigger_env_def git_env.defs)
    have ns: "tt_ns sample_task = ''apps''" by (simp add: sample_task_def)
    from c [of checked "Suc w", OF that] obtain q' w' where
      k: "check_source sample_trigger_env (steady default_runtime_config) webhook_trigger_ops
        webhook_trigger_cache sample_task sample_trigger checked ''repo''
        (default_checked_source_state\<lparr> commit_hash := Some ''abc'' \<rparr>) (Some (init_jobs_queue ''me''), Suc w) =
        Returns (Some q', w')" by blast
    show ?thesis
      unfolding process_source_def prod.case Let_def dirs snd_conv sum.case ns sample_source_state
        outcome_bind.simps k by blast
  qed
  have "known_checked_sources webhook_trigger_ops sample_trigger ''repo'' = None"
    by (simp add: known_checked_sources_def sample_trigger_def default_trigger_status_def)
  note p = p [of "known_checked_sources webhook_trigger_ops sample_trigger", OF this]
  have "sources_to_check sample_trigger_env (tt_sources sample_task)
      (source_names (t_sources webhook_trigger_ops sample_trigger)) = [''repo'']"
    by (simp add: sources_to_check_def sample_task_def sample_trigger_def)
      (simp add: sample_trigger_env_def git_env.defs)
  note srcs = this
  obtain rnd w1 where rnd: "random_string sample_trigger_env 8 0 = (rnd, w1)" by (metis prod.exhaust)
  obtain w2 where u1: "try_update_status sample_trigger_env webhook_trigger_ops webhook_trigger_cache
      sample_trigger (Some Running) None None w1 = Returns w2" using u by blast
  define base where "base = tt_folder sample_task @ ''/'' @ tt_ns sample_task @ ''/'' @ tt_name sample_task
    @ ''/'' @ rnd"
  obtain q3 w3 where p1: "process_source sample_trigger_env (steady default_runtime_config) webhook_trigger_ops
      webhook_trigger_cache sample_task sample_trigger base
      (known_checked_sources webhook_trigger_ops sample_trigger) ''repo''
      (Some (init_jobs_queue ''me''), w2) = Returns (q3, w3)" using p by blast
  obtain t w4 where n: "now sample_trigger_env w3 = (t, w4)" by (metis prod.exhaust)
  obtain w5 where u2: "try_update_status sample_trigger_env webhook_trigger_ops webhook_trigger_cache
      sample_trigger (Some Idle) None (Some t) w4 = Returns w5" using u by blast
  show ?thesis
    unfolding run_trigger_task_def prod.case g outcome_bind.simps sum.case rnd Let_def
      base_def [symmetric] u1 srcs process_sources.simps p1 n u2 by simp
qed

theorem trigger_task_jobs_witness:
  "\<exists>q' w'. run_trigger_task sample_trigger_env (\<lambda>_. steady default_runtime_config) webhook_trigger_ops
       webhook_trigger_cache sample_task (Some (init_jobs_queue ''me''), 0) = Returns (q', w') \<and>
     (q' = Some (init_jobs_queue ''me'') \<or>
      (\<exists>items q1. q' = Some q1 \<and> request_items ''apps'' ''me'' items \<and> queue_jobs q1 = items))"
proof -
  obtain q' w' where r: "run_trigger_task sample_trigger_env (\<lambda>_. steady default_runtime_config) webhook_trigger_ops
      webhook_trigger_cache sample_task (Some (init_jobs_queue ''me''), 0) = Returns (q', w')"
    using sample_run_returns by blast
  from trigger_task_jobs [OF r] r show ?thesis
    by (fastforce simp: sample_task_def grown_def init_jobs_queue_def)
qed

end
