(* ===== verification/Schedule_Correct.thy ===== *)
theory Schedule_Correct
  imports Schedule Trigger_Correct
begin

text \<open>
  What is proved of schedule triggers: a successful reconciliation of a changed schedule leaves
  exactly one task for a valid schedule and is idempotent; what a failed one leaves behind, and that a
  revert of the schedule does not repair it; the scheduler never runs a task that no map entry owns; a
  deletion removes everything; what happens to the time of the last run.
\<close>

section \<open>One reconciliation\<close>

lemma get_task_schedule_result:
  assumes "get_task_schedule env sched lr w = Returns (r, w')"
  shows "(\<exists>ts. r = Inr ts) \<longleftrightarrow> is_valid_schedule (parse_duration env) (cron_ok env) sched"
  using assms
  by (cases sched) (auto simp: get_task_schedule_def split: if_splits option.splits prod.splits)

lemma cancel_existing_frame:
  "cancel_existing env c key (s, w) = (s', w') \<Longrightarrow>
     tasks s' = (tasks s)(key := None) \<and> schedules s' = schedules s"
  by (auto simp: cancel_existing_def fun_upd_idem split: option.splits)

lemma schedule_task_frame:
  assumes "schedule_task env folder self key sched (s, w) = Returns (r, s', w')"
  shows "schedules s' = schedules s \<and>
     (case sched of
        Inr ts \<Rightarrow> (case r of Inr _ \<Rightarrow> \<exists>tid. tasks s' = (tasks s)(key \<mapsto> tid) | Inl _ \<Rightarrow> s' = s)
      | Inl _ \<Rightarrow> s' = s)"
proof (cases sched)
  case (Inl u)
  with assms show ?thesis
    by (auto simp: schedule_task_def split: prod.splits)
next
  case (Inr ts)
  with assms obtain task where "create_trigger_task schedule_trigger_ops self ts AllSources folder = Returns task"
    by (auto simp: schedule_task_def)
  with Inr assms show ?thesis
    by (cases "scheduler_add env task w"; cases "fst (scheduler_add env task w)")
      (auto simp: schedule_task_def)
qed

lemma reconcile_changed_ok:
  assumes "reconcile_changed env folder self key (s, w) = Returns (Inr act, s', w')"
  shows "act = AwaitChange \<and>
     schedules s' = (schedules s)(key \<mapsto> st_schedule (st_spec self)) \<and>
     (if is_valid_schedule (parse_duration env) (cron_ok env) (st_schedule (st_spec self))
      then \<exists>tid. tasks s' = (tasks s)(key \<mapsto> tid) else tasks s' = (tasks s)(key := None))"
proof -
  obtain s1 w1 where c: "cancel_existing env CancelIgnore key (s, w) = (s1, w1)" by (metis prod.exhaust)
  from assms c obtain lr sched w2 r s3 w3 where
    g: "get_task_schedule env (st_schedule (st_spec self)) lr w1 = Returns (sched, w2)" and
    t: "schedule_task env folder self key sched (s1, w2) = Returns (r, s3, w3)" and
    rest: "(case r of Inl e \<Rightarrow> Returns (Inl e, s3, w3)
       | Inr _ \<Rightarrow> outcome_bind (update_trigger_status env schedule_trigger_ops schedule_trigger_cache self
            None None None w3) (\<lambda>(r4, w4). (case r4 of Inl e \<Rightarrow> Returns (Inl e, s3, w4)
            | Inr _ \<Rightarrow> Returns (Inr AwaitChange,
                 s3\<lparr> schedules := (schedules s3)(key \<mapsto> st_schedule (st_spec self)) \<rparr>, w4)))) =
       Returns (Inr act, s', w')"
    by (auto simp: reconcile_changed_def)
  from rest obtain u where r: "r = Inr u" by (cases r) auto
  with rest obtain r4 w4 where u4: "update_trigger_status env schedule_trigger_ops schedule_trigger_cache self
      None None None w3 = Returns (r4, w4)" by auto
  with rest r have fin: "act = AwaitChange"
      "s' = s3\<lparr> schedules := (schedules s3)(key \<mapsto> st_schedule (st_spec self)) \<rparr>"
    by (cases r4; simp)+
  note f = cancel_existing_frame [OF c] schedule_task_frame [OF t] get_task_schedule_result [OF g]
  from f r fin show ?thesis by (cases sched) (auto split: if_splits)
qed

text \<open>A task that a call has added to the scheduler for a trigger.\<close>

definition added_task :: "('w, 'z) schedule_env_scheme \<Rightarrow> string \<Rightarrow> schedule_trigger \<Rightarrow> task_id \<Rightarrow> bool" where
  "added_task env folder self tid \<longleftrightarrow>
     (\<exists>ts task w w'. create_trigger_task schedule_trigger_ops self ts AllSources folder = Returns task \<and>
        scheduler_add env task w = (Inr tid, w'))"

lemma schedule_task_adds:
  assumes "schedule_task env folder self key (Inr ts) (s, w) = Returns (Inr u, s', w')"
  shows "\<exists>tid. added_task env folder self tid \<and> tasks s' = (tasks s)(key \<mapsto> tid)"
proof -
  from assms obtain task tid where "create_trigger_task schedule_trigger_ops self ts AllSources folder = Returns task"
    "scheduler_add env task w = (Inr tid, w')" "tasks s' = (tasks s)(key \<mapsto> tid)"
    by (auto simp: schedule_task_def case_prod_beta prod_eq_iff case_sum_eq_iff)
  then show ?thesis unfolding added_task_def by blast
qed

lemma reconcile_changed_err:
  assumes "reconcile_changed env folder self key (s, w) = Returns (Inl e, s', w')"
  shows "schedules s' = schedules s \<and> (\<forall>k. k \<noteq> key \<longrightarrow> tasks s' k = tasks s k) \<and>
     (case tasks s' key of
        None \<Rightarrow> True
      | Some tid \<Rightarrow> is_valid_schedule (parse_duration env) (cron_ok env) (st_schedule (st_spec self)) \<and>
          added_task env folder self tid)"
proof -
  obtain s1 w1 where c: "cancel_existing env CancelIgnore key (s, w) = (s1, w1)" by (metis prod.exhaust)
  from assms c obtain lr sched w2 r s3 w3 where
    g: "get_task_schedule env (st_schedule (st_spec self)) lr w1 = Returns (sched, w2)" and
    t: "schedule_task env folder self key sched (s1, w2) = Returns (r, s3, w3)" and
    s': "s' = s3"
    by (auto simp: reconcile_changed_def case_prod_beta case_sum_eq_iff)
  note f = cancel_existing_frame [OF c] schedule_task_frame [OF t] get_task_schedule_result [OF g]
  show ?thesis
  proof (cases sched)
    case (Inl u)
    with f s' show ?thesis by simp
  next
    case (Inr ts)
    show ?thesis
    proof (cases r)
      case (Inl e')
      with Inr f s' show ?thesis by simp
    next
      case (Inr u)
      with \<open>sched = Inr ts\<close> t obtain tid where "added_task env folder self tid" "tasks s3 = (tasks s1)(key \<mapsto> tid)"
        using schedule_task_adds [of env folder self key ts s1 w2 u s3 w3] by blast
      with f s' \<open>sched = Inr ts\<close> show ?thesis by simp
    qed
  qed
qed

lemma reconcile_recorded:
  assumes "trigger_hash_key schedule_trigger_ops self = Returns key"
    and "schedules s key = Some (st_schedule (st_spec self))"
  shows "reconcile env folder self (s, w) = Returns (Inr AwaitChange, s, w)"
  using assms by (simp add: reconcile_def)

text \<open>
  C16. What a reconciliation leaves behind; entries of other triggers are untouched. When it
  succeeds, the schedule of the trigger is recorded, and reconciling the same specification again,
  in whatever world, changes nothing; if the recorded schedule was a different one, the trigger has
  a task exactly when its schedule is valid, and if it was the same one, nothing was looked at: the
  tasks are those it had before, whether they fit the schedule or not. When it fails, the schedule
  recorded before stays recorded although its task was cancelled: the trigger has no task or one for
  the new, valid schedule. A trigger that is then reverted to the recorded schedule is therefore
  reconciled with success and keeps having no task, or the task of the other schedule.
\<close>

theorem reconcile_schedules:
  assumes "reconcile env folder self (s, w) = Returns (r, s', w')"
    and "trigger_hash_key schedule_trigger_ops self = Returns key"
  shows "(\<forall>k. k \<noteq> key \<longrightarrow> tasks s' k = tasks s k \<and> schedules s' k = schedules s k) \<and>
     (case r of
        Inr act \<Rightarrow>
          act = AwaitChange \<and> schedules s' key = Some (st_schedule (st_spec self)) \<and>
          (if schedules s key = Some (st_schedule (st_spec self)) then s' = s \<and> w' = w
           else tasks s' key \<noteq> None \<longleftrightarrow>
             is_valid_schedule (parse_duration env) (cron_ok env) (st_schedule (st_spec self))) \<and>
          reconcile env' folder' (self\<lparr> st_status := st' \<rparr>) (s', w'') = Returns (Inr AwaitChange, s', w'')
      | Inl e \<Rightarrow>
          schedules s key \<noteq> Some (st_schedule (st_spec self)) \<and> schedules s' = schedules s \<and>
          (case tasks s' key of
             None \<Rightarrow> True
           | Some tid \<Rightarrow> is_valid_schedule (parse_duration env) (cron_ok env) (st_schedule (st_spec self)) \<and>
               added_task env folder self tid) \<and>
          (\<forall>old. trigger_hash_key schedule_trigger_ops old = Returns key \<and>
             schedules s key = Some (st_schedule (st_spec old)) \<longrightarrow>
             reconcile env' folder' old (s', w'') = Returns (Inr AwaitChange, s', w'')))"
proof (cases "schedules s key = Some (st_schedule (st_spec self))")
  case True
  have "reconcile env folder self (s, w) = Returns (Inr AwaitChange, s, w)"
    by (rule reconcile_recorded [OF assms(2) True])
  with assms(1) have "r = Inr AwaitChange" "s' = s" "w' = w" by auto
  moreover have "trigger_hash_key schedule_trigger_ops (self\<lparr> st_status := st' \<rparr>) = Returns key"
    using assms(2) by (simp add: trigger_hash_key_def)
  ultimately show ?thesis using True by (auto intro: reconcile_recorded)
next
  case False
  with assms have c: "reconcile_changed env folder self key (s, w) = Returns (r, s', w')"
    by (auto simp: reconcile_def)
  show ?thesis
  proof (cases r)
    case (Inr act)
    have "trigger_hash_key schedule_trigger_ops (self\<lparr> st_status := st' \<rparr>) = Returns key"
      using assms(2) by (simp add: trigger_hash_key_def)
    with reconcile_changed_ok [OF c [unfolded Inr]] False Inr show ?thesis
      by (auto intro: reconcile_recorded split: if_splits)
  next
    case (Inl e)
    from reconcile_changed_err [OF c [unfolded Inl]] False Inl show ?thesis
      by (auto intro: reconcile_recorded split: option.splits)
  qed
qed

section \<open>No orphaned tasks\<close>

text \<open>
  The scheduler: \<open>live\<close> are the identifiers of its scheduled tasks. Adding a task yields a fresh
  identifier, cancelling one removes it, and nothing else the reconciler calls touches tasks.
\<close>

definition scheduler_laws :: "('w, 'z) schedule_env_scheme \<Rightarrow> ('w \<Rightarrow> task_id set) \<Rightarrow> bool" where
  "scheduler_laws env live \<longleftrightarrow>
     (\<forall>task w tid w'. scheduler_add env task w = (Inr tid, w') \<longrightarrow> tid \<notin> live w \<and> live w' = insert tid (live w)) \<and>
     (\<forall>task w e w'. scheduler_add env task w = (Inl e, w') \<longrightarrow> live w' = live w) \<and>
     (\<forall>tid c w. live (snd (scheduler_cancel env tid c w)) = live w - {tid}) \<and>
     (\<forall>m n a w. live (snd (publish_event env m n a w)) = live w) \<and>
     (\<forall>k ns n st w. live (snd (patch_status env k ns n st w)) = live w) \<and>
     (\<forall>w. live (snd (now env w)) = live w)"

text \<open>Every live task is owned by exactly one entry of the map.\<close>

definition tasks_owned :: "('w \<Rightarrow> task_id set) \<Rightarrow> triggers_state \<Rightarrow> 'w \<Rightarrow> bool" where
  "tasks_owned live s w \<longleftrightarrow> ran (tasks s) = live w \<and> inj_on (tasks s) (dom (tasks s))"

lemma tasks_owned_cong: "live w' = live w \<Longrightarrow> tasks s' = tasks s \<Longrightarrow> tasks_owned live s w \<Longrightarrow> tasks_owned live s' w'"
  by (simp add: tasks_owned_def)

lemma tasks_owned_cancel:
  assumes "scheduler_laws env live" and "tasks_owned live s w"
    and "cancel_existing env c key (s, w) = (s', w')"
  shows "tasks_owned live s' w' \<and> tasks s' key = None"
proof (cases "tasks s key")
  case None
  with assms show ?thesis by (auto simp: cancel_existing_def)
next
  case (Some tid)
  with assms have s': "s' = s\<lparr> tasks := (tasks s)(key := None) \<rparr>" "live w' = live w - {tid}"
    by (auto simp: cancel_existing_def scheduler_laws_def)
  have "ran ((tasks s)(key := None)) = ran (tasks s) - {tid}"
    using ran_remove_inj [of "tasks s" key tid] assms(2) Some by (simp add: tasks_owned_def)
  moreover have "inj_on ((tasks s)(key := None)) (dom ((tasks s)(key := None)))"
    using assms(2) by (auto simp: tasks_owned_def inj_on_def)
  ultimately show ?thesis using s' assms(2) by (simp add: tasks_owned_def)
qed

lemma tasks_owned_insert:
  assumes "tasks_owned live s w" and "tasks s key = None" and "tid \<notin> live w" and "live w' = insert tid (live w)"
  shows "tasks_owned live (s\<lparr> tasks := (tasks s)(key \<mapsto> tid) \<rparr>) w'"
proof -
  have "ran ((tasks s)(key \<mapsto> tid)) = insert tid (ran (tasks s))"
    using assms(2) by simp
  moreover have "inj_on ((tasks s)(key \<mapsto> tid)) (dom ((tasks s)(key \<mapsto> tid)))"
    using assms(1-3) by (auto simp: tasks_owned_def inj_on_def ran_def dom_def)
  ultimately show ?thesis using assms by (simp add: tasks_owned_def)
qed

lemma scheduler_laws_worlds:
  assumes "scheduler_laws env live"
  shows "now env w = (t, w') \<Longrightarrow> live w' = live w"
    and "publish_event env m n a w = (x, w') \<Longrightarrow> live w' = live w"
    and "patch_status env k ns n' st w = (y, w') \<Longrightarrow> live w' = live w"
proof -
  have "live (snd (now env w)) = live w" "live (snd (publish_event env m n a w)) = live w"
    "live (snd (patch_status env k ns n' st w)) = live w"
    using assms unfolding scheduler_laws_def by blast+
  then show "now env w = (t, w') \<Longrightarrow> live w' = live w"
    and "publish_event env m n a w = (x, w') \<Longrightarrow> live w' = live w"
    and "patch_status env k ns n' st w = (y, w') \<Longrightarrow> live w' = live w" by auto
qed

lemma scheduler_laws_add:
  assumes "scheduler_laws env live"
  shows "scheduler_add env task w = (Inr tid, w') \<Longrightarrow> tid \<notin> live w \<and> live w' = insert tid (live w)"
    and "scheduler_add env task w = (Inl e, w') \<Longrightarrow> live w' = live w"
proof -
  have "\<forall>task w tid w'. scheduler_add env task w = (Inr tid, w') \<longrightarrow> tid \<notin> live w \<and> live w' = insert tid (live w)"
    and "\<forall>task w e w'. scheduler_add env task w = (Inl e, w') \<longrightarrow> live w' = live w"
    using assms unfolding scheduler_laws_def by auto
  then show "scheduler_add env task w = (Inr tid, w') \<Longrightarrow> tid \<notin> live w \<and> live w' = insert tid (live w)"
    and "scheduler_add env task w = (Inl e, w') \<Longrightarrow> live w' = live w" by simp_all
qed

lemma live_get_task_schedule:
  assumes "scheduler_laws env live" and "get_task_schedule env sched lr w = Returns (r, w')"
  shows "live w' = live w"
  using assms(2) scheduler_laws_worlds(1) [OF assms(1), of w]
  by (cases sched; cases lr; cases "now env w")
    (auto simp: get_task_schedule_def split: if_splits option.splits)

lemma live_update_trigger_status:
  assumes "scheduler_laws env live" and "update_trigger_status env ops cops self st checked lr w = Returns (r, w')"
  shows "live w' = live w"
proof -
  note p = scheduler_laws_worlds(3) [OF assms(1)]
  from assms(2) obtain ns rr where "om_namespace (t_meta ops self) = Some ns"
    and "api_cache_get cops (name_any (t_meta ops self)) (Some ns) (caches env w) = Returns rr"
    by (auto simp: update_trigger_status_def Let_def)
  with assms(2) show ?thesis
    by (cases rr) (auto simp: update_trigger_status_def Let_def split: prod.splits sum.splits dest: p)
qed

lemma schedule_task_owned:
  assumes laws: "scheduler_laws env live" and own: "tasks_owned live s w" and free: "tasks s key = None"
    and t: "schedule_task env folder self key sched (s, w) = Returns (r, s', w')"
  shows "tasks_owned live s' w'"
proof (cases sched)
  case (Inl u)
  obtain x w1 where "publish_event env (st_meta self)
      ''Unable to parse schedule expression, scheduler is disabled'' ''ValidateTriggerConfig'' w = (x, w1)"
    by (metis prod.exhaust)
  moreover from this have "live w1 = live w" by (rule scheduler_laws_worlds(2) [OF laws])
  ultimately show ?thesis using Inl t own
    by (cases x) (auto simp: schedule_task_def publish_trigger_validation_event_def tasks_owned_def)
next
  case (Inr ts)
  with t obtain task where c: "create_trigger_task schedule_trigger_ops self ts AllSources folder = Returns task"
    by (auto simp: schedule_task_def)
  obtain x w1 where a: "scheduler_add env task w = (x, w1)" by (metis prod.exhaust)
  show ?thesis
  proof (cases x)
    case (Inl e)
    with a have "live w1 = live w" using scheduler_laws_add(2) [OF laws] by simp
    with Inl Inr c a t own show ?thesis by (auto simp: schedule_task_def tasks_owned_def)
  next
    case (Inr tid)
    with a have "tid \<notin> live w" "live w1 = insert tid (live w)" using scheduler_laws_add(1) [OF laws] by simp_all
    from tasks_owned_insert [OF own free this] Inr \<open>sched = Inr ts\<close> c a t show ?thesis
      by (auto simp: schedule_task_def)
  qed
qed

lemma reconcile_owned:
  assumes laws: "scheduler_laws env live" and own: "tasks_owned live s w"
    and r: "reconcile env folder self (s, w) = Returns (r, s', w')"
  shows "tasks_owned live s' w'"
proof -
  from r obtain key where k: "trigger_hash_key schedule_trigger_ops self = Returns key"
    by (auto simp: reconcile_def)
  show ?thesis
  proof (cases "Some (st_schedule (st_spec self)) = schedules s key")
    case True
    with r k own show ?thesis by (simp add: reconcile_def)
  next
    case False
    obtain s1 w1 where c: "cancel_existing env CancelIgnore key (s, w) = (s1, w1)" by (metis prod.exhaust)
    note own1 = tasks_owned_cancel [OF laws own c]
    from r k False c obtain lr sched w2 r3 s3 w3 where
      g: "get_task_schedule env (st_schedule (st_spec self)) lr w1 = Returns (sched, w2)" and
      t: "schedule_task env folder self key sched (s1, w2) = Returns (r3, s3, w3)" and
      rest: "(case r3 of Inl e \<Rightarrow> Returns (Inl e, s3, w3)
       | Inr _ \<Rightarrow> outcome_bind (update_trigger_status env schedule_trigger_ops schedule_trigger_cache self
            None None None w3) (\<lambda>(r4, w4). (case r4 of Inl e \<Rightarrow> Returns (Inl e, s3, w4)
            | Inr _ \<Rightarrow> Returns (Inr AwaitChange,
                 s3\<lparr> schedules := (schedules s3)(key \<mapsto> st_schedule (st_spec self)) \<rparr>, w4)))) =
       Returns (r, s', w')"
      by (auto simp: reconcile_def reconcile_changed_def)
    have "tasks_owned live s1 w2"
      using own1 live_get_task_schedule [OF laws g] by (simp add: tasks_owned_def)
    from schedule_task_owned [OF laws this _ t] own1 have own3: "tasks_owned live s3 w3" by simp
    show ?thesis
    proof (cases r3)
      case (Inl e)
      with rest own3 show ?thesis by simp
    next
      case (Inr u)
      with rest obtain r4 w4 where u4: "update_trigger_status env schedule_trigger_ops schedule_trigger_cache
          self None None None w3 = Returns (r4, w4)" by auto
      with rest Inr have "tasks s' = tasks s3" "w' = w4" by (cases r4; auto)+
      with own3 live_update_trigger_status [OF laws u4] show ?thesis by (simp add: tasks_owned_def)
    qed
  qed
qed

lemma cleanup_owned:
  assumes "scheduler_laws env live" and "tasks_owned live s w" and "cleanup env self (s, w) = Returns (r, s', w')"
  shows "tasks_owned live s' w'"
proof -
  from assms(3) obtain key where "cancel_existing env CancelKill key
      (s\<lparr> schedules := (schedules s)(key := None) \<rparr>, w) = (s', w')"
    by (auto simp: cleanup_def split: prod.splits)
  from tasks_owned_cancel [OF assms(1) _ this] assms(2) show ?thesis by (simp add: tasks_owned_def)
qed

section \<open>The time of the last run\<close>

text \<open>
  C31. The time of the last run never reaches the scheduler: for a trigger that has run, \<^verbatim>\<open>reconcile\<close>
  ignores the recorded time, so after a restart the task starts as if it had never run (a cron task
  runs at once, an interval task waits a full interval); and for a trigger that has a status but
  has not run yet, the recorded text \<^verbatim>\<open>Never\<close> is parsed as a time and the reconciliation panics.
\<close>

theorem last_run_is_lost:
  assumes "parse_rfc3339 env NEVER_LAST_RUN_STR = None"
    and "trigger_hash_key schedule_trigger_ops self = Returns key"
    and "schedules s key \<noteq> Some (st_schedule (st_spec self))" and "st_status self = Some status"
  shows "(last_run status \<noteq> Some NEVER_LAST_RUN_STR \<longrightarrow>
            reconcile_last_run env (st_status self) = Returns None) \<and>
         (last_run status = Some NEVER_LAST_RUN_STR \<longrightarrow> \<not> returns (reconcile env folder self (s, w))) \<and>
         last_run (new_trigger_status rfc None names None None None) = Some NEVER_LAST_RUN_STR"
proof -
  have "\<not> returns (reconcile env folder self (s, w))" if "last_run status = Some NEVER_LAST_RUN_STR"
  proof -
    have "reconcile_last_run env (st_status self) =
        Panics ''Incorrect time format in LastRun field, looks like a BUG.''"
      using that assms(1,4) by (simp add: reconcile_last_run_def)
    with assms(2,3) show ?thesis
      by (cases "cancel_existing env CancelIgnore key (s, w)") (auto simp: reconcile_def reconcile_changed_def)
  qed
  with assms(4) show ?thesis
    by (auto simp: reconcile_last_run_def new_trigger_status_def split: option.splits)
qed

section \<open>An example\<close>

text \<open>A world that is the list of live tasks; a new task gets a name that no live task has.\<close>

definition sample_schedule_env :: "string list schedule_env" where
  "sample_schedule_env =
     \<lparr> now = (\<lambda>w. (0, w)), format_local = (\<lambda>_. ''''), sample_alphanumeric = (\<lambda>w. (CHR ''a'', w)),
       get_secret = (\<lambda>ns n w. (Inl (Api 404 ''''), w)), hash_order = (\<lambda>ks. ks),
       load_native_certs = (\<lambda>w. (None, w)), pem_certs = (\<lambda>s. []), build_verifier = (\<lambda>_. True),
       server_name_ok = (\<lambda>_. True), verify_server_cert = (\<lambda>roots cert host t. False),
       init_opts = (\<lambda>path uri w. (Inl '''', w)), find_remote = (\<lambda>repo name w. (Inl '''', w)),
       fetch_remote = (\<lambda>repo name refs opts w. Returns (Inl '''', w)),
       caches = (\<lambda>_. sample_caches\<lparr> acs_schedule_trigger := Some (\<lambda>_. Some
          \<lparr> st_meta = default_object_meta\<lparr> om_name := Some ''nightly'', om_namespace := Some ''apps'' \<rparr>,
            st_spec = \<lparr> st_sources = wt_sources (wt_spec sample_trigger), st_schedule = Interval ''1h'',
                        st_action = wt_action (wt_spec sample_trigger) \<rparr>, st_status = None \<rparr>) \<rparr>),
       action_owner_ref = sample_owner_ref, cluster_action_owner_ref = sample_owner_ref,
       patch_status = (\<lambda>kind ns name st w. (Inr (), w)), to_rfc3339 = (\<lambda>_. ''''),
       set_order = (\<lambda>ss. ss), remove_dir_all = (\<lambda>p w. (Inr (), w)), create_dir_all = (\<lambda>p w. (Inr (), w)),
       resolve_short_name = (\<lambda>r n w. (Inl '''', w)), oid_from_str = Inr,
       find_object = (\<lambda>r oid w. (Inr (), w)), checkout_tree = (\<lambda>r oid w. (Inr (), w)),
       glob_walk = (\<lambda>folder globs w. (Inr [], w)), read_file = (\<lambda>p w. (Inl '''', w)),
       sha256 = (\<lambda>s. s), hex_encode = (\<lambda>s. s),
       parse_duration = (\<lambda>s. if s = ''1h'' then Some (3600 * 1000000000) else None),
       cron_ok = (\<lambda>_. False), parse_rfc3339 = (\<lambda>_. None),
       scheduler_add = (\<lambda>task w. (Inr (''t'' @ concat w), (''t'' @ concat w) # w)),
       scheduler_cancel = (\<lambda>tid c w. (Inr (), filter (\<lambda>t. t \<noteq> tid) w)),
       publish_event = (\<lambda>m n a w. (Inr (), w)) \<rparr>"

definition sample_schedule_trigger :: "trigger_status option \<Rightarrow> schedule_trigger" where
  "sample_schedule_trigger status =
     \<lparr> st_meta = default_object_meta\<lparr> om_name := Some ''nightly'', om_namespace := Some ''apps'' \<rparr>,
       st_spec = \<lparr> st_sources = wt_sources (wt_spec sample_trigger), st_schedule = Interval ''1h'',
                   st_action = wt_action (wt_spec sample_trigger) \<rparr>,
       st_status = status \<rparr>"

lemma fresh_concat: "''t'' @ concat w \<notin> set w"
proof
  assume "''t'' @ concat w \<in> set w"
  moreover have "length x \<le> length (concat w)" if "x \<in> set w" for x
    using that by (induction w) auto
  ultimately have "length (''t'' @ concat w) \<le> length (concat w)" by blast
  then show False by simp
qed

lemma sample_scheduler_laws: "scheduler_laws sample_schedule_env set"
  using fresh_concat by (auto simp: scheduler_laws_def sample_schedule_env_def)

lemma sample_key:
  "trigger_hash_key schedule_trigger_ops (sample_schedule_trigger st) = Returns ''apps/nightly''"
  by (simp add: trigger_hash_key_def sample_schedule_trigger_def name_any_def)

lemma sample_reconcile:
  "\<exists>s'. reconcile sample_schedule_env ''/tmp'' (sample_schedule_trigger None) (empty_triggers_state, []) =
     Returns (Inr AwaitChange, s', [''t''])"
  unfolding reconcile_def sample_key prod.case outcome_bind.simps
  by (simp add: reconcile_changed_def cancel_existing_def empty_triggers_state_def
      reconcile_last_run_def sample_schedule_trigger_def get_task_schedule_def schedule_task_def
      create_trigger_task_def update_trigger_status_def api_cache_get_def schedule_trigger_cache_def
      Let_def sample_schedule_env_def)

text \<open>The API server rejects a status: after a failed change to another interval and a revert, the
  trigger has the task of the interval it does not have any more.\<close>

definition sample_rejecting_env :: "string list schedule_env" where
  "sample_rejecting_env = sample_schedule_env\<lparr> patch_status := (\<lambda>kind ns name st w. (Inl (Api 409 ''''), w)) \<rparr>"

definition sample_recorded_state :: triggers_state where
  "sample_recorded_state = \<lparr> tasks = [''apps/nightly'' \<mapsto> ''old''], schedules = [''apps/nightly'' \<mapsto> Interval ''2h''] \<rparr>"

lemma sample_failed_reconcile:
  "reconcile sample_rejecting_env ''/tmp'' (sample_schedule_trigger None) (sample_recorded_state, [''old'']) =
     Returns (Inl (KubeError (Api 409 '''')),
       sample_recorded_state\<lparr> tasks := [''apps/nightly'' \<mapsto> ''t''] \<rparr>, [''t''])"
  unfolding reconcile_def sample_key prod.case outcome_bind.simps
  by (simp add: reconcile_changed_def cancel_existing_def sample_recorded_state_def sample_rejecting_env_def
      reconcile_last_run_def sample_schedule_trigger_def get_task_schedule_def schedule_task_def
      create_trigger_task_def update_trigger_status_def api_cache_get_def schedule_trigger_cache_def
      Let_def sample_schedule_env_def)

theorem reconcile_schedules_witness:
  "\<exists>s' s2. reconcile sample_schedule_env ''/tmp'' (sample_schedule_trigger None) (empty_triggers_state, []) =
       Returns (Inr AwaitChange, s', [''t'']) \<and> tasks s' ''apps/nightly'' \<noteq> None \<and>
     schedules s' ''apps/nightly'' = Some (Interval ''1h'') \<and>
     reconcile sample_rejecting_env ''/tmp'' (sample_schedule_trigger None) (sample_recorded_state, [''old'']) =
       Returns (Inl (KubeError (Api 409 '''')), s2, [''t'']) \<and>
     schedules s2 ''apps/nightly'' = Some (Interval ''2h'') \<and> tasks s2 ''apps/nightly'' = Some ''t'' \<and>
     reconcile sample_schedule_env ''/tmp'' ((sample_schedule_trigger None)\<lparr> st_spec :=
        (st_spec (sample_schedule_trigger None))\<lparr> st_schedule := Interval ''2h'' \<rparr> \<rparr>) (s2, [''t'']) =
       Returns (Inr AwaitChange, s2, [''t''])"
proof -
  let ?old = "(sample_schedule_trigger None)\<lparr> st_spec :=
        (st_spec (sample_schedule_trigger None))\<lparr> st_schedule := Interval ''2h'' \<rparr> \<rparr>"
  let ?s2 = "sample_recorded_state\<lparr> tasks := [''apps/nightly'' \<mapsto> ''t''] \<rparr>"
  obtain s' where s': "reconcile sample_schedule_env ''/tmp'' (sample_schedule_trigger None)
      (empty_triggers_state, []) = Returns (Inr AwaitChange, s', [''t''])" using sample_reconcile by blast
  have "is_valid_schedule (parse_duration sample_schedule_env) (cron_ok sample_schedule_env)
      (st_schedule (st_spec (sample_schedule_trigger None)))"
    and sched: "st_schedule (st_spec (sample_schedule_trigger None)) = Interval ''1h''"
    by (simp_all add: sample_schedule_env_def sample_schedule_trigger_def)
  moreover have "schedules empty_triggers_state ''apps/nightly'' \<noteq>
      Some (st_schedule (st_spec (sample_schedule_trigger None)))" by (simp add: empty_triggers_state_def)
  ultimately have "tasks s' ''apps/nightly'' \<noteq> None" "schedules s' ''apps/nightly'' = Some (Interval ''1h'')"
    using reconcile_schedules [OF s' sample_key, where env' = sample_schedule_env
        and folder' = "''/tmp''" and w'' = "[]"] by simp_all
  moreover have "trigger_hash_key schedule_trigger_ops ?old = Returns ''apps/nightly''"
    using sample_key [of None] by (simp add: trigger_hash_key_def)
  then have "reconcile sample_schedule_env ''/tmp'' ?old (?s2, [''t'']) = Returns (Inr AwaitChange, ?s2, [''t''])"
    using reconcile_schedules [OF sample_failed_reconcile sample_key, where env' = sample_schedule_env
        and folder' = "''/tmp''" and w'' = "[''t'']"]
    by (auto simp: sample_recorded_state_def dest: spec [of _ ?old])
  ultimately show ?thesis
    using s' sample_failed_reconcile by (auto simp: sample_recorded_state_def intro!: exI [of _ ?s2])
qed

theorem last_run_is_lost_witness:
  "\<not> returns (reconcile sample_schedule_env ''/tmp'' (sample_schedule_trigger (Some
       (new_trigger_status (\<lambda>_. '''') None [''repo''] None None None))) (empty_triggers_state, []))"
proof -
  let ?st = "new_trigger_status (\<lambda>_. '''') None [''repo''] None None None"
  have "parse_rfc3339 sample_schedule_env NEVER_LAST_RUN_STR = None"
    "schedules empty_triggers_state ''apps/nightly'' \<noteq>
       Some (st_schedule (st_spec (sample_schedule_trigger (Some ?st))))"
    "st_status (sample_schedule_trigger (Some ?st)) = Some ?st" "last_run ?st = Some NEVER_LAST_RUN_STR"
    by (simp_all add: sample_schedule_env_def empty_triggers_state_def sample_schedule_trigger_def
        new_trigger_status_def)
  with last_run_is_lost [OF this(1) sample_key this(2,3), of "''/tmp''" "[]"] show ?thesis by blast
qed

end
