(* ===== verification/Web_Correct.thy ===== *)
theory Web_Correct
  imports Web Schedule_Correct
begin

text \<open>
  What the webhooks promise: a request starts a task only for a trigger that exists, with the
  secret the trigger demands and for sources the trigger names; every other request gets the
  status of the first check it fails and adds no task; the shutdown of the scheduler ends after at
  most ten polls.
\<close>

section \<open>Authorisation\<close>

text \<open>A request is authorised for a trigger when the trigger demands nothing, or the request has
  the demanded header and its value is that of the named key of the named secret in the namespace
  of the trigger, as a read of the secret returned it that is in the history of reads and ended at
  most the timeout of the cache before \<open>began\<close>, or that took place between \<open>began\<close> and \<open>ended\<close>.\<close>

definition hook_header_value :: "runtime_config \<Rightarrow> headers \<Rightarrow> trigger_webhook_auth_config \<Rightarrow> string option" where
  "hook_header_value cfg hs ac =
     hs (unwrap_or (hook_header ac) (default_auth_header (webhook (trigger cfg))))"

definition request_authorised ::
    "(system_time \<Rightarrow> string \<Rightarrow> string \<Rightarrow> secret_data option) \<Rightarrow> duration \<Rightarrow> secret_read list \<Rightarrow>
     system_time \<Rightarrow> system_time \<Rightarrow> runtime_config \<Rightarrow> headers \<Rightarrow> webhook_trigger \<Rightarrow> string \<Rightarrow> bool" where
  "request_authorised contents timeout reads began ended cfg hs trg ns \<longleftrightarrow>
     (case hook_auth_config (wt_webhook (wt_spec trg)) of
        None \<Rightarrow> True
      | Some ac \<Rightarrow> (\<exists>v. hook_header_value cfg hs ac = Some v \<and>
          recently_read contents timeout reads began ended ns (hook_secret_name ac) (hook_key ac) v))"

lemma check_hook_authorization_ok:
  assumes "timed_env env clock contents" and "secrets_reachable env clock timeout reads (c, w)"
    and "CHR ''/'' \<notin> set ns" and "ws_secrets s = Some c"
    and "check_hook_authorization env cfg hs (wt_spec trg) ns (s, w) = Returns (Inr (), s', w')"
  shows "request_authorised contents timeout reads (clock w) (clock w') cfg hs trg ns"
proof (cases "hook_auth_config (wt_webhook (wt_spec trg))")
  case None
  then show ?thesis by (simp add: request_authorised_def)
next
  case (Some ac)
  with assms(4,5) obtain v c' where h: "hook_header_value cfg hs ac = Some v"
    and g: "get_key_value env ns (hook_secret_name ac) (hook_key ac) (c, w) = Returns (Inr v, c', w')"
    by (auto simp: check_hook_authorization_def query_secrets_cache_def hook_header_value_def Let_def
        case_sum_eq_iff case_option_eq_iff split: if_splits)
  from get_key_value_recent [OF assms(1-3) g] h Some show ?thesis
    by (simp add: request_authorised_def)
qed

lemma authorised_trigger_ok:
  assumes "authorised_trigger env cfg fe hs ns name (s, w) = Returns (Inr trg, s', w')"
    and "acs_webhook_trigger (caches env w) = Some store"
  shows "store (cache_key name (Some ns)) = Some trg \<and>
         check_hook_authorization env cfg hs (wt_spec trg) ns (s, w) = Returns (Inr (), s', w')"
proof -
  from assms(1) have g: "api_cache_get webhook_trigger_cache name (Some ns) (caches env w) = Returns (Inr trg)"
    and "check_hook_authorization env cfg hs (wt_spec trg) ns (s, w) = Returns (Inr (), s', w')"
    by (auto simp: authorised_trigger_def case_sum_eq_iff)
  with wt.get_value [OF assms(2)] show ?thesis by simp
qed

lemma schedule_hook_task_ok:
  assumes "schedule_hook_task env folder trg sources (s, w) = Returns (Inr resp, s', w')"
  shows "\<exists>task tid. create_trigger_task webhook_trigger_ops trg TaskOnce sources folder = Returns task \<and>
           scheduler_add env task w = (Inr tid, w') \<and> resp = response_of_task_id tid \<and> s' = s"
  using assms by (auto simp: schedule_hook_task_def case_sum_eq_iff case_prod_beta prod_eq_iff)

text \<open>The watcher files an object under its own name and namespace, and the name of a namespace
  has no slash.\<close>

definition store_keyed :: "('a \<Rightarrow> object_meta) \<Rightarrow> 'a store \<Rightarrow> bool" where
  "store_keyed meta store \<longleftrightarrow>
     (\<forall>k x. store k = Some x \<longrightarrow> name_any (meta x) = or_name k \<and> om_namespace (meta x) = or_namespace k \<and>
        (\<forall>ns. or_namespace k = Some ns \<longrightarrow> CHR ''/'' \<notin> set ns))"

lemma store_keyed_found:
  assumes "store_keyed meta store" and "store (cache_key name (Some ns)) = Some x"
  shows "name_any (meta x) = name \<and> om_namespace (meta x) = Some ns \<and> CHR ''/'' \<notin> set ns"
  using assms by (fastforce simp: store_keyed_def cache_key_def)

definition hook_task :: "string \<Rightarrow> string \<Rightarrow> trigger_task_sources \<Rightarrow> string \<Rightarrow> trigger_task" where
  "hook_task ns name sources folder =
     \<lparr> tt_schedule = TaskOnce, tt_name = name, tt_ns = ns, tt_sources = sources, tt_folder = folder \<rparr>"

lemma create_hook_task:
  assumes "store_keyed wt_meta store" and "store (cache_key name (Some ns)) = Some trg"
  shows "create_trigger_task webhook_trigger_ops trg TaskOnce sources folder =
           Returns (hook_task ns name sources folder)"
  using store_keyed_found [OF assms] by (simp add: create_trigger_task_def hook_task_def)

text \<open>Both handlers are one check after the authorisation, with a task for some of the sources.\<close>

definition gated_result ::
    "('w, 'z) schedule_env_scheme \<Rightarrow> runtime_config \<Rightarrow> (error finalizer_error \<Rightarrow> string) \<Rightarrow> string \<Rightarrow>
     headers \<Rightarrow> string \<Rightarrow> string \<Rightarrow> (webhook_trigger \<Rightarrow> bool) \<Rightarrow> web_error \<Rightarrow> trigger_task_sources \<Rightarrow>
     web_state \<times> 'w \<Rightarrow> ((web_error + web_response_json) \<times> web_state \<times> 'w) outcome" where
  "gated_result env cfg fe folder hs ns name allowed refusal sources sw =
     outcome_bind (authorised_trigger env cfg fe hs ns name sw) (\<lambda>(r, s1, w1).
       (case r of
          Inl e \<Rightarrow> Returns (Inl e, s1, w1)
        | Inr trg \<Rightarrow>
            if allowed trg then schedule_hook_task env folder trg sources (s1, w1)
            else Returns (Inl refusal, s1, w1)))"

lemma webhook_results_gated:
  "trigger_webhook_result env cfg fe folder hs ns name sw =
     gated_result env cfg fe folder hs ns name (\<lambda>trg. multi_source (wt_webhook (wt_spec trg)))
       ForbiddenMultiSource AllSources sw"
  "source_webhook_result env cfg fe folder hs ns name source sw =
     gated_result env cfg fe folder hs ns name (\<lambda>trg. source \<in> set (source_names (wt_sources (wt_spec trg))))
       SourceNotFound (SingleSource source) sw"
  by (simp_all add: trigger_webhook_result_def source_webhook_result_def gated_result_def)

lemma gated_result_ok:
  assumes "timed_env env clock contents" and "secrets_reachable env clock timeout reads (c, w)"
    and "ws_secrets s = Some c"
    and "acs_webhook_trigger (caches env w) = Some store" and "store_keyed wt_meta store"
    and "gated_result env cfg fe folder hs ns name allowed refusal sources (s, w) = Returns (Inr resp, s', w')"
  shows "\<exists>trg tid w1. store (cache_key name (Some ns)) = Some trg \<and> allowed trg \<and>
           request_authorised contents timeout reads (clock w) (clock w1) cfg hs trg ns \<and>
           scheduler_add env (hook_task ns name sources folder) w1 = (Inr tid, w') \<and>
           resp = response_of_task_id tid"
proof -
  from assms(6) obtain trg s1 w1 where
    a: "authorised_trigger env cfg fe hs ns name (s, w) = Returns (Inr trg, s1, w1)" and "allowed trg"
    and t: "schedule_hook_task env folder trg sources (s1, w1) = Returns (Inr resp, s', w')"
    by (auto simp: gated_result_def case_sum_eq_iff split: if_splits)
  note f = authorised_trigger_ok [OF a assms(4)]
  note k = store_keyed_found [OF assms(5) conjunct1 [OF f]]
  have "request_authorised contents timeout reads (clock w) (clock w1) cfg hs trg ns"
    using check_hook_authorization_ok [OF assms(1,2) _ assms(3)] f k by blast
  moreover from schedule_hook_task_ok [OF t] create_hook_task [OF assms(5) conjunct1 [OF f]]
  obtain tid where "scheduler_add env (hook_task ns name sources folder) w1 = (Inr tid, w')"
    "resp = response_of_task_id tid" by auto
  ultimately show ?thesis using f \<open>allowed trg\<close> by blast
qed

text \<open>
  C2. Who can start a task: whenever a webhook request is accepted, the trigger of its path exists
  in the cache, the request carries what the trigger demands (a header whose value is that of the
  configured key of the configured secret in the trigger's own namespace, or nothing when the
  trigger demands nothing), and exactly one task is added, for this trigger: for the source in the
  path, which the trigger names, or for all sources when the trigger allows that; its identifier is
  in the response. The value the header agrees with is fresh: it comes from a read of the secret
  from the API server during the request, or from a read recorded in the history that ended at most
  the timeout of the cache before the request began.
\<close>

theorem hook_requires_secret:
  assumes "timed_env env clock contents" and "secrets_reachable env clock timeout reads (c, w)"
    and "ws_secrets s = Some c"
    and "acs_webhook_trigger (caches env w) = Some store" and "store_keyed wt_meta store"
  shows "(handle_post_source_webhook env cfg fe folder hs ns name source (s, w) = Returns (Inr resp, s', w') \<longrightarrow>
          (\<exists>trg tid w1. store (cache_key name (Some ns)) = Some trg \<and>
             source \<in> set (source_names (wt_sources (wt_spec trg))) \<and>
             request_authorised contents timeout reads (clock w) (clock w1) cfg hs trg ns \<and>
             scheduler_add env (hook_task ns name (SingleSource source) folder) w1 = (Inr tid, w') \<and>
             resp = response_of_task_id tid)) \<and>
         (handle_post_trigger_webhook env cfg fe folder hs ns name (s, w) = Returns (Inr resp, s', w') \<longrightarrow>
          (\<exists>trg tid w1. store (cache_key name (Some ns)) = Some trg \<and>
             multi_source (wt_webhook (wt_spec trg)) \<and>
             request_authorised contents timeout reads (clock w) (clock w1) cfg hs trg ns \<and>
             scheduler_add env (hook_task ns name AllSources folder) w1 = (Inr tid, w') \<and>
             resp = response_of_task_id tid))"
proof (intro conjI impI)
  assume "handle_post_source_webhook env cfg fe folder hs ns name source (s, w) = Returns (Inr resp, s', w')"
  then obtain s1 where "source_webhook_result env cfg fe folder hs ns name source (s, w) = Returns (Inr resp, s1, w')"
    by (auto simp: handle_post_source_webhook_def)
  from gated_result_ok [OF assms this [unfolded webhook_results_gated]]
  show "\<exists>trg tid w1. store (cache_key name (Some ns)) = Some trg \<and>
             source \<in> set (source_names (wt_sources (wt_spec trg))) \<and>
             request_authorised contents timeout reads (clock w) (clock w1) cfg hs trg ns \<and>
             scheduler_add env (hook_task ns name (SingleSource source) folder) w1 = (Inr tid, w') \<and>
             resp = response_of_task_id tid" .
next
  assume "handle_post_trigger_webhook env cfg fe folder hs ns name (s, w) = Returns (Inr resp, s', w')"
  then obtain s1 where "trigger_webhook_result env cfg fe folder hs ns name (s, w) = Returns (Inr resp, s1, w')"
    by (auto simp: handle_post_trigger_webhook_def)
  from gated_result_ok [OF assms this [unfolded webhook_results_gated]]
  show "\<exists>trg tid w1. store (cache_key name (Some ns)) = Some trg \<and>
             multi_source (wt_webhook (wt_spec trg)) \<and>
             request_authorised contents timeout reads (clock w) (clock w1) cfg hs trg ns \<and>
             scheduler_add env (hook_task ns name AllSources folder) w1 = (Inr tid, w') \<and>
             resp = response_of_task_id tid" .
qed

section \<open>The outcome of every request\<close>

text \<open>The checks of a request in their order, as a reference: the trigger must exist, the header
  must be there, the secret must be readable, the values must agree, and then what the form of the
  webhook demands.\<close>

definition hook_refusal ::
    "('w, 'z) secrets_env_scheme \<Rightarrow> runtime_config \<Rightarrow> headers \<Rightarrow> string \<Rightarrow> (webhook_trigger \<Rightarrow> bool) \<Rightarrow>
     web_error \<Rightarrow> webhook_trigger option \<Rightarrow> secrets_cache \<times> 'w \<Rightarrow> web_error option" where
  "hook_refusal env cfg hs ns allowed refusal found cw =
     (case found of
        None \<Rightarrow> Some TriggerNotFound
      | Some trg \<Rightarrow>
          let form = (if allowed trg then None else Some refusal) in
          (case hook_auth_config (wt_webhook (wt_spec trg)) of
             None \<Rightarrow> form
           | Some ac \<Rightarrow>
               (case hook_header_value cfg hs ac of
                  None \<Rightarrow> Some Unauthorized
                | Some h \<Rightarrow>
                    (case get_key_value env ns (hook_secret_name ac) (hook_key ac) cw of
                       Returns (Inr v, c, w) \<Rightarrow> if v = h then form else Some Forbidden
                     | _ \<Rightarrow> Some AuthorizationError))))"

text \<open>The clock plus the timeout of the cache stays in the range of \<^verbatim>\<open>SystemTime\<close>.\<close>

definition timeout_fits :: "('w, 'z) secrets_env_scheme \<Rightarrow> duration \<Rightarrow> bool" where
  "timeout_fits env timeout \<longleftrightarrow> (\<forall>w. fst (now env w) + int timeout < system_time_limit)"

text \<open>Reading the clock or a secret adds no task.\<close>

definition reads_keep :: "('w, 'z) secrets_env_scheme \<Rightarrow> ('w \<Rightarrow> 'a) \<Rightarrow> bool" where
  "reads_keep env live \<longleftrightarrow>
     (\<forall>w. live (snd (now env w)) = live w) \<and> (\<forall>ns n w. live (snd (get_secret env ns n w)) = live w)"

lemma reads_keepD:
  assumes "reads_keep env live"
  shows "now env w = (t, w') \<Longrightarrow> live w' = live w"
    and "get_secret env ns n w = (r, w') \<Longrightarrow> live w' = live w"
proof -
  have "\<forall>w. live (snd (now env w)) = live w"
    and "\<forall>ns n w. live (snd (get_secret env ns n w)) = live w"
    using assms unfolding reads_keep_def by auto
  then show "now env w = (t, w') \<Longrightarrow> live w' = live w"
    and "get_secret env ns n w = (r, w') \<Longrightarrow> live w' = live w" by (metis snd_conv)+
qed

lemma refresh_cached_returns:
  assumes "timeout_fits env (expiration_timeout c)" and "reads_keep env live"
  shows "\<exists>r c' w'. refresh_cached env ns n key (c, w) = Returns (r, c', w') \<and> live w' = live w"
proof -
  obtain r w1 where q: "query_secrets_api env ns n key w = (r, w1)" by (metis prod.exhaust)
  from query_secrets_api_world [OF this] obtain r' where "get_secret env ns n w = (r', w1)" by blast
  then have l1: "live w1 = live w" using reads_keepD(2) [OF assms(2)] by blast
  obtain t w2 where n: "now env w1 = (t, w2)" by (metis prod.exhaust)
  have "t + int (expiration_timeout c) < system_time_limit"
    using assms(1) n unfolding timeout_fits_def by (metis fst_conv)
  with q n l1 reads_keepD(1) [OF assms(2) n] show ?thesis
    by (cases r) (auto simp: refresh_cached_def checked_add_def)
qed

lemma get_key_value_returns:
  assumes "timeout_fits env (expiration_timeout c)" and "reads_keep env live"
  shows "\<exists>r c' w'. get_key_value env ns n key (c, w) = Returns (r, c', w') \<and> live w' = live w"
proof -
  obtain r w1 where g: "get_cached env ns n key c w = (r, w1)" by (metis prod.exhaust)
  have "live w1 = live w"
    using g reads_keepD(1) [OF assms(2), of w]
    by (auto simp: get_cached_def split: option.splits prod.splits if_splits)
  with g refresh_cached_returns [OF assms, of ns n key w1] show ?thesis
    by (cases r) (auto simp: get_key_value_def)
qed

lemma hook_refusal_form:
  "hook_refusal env cfg hs ns allowed refusal (Some trg) cw =
     (case hook_refusal env cfg hs ns (\<lambda>_. True) refusal (Some trg) cw of
        Some e \<Rightarrow> Some e | None \<Rightarrow> if allowed trg then None else Some refusal)"
  by (auto simp: hook_refusal_def Let_def split: option.splits outcome.splits sum.splits)

lemma check_hook_authorization_decides:
  assumes "timeout_fits env (expiration_timeout c)" and "reads_keep env live" and "ws_secrets s = Some c"
  shows "\<exists>s' w'. ws_requests s' = ws_requests s \<and> live w' = live w \<and>
           check_hook_authorization env cfg hs (wt_spec trg) ns (s, w) =
             Returns (case hook_refusal env cfg hs ns (\<lambda>_. True) refusal (Some trg) (c, w) of
                        Some e \<Rightarrow> Inl e | None \<Rightarrow> Inr (), s', w')"
proof (cases "hook_auth_config (wt_webhook (wt_spec trg))")
  case None
  then show ?thesis by (auto simp: check_hook_authorization_def hook_refusal_def)
next
  case (Some ac)
  obtain r c' w' where g: "get_key_value env ns (hook_secret_name ac) (hook_key ac) (c, w) = Returns (r, c', w')"
      and l: "live w' = live w"
    using get_key_value_returns [OF assms(1,2)] by blast
  from Some assms(3) g l show ?thesis
    by (cases "hook_header_value cfg hs ac"; cases r)
      (auto simp: check_hook_authorization_def query_secrets_cache_def hook_refusal_def hook_header_value_def Let_def)
qed

text \<open>The outcome a decision stands for, with the tasks before and after.\<close>

definition decided :: "web_error option \<Rightarrow> web_error + web_response_json \<Rightarrow> task_id set \<Rightarrow> task_id set \<Rightarrow> bool" where
  "decided refused r before after \<longleftrightarrow>
     (case refused of
        Some e \<Rightarrow> r = Inl e \<and> after = before
      | None \<Rightarrow>
          (\<exists>tid. r = Inr (response_of_task_id tid) \<and> tid \<notin> before \<and> after = insert tid before) \<or>
          (\<exists>msg. r = Inl (WebSchedulerError msg) \<and> after = before))"

lemma schedule_hook_task_decides:
  assumes "scheduler_laws env live" and "store_keyed wt_meta store"
    and "store (cache_key name (Some ns)) = Some trg"
  shows "\<exists>r w'. schedule_hook_task env folder trg sources (s, w) = Returns (r, s, w') \<and>
           decided None r (live w) (live w')"
proof -
  obtain x w' where a: "scheduler_add env (hook_task ns name sources folder) w = (x, w')" by (metis prod.exhaust)
  with create_hook_task [OF assms(2,3)] scheduler_laws_add [OF assms(1), of "hook_task ns name sources folder" w] show ?thesis
    by (cases x) (auto simp: schedule_hook_task_def decided_def web_error_of_scheduler_def)
qed

lemma gated_result_decides:
  assumes "timeout_fits env (expiration_timeout c)" and "reads_keep env live" and "scheduler_laws env live"
    and "ws_secrets s = Some c"
    and "acs_webhook_trigger (caches env w) = Some store" and "store_keyed wt_meta store"
  shows "\<exists>r s' w'. gated_result env cfg fe folder hs ns name allowed refusal sources (s, w) = Returns (r, s', w') \<and>
           ws_requests s' = ws_requests s \<and>
           decided (hook_refusal env cfg hs ns allowed refusal (store (cache_key name (Some ns))) (c, w))
             r (live w) (live w')"
proof (cases "store (cache_key name (Some ns))")
  case None
  with wt.get_not_found [OF assms(5) this] show ?thesis
    by (simp add: gated_result_def authorised_trigger_def hook_refusal_def decided_def web_error_of_error_def)
next
  case (Some trg)
  let ?auth = "hook_refusal env cfg hs ns (\<lambda>_. True) refusal (Some trg) (c, w)"
  have g: "api_cache_get webhook_trigger_cache name (Some ns) (caches env w) = Returns (Inr trg)"
    using wt.get_found [OF assms(5) Some] .
  have k: "trigger_hash_key webhook_trigger_ops trg = Returns (ns @ ''/'' @ name)"
    using store_keyed_found [OF assms(6) Some] by (simp add: trigger_hash_key_def)
  obtain s1 w1 where a: "ws_requests s1 = ws_requests s" "live w1 = live w"
    "check_hook_authorization env cfg hs (wt_spec trg) ns (s, w) =
       Returns (case ?auth of Some e \<Rightarrow> Inl e | None \<Rightarrow> Inr (), s1, w1)"
    using check_hook_authorization_decides [OF assms(1,2,4), where refusal = refusal] by blast
  obtain r w2 where t: "schedule_hook_task env folder trg sources (s1, w1) = Returns (r, s1, w2)"
    "decided None r (live w1) (live w2)"
    using schedule_hook_task_decides [OF assms(3,6) Some] by blast
  have "gated_result env cfg fe folder hs ns name allowed refusal sources (s, w) =
      (case ?auth of
         Some e \<Rightarrow> Returns (Inl e, s1, w1)
       | None \<Rightarrow> if allowed trg then Returns (r, s1, w2) else Returns (Inl refusal, s1, w1))"
    by (simp add: gated_result_def authorised_trigger_def g k a(3) t(1) split: option.split)
  with a t(2) Some hook_refusal_form [of env cfg hs ns allowed refusal trg "(c, w)"] show ?thesis
    by (cases ?auth; cases "allowed trg") (auto simp: decided_def)
qed

text \<open>
  C5. Every request is answered, without a panic, by the first check it fails: 404 for a trigger
  that is not in the cache, 401 for a missing header, 500 for an unreadable secret, 403 for a wrong
  value, 404 for a source the trigger does not name, 400 when all sources are asked for and the
  trigger does not allow it; a refused request adds no task. A request that passes all checks gets
  202 and one new task, or 500 when the scheduler refuses it. Every request is counted once with
  its status. (The metrics themselves are taken as initialised here; what happens when they cannot
  be is stated for all components together in \<^verbatim>\<open>Metrics_Correct\<close>.)
\<close>

theorem hook_answers:
  assumes "timeout_fits env (expiration_timeout c)" and "reads_keep env live" and "scheduler_laws env live"
    and "ws_secrets s = Some c"
    and "acs_webhook_trigger (caches env w) = Some store" and "store_keyed wt_meta store"
  shows "(\<exists>r s' w'. handle_post_source_webhook env cfg fe folder hs ns name source (s, w) = Returns (r, s', w') \<and>
            decided (hook_refusal env cfg hs ns (\<lambda>trg. source \<in> set (source_names (wt_sources (wt_spec trg))))
                SourceNotFound (store (cache_key name (Some ns))) (c, w)) r (live w) (live w') \<and>
            ws_requests s' = ws_requests s @ [(ns, name, fst (into_response r))]) \<and>
         (\<exists>r s' w'. handle_post_trigger_webhook env cfg fe folder hs ns name (s, w) = Returns (r, s', w') \<and>
            decided (hook_refusal env cfg hs ns (\<lambda>trg. multi_source (wt_webhook (wt_spec trg)))
                ForbiddenMultiSource (store (cache_key name (Some ns))) (c, w)) r (live w) (live w') \<and>
            ws_requests s' = ws_requests s @ [(ns, name, fst (into_response r))])"
  using gated_result_decides [OF assms, of cfg fe folder hs ns name
      "\<lambda>trg. source \<in> set (source_names (wt_sources (wt_spec trg)))" SourceNotFound "SingleSource source"]
    gated_result_decides [OF assms, of cfg fe folder hs ns name
      "\<lambda>trg. multi_source (wt_webhook (wt_spec trg))" ForbiddenMultiSource AllSources]
  unfolding handle_post_source_webhook_def handle_post_trigger_webhook_def webhook_results_gated [symmetric]
    count_request_def by auto

section \<open>Shutdown\<close>

text \<open>The world after \<open>i\<close> polls that found the scheduler in use.\<close>

primrec polled :: "('w, 'z) shutdown_env_scheme \<Rightarrow> nat \<Rightarrow> 'w \<Rightarrow> 'w" where
  "polled env 0 w = w"
| "polled env (Suc i) w = polled env i (sleep_ms env 100 (snd (strong_count env w)))"

definition sole_owner :: "('w, 'z) shutdown_env_scheme \<Rightarrow> 'w \<Rightarrow> bool" where
  "sole_owner env w \<longleftrightarrow> fst (strong_count env w) \<le> 1"

definition shut_down :: "('w, 'z) shutdown_env_scheme \<Rightarrow> 'w \<Rightarrow> 'w" where
  "shut_down env w = scheduler_shutdown env (snd (into_inner env (snd (strong_count env w))))"

lemma shutdown_loop_found:
  assumes "\<forall>w. sole_owner env w \<longrightarrow> fst (into_inner env (snd (strong_count env w)))"
    and "i < n" and "sole_owner env (polled env i w)" and "\<forall>j < i. \<not> sole_owner env (polled env j w)"
  shows "shutdown_loop env n w = Returns (True, shut_down env (polled env i w))"
  using assms(2-)
proof (induction n arbitrary: i w)
  case (Suc n)
  show ?case
  proof (cases i)
    case 0
    with Suc.prems assms(1) show ?thesis
      by (auto simp: sole_owner_def shut_down_def split: prod.splits)
  next
    case (Suc j)
    with Suc.prems have "\<not> sole_owner env w" by force
    moreover from Suc Suc.prems have "\<forall>k < j. \<not> sole_owner env (polled env (Suc k) w)" by blast
    ultimately show ?thesis
      using Suc.prems Suc Suc.IH [of j "sleep_ms env 100 (snd (strong_count env w))"]
      by (simp add: sole_owner_def case_prod_beta)
  qed
qed simp

lemma shutdown_loop_never:
  assumes "\<forall>j < n. \<not> sole_owner env (polled env j w)"
  shows "shutdown_loop env n w = Returns (False, polled env n w)"
  using assms
proof (induction n arbitrary: w)
  case (Suc n)
  from Suc.prems have "\<not> sole_owner env w" by force
  moreover have "\<forall>j < n. \<not> sole_owner env (polled env (Suc j) w)" using Suc.prems by blast
  ultimately show ?case
    using Suc.IH [of "sleep_ms env 100 (snd (strong_count env w))"]
    by (simp add: sole_owner_def case_prod_beta)
qed simp

text \<open>
  C36. The shutdown of the webhooks server always ends, after at most ten polls, each followed by a
  pause of 100 ms: the scheduler is shut down at the first poll that finds it unshared, and when
  there is none among the ten it is left running. It does not panic, provided the last owner of a
  shared reference can take the value out.
\<close>

theorem hooks_shutdown_ends:
  assumes "\<forall>w. sole_owner env w \<longrightarrow> fst (into_inner env (snd (strong_count env w)))"
  shows "(\<forall>i < 10. sole_owner env (polled env i w) \<and> (\<forall>j < i. \<not> sole_owner env (polled env j w)) \<longrightarrow>
            hooks_web_shutdown env w = Returns (True, shut_down env (polled env i w))) \<and>
         ((\<forall>j < 10. \<not> sole_owner env (polled env j w)) \<longrightarrow>
            hooks_web_shutdown env w = Returns (False, polled env 10 w)) \<and>
         returns (hooks_web_shutdown env w)"
proof -
  have found: "hooks_web_shutdown env w = Returns (True, shut_down env (polled env i w))"
    if "i < 10" "sole_owner env (polled env i w)" "\<forall>j < i. \<not> sole_owner env (polled env j w)" for i
    using shutdown_loop_found [OF assms that] by (simp add: hooks_web_shutdown_def)
  have never: "hooks_web_shutdown env w = Returns (False, polled env 10 w)"
    if "\<forall>j < 10. \<not> sole_owner env (polled env j w)"
    using shutdown_loop_never [OF that] by (simp add: hooks_web_shutdown_def)
  have "returns (hooks_web_shutdown env w)"
  proof (cases "\<exists>i < 10. sole_owner env (polled env i w)")
    case True
    then obtain i where i: "sole_owner env (polled env i w)" "i < 10" by blast
    let ?P = "\<lambda>i. sole_owner env (polled env i w)"
    have "?P (LEAST i. ?P i)" "(LEAST i. ?P i) \<le> i" "\<forall>j < (LEAST i. ?P i). \<not> ?P j"
      using LeastI [of ?P i] Least_le [of ?P i] not_less_Least [of _ ?P] i(1) by blast+
    with found [of "LEAST i. ?P i"] i(2) show ?thesis by simp
  next
    case False
    with never show ?thesis by force
  qed
  with found never show ?thesis by blast
qed

section \<open>An example\<close>

definition sample_hook_trigger :: webhook_trigger where
  "sample_hook_trigger = sample_trigger\<lparr> wt_spec := (wt_spec sample_trigger)\<lparr> wt_webhook :=
     \<lparr> multi_source = False, hook_auth_config = Some
        \<lparr> hook_secret_name = ''hook'', hook_key = ''token'', hook_header = Some ''x-token'' \<rparr> \<rparr> \<rparr> \<rparr>"

definition sample_hook_store :: "webhook_trigger store" where
  "sample_hook_store = [cache_key ''nightly'' (Some ''apps'') \<mapsto> sample_hook_trigger]"

definition sample_hook_env :: "string list schedule_env" where
  "sample_hook_env = sample_schedule_env\<lparr>
     get_secret := (\<lambda>ns n w. (ok_or (map_option Some (sample_contents 0 ns n)) (Api 404 ''''), w)),
     caches := (\<lambda>_. sample_caches\<lparr> acs_webhook_trigger := Some sample_hook_store \<rparr>) \<rparr>"

definition sample_web_state :: web_state where
  "sample_web_state = \<lparr> ws_secrets = Some sample_secrets_cache, ws_requests = [] \<rparr>"

lemma sample_hook_env_fields [simp]:
  "now sample_hook_env w = (0, w)"
  "get_secret sample_hook_env ns n w = (ok_or (map_option Some (sample_contents 0 ns n)) (Api 404 ''''), w)"
  "acs_webhook_trigger (caches sample_hook_env w) = Some sample_hook_store"
  "scheduler_add sample_hook_env task w = (Inr (''t'' @ concat w), (''t'' @ concat w) # w)"
  by (simp_all add: sample_hook_env_def sample_schedule_env_def sample_caches_def)

lemma sample_hook_laws:
  "timed_env sample_hook_env (\<lambda>_. 0) sample_contents" "reads_keep sample_hook_env set"
  "timeout_fits sample_hook_env (60 * 1000000000)" "scheduler_laws sample_hook_env set"
  "secrets_reachable sample_hook_env (\<lambda>_. 0) (60 * 1000000000) [] (sample_secrets_cache, w)"
  "store_keyed wt_meta sample_hook_store" "expiration_timeout sample_secrets_cache = 60 * 1000000000"
proof -
  show "timed_env sample_hook_env (\<lambda>_. 0) sample_contents"
    by (auto simp: timed_env_def sample_contents_def)
  show "reads_keep sample_hook_env set" by (simp add: reads_keep_def)
  show "timeout_fits sample_hook_env (60 * 1000000000)" by (simp add: timeout_fits_def system_time_limit_def)
  show "scheduler_laws sample_hook_env set"
    using sample_scheduler_laws by (simp add: scheduler_laws_def sample_hook_env_def)
  show "secrets_reachable sample_hook_env (\<lambda>_. 0) (60 * 1000000000) [] (sample_secrets_cache, w)"
    by (rule secrets_reachable.initial) (simp add: init_secrets_cache_def sample_secrets_cache_def)
  show "store_keyed wt_meta sample_hook_store"
    by (simp add: store_keyed_def sample_hook_store_def sample_hook_trigger_def sample_trigger_def
        cache_key_def name_any_def)
  show "expiration_timeout sample_secrets_cache = 60 * 1000000000" by (simp add: sample_secrets_cache_def)
qed

lemma sample_hook_request:
  "\<exists>s'. handle_post_source_webhook sample_hook_env default_runtime_config fe ''/tmp''
       [''x-token'' \<mapsto> ''s3cret''] ''apps'' ''nightly'' ''repo'' (sample_web_state, []) =
     Returns (Inr (response_of_task_id ''t''), s', [''t''])"
  by (simp add: handle_post_source_webhook_def source_webhook_result_def authorised_trigger_def
      wt.get_found [of _ sample_hook_store _ _ sample_hook_trigger] sample_hook_store_def
      trigger_hash_key_def sample_hook_trigger_def sample_trigger_def check_hook_authorization_def
      query_secrets_cache_def sample_web_state_def get_key_value_def get_cached_def
      sample_secrets_cache_def refresh_cached_def query_secrets_api_def sample_contents_def from_utf8_def
      checked_add_def system_time_limit_def schedule_hook_task_def create_trigger_task_def Let_def)

theorem hook_requires_secret_witness:
  "request_authorised sample_contents (60 * 1000000000) [] 0 0 default_runtime_config
     [''x-token'' \<mapsto> ''s3cret''] sample_hook_trigger ''apps''"
proof -
  obtain s' where "handle_post_source_webhook sample_hook_env default_runtime_config (\<lambda>_. '''') ''/tmp''
       [''x-token'' \<mapsto> ''s3cret''] ''apps'' ''nightly'' ''repo'' (sample_web_state, []) =
     Returns (Inr (response_of_task_id ''t''), s', [''t''])" using sample_hook_request by blast
  with hook_requires_secret [OF sample_hook_laws(1,5) _ sample_hook_env_fields(3) sample_hook_laws(6),
      where s = sample_web_state and cfg = default_runtime_config and fe = "\<lambda>_. ''''" and folder = "''/tmp''"
        and hs = "[''x-token'' \<mapsto> ''s3cret'']" and ns = "''apps''" and name = "''nightly''"
        and source = "''repo''" and w = "[]"]
  show ?thesis by (auto simp: sample_web_state_def sample_hook_store_def)
qed

theorem hook_answers_witness:
  "\<exists>r s' w'. handle_post_source_webhook sample_hook_env default_runtime_config (\<lambda>_. '''') ''/tmp''
       Map.empty ''apps'' ''nightly'' ''repo'' (sample_web_state, []) = Returns (r, s', w') \<and>
     r = Inl Unauthorized \<and> w' = [] \<and> ws_requests s' = [(''apps'', ''nightly'', 401)]"
proof -
  have "hook_refusal sample_hook_env default_runtime_config Map.empty ''apps''
     (\<lambda>trg. ''repo'' \<in> set (source_names (wt_sources (wt_spec trg)))) SourceNotFound
     (sample_hook_store (cache_key ''nightly'' (Some ''apps''))) (sample_secrets_cache, []) = Some Unauthorized"
    by (simp add: hook_refusal_def sample_hook_store_def sample_hook_trigger_def hook_header_value_def)
  moreover have fits: "timeout_fits sample_hook_env (expiration_timeout sample_secrets_cache)"
    and st: "ws_secrets sample_web_state = Some sample_secrets_cache" and "ws_requests sample_web_state = []"
    using sample_hook_laws(3,7) by (simp_all add: sample_web_state_def)
  ultimately show ?thesis
    using conjunct1 [OF hook_answers [OF fits sample_hook_laws(2,4) st sample_hook_env_fields(3) sample_hook_laws(6),
      of default_runtime_config "\<lambda>_. ''''" "''/tmp''" Map.empty "''apps''" "''nightly''" "''repo''" "[]"]]
    by (auto simp: decided_def into_response_def response_of_error_def)
qed

text \<open>A world that counts the references to the scheduler, one of which is dropped in every pause.\<close>

definition sample_shutdown_env :: "nat shutdown_env" where
  "sample_shutdown_env =
     \<lparr> strong_count = (\<lambda>w. (w, w)), into_inner = (\<lambda>w. (w \<le> 1, w)), scheduler_shutdown = (\<lambda>w. 0),
       sleep_ms = (\<lambda>ms w. w - 1) \<rparr>"

theorem hooks_shutdown_ends_witness:
  "hooks_web_shutdown sample_shutdown_env 2 = Returns (True, 0) \<and>
   returns (hooks_web_shutdown sample_shutdown_env 50)"
proof -
  have law: "\<forall>w. sole_owner sample_shutdown_env w \<longrightarrow>
      fst (into_inner sample_shutdown_env (snd (strong_count sample_shutdown_env w)))"
    by (simp add: sole_owner_def sample_shutdown_env_def)
  have "sole_owner sample_shutdown_env (polled sample_shutdown_env 1 2)"
    "\<not> sole_owner sample_shutdown_env (polled sample_shutdown_env 0 2)"
    by (simp_all add: sole_owner_def sample_shutdown_env_def)
  moreover have "shut_down sample_shutdown_env w = 0" for w
    by (simp add: shut_down_def sample_shutdown_env_def)
  ultimately have "hooks_web_shutdown sample_shutdown_env 2 = Returns (True, 0)"
    using conjunct1 [OF hooks_shutdown_ends [OF law, of 2], rule_format, of 1] by simp
  then show ?thesis using hooks_shutdown_ends [OF law, of 50] by blast
qed

end
