(* ===== verification/Cloner.thy ===== *)
theory Cloner
  imports Trigger
begin

text \<open>
  The cloner that runs as the init container of an action's Job (\<^verbatim>\<open>src/bin/gitrepo-cloner.rs\<close>): its
  command line, the conversions of its reference and the clone itself. The parser of the command
  line is the \<^verbatim>\<open>clap\<close> crate, an argument here; the
  client of the API server, the repository and the file system are the environment.
\<close>

section \<open>Command line\<close>

record reference_value =
  rv_branch :: "string option"
  rv_tag :: "string option"
  rv_commit :: "string option"

record cloner_cli =
  cli_source_kind :: trigger_source_kind
  cli_source_name :: string
  cli_reference :: reference_value
  cli_destination :: string
  cli_preserve_git_folder :: bool
  cli_debug :: bool

text \<open>The options that the attributes of \<^verbatim>\<open>Cli\<close> and \<^verbatim>\<open>ReferenceValue\<close> declare, in their long forms,
  and what each of them sets.\<close>

datatype cloner_option =
    OptKind trigger_source_kind
  | OptSource string
  | OptBranch string
  | OptTag string
  | OptCommit string
  | OptDestination string
  | OptPreserveGitFolder
  | OptDebug

fun cloner_option_args :: "cloner_option \<Rightarrow> string list" where
  "cloner_option_args (OptKind k) = [''--kind'', source_kind_to_string k]"
| "cloner_option_args (OptSource s) = [''--source'', s]"
| "cloner_option_args (OptBranch r) = [''--branch'', r]"
| "cloner_option_args (OptTag r) = [''--tag'', r]"
| "cloner_option_args (OptCommit r) = [''--commit'', r]"
| "cloner_option_args (OptDestination d) = [''--destination'', d]"
| "cloner_option_args OptPreserveGitFolder = [''--preserve-git-folder'']"
| "cloner_option_args OptDebug = [''--debug'']"

fun set_cloner_option :: "cloner_option \<Rightarrow> cloner_cli \<Rightarrow> cloner_cli" where
  "set_cloner_option (OptKind k) c = c\<lparr> cli_source_kind := k \<rparr>"
| "set_cloner_option (OptSource s) c = c\<lparr> cli_source_name := s \<rparr>"
| "set_cloner_option (OptBranch r) c = c\<lparr> cli_reference := (cli_reference c)\<lparr> rv_branch := Some r \<rparr> \<rparr>"
| "set_cloner_option (OptTag r) c = c\<lparr> cli_reference := (cli_reference c)\<lparr> rv_tag := Some r \<rparr> \<rparr>"
| "set_cloner_option (OptCommit r) c = c\<lparr> cli_reference := (cli_reference c)\<lparr> rv_commit := Some r \<rparr> \<rparr>"
| "set_cloner_option (OptDestination d) c = c\<lparr> cli_destination := d \<rparr>"
| "set_cloner_option OptPreserveGitFolder c = c\<lparr> cli_preserve_git_folder := True \<rparr>"
| "set_cloner_option OptDebug c = c\<lparr> cli_debug := True \<rparr>"

section \<open>References\<close>

definition reference_of_value :: "reference_value \<Rightarrow> trigger_git_repo_reference outcome" where
  "reference_of_value v =
     (case rv_branch v of
        Some branch \<Rightarrow> Returns (Branch branch)
      | None \<Rightarrow>
          (case rv_tag v of
             Some tag \<Rightarrow> Returns (Tag tag)
           | None \<Rightarrow>
               (case rv_commit v of
                  Some commit \<Rightarrow> Returns (Commit commit)
                | None \<Rightarrow> Panics ''Looks like a BUG'')))"

definition string_of_reference_value :: "reference_value \<Rightarrow> string outcome" where
  "string_of_reference_value v =
     (case rv_branch v of
        Some branch \<Rightarrow> Returns branch
      | None \<Rightarrow>
          (case rv_tag v of
             Some tag \<Rightarrow> Returns tag
           | None \<Rightarrow>
               (case rv_commit v of
                  Some commit \<Rightarrow> Returns commit
                | None \<Rightarrow> Panics ''Looks like a BUG'')))"

section \<open>Cloning\<close>

record 'w cloner_env = "'w trigger_env" +
  client_try_default :: "'w \<Rightarrow> (string + unit) \<times> 'w"
  default_namespace :: string
  api_get_git_repo :: "string \<Rightarrow> string \<Rightarrow> 'w \<Rightarrow> (kube_error + git_repo) \<times> 'w"
  api_get_cluster_git_repo :: "string \<Rightarrow> 'w \<Rightarrow> (kube_error + cluster_git_repo) \<times> 'w"

text \<open>The errors \<^verbatim>\<open>anyhow\<close> carries out of \<^verbatim>\<open>main\<close>.\<close>

datatype cloner_error = CloneUsage | CloneClient string | CloneKube kube_error | CloneError error | CloneIo string

definition fetch_kind ::
    "('w, 'z) cloner_env_scheme \<Rightarrow> trigger_source_kind \<Rightarrow> string \<Rightarrow> string \<Rightarrow> string \<Rightarrow> string \<Rightarrow> 'w \<Rightarrow>
     ((cloner_error + repository) \<times> 'w) outcome" where
  "fetch_kind env kind name ref_name destination ns w =
     (let lift = (\<lambda>x. outcome_bind x (\<lambda>(r, w2).
            Returns (case r of Inl e \<Rightarrow> Inl (CloneError e) | Inr repo \<Rightarrow> Inr repo, w2))) in
      case kind of
        GitRepo \<Rightarrow>
          (case api_get_git_repo env ns name w of
             (Inl e, w1) \<Rightarrow> Returns (Inl (CloneKube e), w1)
           | (Inr gitrepo, w1) \<Rightarrow>
               lift (fetch_repo_ref env git_repo_internals gitrepo ref_name destination ns w1))
      | ClusterGitRepo \<Rightarrow>
          (case api_get_cluster_git_repo env name w of
             (Inl e, w1) \<Rightarrow> Returns (Inl (CloneKube e), w1)
           | (Inr gitrepo, w1) \<Rightarrow>
               lift (fetch_repo_ref env cluster_git_repo_internals gitrepo ref_name destination ns w1)))"

definition git_repo_cloner ::
    "('w, 'z) cloner_env_scheme \<Rightarrow> cloner_cli \<Rightarrow> 'w \<Rightarrow> ((cloner_error + unit) \<times> 'w) outcome" where
  "git_repo_cloner env cli w =
     outcome_bind (string_of_reference_value (cli_reference cli)) (\<lambda>ref_name.
     outcome_bind (reference_of_value (cli_reference cli)) (\<lambda>reference.
     outcome_bind (fetch_kind env (cli_source_kind cli) (cli_source_name cli) ref_name
         (cli_destination cli) (default_namespace env) w) (\<lambda>(r, w1).
       (case r of
          Inl e \<Rightarrow> Returns (Inl e, w1)
        | Inr repo \<Rightarrow>
            outcome_bind (get_latest_commit env repo reference w1) (\<lambda>(r2, w2).
              (case r2 of
                 Inl e \<Rightarrow> Returns (Inl (CloneError e), w2)
               | Inr oid \<Rightarrow>
                   if cli_preserve_git_folder cli then Returns (Inr (), w2)
                   else (case remove_dir_all env (cli_destination cli @ ''/.git'') w2 of
                           (Inl e, w3) \<Rightarrow> Returns (Inl (CloneIo e), w3)
                         | (Inr _, w3) \<Rightarrow> Returns (Inr (), w3))))))))"

definition cloner_main ::
    "(string list \<Rightarrow> cloner_cli option) \<Rightarrow> ('w, 'z) cloner_env_scheme \<Rightarrow> string list \<Rightarrow> 'w \<Rightarrow>
     ((cloner_error + unit) \<times> 'w) outcome" where
  "cloner_main parse env args w =
     (case parse args of
        None \<Rightarrow> Returns (Inl CloneUsage, w)
      | Some cli \<Rightarrow>
          (case client_try_default env w of
             (Inl e, w1) \<Rightarrow> Returns (Inl (CloneClient e), w1)
           | (Inr _, w1) \<Rightarrow> git_repo_cloner env cli w1))"

end
