(* ===== verification/Cloner_Correct.thy ===== *)
theory Cloner_Correct
  imports Cloner Trigger_Correct
begin

text \<open>
  The cloner and the action agree: the arguments of the init container, read back by the parser of
  the command line, name the source and the reference the action stands for, and a successful clone
  has fetched that source and checked out that reference; the Job runs once, and its worker starts
  where the clone was put if the configuration is the same at each read.
\<close>

section \<open>The parser of the command line\<close>

text \<open>
  What the documentation of \<^verbatim>\<open>clap\<close> promises for the declared options: an argument list in which
  the kind, the source and the destination appear exactly once, exactly one of the members of the
  reference's group appears, flags at most once, and no value starts with a hyphen, is accepted;
  each option sets its field, in any order.
\<close>

fun option_value_ok :: "cloner_option \<Rightarrow> bool" where
  "option_value_ok (OptSource s) = (\<not> starts_with s ''-'')"
| "option_value_ok (OptBranch r) = (\<not> starts_with r ''-'')"
| "option_value_ok (OptTag r) = (\<not> starts_with r ''-'')"
| "option_value_ok (OptCommit r) = (\<not> starts_with r ''-'')"
| "option_value_ok (OptDestination d) = (\<not> starts_with d ''-'')"
| "option_value_ok _ = True"

fun option_slot :: "cloner_option \<Rightarrow> nat" where
  "option_slot (OptKind k) = 0"
| "option_slot (OptSource s) = 1"
| "option_slot (OptDestination d) = 2"
| "option_slot (OptBranch r) = 3"
| "option_slot (OptTag r) = 3"
| "option_slot (OptCommit r) = 3"
| "option_slot OptPreserveGitFolder = 4"
| "option_slot OptDebug = 5"

definition well_used :: "cloner_option list \<Rightarrow> bool" where
  "well_used opts \<longleftrightarrow>
     distinct (map option_slot opts) \<and> {0, 1, 2, 3} \<subseteq> set (map option_slot opts) \<and> list_all option_value_ok opts"

definition unset_cli :: cloner_cli where
  "unset_cli = \<lparr> cli_source_kind = GitRepo, cli_source_name = '''',
     cli_reference = \<lparr> rv_branch = None, rv_tag = None, rv_commit = None \<rparr>, cli_destination = '''',
     cli_preserve_git_folder = False, cli_debug = False \<rparr>"

definition parses_options :: "(string list \<Rightarrow> cloner_cli option) \<Rightarrow> bool" where
  "parses_options parse \<longleftrightarrow>
     (\<forall>opts. well_used opts \<longrightarrow>
        parse (concat (map cloner_option_args opts)) = Some (fold set_cloner_option opts unset_cli))"

text \<open>The options of a Job's init container.\<close>

fun reference_option :: "trigger_git_repo_reference \<Rightarrow> cloner_option" where
  "reference_option (Branch b) = OptBranch b"
| "reference_option (Tag t) = OptTag t"
| "reference_option (Commit c) = OptCommit c"

definition job_options ::
    "trigger_source_kind \<Rightarrow> string \<Rightarrow> trigger_git_repo_reference \<Rightarrow> string \<Rightarrow> bool \<Rightarrow> bool \<Rightarrow> cloner_option list" where
  "job_options kind name ref dest preserve debug =
     [OptKind kind, OptSource name, OptDestination dest, reference_option ref] @
     (if preserve then [OptPreserveGitFolder] else []) @ (if debug then [OptDebug] else [])"

lemma get_gitrepo_cloner_args_options:
  "get_gitrepo_cloner_args cfg ops a kind name ref =
     concat (map cloner_option_args (job_options kind name ref (job_workdir cfg (action_job_spec ops a))
       (aj_preserve_git_folder (action_job_spec ops a)) (aj_enable_cloner_debug (action_job_spec ops a))))"
  by (cases ref) (simp_all add: get_gitrepo_cloner_args_def job_options_def Let_def)

lemma well_used_job_options:
  assumes "\<not> starts_with name ''-''" and "\<not> starts_with dest ''-''" and "\<not> starts_with (snd (to_refname ref None)) ''-''"
  shows "well_used (job_options kind name ref dest preserve debug)"
  using assms by (cases ref) (simp_all add: well_used_def job_options_def)

text \<open>What the parsed command line of a Job stands for.\<close>

lemma job_options_cli:
  fixes kind :: trigger_source_kind and name dest :: string and ref :: trigger_git_repo_reference
    and preserve debug :: bool
  defines "cli \<equiv> fold set_cloner_option (job_options kind name ref dest preserve debug) unset_cli"
  shows "cli_source_kind cli = kind" and "cli_source_name cli = name" and "cli_destination cli = dest"
    and "cli_preserve_git_folder cli = preserve"
    and "reference_of_value (cli_reference cli) = Returns ref"
    and "string_of_reference_value (cli_reference cli) = Returns (snd (to_refname ref None))"
  by (cases ref; simp add: cli_def job_options_def unset_cli_def reference_of_value_def
      string_of_reference_value_def)+

section \<open>A successful clone\<close>

text \<open>The commit a reference stands for in a repository.\<close>

definition resolves ::
    "('w, 'z) trigger_env_scheme \<Rightarrow> repository \<Rightarrow> trigger_git_repo_reference \<Rightarrow> string \<Rightarrow> bool" where
  "resolves env repo ref oid \<longleftrightarrow>
     (case ref of
        Branch b \<Rightarrow> \<exists>w. fst (resolve_short_name env repo (''origin/'' @ b) w) = Inr (Some oid)
      | Tag t \<Rightarrow> \<exists>w. fst (resolve_short_name env repo t w) = Inr (Some oid)
      | Commit c \<Rightarrow> oid_from_str env c = Inr oid)"

lemma resolve_target_ok:
  "resolve_target env repo n w = Returns (Inr oid, w') \<Longrightarrow> resolve_short_name env repo n w = (Inr (Some oid), w')"
  by (auto simp: resolve_target_def case_prod_beta case_sum_eq_iff prod_eq_iff)

lemma get_latest_commit_ok:
  assumes "get_latest_commit env repo ref w = Returns (Inr oid, w')"
  shows "resolves env repo ref oid \<and> (\<exists>w1. checkout_tree env repo oid w1 = (Inr (), w'))"
proof -
  obtain w1 where r: "(case ref of
          Branch r \<Rightarrow> resolve_target env repo (''origin/'' @ r) w
        | Tag r \<Rightarrow> resolve_target env repo r w
        | Commit r \<Rightarrow> Returns (case oid_from_str env r of
                                Inl e \<Rightarrow> Inl (GitrepoAccessError e) | Inr oid \<Rightarrow> Inr oid, w)) = Returns (Inr oid, w1)"
    and c: "\<exists>w2. checkout_tree env repo oid w2 = (Inr (), w')"
    using assms by (auto simp: get_latest_commit_def case_prod_beta case_sum_eq_iff prod_eq_iff)
  from r have "resolves env repo ref oid"
    by (cases ref) (auto simp: resolves_def case_sum_eq_iff dest!: resolve_target_ok intro: exI [of _ w])
  with c show ?thesis by blast
qed

text \<open>The source and the reference a Job stands for.\<close>

definition job_source ::
    "('a, 'y) action_ops_scheme \<Rightarrow> 'a \<Rightarrow> action_request \<Rightarrow>
     trigger_source_kind \<times> string \<times> trigger_git_repo_reference" where
  "job_source ops a rq =
     (case source_override_spec ops a of
        Some so \<Rightarrow> (aso_kind so, aso_name so, aso_reference so)
      | None \<Rightarrow> (rq_source_kind rq, rq_source_name rq, Commit (rq_source_commit rq)))"

lemma job_source_cluster:
  "source_override_spec (cluster_action_internals owner_ref) ca \<noteq> None \<Longrightarrow>
     fst (job_source (cluster_action_internals owner_ref) ca rq) = ClusterGitRepo"
  by (auto simp: job_source_def cluster_action_internals_def split: option.splits)

lemma job_cloner_args_source:
  "job_source ops a rq = (kind, name, ref) \<Longrightarrow>
     job_cloner_args cfg ops a rq = get_gitrepo_cloner_args cfg ops a kind name ref"
  by (auto simp: job_source_def job_cloner_args_def split: option.splits)

lemma cloner_main_job:
  assumes "parses_options parse" and "job_source ops a rq = (kind, name, ref)"
    and "\<not> starts_with name ''-''" and "\<not> starts_with (snd (to_refname ref None)) ''-''"
    and "\<not> starts_with (job_workdir cfg (action_job_spec ops a)) ''-''"
  shows "\<exists>cli. parse (job_cloner_args cfg ops a rq) = Some cli \<and>
     cli_source_kind cli = kind \<and> cli_source_name cli = name \<and>
     cli_destination cli = job_workdir cfg (action_job_spec ops a) \<and>
     cli_preserve_git_folder cli = aj_preserve_git_folder (action_job_spec ops a) \<and>
     reference_of_value (cli_reference cli) = Returns ref \<and>
     string_of_reference_value (cli_reference cli) = Returns (snd (to_refname ref None))"
proof -
  let ?opts = "job_options kind name ref (job_workdir cfg (action_job_spec ops a))
       (aj_preserve_git_folder (action_job_spec ops a)) (aj_enable_cloner_debug (action_job_spec ops a))"
  have "parse (concat (map cloner_option_args ?opts)) = Some (fold set_cloner_option ?opts unset_cli)"
    using assms(1) well_used_job_options [OF assms(3,5,4)] unfolding parses_options_def by blast
  then show ?thesis
    unfolding job_cloner_args_source [OF assms(2)] get_gitrepo_cloner_args_options
    using job_options_cli [of kind name ref] by simp
qed

lemma git_repo_cloner_ok:
  assumes "reference_of_value (cli_reference cli) = Returns ref"
    and "string_of_reference_value (cli_reference cli) = Returns n"
    and "git_repo_cloner env cli w = Returns (Inr (), w')"
  shows "\<exists>repo oid w1 w2 w3.
     fetch_kind env (cli_source_kind cli) (cli_source_name cli) n (cli_destination cli)
       (default_namespace env) w = Returns (Inr repo, w1) \<and>
     resolves env repo ref oid \<and> checkout_tree env repo oid w2 = (Inr (), w3) \<and>
     (if cli_preserve_git_folder cli then w' = w3
      else remove_dir_all env (cli_destination cli @ ''/.git'') w3 = (Inr (), w'))"
proof -
  from assms obtain repo w1 oid w3 where
    f: "fetch_kind env (cli_source_kind cli) (cli_source_name cli) n (cli_destination cli)
       (default_namespace env) w = Returns (Inr repo, w1)"
    and g: "get_latest_commit env repo ref w1 = Returns (Inr oid, w3)"
    and r: "if cli_preserve_git_folder cli then w' = w3
      else remove_dir_all env (cli_destination cli @ ''/.git'') w3 = (Inr (), w')"
    by (auto simp: git_repo_cloner_def case_prod_beta case_sum_eq_iff prod_eq_iff split: if_splits)
  from get_latest_commit_ok [OF g] f r show ?thesis by blast
qed

lemma git_repo_cloner_not_usage: "git_repo_cloner env cli w \<noteq> Returns (Inl CloneUsage, w')"
  by (auto simp: git_repo_cloner_def fetch_kind_def Let_def case_prod_beta case_sum_eq_iff
      split: trigger_source_kind.splits if_splits)

text \<open>
  C6. The Job clones what the action asked for: the cloner accepts the arguments of every Job, and
  when it succeeds it has fetched the repository of the source that fired (or of the override) into
  the working directory and has checked out exactly its reference: the commit the trigger has seen,
  or the branch or tag of the override; the metadata folder is removed unless the action keeps it.
  A \<^verbatim>\<open>ClusterAction\<close> with an override never clones a namespaced repository.
\<close>

theorem cloner_clones_request:
  assumes "parses_options parse" and "job_source ops a rq = (kind, name, ref)"
    and "\<not> starts_with name ''-''" and "\<not> starts_with (snd (to_refname ref None)) ''-''"
    and "\<not> starts_with (job_workdir cfg (action_job_spec ops a)) ''-''"
    and "cloner_main parse env (job_cloner_args cfg ops a rq) w = Returns (r, w')"
  shows "r \<noteq> Inl CloneUsage \<and>
     (r = Inr () \<longrightarrow>
       (\<exists>repo oid w0 w1 w2 w3.
          fetch_kind env kind name (snd (to_refname ref None)) (job_workdir cfg (action_job_spec ops a))
            (default_namespace env) w0 = Returns (Inr repo, w1) \<and>
          resolves env repo ref oid \<and> checkout_tree env repo oid w2 = (Inr (), w3) \<and>
          (if aj_preserve_git_folder (action_job_spec ops a) then w' = w3
           else remove_dir_all env (job_workdir cfg (action_job_spec ops a) @ ''/.git'') w3 = (Inr (), w')))) \<and>
     (\<forall>owner_ref ca. source_override_spec (cluster_action_internals owner_ref) ca \<noteq> None \<longrightarrow>
        fst (job_source (cluster_action_internals owner_ref) ca rq) = ClusterGitRepo)"
proof -
  obtain cli where cli: "parse (job_cloner_args cfg ops a rq) = Some cli"
    "cli_source_kind cli = kind" "cli_source_name cli = name"
    "cli_destination cli = job_workdir cfg (action_job_spec ops a)"
    "cli_preserve_git_folder cli = aj_preserve_git_folder (action_job_spec ops a)"
    "reference_of_value (cli_reference cli) = Returns ref"
    "string_of_reference_value (cli_reference cli) = Returns (snd (to_refname ref None))"
    using cloner_main_job [OF assms(1-5)] by blast
  with assms(6) have u: "r \<noteq> Inl CloneUsage"
    by (auto simp: cloner_main_def case_prod_beta case_sum_eq_iff git_repo_cloner_not_usage)
  have "r = Inr () \<Longrightarrow> \<exists>w0. git_repo_cloner env cli w0 = Returns (Inr (), w')"
    using assms(6) cli(1) by (auto simp: cloner_main_def case_prod_beta case_sum_eq_iff)
  with u git_repo_cloner_ok [OF cli(6,7), of env] job_source_cluster [of _ _ rq] show ?thesis
    unfolding cli(2-5) by blast
qed

section \<open>An example\<close>

text \<open>A parser of the long forms.\<close>

definition option_of :: "string \<Rightarrow> string \<Rightarrow> cloner_option" where
  "option_of k v =
     (if k = ''--kind'' then OptKind (if v = ''GitRepo'' then GitRepo else ClusterGitRepo)
      else if k = ''--source'' then OptSource v
      else if k = ''--branch'' then OptBranch v
      else if k = ''--tag'' then OptTag v
      else if k = ''--commit'' then OptCommit v
      else OptDestination v)"

fun long_options :: "string list \<Rightarrow> cloner_option list" where
  "long_options [] = []"
| "long_options (a # rest) =
     (if a = ''--debug'' then OptDebug # long_options rest
      else if a = ''--preserve-git-folder'' then OptPreserveGitFolder # long_options rest
      else (case rest of [] \<Rightarrow> [] | v # rest' \<Rightarrow> option_of a v # long_options rest'))"

definition parse_long :: "string list \<Rightarrow> cloner_cli option" where
  "parse_long args = Some (fold set_cloner_option (long_options args) unset_cli)"

lemma long_options_args: "long_options (cloner_option_args x @ rest) = x # long_options rest"
proof (cases x)
  case (OptKind k)
  then show ?thesis by (cases k) (simp_all add: option_of_def)
qed (simp_all add: option_of_def)

lemma parses_options_long: "parses_options parse_long"
proof -
  have "long_options (concat (map cloner_option_args opts)) = opts" for opts
    by (induction opts) (simp_all add: long_options_args)
  then show ?thesis by (simp add: parses_options_def parse_long_def)
qed

definition sample_cloner_env :: "nat cloner_env" where
  "sample_cloner_env = trigger_env.extend sample_trigger_env
     \<lparr> client_try_default = (\<lambda>w. (Inr (), w)), default_namespace = ''apps'',
       api_get_git_repo = (\<lambda>ns n w. (Inr sample_git_repo, w)),
       api_get_cluster_git_repo = (\<lambda>n w. (Inl (Api 404 ''not found''), w)) \<rparr>"

lemma sample_cloner_env_fields [simp]:
  "client_try_default sample_cloner_env w = (Inr (), w)"
  "default_namespace sample_cloner_env = ''apps''"
  "api_get_git_repo sample_cloner_env ns n w = (Inr sample_git_repo, w)"
  "remove_dir_all sample_cloner_env p w = (Inr (), w)"
  "get_secret sample_cloner_env = get_secret sample_git_env"
  "fetch_remote sample_cloner_env = fetch_remote sample_git_env"
  "init_opts sample_cloner_env = init_opts sample_git_env"
  "find_remote sample_cloner_env = find_remote sample_git_env"
  "oid_from_str sample_cloner_env = Inr" "find_object sample_cloner_env r oid w = (Inr (), w)"
  "checkout_tree sample_cloner_env r oid w = (Inr (), w)"
  by (simp_all add: sample_cloner_env_def trigger_env.defs sample_trigger_env_def git_env.defs)

lemma sample_cloner_fetch:
  "\<exists>repo w'. fetch_repo_ref sample_cloner_env git_repo_internals sample_git_repo ref path ns w =
     Returns (Inr repo, w')"
proof -
  have "uri_schema git_repo_internals sample_git_repo = Returns Https"
    by (simp add: uri_schema_def sample_git_repo_def)
  then show ?thesis
    by (simp add: fetch_repo_ref_def get_auth_secrets_def get_tls_secrets_def fetch_with_secrets_def
        auth_options_def certificate_options_def fetch_origin_def sample_git_repo_def default_fetch_options_def)
      (simp add: sample_git_env_def)
qed

theorem cloner_clones_request_witness:
  "\<exists>w'. cloner_main parse_long sample_cloner_env
      (job_cloner_args default_runtime_config sample_action_ops sample_action sample_request) 0 =
        Returns (Inr (), w') \<and>
     (\<exists>repo w0 w1. fetch_kind sample_cloner_env GitRepo ''repo'' ''abc'' ''/action_workdir'' ''apps'' w0 =
        Returns (Inr repo, w1))"
proof -
  let ?args = "job_cloner_args default_runtime_config sample_action_ops sample_action sample_request"
  have src: "job_source sample_action_ops sample_action sample_request = (GitRepo, ''repo'', Commit ''abc'')"
    by (simp add: job_source_def sample_action_def sample_request_def)
  have wd: "job_workdir default_runtime_config (action_job_spec sample_action_ops sample_action) = ''/action_workdir''"
    by (simp add: job_workdir_def sample_action_def default_action_job_def default_runtime_config_def
        default_action_config_def default_action_workdir_config_def)
  obtain cli where cli: "parse_long ?args = Some cli" "cli_source_kind cli = GitRepo"
    "reference_of_value (cli_reference cli) = Returns (Commit ''abc'')"
    "string_of_reference_value (cli_reference cli) = Returns ''abc''"
    using cloner_main_job [OF parses_options_long src, of default_runtime_config] unfolding wd by auto
  obtain repo w1 where "fetch_repo_ref sample_cloner_env git_repo_internals sample_git_repo ''abc''
      (cli_destination cli) ''apps'' 0 = Returns (Inr repo, w1)" using sample_cloner_fetch by blast
  with cli have "\<exists>w'. cloner_main parse_long sample_cloner_env ?args 0 = Returns (Inr (), w')"
    by (simp add: cloner_main_def git_repo_cloner_def fetch_kind_def get_latest_commit_def)
  then obtain w' where m: "cloner_main parse_long sample_cloner_env ?args 0 = Returns (Inr (), w')" by blast
  from cloner_clones_request [OF parses_options_long src _ _ _ m] m show ?thesis unfolding wd by auto
qed

section \<open>Where the clone lands\<close>

text \<open>The arguments of a Job's command line that clap needs to be values.\<close>

definition plain_values :: "config_reads \<Rightarrow> ('a, 'y) action_ops_scheme \<Rightarrow> 'a \<Rightarrow> action_request \<Rightarrow> bool" where
  "plain_values reads ops a rq \<longleftrightarrow>
     (case job_source ops a rq of (kind, name, ref) \<Rightarrow>
        \<not> starts_with name ''-'' \<and> \<not> starts_with (snd (to_refname ref None)) ''-'' \<and>
        \<not> starts_with (job_workdir (cr_destination reads) (action_job_spec ops a)) ''-'')"

lemma job_workdir_eq_iff:
  "job_workdir cfg aj = job_workdir cfg' aj \<longleftrightarrow>
     aj_workdir aj \<noteq> None \<or> mount_path (workdir (action cfg)) = mount_path (workdir (action cfg'))"
  by (cases "aj_workdir aj") (simp_all add: job_workdir_def)

lemma get_action_job_envs_first:
  "\<exists>envs. get_action_job_envs reads ops a rq =
     format_action_job_env_var (cr_prefix reads ''WORKDIR'') ''WORKDIR''
       (job_workdir (cr_workdir reads) (action_job_spec ops a)) # envs"
  by (simp add: get_action_job_envs_def Let_def split: prod.splits)

text \<open>
  C34. Where the clone lands: the pod of a Job runs once (no retry, one pod, restart policy
  \<^verbatim>\<open>Never\<close>), with one init container and one worker, both with the single volume of the pod mounted
  at the working directory of the worker. The command line of the init container, read by the
  cloner, has its destination in that directory exactly when the action names a directory of its own
  or the configuration read for \<^verbatim>\<open>--destination\<close> has the same mount path as the one read for the
  containers, and likewise for the value of the variable \<^verbatim>\<open>WORKDIR\<close>. So the source is where the
  worker looks for it unless the configured path changes while the Job is built.
\<close>

theorem job_runs_once_in_shared_workdir:
  assumes "parses_options parse" and "plain_values reads ops a rq"
    and "create_job_spec env reads ops a rq w = Returns (Inr j, w')"
  shows "\<exists>js ps ic wc dir vol args cli env0 envs.
     job_spec_of j = Some js \<and> js_backoff_limit js = Some 0 \<and> js_parallelism js = Some 1 \<and>
     pt_spec (js_template js) = Some ps \<and> ps_restart_policy ps = Some ''Never'' \<and>
     ps_init_containers ps = Some [ic] \<and> ps_containers ps = [wc] \<and>
     ps_volumes ps = Some [\<lparr> v_name = vol, v_empty_dir = True \<rparr>] \<and>
     c_volume_mounts ic = Some [\<lparr> vm_name = vol, vm_mount_path = dir \<rparr>] \<and>
     c_volume_mounts wc = Some [\<lparr> vm_name = vol, vm_mount_path = dir \<rparr>] \<and>
     c_working_dir wc = Some dir \<and>
     c_args ic = Some args \<and> parse args = Some cli \<and>
     (cli_destination cli = dir \<longleftrightarrow> aj_workdir (action_job_spec ops a) \<noteq> None \<or>
        mount_path (workdir (action (cr_destination reads))) = mount_path (workdir (action (cr_spec reads)))) \<and>
     c_env wc = Some (env0 # envs) \<and>
     ev_name env0 = variables_prefix (worker (containers (action (cr_prefix reads ''WORKDIR'')))) @ ''WORKDIR'' \<and>
     (ev_value env0 = Some dir \<longleftrightarrow> aj_workdir (action_job_spec ops a) \<noteq> None \<or>
        mount_path (workdir (action (cr_workdir reads))) = mount_path (workdir (action (cr_spec reads))))"
proof -
  obtain kind name ref where src: "job_source ops a rq = (kind, name, ref)" by (cases "job_source ops a rq") auto
  with assms(2) have plain: "\<not> starts_with name ''-''" "\<not> starts_with (snd (to_refname ref None)) ''-''"
    "\<not> starts_with (job_workdir (cr_destination reads) (action_job_spec ops a)) ''-''"
    by (simp_all add: plain_values_def)
  from cloner_main_job [OF assms(1) src plain] obtain cli where
    cli: "parse (job_cloner_args (cr_destination reads) ops a rq) = Some cli"
      "cli_destination cli = job_workdir (cr_destination reads) (action_job_spec ops a)" by blast
  from create_job_spec_ok [OF assms(3)] have j: "job_spec_of j = Some (job_spec_for reads ops a rq)" by auto
  from get_action_job_envs_first [of reads ops a rq] obtain envs where
    envs: "get_action_job_envs reads ops a rq =
      format_action_job_env_var (cr_prefix reads ''WORKDIR'') ''WORKDIR''
        (job_workdir (cr_workdir reads) (action_job_spec ops a)) # envs" by blast
  show ?thesis
    by (intro exI [of _ "job_spec_for reads ops a rq"] exI [of _ "job_pod_spec reads ops a rq"]
        exI [of _ "cloner_container reads ops a rq"] exI [of _ "worker_container reads ops a rq"]
        exI [of _ "job_workdir (cr_spec reads) (action_job_spec ops a)"]
        exI [of _ "volume_name (workdir (action (cr_spec reads)))"]
        exI [of _ "job_cloner_args (cr_destination reads) ops a rq"] exI [of _ cli]
        exI [of _ "format_action_job_env_var (cr_prefix reads ''WORKDIR'') ''WORKDIR''
          (job_workdir (cr_workdir reads) (action_job_spec ops a))"] exI [of _ envs])
      (simp add: j cli envs job_workdir_eq_iff job_spec_for_def job_pod_spec_def cloner_container_def
        worker_container_def Let_def format_action_job_env_var_def default_container_def)
qed

text \<open>The mount path is changed between the first two reads: the worker starts in an empty volume.\<close>

definition sample_moved_reads :: config_reads where
  "sample_moved_reads = (steady default_runtime_config)\<lparr> cr_destination := default_runtime_config\<lparr>
     action := (action default_runtime_config)\<lparr> workdir := (workdir (action default_runtime_config))\<lparr>
       mount_path := ''/moved'' \<rparr> \<rparr> \<rparr> \<rparr>"

lemma sample_moved_plain: "plain_values sample_moved_reads sample_action_ops sample_action sample_request"
  by (simp add: plain_values_def job_source_def sample_action_def sample_request_def sample_moved_reads_def
      job_workdir_def default_action_job_def steady_def)

theorem job_runs_once_in_shared_workdir_witness:
  "\<exists>j js ps ic wc args cli. create_job_spec sample_env sample_moved_reads sample_action_ops sample_action
       sample_request () = Returns (Inr j, ()) \<and>
     job_spec_of j = Some js \<and> pt_spec (js_template js) = Some ps \<and> ps_init_containers ps = Some [ic] \<and>
     ps_containers ps = [wc] \<and> c_args ic = Some args \<and> parse_long args = Some cli \<and>
     c_working_dir wc \<noteq> Some (cli_destination cli)"
proof -
  obtain j where j: "create_job_spec sample_env sample_moved_reads sample_action_ops sample_action
      sample_request () = Returns (Inr j, ())" using sample_create_job_spec by blast
  have "aj_workdir (action_job_spec sample_action_ops sample_action) = None"
    by (simp add: sample_action_def default_action_job_def)
  moreover have "mount_path (workdir (action (cr_destination sample_moved_reads))) \<noteq>
      mount_path (workdir (action (cr_spec sample_moved_reads)))"
    by (simp add: sample_moved_reads_def steady_def default_runtime_config_def default_action_config_def
        default_action_workdir_config_def)
  ultimately show ?thesis
    using job_runs_once_in_shared_workdir [OF parses_options_long sample_moved_plain j] j by fastforce
qed

end
