(* ===== verification/Controller.thy ===== *)
theory Controller
  imports Schedule
begin

text \<open>
  The controller of schedule triggers (\<^verbatim>\<open>src/controller.rs\<close>): the state it shares with the web
  server, the reconciler around \<open>reconcile\<close> and \<open>cleanup\<close>, the policy for errors, and the run of the
  controllers while this process is the leader. The watch loop that calls the reconciler and the
  finalizer helper belong to the kube crate: the first is the sequence of triggers it is called
  for, the second a field of the environment.
\<close>

section \<open>State\<close>

record diagnostics =
  last_event :: system_time
  reporter :: string

record app_state =
  as_diagnostics :: diagnostics
  as_ready :: bool
  as_source_clone_folder :: string

definition default_diagnostics :: "('w, 'z) clock_env_scheme \<Rightarrow> 'w \<Rightarrow> diagnostics \<times> 'w" where
  "default_diagnostics env w =
     (case now env w of (t, w1) \<Rightarrow> (\<lparr> last_event = t, reporter = ''git-events-runner'' \<rparr>, w1))"

definition new_app_state :: "('w, 'z) clock_env_scheme \<Rightarrow> string \<Rightarrow> 'w \<Rightarrow> app_state \<times> 'w" where
  "new_app_state env folder w =
     (case default_diagnostics env w of (d, w1) \<Rightarrow>
        (\<lparr> as_diagnostics = d, as_ready = False, as_source_clone_folder = folder \<rparr>, w1))"

text \<open>The metrics: the namespace, kind and name of every counted reconciliation and of every failed
  one, in order.\<close>

record controller_metrics =
  reconcile_count :: "(string \<times> string \<times> string) list"
  failed_count :: "(string \<times> string \<times> string) list"

text \<open>The context of a reconciler; the client and the scheduler are in the environment.\<close>

record controller_context =
  ctx_diagnostics :: diagnostics
  ctx_triggers :: triggers_state
  ctx_source_clone_folder :: string
  ctx_metrics :: controller_metrics

definition to_context :: "app_state \<Rightarrow> triggers_state \<Rightarrow> controller_metrics \<Rightarrow> controller_context" where
  "to_context s triggers m =
     \<lparr> ctx_diagnostics = as_diagnostics s, ctx_triggers = triggers,
       ctx_source_clone_folder = as_source_clone_folder s, ctx_metrics = m \<rparr>"

definition count_reconcile :: "string \<Rightarrow> string \<Rightarrow> string \<Rightarrow> controller_metrics \<Rightarrow> controller_metrics" where
  "count_reconcile ns kind name m = m\<lparr> reconcile_count := reconcile_count m @ [(ns, kind, name)] \<rparr>"

definition count_failed :: "string \<Rightarrow> string \<Rightarrow> string \<Rightarrow> controller_metrics \<Rightarrow> controller_metrics" where
  "count_failed ns kind name m = m\<lparr> failed_count := failed_count m @ [(ns, kind, name)] \<rparr>"

section \<open>Reconciling\<close>

datatype finalizer_event = ApplyEvent schedule_trigger | CleanupEvent schedule_trigger

type_synonym 'w trigger_result = "((error + reconcile_action) \<times> triggers_state \<times> 'w) outcome"

record 'w controller_env = "'w schedule_env" +
  finalizer :: "string \<Rightarrow> schedule_trigger \<Rightarrow> (finalizer_event \<Rightarrow> triggers_state \<times> 'w \<Rightarrow> 'w trigger_result) \<Rightarrow>
    triggers_state \<times> 'w \<Rightarrow> ((error finalizer_error + reconcile_action) \<times> triggers_state \<times> 'w) outcome"
  list_triggers :: "'w \<Rightarrow> (kube_error + unit) \<times> 'w"

definition on_finalizer_event ::
    "('w, 'z) controller_env_scheme \<Rightarrow> string \<Rightarrow> finalizer_event \<Rightarrow> triggers_state \<times> 'w \<Rightarrow> 'w trigger_result" where
  "on_finalizer_event env folder ev sw =
     (case ev of
        ApplyEvent resource \<Rightarrow> reconcile env folder resource sw
      | CleanupEvent resource \<Rightarrow> cleanup env resource sw)"

definition reconcile_namespaced ::
    "('w, 'z) controller_env_scheme \<Rightarrow> schedule_trigger \<Rightarrow> controller_context \<times> 'w \<Rightarrow>
     ((error + reconcile_action) \<times> controller_context \<times> 'w) outcome" where
  "reconcile_namespaced env resource cw =
     (case cw of (ctx, w) \<Rightarrow>
      case now env w of (t, w0) \<Rightarrow>
      let ctx0 = ctx\<lparr> ctx_diagnostics := (ctx_diagnostics ctx)\<lparr> last_event := t \<rparr> \<rparr> in
      outcome_bind (unwrap (om_namespace (st_meta resource))) (\<lambda>ns.
      outcome_bind
        (case finalizer_name of
           Some name \<Rightarrow>
             outcome_bind (finalizer env name resource (on_finalizer_event env (ctx_source_clone_folder ctx))
                 (ctx_triggers ctx0, w0))
               (\<lambda>(r, s1, w1). Returns (case r of Inl e \<Rightarrow> Inl (FinalizerError e) | Inr a \<Rightarrow> Inr a, s1, w1))
         | None \<Rightarrow> reconcile env (ctx_source_clone_folder ctx) resource (ctx_triggers ctx0, w0))
        (\<lambda>(r, s1, w1).
           Returns (r, ctx0\<lparr> ctx_triggers := s1,
             ctx_metrics := count_reconcile ns ''ScheduleTrigger'' (name_any (st_meta resource)) (ctx_metrics ctx0) \<rparr>, w1))))"

definition error_policy :: "schedule_trigger \<Rightarrow> error \<Rightarrow> controller_context \<Rightarrow> reconcile_action \<times> controller_context" where
  "error_policy resource e ctx =
     (AwaitChange,
      ctx\<lparr> ctx_metrics := count_failed (unwrap_or (om_namespace (st_meta resource)) '''') ''ScheduleTrigger''
             (name_any (st_meta resource)) (ctx_metrics ctx) \<rparr>)"

text \<open>The controller calls the reconciler for one trigger after the other and hands its errors to
  the policy.\<close>

fun controller_run ::
    "('w, 'z) controller_env_scheme \<Rightarrow> schedule_trigger list \<Rightarrow> controller_context \<times> 'w \<Rightarrow> (controller_context \<times> 'w) outcome" where
  "controller_run env [] cw = Returns cw"
| "controller_run env (resource # rest) cw =
     outcome_bind (reconcile_namespaced env resource cw) (\<lambda>(r, ctx1, w1).
       controller_run env rest
         (case r of Inl e \<Rightarrow> (snd (error_policy resource e ctx1), w1) | Inr a \<Rightarrow> (ctx1, w1)))"

section \<open>Leadership\<close>

definition check_api_by_list :: "('w, 'z) controller_env_scheme \<Rightarrow> 'w \<Rightarrow> (error + unit) \<times> 'w" where
  "check_api_by_list env w =
     (case list_triggers env w of
        (Inl e, w1) \<Rightarrow> (Inl (KubeError e), w1)
      | (Inr _, w1) \<Rightarrow> (Inr (), w1))"

text \<open>
  How a run as the leader ends: the process exits because the custom resources are not there; the
  controllers were stopped, with the final context; or their task panicked, which \<^verbatim>\<open>join_all\<close> turns
  into a value that is dropped. In the last two cases the scheduler is shut down.
\<close>

datatype 'w leader_end = ProcessExit nat | LeaderStopped controller_context 'w | ControllersPanicked string

definition run_leader_controllers ::
    "('w, 'z) controller_env_scheme \<Rightarrow> ('w \<Rightarrow> bool \<times> 'w) \<Rightarrow> ('w \<Rightarrow> 'w) \<Rightarrow> app_state \<Rightarrow> controller_metrics \<Rightarrow>
     schedule_trigger list \<Rightarrow> 'w \<Rightarrow> 'w leader_end outcome" where
  "run_leader_controllers env into_inner scheduler_shutdown s m resources w =
     (case check_api_by_list env w of
        (Inl e, w1) \<Rightarrow> Returns (ProcessExit 1)
      | (Inr _, w1) \<Rightarrow>
          (case controller_run env resources (to_context s empty_triggers_state m, w1) of
             Panics msg \<Rightarrow> Returns (ControllersPanicked msg)
           | Returns (ctx, w2) \<Rightarrow>
               (case into_inner w2 of (ok, w3) \<Rightarrow>
                  if ok then Returns (LeaderStopped ctx (scheduler_shutdown w3))
                  else Panics ''more than one copies of scheduler is present, looks like a BUG!'')))"

end
