(* ===== verification/Controller_Correct.thy ===== *)
theory Controller_Correct
  imports Controller Schedule_Correct
begin

text \<open>
  What the controller promises while this process is the leader: whatever sequence of triggers the
  watch loop hands to the reconciler, changed, deleted or failing ones, the tasks of the scheduler
  are those of the triggers' state, and every call is counted once.
\<close>

text \<open>
  The documented contract of kube's finalizer helper: it calls the given function at most once, for
  an object under deletion with the cleanup event and for any other with the apply event, and its
  own requests do not touch the scheduler.
\<close>

definition finalizer_law ::
    "('w, 'z) controller_env_scheme \<Rightarrow> ('w \<Rightarrow> task_id set) \<Rightarrow> (schedule_trigger \<Rightarrow> bool) \<Rightarrow> bool" where
  "finalizer_law env live deleting \<longleftrightarrow>
     (\<forall>name obj f s w r s' w'. finalizer env name obj f (s, w) = Returns (r, s', w') \<longrightarrow>
        s' = s \<and> live w' = live w \<or>
        (\<exists>w0 r1 w1. live w0 = live w \<and> live w' = live w1 \<and>
           f (if deleting obj then CleanupEvent obj else ApplyEvent obj) (s, w0) = Returns (r1, s', w1)))"

lemma finalizer_lawD:
  assumes "finalizer_law env live deleting" and "finalizer env name obj f (s, w) = Returns (r, s', w')"
  shows "s' = s \<and> live w' = live w \<or>
        (\<exists>w0 r1 w1. live w0 = live w \<and> live w' = live w1 \<and>
           f (if deleting obj then CleanupEvent obj else ApplyEvent obj) (s, w0) = Returns (r1, s', w1))"
  using assms(1) [unfolded finalizer_law_def, rule_format, OF assms(2)] .

lemma on_finalizer_event_owned:
  assumes "scheduler_laws env live" and "tasks_owned live s w"
    and "on_finalizer_event env folder ev (s, w) = Returns (r, s', w')"
  shows "tasks_owned live s' w'"
  using assms reconcile_owned [OF assms(1,2)] cleanup_owned [OF assms(1,2)]
  by (cases ev) (auto simp: on_finalizer_event_def)

lemma finalizer_owned:
  assumes "scheduler_laws env live" and "finalizer_law env live deleting" and "tasks_owned live s w"
    and "finalizer env name obj (on_finalizer_event env folder) (s, w) = Returns (r, s', w')"
  shows "tasks_owned live s' w'"
proof -
  consider "s' = s" "live w' = live w" | w0 r1 w1 where "live w0 = live w" "live w' = live w1"
      "on_finalizer_event env folder (if deleting obj then CleanupEvent obj else ApplyEvent obj) (s, w0) =
       Returns (r1, s', w1)"
    using finalizer_lawD [OF assms(2,4)] by blast
  then show ?thesis
  proof cases
    case 1
    with assms(3) show ?thesis by (simp add: tasks_owned_def)
  next
    case 2
    have "tasks_owned live s w0" using assms(3) 2(1) by (simp add: tasks_owned_def)
    from on_finalizer_event_owned [OF assms(1) this 2(3)] 2(2) show ?thesis by (simp add: tasks_owned_def)
  qed
qed

text \<open>The labels under which a trigger is counted.\<close>

definition trigger_labels :: "schedule_trigger \<Rightarrow> string \<times> string \<times> string" where
  "trigger_labels r = (unwrap_or (om_namespace (st_meta r)) '''', ''ScheduleTrigger'', name_any (st_meta r))"

lemma reconcile_namespaced_ok:
  assumes "scheduler_laws env live" and "finalizer_law env live deleting"
    and "tasks_owned live (ctx_triggers ctx) w"
    and "reconcile_namespaced env resource (ctx, w) = Returns (r, ctx', w')"
  shows "tasks_owned live (ctx_triggers ctx') w' \<and>
         reconcile_count (ctx_metrics ctx') = reconcile_count (ctx_metrics ctx) @ [trigger_labels resource] \<and>
         failed_count (ctx_metrics ctx') = failed_count (ctx_metrics ctx)"
proof -
  obtain t w0 where n: "now env w = (t, w0)" by (metis prod.exhaust)
  have "live w0 = live w" using scheduler_laws_worlds(1) [OF assms(1) n] .
  with assms(3) have own: "tasks_owned live (ctx_triggers ctx) w0" by (simp add: tasks_owned_def)
  from assms(4) n obtain ns r0 where ns: "om_namespace (st_meta resource) = Some ns"
    and f: "finalizer env (the finalizer_name) resource (on_finalizer_event env (ctx_source_clone_folder ctx))
        (ctx_triggers ctx, w0) = Returns (r0, ctx_triggers ctx', w')"
    and m: "ctx_metrics ctx' = count_reconcile ns ''ScheduleTrigger'' (name_any (st_meta resource)) (ctx_metrics ctx)"
    by (auto simp: reconcile_namespaced_def finalizer_name_def Let_def)
  from finalizer_owned [OF assms(1,2) own f] ns m show ?thesis
    by (simp add: count_reconcile_def trigger_labels_def)
qed

lemma controller_run_ok:
  assumes "scheduler_laws env live" and "finalizer_law env live deleting"
    and "tasks_owned live (ctx_triggers ctx) w"
    and "controller_run env resources (ctx, w) = Returns (ctx', w')"
  shows "tasks_owned live (ctx_triggers ctx') w' \<and>
         reconcile_count (ctx_metrics ctx') = reconcile_count (ctx_metrics ctx) @ map trigger_labels resources \<and>
         (\<exists>failed. failed \<in> set (subseqs resources) \<and>
            failed_count (ctx_metrics ctx') = failed_count (ctx_metrics ctx) @ map trigger_labels failed)"
  using assms(3,4)
proof (induction resources arbitrary: ctx w)
  case (Cons resource rest)
  from Cons.prems(2) obtain r ctx1 w1 where
    r: "reconcile_namespaced env resource (ctx, w) = Returns (r, ctx1, w1)"
    and rest: "controller_run env rest
      (case r of Inl e \<Rightarrow> (snd (error_policy resource e ctx1), w1) | Inr a \<Rightarrow> (ctx1, w1)) = Returns (ctx', w')"
    by auto
  note one = reconcile_namespaced_ok [OF assms(1,2) Cons.prems(1) r]
  show ?case
  proof (cases r)
    case (Inl e)
    let ?ctx = "snd (error_policy resource e ctx1)"
    have "tasks_owned live (ctx_triggers ?ctx) w1" using one by (simp add: error_policy_def)
    from Cons.IH [OF this] rest Inl obtain failed where
      "tasks_owned live (ctx_triggers ctx') w'" "failed \<in> set (subseqs rest)"
      "reconcile_count (ctx_metrics ctx') = reconcile_count (ctx_metrics ?ctx) @ map trigger_labels rest"
      "failed_count (ctx_metrics ctx') = failed_count (ctx_metrics ?ctx) @ map trigger_labels failed" by auto
    with one show ?thesis
      by (intro conjI exI [of _ "resource # failed"])
        (simp_all add: error_policy_def count_failed_def trigger_labels_def Let_def)
  next
    case (Inr a)
    from one have "tasks_owned live (ctx_triggers ctx1) w1" by blast
    from Cons.IH [OF this] rest Inr obtain failed where
      "tasks_owned live (ctx_triggers ctx') w'" "failed \<in> set (subseqs rest)"
      "reconcile_count (ctx_metrics ctx') = reconcile_count (ctx_metrics ctx1) @ map trigger_labels rest"
      "failed_count (ctx_metrics ctx') = failed_count (ctx_metrics ctx1) @ map trigger_labels failed" by auto
    with one show ?thesis by (intro conjI exI [of _ failed]) (simp_all add: Let_def)
  qed
qed simp

text \<open>
  C9. The controller as a whole: from the moment this process becomes the leader, and whatever
  sequence of triggers the watch loop reconciles, deletes or fails on, the tasks of the scheduler
  are exactly those of the triggers' state, one per trigger; every reconciliation is counted once,
  in order, and the failures are some of them. When the custom resources cannot be listed the
  process exits with status 1 and nothing is reconciled.
\<close>

theorem controller_keeps_tasks:
  assumes "scheduler_laws env live" and "finalizer_law env live deleting" and "live w = {}"
    and "controller_run env resources (to_context s empty_triggers_state m, w) = Returns (ctx, w')"
  shows "ran (tasks (ctx_triggers ctx)) = live w' \<and> inj_on (tasks (ctx_triggers ctx)) (dom (tasks (ctx_triggers ctx))) \<and>
         reconcile_count (ctx_metrics ctx) = reconcile_count m @ map trigger_labels resources \<and>
         (\<exists>failed. failed \<in> set (subseqs resources) \<and>
            failed_count (ctx_metrics ctx) = failed_count m @ map trigger_labels failed) \<and>
         (\<forall>e w0 w1. list_triggers env w0 = (Inl e, w1) \<longrightarrow>
            run_leader_controllers env into shut s m resources w0 = Returns (ProcessExit 1))"
proof -
  have "tasks_owned live (ctx_triggers (to_context s empty_triggers_state m)) w"
    using assms(3) by (simp add: tasks_owned_def to_context_def empty_triggers_state_def)
  from controller_run_ok [OF assms(1,2) this assms(4)] show ?thesis
    by (auto simp: tasks_owned_def to_context_def run_leader_controllers_def check_api_by_list_def)
qed

text \<open>A finalizer helper that always applies.\<close>

definition sample_controller_env :: "string list controller_env" where
  "sample_controller_env = schedule_env.extend sample_schedule_env
     \<lparr> finalizer = (\<lambda>name obj f sw. outcome_bind (f (ApplyEvent obj) sw) (\<lambda>(r, s', w').
          Returns (case r of Inl e \<Rightarrow> Inl (ApplyFailed e) | Inr a \<Rightarrow> Inr a, s', w'))),
       list_triggers = (\<lambda>w. (Inr (), w)) \<rparr>"

lemma sample_controller_laws:
  "scheduler_laws sample_controller_env set" "finalizer_law sample_controller_env set (\<lambda>_. False)"
proof -
  show "scheduler_laws sample_controller_env set"
    using sample_scheduler_laws by (simp add: scheduler_laws_def sample_controller_env_def schedule_env.defs)
  show "finalizer_law sample_controller_env set (\<lambda>_. False)"
    by (fastforce simp: finalizer_law_def sample_controller_env_def schedule_env.defs)
qed

lemma sample_controller_run:
  "\<exists>ctx. controller_run sample_controller_env [sample_schedule_trigger None]
     (to_context s empty_triggers_state m, []) = Returns (ctx, [''t''])"
proof -
  have fin: "finalizer sample_controller_env n obj f sw = outcome_bind (f (ApplyEvent obj) sw) (\<lambda>(r, s', w').
      Returns (case r of Inl e \<Rightarrow> Inl (ApplyFailed e) | Inr a \<Rightarrow> Inr a, s', w'))" for n obj f sw
    by (simp add: sample_controller_env_def schedule_env.defs)
  have "\<exists>s'. reconcile sample_controller_env folder (sample_schedule_trigger None) (empty_triggers_state, []) =
      Returns (Inr AwaitChange, s', [''t''])" for folder
    unfolding reconcile_def sample_key prod.case outcome_bind.simps
    by (simp add: reconcile_changed_def cancel_existing_def empty_triggers_state_def
        reconcile_last_run_def sample_schedule_trigger_def get_task_schedule_def schedule_task_def
        create_trigger_task_def update_trigger_status_def api_cache_get_def schedule_trigger_cache_def
        Let_def sample_schedule_env_def sample_controller_env_def schedule_env.defs)
  then obtain s' where r: "reconcile sample_controller_env (as_source_clone_folder s) (sample_schedule_trigger None)
      (empty_triggers_state, []) = Returns (Inr AwaitChange, s', [''t''])" by blast
  have "now sample_controller_env w = (0, w)" for w
    by (simp add: sample_controller_env_def schedule_env.defs sample_schedule_env_def)
  moreover have "om_namespace (st_meta (sample_schedule_trigger None)) = Some ''apps''"
    by (simp add: sample_schedule_trigger_def)
  ultimately show ?thesis
    by (simp add: reconcile_namespaced_def finalizer_name_def fin on_finalizer_event_def to_context_def r Let_def)
qed

definition sample_app_state :: app_state where
  "sample_app_state = \<lparr> as_diagnostics = \<lparr> last_event = 0, reporter = ''git-events-runner'' \<rparr>, as_ready = False,
     as_source_clone_folder = ''/tmp'' \<rparr>"

definition no_controller_metrics :: controller_metrics where
  "no_controller_metrics = \<lparr> reconcile_count = [], failed_count = [] \<rparr>"

theorem controller_keeps_tasks_witness:
  "\<exists>ctx. controller_run sample_controller_env [sample_schedule_trigger None]
     (to_context sample_app_state empty_triggers_state no_controller_metrics, []) = Returns (ctx, [''t'']) \<and> ran (tasks (ctx_triggers ctx)) = {''t''}"
proof -
  obtain ctx where r: "controller_run sample_controller_env [sample_schedule_trigger None]
     (to_context sample_app_state empty_triggers_state no_controller_metrics, []) = Returns (ctx, [''t''])" using sample_controller_run by blast
  from controller_keeps_tasks [OF sample_controller_laws _ r] r show ?thesis by auto
qed

end
