(* ===== verification/Rate_Limit.thy ===== *)
theory Rate_Limit
  imports Complex_Main Cache
begin

text \<open>
  The request rate limits of the webhooks server (\<^verbatim>\<open>src/web.rs\<close>): parsing of a limit
  \<^verbatim>\<open>burst/period\<close> with its floating-point division, the keys under which requests are counted, and
  the layers added to the router. The limiter itself is the crate \<^verbatim>\<open>tower_governor\<close>; its builder
  is an argument.
\<close>

section \<open>Floating point\<close>

text \<open>
  The sources divide two positive integers as \<^verbatim>\<open>f64\<close>. Both steps round to 53 bits, ties to the
  even mantissa; no value here is subnormal, negative or infinite. A quotient is kept as an exact
  natural number, scaled by \<open>2 ^ 85\<close>: it is at least \<open>2 ^ -32\<close>, so its last bit is a multiple of
  \<open>2 ^ -85\<close>.
\<close>

definition round_div :: "nat \<Rightarrow> nat \<Rightarrow> nat" where
  "round_div n d =
     (let q = n div d; r = n mod d in
      if 2 * r < d \<or> (2 * r = d \<and> even q) then q else Suc q)"

fun bit_length :: "nat \<Rightarrow> nat" where
  "bit_length n = (if n = 0 then 0 else Suc (bit_length (n div 2)))"

declare bit_length.simps [simp del]

definition f64_round :: "nat \<Rightarrow> nat \<Rightarrow> nat" where
  "f64_round n d = (let k = bit_length (n div d) - 53 in round_div n (d * 2 ^ k) * 2 ^ k)"

definition f64_of_u64 :: "nat \<Rightarrow> nat" where
  "f64_of_u64 n = f64_round n 1"

definition f64_scale :: nat where
  "f64_scale = 2 ^ 85"

definition f64_div :: "nat \<Rightarrow> nat \<Rightarrow> nat" where
  "f64_div x y = f64_round (x * f64_scale) y"

text \<open>\<^verbatim>\<open>Duration::from_secs_f64\<close>: rounds to the nearest nanosecond, ties to even, and panics when the
  seconds do not fit 64 bits.\<close>

definition from_secs_f64 :: "nat \<Rightarrow> duration outcome" where
  "from_secs_f64 x =
     (if x < 2 ^ 64 * f64_scale then Returns (round_div (x * 1000000000) f64_scale)
      else Panics ''can not convert float seconds to Duration: value is either too big or NaN'')"

section \<open>Parameters of a limit\<close>

record requests_rate_limit_params =
  rrl_burst :: nat
  rrl_period :: duration

record request_rate_limits_config =
  rrl_global :: "requests_rate_limit_params option"
  rrl_trigger :: "requests_rate_limit_params option"
  rrl_source :: "requests_rate_limit_params option"

definition rrl_try_from :: "string \<Rightarrow> (error + requests_rate_limit_params) outcome" where
  "rrl_try_from value =
     (case split_on CHR ''/'' value of
        [b, p] \<Rightarrow>
          (case parse_uint (2 ^ 32) b of
             None \<Rightarrow> Returns (Inl (InvalidRequestRateLimit value))
           | Some burst \<Rightarrow>
               (case parse_uint (2 ^ 64) p of
                  None \<Rightarrow> Returns (Inl (InvalidRequestRateLimit value))
                | Some period \<Rightarrow>
                    if burst = 0 \<or> period = 0 then Returns (Inl (InvalidRequestRateLimit value))
                    else outcome_bind (from_secs_f64 (f64_div (f64_of_u64 period) burst)) (\<lambda>d.
                           Returns (Inr \<lparr> rrl_burst = burst, rrl_period = d \<rparr>))))
      | _ \<Rightarrow> Returns (Inl (InvalidRequestRateLimit value)))"

section \<open>Keys of requests\<close>

datatype requests_rate_limiter = GlobalLimit | TriggerLimit | SourceLimit

record rate_limiter_key =
  rlk_ns :: "string option"
  rlk_trigger :: "string option"
  rlk_source :: "string option"
  rlk_strip_source :: bool

definition default_rate_limiter_key :: rate_limiter_key where
  "default_rate_limiter_key =
     \<lparr> rlk_ns = None, rlk_trigger = None, rlk_source = None, rlk_strip_source = False \<rparr>"

definition rate_limiter_key_to_string :: "rate_limiter_key \<Rightarrow> string" where
  "rate_limiter_key_to_string k =
     (case rlk_ns k of Some ns \<Rightarrow> ns @ ''/'' | None \<Rightarrow> '''') @
     (case rlk_trigger k of Some t \<Rightarrow> t @ ''/'' | None \<Rightarrow> '''') @
     (if rlk_strip_source k then '''' else unwrap_or (rlk_source k) '''')"

fun rate_limiter_name :: "requests_rate_limiter \<Rightarrow> string" where
  "rate_limiter_name GlobalLimit = ''global''"
| "rate_limiter_name TriggerLimit = ''trigger''"
| "rate_limiter_name SourceLimit = ''trigger source''"

fun rate_limiter_key_name :: "requests_rate_limiter \<Rightarrow> rate_limiter_key \<Rightarrow> string option" where
  "rate_limiter_key_name GlobalLimit k = None"
| "rate_limiter_key_name TriggerLimit k = Some (rate_limiter_key_to_string k)"
| "rate_limiter_key_name SourceLimit k = Some (rate_limiter_key_to_string k)"

datatype governor_error = UnableToExtractKey

text \<open>\<open>uuid\<close> is the answer of \<^verbatim>\<open>Uuid::new_v4\<close> in this request.\<close>

fun extract_path_key ::
    "string \<Rightarrow> requests_rate_limiter \<Rightarrow> string \<Rightarrow> governor_error + rate_limiter_key" where
  "extract_path_key uuid GlobalLimit path = Inr default_rate_limiter_key"
| "extract_path_key uuid TriggerLimit path =
     (let parts = split_on CHR ''/'' path in
      if length parts < 3 \<or> parts ! 1 = [] \<or> parts ! 2 = [] then Inl UnableToExtractKey
      else Inr (default_rate_limiter_key\<lparr> rlk_ns := Some (parts ! 1), rlk_trigger := Some (parts ! 2) \<rparr>))"
| "extract_path_key uuid SourceLimit path =
     (let parts = split_on CHR ''/'' path in
      if 4 \<le> length parts \<and> \<not> (parts ! 1 = [] \<or> parts ! 2 = [] \<or> parts ! 3 = [])
      then Inr \<lparr> rlk_ns = Some (parts ! 1), rlk_trigger = Some (parts ! 2),
                 rlk_source = Some (parts ! 3), rlk_strip_source = False \<rparr>
      else if length parts < 3 \<or> parts ! 1 = [] \<or> parts ! 2 = [] then Inl UnableToExtractKey
      else Inr \<lparr> rlk_ns = Some (parts ! 1), rlk_trigger = Some (parts ! 2),
                 rlk_source = Some uuid, rlk_strip_source = True \<rparr>)"

section \<open>Layers\<close>

text \<open>\<open>finish\<close> is the builder of the governor crate for a key extractor, a burst size and a period; a
  router is the list of its layers, the outermost last.\<close>

type_synonym 'g governor_finish = "requests_rate_limiter \<Rightarrow> nat \<Rightarrow> duration \<Rightarrow> 'g option"

definition limiter_add_rrl_layer ::
    "'g governor_finish \<Rightarrow> requests_rate_limiter \<Rightarrow> nat \<Rightarrow> duration \<Rightarrow> 'g list \<Rightarrow> 'g list outcome" where
  "limiter_add_rrl_layer finish self burst period router =
     outcome_bind (unwrap (finish self burst period)) (\<lambda>config. Returns (router @ [config]))"

definition optional_rrl_layer ::
    "'g governor_finish \<Rightarrow> requests_rate_limiter \<Rightarrow> requests_rate_limit_params option \<Rightarrow>
     'g list \<Rightarrow> 'g list outcome" where
  "optional_rrl_layer finish limiter params router =
     (case params of
        Some rrl \<Rightarrow> limiter_add_rrl_layer finish limiter (rrl_burst rrl) (rrl_period rrl) router
      | None \<Rightarrow> Returns router)"

definition add_rrl_layer ::
    "'g governor_finish \<Rightarrow> request_rate_limits_config \<Rightarrow> 'g list \<Rightarrow> 'g list outcome" where
  "add_rrl_layer finish self router =
     outcome_bind (optional_rrl_layer finish GlobalLimit (rrl_global self) router) (\<lambda>r1.
     outcome_bind (optional_rrl_layer finish TriggerLimit (rrl_trigger self) r1) (\<lambda>r2.
     optional_rrl_layer finish SourceLimit (rrl_source self) r2))"

end
