(* ===== verification/Cli.thy ===== *)
theory Cli
  imports Rate_Limit Cache
begin

text \<open>
  The command line of the controller (\<^verbatim>\<open>src/cli.rs\<close>): the parameters with their declared defaults
  and ranges, the shared instance, the parser of rate limits and the TLS configuration. Parsing of
  the arguments is the \<^verbatim>\<open>clap\<close> crate; loading of a certificate is the \<^verbatim>\<open>axum-server\<close> crate, a field
  of the environment.
\<close>

section \<open>Parameters\<close>

definition DEFAULT_SOURCE_CLONE_FOLDER :: string where
  "DEFAULT_SOURCE_CLONE_FOLDER = ''/tmp/git-events-runner''"

definition DEFAULT_CONFIG_MAP_NAME :: string where
  "DEFAULT_CONFIG_MAP_NAME = ''git-events-runner-config''"

definition DEFAULT_LEADER_LOCK_LEASE_NAME :: string where
  "DEFAULT_LEADER_LOCK_LEASE_NAME = ''git-events-runner-leader-lock''"

definition DEFAULT_METRICS_PREFIX :: string where
  "DEFAULT_METRICS_PREFIX = ''git_events_runner''"

record cli_config =
  webhooks_port :: u16
  utility_port :: u16
  webhooks_parallelism :: u16
  schedule_parallelism :: u16
  secrets_cache_time :: u64
  source_clone_folder :: string
  config_map_name :: string
  leader_lease_name :: string
  leader_lease_duration :: u64
  leader_lease_grace :: u64
  metrics_prefix :: string
  hooks_rrl_global :: "requests_rate_limit_params option"
  hooks_rrl_trigger :: "requests_rate_limit_params option"
  hooks_rrl_source :: "requests_rate_limit_params option"
  tls_cert_path :: "string option"
  tls_key_path :: "string option"
  tls_secret_name :: "string option"
  tls_secret_namespace :: "string option"
  json_logs :: bool

text \<open>The parameters when no argument is given.\<close>

definition default_cli_config :: cli_config where
  "default_cli_config =
     \<lparr> webhooks_port = 8080, utility_port = 3000, webhooks_parallelism = 16, schedule_parallelism = 16,
       secrets_cache_time = 60, source_clone_folder = DEFAULT_SOURCE_CLONE_FOLDER,
       config_map_name = DEFAULT_CONFIG_MAP_NAME, leader_lease_name = DEFAULT_LEADER_LOCK_LEASE_NAME,
       leader_lease_duration = 30, leader_lease_grace = 5, metrics_prefix = DEFAULT_METRICS_PREFIX,
       hooks_rrl_global = None, hooks_rrl_trigger = None, hooks_rrl_source = None,
       tls_cert_path = None, tls_key_path = None, tls_secret_name = None, tls_secret_namespace = None,
       json_logs = False \<rparr>"

text \<open>What the declarations demand: the ranges, that the two TLS paths come together and exclude a
  secret, and that a namespace comes with a secret.\<close>

definition cli_config_ok :: "cli_config \<Rightarrow> bool" where
  "cli_config_ok c \<longleftrightarrow>
     1 \<le> webhooks_port c \<and> 1 \<le> utility_port c \<and>
     1 \<le> webhooks_parallelism c \<and> webhooks_parallelism c < 256 \<and>
     1 \<le> schedule_parallelism c \<and> schedule_parallelism c < 256 \<and>
     1 \<le> secrets_cache_time c \<and>
     1 \<le> leader_lease_duration c \<and> leader_lease_duration c < 301 \<and>
     1 \<le> leader_lease_grace c \<and> leader_lease_grace c < 301 \<and>
     (tls_cert_path c \<noteq> None \<longrightarrow> tls_key_path c \<noteq> None) \<and>
     (tls_key_path c \<noteq> None \<longrightarrow> tls_cert_path c \<noteq> None) \<and>
     (tls_cert_path c \<noteq> None \<or> tls_key_path c \<noteq> None \<longrightarrow>
        tls_secret_name c = None \<and> tls_secret_namespace c = None) \<and>
     (tls_secret_namespace c \<noteq> None \<longrightarrow> tls_secret_name c \<noteq> None)"

record cli_config_dump_options =
  helm_template :: bool

datatype cli_command = Crds | ConfigDump cli_config_dump_options | Run cli_config

text \<open>\<^verbatim>\<open>Cli::new\<close> on the parsed command, and \<^verbatim>\<open>CliConfig::get\<close>: the shared instance is set once.\<close>

definition cli_new :: "cli_command \<Rightarrow> cli_config option \<Rightarrow> (cli_command \<times> cli_config option) outcome" where
  "cli_new cli shared =
     (case cli of
        Run config \<Rightarrow>
          (case shared of
             None \<Rightarrow> Returns (Run config, Some config)
           | Some _ \<Rightarrow> Panics ''called Result::unwrap() on an Err value'')
      | _ \<Rightarrow> Returns (cli, shared))"

definition cli_config_get :: "cli_config option \<Rightarrow> cli_config outcome" where
  "cli_config_get shared = unwrap shared"

definition rrl_parser ::
    "(error finalizer_error \<Rightarrow> string) \<Rightarrow> string \<Rightarrow> (string + requests_rate_limit_params) outcome" where
  "rrl_parser fe s =
     outcome_bind (rrl_try_from s) (\<lambda>r.
       Returns (case r of Inl e \<Rightarrow> Inl (error_to_string fe e) | Inr p \<Rightarrow> Inr p))"

section \<open>TLS\<close>

record ('w, 't) tls_env = "'w secrets_env" +
  client_namespace :: string
  from_pem_file :: "string \<Rightarrow> string \<Rightarrow> 'w \<Rightarrow> (string + 't) \<times> 'w"
  from_pem :: "string \<Rightarrow> string \<Rightarrow> 'w \<Rightarrow> (string + 't) \<times> 'w"

text \<open>The errors: with a message in front, a secret that cannot be read, a rejected certificate.\<close>

datatype tls_error = TlsContext string | TlsSecret error | TlsIo string

definition missing_key_error :: "string \<Rightarrow> string \<Rightarrow> tls_error" where
  "missing_key_error key secret_name =
     TlsSecret (SecretDecodingError (''no `'' @ key @ ''` key in the secret `'' @ secret_name @ ''`''))"

definition tls_from_data ::
    "('w, 't, 'z) tls_env_scheme \<Rightarrow> string \<Rightarrow> secret_data \<Rightarrow> 'w \<Rightarrow> (tls_error + 't option) \<times> 'w" where
  "tls_from_data env secret_name secret_data w =
     (case secret_data ''tls.crt'' of
        None \<Rightarrow> (Inl (missing_key_error ''tls.crt'' secret_name), w)
      | Some cert \<Rightarrow>
          (case from_utf8 cert of
             None \<Rightarrow> (Inl (TlsContext ''TLS cert is not a valid UTF-8 string''), w)
           | Some cert \<Rightarrow>
               (case secret_data ''tls.key'' of
                  None \<Rightarrow> (Inl (missing_key_error ''tls.key'' secret_name), w)
                | Some key \<Rightarrow>
                    (case from_utf8 key of
                       None \<Rightarrow> (Inl (TlsContext ''TLS key is not a valid UTF-8 string''), w)
                     | Some key \<Rightarrow>
                         (case from_pem env cert key w of
                            (Inl e, w1) \<Rightarrow> (Inl (TlsIo e), w1)
                          | (Inr config, w1) \<Rightarrow> (Inr (Some config), w1))))))"

definition build_tls_config ::
    "('w, 't, 'z) tls_env_scheme \<Rightarrow> cli_config \<Rightarrow> 'w \<Rightarrow> (tls_error + 't option) \<times> 'w" where
  "build_tls_config env self w =
     (case (tls_cert_path self, tls_key_path self, tls_secret_name self) of
        (Some cert, Some key, _) \<Rightarrow>
          (case from_pem_file env cert key w of
             (Inl e, w1) \<Rightarrow>
               (Inl (TlsContext (''Unable to apply TLS config with cert='' @ cert @ '' and key='' @ key)), w1)
           | (Inr config, w1) \<Rightarrow> (Inr (Some config), w1))
      | (_, _, Some secret_name) \<Rightarrow>
          (case get_secret env (unwrap_or (tls_secret_namespace self) (client_namespace env)) secret_name w of
             (Inl e, w1) \<Rightarrow> (Inl (TlsContext (''Unable to get TLS secret '' @ secret_name)), w1)
           | (Inr None, w1) \<Rightarrow>
               (Inl (TlsSecret (SecretDecodingError (''no `data` part in the secret `'' @ secret_name @ ''`''))), w1)
           | (Inr (Some secret_data), w1) \<Rightarrow> tls_from_data env secret_name secret_data w1)
      | (_, _, _) \<Rightarrow> (Inr None, w))"

end
