(* ===== verification/Web_Server.thy ===== *)
theory Web_Server
  imports Web Rate_Limit Controller
begin

text \<open>
  The two HTTP servers (\<^verbatim>\<open>src/web.rs\<close>): their routes, how they are built, and how the webhooks
  server ends. The router of axum is an argument: whether it accepts a path, since it panics on one
  it does not accept.
\<close>

section \<open>Routes\<close>

datatype http_method = GET | POST

datatype web_handler = HandleReady | HandleAlive | HandleMetrics | HandlePostTrigger | HandlePostSource

type_synonym route = "string \<times> http_method \<times> web_handler"

definition utils_routes :: "route list" where
  "utils_routes =
     [(''/ready'', GET, HandleReady), (''/alive'', GET, HandleAlive), (''/metrics'', GET, HandleMetrics)]"

definition hooks_routes :: "route list" where
  "hooks_routes =
     [(''/:namespace/:trigger'', POST, HandlePostTrigger),
      (''/:namespace/:trigger/:source'', POST, HandlePostSource)]"

text \<open>\<^verbatim>\<open>Router::route\<close> for one route after the other.\<close>

fun add_routes :: "(string \<Rightarrow> bool) \<Rightarrow> route list \<Rightarrow> route list \<Rightarrow> route list outcome" where
  "add_routes accepts [] router = Returns router"
| "add_routes accepts (r # rs) router =
     (if accepts (fst r) then add_routes accepts rs (router @ [r]) else Panics ''invalid route'')"

definition handle_alive :: "nat \<times> string" where
  "handle_alive = (200, ''Alive'')"

section \<open>Building the servers\<close>

record ('w, 'g) server_env =
  route_accepts :: "string \<Rightarrow> bool"
  bind_listener :: "u16 \<Rightarrow> 'w \<Rightarrow> (string + unit) \<times> 'w"
  governor_finish :: "'g governor_finish"

text \<open>A server for readiness and metrics that listens on its port, with the state its handlers get.\<close>

record utils_web =
  uw_port :: u16
  uw_app :: "route list"
  uw_state :: app_state

definition build_utils_web ::
    "('w, 'g, 'z) server_env_scheme \<Rightarrow> app_state \<Rightarrow> u16 \<Rightarrow> 'w \<Rightarrow> (utils_web \<times> 'w) outcome" where
  "build_utils_web env st port_number w =
     outcome_bind (add_routes (route_accepts env) utils_routes []) (\<lambda>app.
       (case bind_listener env port_number w of
          (Inl e, w1) \<Rightarrow> Panics ''unable to create Utility beb listener''
        | (Inr _, w1) \<Rightarrow> Returns (\<lparr> uw_port = port_number, uw_app = app, uw_state = st \<rparr>, w1)))"

text \<open>The webhooks server binds its address in the future that runs it, over TLS when there is a
  configuration.\<close>

datatype 't web_listener = Bind u16 | BindRustls u16 't

definition hooks_web_listener :: "u16 \<Rightarrow> 't option \<Rightarrow> 't web_listener" where
  "hooks_web_listener port_number tls_config =
     (case tls_config of Some tls \<Rightarrow> BindRustls port_number tls | None \<Rightarrow> Bind port_number)"

text \<open>The webhooks server: its listener, its routes with the layers of the rate limits, and the state of
  its handlers. A scheduler is given by the limit of its parallelism.\<close>

record ('t, 'g) hooks_web =
  hw_listener :: "'t web_listener"
  hw_app :: "route list"
  hw_layers :: "'g list"
  hw_scheduler :: u16
  hw_source_clone_folder :: string

definition build_hooks_web ::
    "('w, 'g, 'z) server_env_scheme \<Rightarrow> u16 \<Rightarrow> u16 \<Rightarrow> string \<Rightarrow> request_rate_limits_config \<Rightarrow> 't option \<Rightarrow>
     ('t, 'g) hooks_web outcome" where
  "build_hooks_web env scheduler port_number folder limits tls_config =
     outcome_bind (add_routes (route_accepts env) hooks_routes []) (\<lambda>app.
     outcome_bind (add_rrl_layer (governor_finish env) limits []) (\<lambda>layers.
       Returns \<lparr> hw_listener = hooks_web_listener port_number tls_config, hw_app = app, hw_layers = layers,
                 hw_scheduler = scheduler, hw_source_clone_folder = folder \<rparr>))"

text \<open>
  The future of the webhooks server: it ends its \<^verbatim>\<open>select!\<close> when the shutdown channel changes, and
  then asks the server for a graceful shutdown, or when the server ends, with or without an error;
  either way it shuts the scheduler down.
\<close>

datatype hooks_web_event = ShutdownChanged | ServerEnded "string + unit"

record 'w hooks_web_env = "'w shutdown_env" +
  graceful_shutdown :: "'w \<Rightarrow> 'w"

definition hooks_web_future ::
    "('w, 'z) hooks_web_env_scheme \<Rightarrow> hooks_web_event \<Rightarrow> 'w \<Rightarrow> (bool \<times> 'w) outcome" where
  "hooks_web_future env ev w =
     (case ev of
        ShutdownChanged \<Rightarrow> hooks_web_shutdown env (graceful_shutdown env w)
      | ServerEnded res \<Rightarrow> hooks_web_shutdown env w)"

section \<open>Lemmas\<close>

lemma add_routes_Returns:
  "add_routes accepts rs router = Returns app \<longleftrightarrow> (\<forall>r \<in> set rs. accepts (fst r)) \<and> app = router @ rs"
  by (induction rs arbitrary: router) auto

lemma add_routes_Panics:
  "(\<exists>m. add_routes accepts rs router = Panics m) \<longleftrightarrow> (\<exists>r \<in> set rs. \<not> accepts (fst r))"
  by (induction rs arbitrary: router) auto

end
