(* ===== verification/Metrics.thy ===== *)
theory Metrics
  imports Complex_Main Cli Jobs
begin

text \<open>
  The Prometheus metrics of the four components that have them (\<^verbatim>\<open>src/jobs.rs\<close>,
  \<^verbatim>\<open>src/controller.rs\<close>, \<^verbatim>\<open>src/resources/trigger.rs\<close>, \<^verbatim>\<open>src/web.rs\<close>): their definitions, their
  registration, and the lazily initialised statics that hold them. A static is initialised by its
  first user; when that panics it is poisoned and every later use panics as well, while the other
  tasks of the process go on. The constructors and the registry are those of the \<^verbatim>\<open>prometheus\<close> crate
  and are arguments.
\<close>

section \<open>Definitions of metrics\<close>

datatype metric_kind = IntGauge | Histogram | IntCounterVec | HistogramVec

text \<open>Buckets are the decimal literals of the source, in seconds.\<close>

record metric_def =
  mt_kind :: metric_kind
  mt_name :: string
  mt_help :: string
  mt_labels :: "string list"
  mt_buckets :: "rat list"

definition int_gauge :: "string \<Rightarrow> string \<Rightarrow> metric_def" where
  "int_gauge name help = \<lparr> mt_kind = IntGauge, mt_name = name, mt_help = help, mt_labels = [], mt_buckets = [] \<rparr>"

definition histogram :: "string \<Rightarrow> string \<Rightarrow> rat list \<Rightarrow> metric_def" where
  "histogram name help buckets =
     \<lparr> mt_kind = Histogram, mt_name = name, mt_help = help, mt_labels = [], mt_buckets = buckets \<rparr>"

definition int_counter_vec :: "string \<Rightarrow> string \<Rightarrow> string list \<Rightarrow> metric_def" where
  "int_counter_vec name help labels =
     \<lparr> mt_kind = IntCounterVec, mt_name = name, mt_help = help, mt_labels = labels, mt_buckets = [] \<rparr>"

definition histogram_vec :: "string \<Rightarrow> string \<Rightarrow> rat list \<Rightarrow> string list \<Rightarrow> metric_def" where
  "histogram_vec name help buckets labels =
     \<lparr> mt_kind = HistogramVec, mt_name = name, mt_help = help, mt_labels = labels, mt_buckets = buckets \<rparr>"

lemmas metric_constructors = int_gauge_def histogram_def int_counter_vec_def histogram_vec_def

record 'r prometheus =
  metric_new :: "metric_def \<Rightarrow> string + unit"
  registry_add :: "metric_def \<Rightarrow> 'r \<Rightarrow> string + 'r"

text \<open>A constructor with its \<^verbatim>\<open>unwrap\<close>.\<close>

definition new_metric :: "('r, 'z) prometheus_scheme \<Rightarrow> metric_def \<Rightarrow> metric_def outcome" where
  "new_metric prom m =
     (case metric_new prom m of Inl e \<Rightarrow> Panics ''called Result::unwrap() on an Err value'' | Inr _ \<Rightarrow> Returns m)"

text \<open>Calls of \<^verbatim>\<open>register\<close>, each with its \<^verbatim>\<open>unwrap\<close>, in order; what was registered before a panic stays
  in the registry.\<close>

fun register_all :: "('r, 'z) prometheus_scheme \<Rightarrow> metric_def list \<Rightarrow> 'r \<Rightarrow> unit outcome \<times> 'r" where
  "register_all prom [] r = (Returns (), r)"
| "register_all prom (m # ms) r =
     (case registry_add prom m r of
        Inl e \<Rightarrow> (Panics ''called Result::unwrap() on an Err value'', r)
      | Inr r1 \<Rightarrow> register_all prom ms r1)"

definition register_self ::
    "('r, 'z) prometheus_scheme \<Rightarrow> ('a \<Rightarrow> metric_def list) \<Rightarrow> 'a \<Rightarrow> 'r \<Rightarrow> 'a outcome \<times> 'r" where
  "register_self prom metrics_of self r =
     (case register_all prom (metrics_of self) r of (o1, r1) \<Rightarrow> (outcome_bind o1 (\<lambda>_. Returns self), r1))"

section \<open>Jobs queue\<close>

record jobs_metric_set =
  jm_current_limit :: metric_def
  jm_running_jobs :: metric_def
  jm_waiting_jobs :: metric_def
  jm_waiting_duration :: metric_def
  jm_completed_count :: metric_def
  jm_completed_duration :: metric_def

definition completed_label_names :: "string list" where
  "completed_label_names =
     [''namespace'', ''trigger_kind'', ''trigger_name'', ''source_kind'', ''source_name'', ''action_kind'',
      ''action_name'', ''status'']"

definition jobs_metrics_default ::
    "('r, 'z) prometheus_scheme \<Rightarrow> cli_config option \<Rightarrow> jobs_metric_set outcome" where
  "jobs_metrics_default prom shared =
     outcome_bind (cli_config_get shared) (\<lambda>cli_config.
     outcome_bind (new_metric prom (int_gauge (metrics_prefix cli_config @ ''_jobs_queue_limit'')
       ''The limit of simultaneously running jobs'')) (\<lambda>current_limit.
     outcome_bind (new_metric prom (int_gauge (metrics_prefix cli_config @ ''_jobs_queue_running'')
       ''The current number of waiting in the queue jobs'')) (\<lambda>running.
     outcome_bind (new_metric prom (int_gauge (metrics_prefix cli_config @ ''_jobs_queue_waiting'')
       ''The current number of runnings jobs'')) (\<lambda>waiting.
     outcome_bind (new_metric prom (histogram (metrics_prefix cli_config @ ''_jobs_queue_waiting_duration_seconds'')
       ''The jobs queue waiting time in seconds'' [1/10, 1/2, 1, 2, 5, 10, 20, 60])) (\<lambda>waiting_duration.
     outcome_bind (new_metric prom (int_counter_vec (metrics_prefix cli_config @ ''_jobs_queue_completed_count'')
       ''The number completed jobs'' completed_label_names)) (\<lambda>completed_count.
     outcome_bind (new_metric prom (histogram_vec (metrics_prefix cli_config @ ''_jobs_queue_completed_duration_seconds'')
       ''The jobs execution time in seconds'' [1, 5, 10, 30, 60, 120, 300] completed_label_names)) (\<lambda>completed_duration.
       Returns \<lparr> jm_current_limit = current_limit, jm_running_jobs = running, jm_waiting_jobs = waiting,
         jm_waiting_duration = waiting_duration, jm_completed_count = completed_count,
         jm_completed_duration = completed_duration \<rparr>)))))))"

definition jobs_metrics_register ::
    "('r, 'z) prometheus_scheme \<Rightarrow> jobs_metric_set \<Rightarrow> 'r \<Rightarrow> jobs_metric_set outcome \<times> 'r" where
  "jobs_metrics_register prom =
     register_self prom (\<lambda>self. [jm_current_limit self, jm_running_jobs self, jm_waiting_jobs self,
       jm_waiting_duration self, jm_completed_count self, jm_completed_duration self])"

section \<open>Controller\<close>

record controller_metric_set =
  cm_reconcile_duration :: metric_def
  cm_reconcile_count :: metric_def
  cm_failed_count :: metric_def

definition reconcile_label_names :: "string list" where
  "reconcile_label_names = [''namespace'', ''resource_kind'', ''resource_name'']"

definition controller_metrics_default ::
    "('r, 'z) prometheus_scheme \<Rightarrow> cli_config option \<Rightarrow> controller_metric_set outcome" where
  "controller_metrics_default prom shared =
     outcome_bind (cli_config_get shared) (\<lambda>cli_config.
     outcome_bind (new_metric prom (int_counter_vec (metrics_prefix cli_config @ ''_reconcile_count'')
       ''The number reconciliations'' reconcile_label_names)) (\<lambda>reconcile_count.
     outcome_bind (new_metric prom (int_counter_vec (metrics_prefix cli_config @ ''_failed_reconcile_count'')
       ''The number failed reconciliations'' reconcile_label_names)) (\<lambda>failed_count.
     outcome_bind (new_metric prom (histogram_vec (metrics_prefix cli_config @ ''_reconcile_duration_seconds'')
       ''The duration of reconciliations'' [1/1000, 1/100, 1/10, 1/2, 1, 2] reconcile_label_names)) (\<lambda>reconcile_duration.
       Returns \<lparr> cm_reconcile_duration = reconcile_duration, cm_reconcile_count = reconcile_count,
         cm_failed_count = failed_count \<rparr>))))"

definition controller_metrics_register ::
    "('r, 'z) prometheus_scheme \<Rightarrow> controller_metric_set \<Rightarrow> 'r \<Rightarrow> controller_metric_set outcome \<times> 'r" where
  "controller_metrics_register prom =
     register_self prom (\<lambda>self. [cm_reconcile_count self, cm_reconcile_duration self, cm_failed_count self])"

section \<open>Triggers\<close>

record trigger_metric_set =
  tm_trigger_check_duration :: metric_def
  tm_trigger_check_count :: metric_def

definition trigger_label_names :: "string list" where
  "trigger_label_names = [''namespace'', ''trigger_kind'', ''trigger_name'']"

definition trigger_metrics_default ::
    "('r, 'z) prometheus_scheme \<Rightarrow> cli_config option \<Rightarrow> trigger_metric_set outcome" where
  "trigger_metrics_default prom shared =
     outcome_bind (cli_config_get shared) (\<lambda>cli_config.
     outcome_bind (new_metric prom (int_counter_vec (metrics_prefix cli_config @ ''_trigger_check_count'')
       ''The number trigger checks for changes'' trigger_label_names)) (\<lambda>trigger_check_count.
     outcome_bind (new_metric prom (histogram_vec (metrics_prefix cli_config @ ''_trigger_check_duration_seconds'')
       ''The duration of trigger checks for changes'' [1/10, 1, 2, 5, 10, 30, 60] trigger_label_names)) (\<lambda>trigger_check_duration.
       Returns \<lparr> tm_trigger_check_duration = trigger_check_duration,
         tm_trigger_check_count = trigger_check_count \<rparr>)))"

definition trigger_metrics_register ::
    "('r, 'z) prometheus_scheme \<Rightarrow> trigger_metric_set \<Rightarrow> 'r \<Rightarrow> trigger_metric_set outcome \<times> 'r" where
  "trigger_metrics_register prom =
     register_self prom (\<lambda>self. [tm_trigger_check_count self, tm_trigger_check_duration self])"

section \<open>Webhooks\<close>

record web_metric_set =
  wm_duration :: metric_def
  wm_count :: metric_def

definition web_label_names :: "string list" where
  "web_label_names = [''namespace'', ''trigger_name'', ''status'']"

definition web_metrics_default ::
    "('r, 'z) prometheus_scheme \<Rightarrow> cli_config option \<Rightarrow> web_metric_set outcome" where
  "web_metrics_default prom shared =
     outcome_bind (cli_config_get shared) (\<lambda>cli_config.
     outcome_bind (new_metric prom (histogram_vec (metrics_prefix cli_config @ ''_webhook_requests_duration_seconds'')
       ''The time of webhook request scheduling in seconds'' [1/1000, 1/100, 1/10, 1/2, 1] web_label_names)) (\<lambda>duration.
     outcome_bind (new_metric prom (int_counter_vec (metrics_prefix cli_config @ ''_webhook_requests_count'')
       ''The number of webhook requests'' web_label_names)) (\<lambda>count.
       Returns \<lparr> wm_duration = duration, wm_count = count \<rparr>)))"

definition web_metrics_register ::
    "('r, 'z) prometheus_scheme \<Rightarrow> web_metric_set \<Rightarrow> 'r \<Rightarrow> web_metric_set outcome \<times> 'r" where
  "web_metrics_register prom = register_self prom (\<lambda>self. [wm_duration self, wm_count self])"

section \<open>The statics\<close>

text \<open>\<^verbatim>\<open>LazyLock\<close>: not yet forced, holding its value, or poisoned by a panic of its initialiser.\<close>

datatype 'a lazy_lock = LazyUninit | LazyReady 'a | LazyPoisoned

definition lazy_force :: "('r \<Rightarrow> 'a outcome \<times> 'r) \<Rightarrow> 'a lazy_lock \<Rightarrow> 'r \<Rightarrow> 'a outcome \<times> 'a lazy_lock \<times> 'r" where
  "lazy_force init l r =
     (case l of
        LazyReady x \<Rightarrow> (Returns x, l, r)
      | LazyPoisoned \<Rightarrow> (Panics ''LazyLock instance has previously been poisoned'', l, r)
      | LazyUninit \<Rightarrow>
          (case init r of
             (Returns x, r1) \<Rightarrow> (Returns x, LazyReady x, r1)
           | (Panics m, r1) \<Rightarrow> (Panics m, LazyPoisoned, r1)))"

text \<open>\<^verbatim>\<open>Metrics::default().register()\<close>, for a component's two operations.\<close>

definition metrics_init ::
    "'a outcome \<Rightarrow> ('a \<Rightarrow> 'r \<Rightarrow> 'a outcome \<times> 'r) \<Rightarrow> 'r \<Rightarrow> 'a outcome \<times> 'r" where
  "metrics_init dflt reg r = (case dflt of Returns self \<Rightarrow> reg self r | Panics m \<Rightarrow> (Panics m, r))"

record 'r metrics_statics =
  mst_registry :: 'r
  mst_jobs :: "jobs_metric_set lazy_lock"
  mst_controller :: "controller_metric_set lazy_lock"
  mst_trigger :: "trigger_metric_set lazy_lock"
  mst_web :: "web_metric_set lazy_lock"

definition initial_statics :: "'r \<Rightarrow> 'r metrics_statics" where
  "initial_statics r =
     \<lparr> mst_registry = r, mst_jobs = LazyUninit, mst_controller = LazyUninit, mst_trigger = LazyUninit,
       mst_web = LazyUninit \<rparr>"

definition jobs_METRICS ::
    "('r, 'z) prometheus_scheme \<Rightarrow> cli_config option \<Rightarrow> 'r metrics_statics \<Rightarrow>
     jobs_metric_set outcome \<times> 'r metrics_statics" where
  "jobs_METRICS prom shared s =
     (case lazy_force (metrics_init (jobs_metrics_default prom shared) (jobs_metrics_register prom))
             (mst_jobs s) (mst_registry s) of
        (x, l, r) \<Rightarrow> (x, s\<lparr> mst_jobs := l, mst_registry := r \<rparr>))"

definition controller_METRICS ::
    "('r, 'z) prometheus_scheme \<Rightarrow> cli_config option \<Rightarrow> 'r metrics_statics \<Rightarrow>
     controller_metric_set outcome \<times> 'r metrics_statics" where
  "controller_METRICS prom shared s =
     (case lazy_force (metrics_init (controller_metrics_default prom shared) (controller_metrics_register prom))
             (mst_controller s) (mst_registry s) of
        (x, l, r) \<Rightarrow> (x, s\<lparr> mst_controller := l, mst_registry := r \<rparr>))"

definition trigger_METRICS ::
    "('r, 'z) prometheus_scheme \<Rightarrow> cli_config option \<Rightarrow> 'r metrics_statics \<Rightarrow>
     trigger_metric_set outcome \<times> 'r metrics_statics" where
  "trigger_METRICS prom shared s =
     (case lazy_force (metrics_init (trigger_metrics_default prom shared) (trigger_metrics_register prom))
             (mst_trigger s) (mst_registry s) of
        (x, l, r) \<Rightarrow> (x, s\<lparr> mst_trigger := l, mst_registry := r \<rparr>))"

definition web_METRICS ::
    "('r, 'z) prometheus_scheme \<Rightarrow> cli_config option \<Rightarrow> 'r metrics_statics \<Rightarrow>
     web_metric_set outcome \<times> 'r metrics_statics" where
  "web_METRICS prom shared s =
     (case lazy_force (metrics_init (web_metrics_default prom shared) (web_metrics_register prom))
             (mst_web s) (mst_registry s) of
        (x, l, r) \<Rightarrow> (x, s\<lparr> mst_web := l, mst_registry := r \<rparr>))"

text \<open>A use of one of the statics, whichever component it belongs to: whether it panics, and the
  statics after it.\<close>

datatype metrics_user = JobsUser | ControllerUser | TriggerUser | WebUser

definition use_metrics ::
    "('r, 'z) prometheus_scheme \<Rightarrow> cli_config option \<Rightarrow> metrics_user \<Rightarrow> 'r metrics_statics \<Rightarrow>
     unit outcome \<times> 'r metrics_statics" where
  "use_metrics prom shared user s =
     (case user of
        JobsUser \<Rightarrow> (case jobs_METRICS prom shared s of (x, s1) \<Rightarrow> (outcome_bind x (\<lambda>_. Returns ()), s1))
      | ControllerUser \<Rightarrow> (case controller_METRICS prom shared s of (x, s1) \<Rightarrow> (outcome_bind x (\<lambda>_. Returns ()), s1))
      | TriggerUser \<Rightarrow> (case trigger_METRICS prom shared s of (x, s1) \<Rightarrow> (outcome_bind x (\<lambda>_. Returns ()), s1))
      | WebUser \<Rightarrow> (case web_METRICS prom shared s of (x, s1) \<Rightarrow> (outcome_bind x (\<lambda>_. Returns ()), s1)))"

fun use_all ::
    "('r, 'z) prometheus_scheme \<Rightarrow> cli_config option \<Rightarrow> metrics_user list \<Rightarrow> 'r metrics_statics \<Rightarrow>
     unit outcome list \<times> 'r metrics_statics" where
  "use_all prom shared [] s = ([], s)"
| "use_all prom shared (u # us) s =
     (case use_metrics prom shared u s of (x, s1) \<Rightarrow>
      (case use_all prom shared us s1 of (xs, s2) \<Rightarrow> (x # xs, s2)))"

text \<open>
  A request, a run of a trigger's task or a reconciliation ends with a use of its component's static:
  a panic there ends it although its work is done.
\<close>

definition with_metrics ::
    "('r, 'z) prometheus_scheme \<Rightarrow> cli_config option \<Rightarrow> metrics_user \<Rightarrow> 'a outcome \<Rightarrow> 'r metrics_statics \<Rightarrow>
     'a outcome \<times> 'r metrics_statics" where
  "with_metrics prom shared user x s =
     (case x of
        Panics m \<Rightarrow> (Panics m, s)
      | Returns a \<Rightarrow>
          (case use_metrics prom shared user s of
             (Panics m, s1) \<Rightarrow> (Panics m, s1)
           | (Returns _, s1) \<Rightarrow> (Returns a, s1)))"

section \<open>Start of the jobs queue\<close>

text \<open>
  \<^verbatim>\<open>JobsQueue::init_and_watch\<close> up to its event loops: the shared queue is set, which panics when it
  was set before, and the gauges are updated. A panic ends the task of the queue: its receivers are
  dropped and nothing listens to the queue any more, but the shared queue stays set.
\<close>

definition jobs_queue_start ::
    "('r, 'z) prometheus_scheme \<Rightarrow> cli_config option \<Rightarrow> runtime_config \<Rightarrow> string \<Rightarrow>
     jobs_queue option \<times> 'r metrics_statics \<Rightarrow> unit outcome \<times> jobs_queue option \<times> 'r metrics_statics" where
  "jobs_queue_start prom shared cfg ident qs =
     (case qs of
        (Some q, s) \<Rightarrow> (Panics ''called Result::unwrap() on an Err value'', Some q, s)
      | (None, s) \<Rightarrow>
          (let q = init_jobs_queue ident; dead = q\<lparr> event_loop_alive := False \<rparr> in
           (case jobs_METRICS prom shared s of
              (Panics m, s1) \<Rightarrow> (Panics m, Some dead, s1)
            | (Returns _, s1) \<Rightarrow>
                (case update_gauges cfg 0 q of
                   Panics m \<Rightarrow> (Panics m, Some dead, s1)
                 | Returns q1 \<Rightarrow> (Returns (), Some q1, s1)))))"

end
