(* ===== verification/Signals.thy ===== *)
theory Signals
  imports Prelude
begin

text \<open>
  Unix signals (\<^verbatim>\<open>src/signals.rs\<close>): the registration of the four handlers and the wait for any of
  them. A registration is tokio's and a field of the environment; it answers a stream of signals
  or an error. Whether a stream has something to receive is asked when the wait is polled.
\<close>

datatype signal_kind = Terminate | Interrupt | Quit | Hangup

record ('w, 's) signal_env =
  signal_register :: "signal_kind \<Rightarrow> 'w \<Rightarrow> (string + 's) \<times> 'w"

record 's signal_handler =
  sh_terminate :: 's
  sh_interrupt :: 's
  sh_quit :: 's
  sh_hangup :: 's

definition signal_handler_new ::
    "('w, 's, 'z) signal_env_scheme \<Rightarrow> 'w \<Rightarrow> (string + 's signal_handler) \<times> 'w" where
  "signal_handler_new env w =
     (case signal_register env Terminate w of
        (Inl e, w1) \<Rightarrow> (Inl e, w1)
      | (Inr t, w1) \<Rightarrow>
          (case signal_register env Interrupt w1 of
             (Inl e, w2) \<Rightarrow> (Inl e, w2)
           | (Inr i, w2) \<Rightarrow>
               (case signal_register env Quit w2 of
                  (Inl e, w3) \<Rightarrow> (Inl e, w3)
                | (Inr q, w3) \<Rightarrow>
                    (case signal_register env Hangup w3 of
                       (Inl e, w4) \<Rightarrow> (Inl e, w4)
                     | (Inr h, w4) \<Rightarrow>
                         (Inr \<lparr> sh_terminate = t, sh_interrupt = i, sh_quit = q, sh_hangup = h \<rparr>, w4)))))"

text \<open>
  A poll of \<^verbatim>\<open>wait_for_signal\<close>: \<^verbatim>\<open>select!\<close> polls its branches one after the other from a random
  one on, and the first that is ready decides; \<open>None\<close> means that the wait goes on.
\<close>

definition signal_branches :: "'s signal_handler \<Rightarrow> ('s \<times> string) list" where
  "signal_branches self =
     [(sh_terminate self, ''TERM''), (sh_interrupt self, ''INT''), (sh_quit self, ''QUIT''), (sh_hangup self, ''HANGUP'')]"

definition wait_for_signal :: "nat \<Rightarrow> ('s \<Rightarrow> bool) \<Rightarrow> 's signal_handler \<Rightarrow> string option" where
  "wait_for_signal start ready self =
     map_option snd (find (\<lambda>(s, name). ready s) (rotate start (signal_branches self)))"

section \<open>Any signal ends the wait\<close>

lemma signal_handler_new_iff:
  "(\<exists>h w'. signal_handler_new env w = (Inr h, w')) \<longleftrightarrow>
     (\<exists>t w1 i w2 q w3 h w4. signal_register env Terminate w = (Inr t, w1) \<and> signal_register env Interrupt w1 = (Inr i, w2) \<and>
        signal_register env Quit w2 = (Inr q, w3) \<and> signal_register env Hangup w3 = (Inr h, w4))"
  by (auto simp: signal_handler_new_def split: sum.splits prod.splits)

lemma find_None_rotate: "find P (rotate n xs) = None \<longleftrightarrow> find P xs = None"
  by (simp add: find_None_iff)

lemma find_SomeD: "find P xs = Some x \<Longrightarrow> P x \<and> x \<in> set xs"
  by (metis find_Some_iff nth_mem)

text \<open>Whatever branch is polled first: the wait ends exactly when one of the four streams has a
  signal, and names one that has.\<close>

lemma wait_for_signal_ends:
  "(\<exists>name. wait_for_signal start ready h = Some name) \<longleftrightarrow>
     ready (sh_terminate h) \<or> ready (sh_interrupt h) \<or> ready (sh_quit h) \<or> ready (sh_hangup h)"
proof -
  have "wait_for_signal start ready h = None \<longleftrightarrow> find (\<lambda>(s, name). ready s) (signal_branches h) = None"
    by (simp add: wait_for_signal_def find_None_rotate)
  also have "\<dots> \<longleftrightarrow> \<not> (ready (sh_terminate h) \<or> ready (sh_interrupt h) \<or> ready (sh_quit h) \<or> ready (sh_hangup h))"
    by (simp add: find_None_iff signal_branches_def)
  finally show ?thesis by (cases "wait_for_signal start ready h") auto
qed

lemma wait_for_signal_names:
  "wait_for_signal start ready h = Some name \<Longrightarrow> \<exists>s. (s, name) \<in> set (signal_branches h) \<and> ready s"
  by (auto simp: wait_for_signal_def dest!: find_SomeD)

end
