(* ===== verification/Tracing.thy ===== *)
theory Tracing
  imports Prelude
begin

text \<open>
  Set-up of logging and tracing (\<^verbatim>\<open>src/bin/git-events-runner.rs\<close>): the filter from the environment
  or its default, the format of the log, the exporter of traces when an endpoint is configured,
  and the global subscriber, which can be set once. Filters and exporters belong to the tracing and
  OpenTelemetry crates.
\<close>

definition OPENTELEMETRY_ENDPOINT_URL_ENV_NAME :: string where
  "OPENTELEMETRY_ENDPOINT_URL_ENV_NAME = ''OPENTELEMETRY_ENDPOINT_URL''"

definition CARGO_PKG_NAME :: string where
  "CARGO_PKG_NAME = ''git-events-runner''"

text \<open>The two layers of the log with the options that the code sets.\<close>

datatype logger_layer =
    JsonLayer (with_target: bool) (flatten_event: bool) (with_span_list: bool) (with_current_span: bool)
  | CompactLayer (with_target: bool)

definition get_logger_layer :: "bool \<Rightarrow> logger_layer" where
  "get_logger_layer json = (if json then JsonLayer True True False False else CompactLayer True)"

text \<open>The parsed filter of the default variable or of a text, the process environment, and the
  exporter for an endpoint.\<close>

record ('f, 'x) tracing_env =
  filter_from_default_env :: "string + 'f"
  filter_try_new :: "string \<Rightarrow> string + 'f"
  process_env :: "string \<Rightarrow> string option"
  span_exporter_build :: "string \<Rightarrow> string + 'x"

record 'x trace_provider =
  tp_exporter :: 'x
  tp_service_name :: string

definition get_trace_provider :: "('f, 'x, 'z) tracing_env_scheme \<Rightarrow> 'x trace_provider option outcome" where
  "get_trace_provider env =
     (case process_env env OPENTELEMETRY_ENDPOINT_URL_ENV_NAME of
        Some otlp_endpoint \<Rightarrow>
          (case span_exporter_build env otlp_endpoint of
             Inl e \<Rightarrow> Panics ''called Result::unwrap() on an Err value''
           | Inr otlp_exporter \<Rightarrow>
               Returns (Some \<lparr> tp_exporter = otlp_exporter, tp_service_name = CARGO_PKG_NAME \<rparr>))
      | None \<Rightarrow> Returns None)"

text \<open>The subscriber: the layer of the log, the filter and, with a provider, the tracer's name.\<close>

record ('f, 'x) subscriber =
  sb_logger :: logger_layer
  sb_filter :: 'f
  sb_tracer :: "('x trace_provider \<times> string) option"

definition set_global_default :: "'s \<Rightarrow> 's option \<Rightarrow> 's option outcome" where
  "set_global_default sub global =
     (case global of None \<Rightarrow> Returns (Some sub) | Some _ \<Rightarrow> Panics ''called Result::unwrap() on an Err value'')"

definition setup_tracing ::
    "('f, 'x, 'z) tracing_env_scheme \<Rightarrow> bool \<Rightarrow> ('f, 'x) subscriber option \<Rightarrow>
     ('x trace_provider option \<times> ('f, 'x) subscriber option) outcome" where
  "setup_tracing env json global =
     (case (case filter_from_default_env env of Inr f \<Rightarrow> Inr f | Inl _ \<Rightarrow> filter_try_new env ''info'') of
        Inl e \<Rightarrow> Panics ''called Result::unwrap() on an Err value''
      | Inr env_filter \<Rightarrow>
          (let collector = \<lparr> sb_logger = get_logger_layer json, sb_filter = env_filter, sb_tracer = None \<rparr> in
           outcome_bind (get_trace_provider env) (\<lambda>provider.
             (case provider of
                Some tracer \<Rightarrow>
                  outcome_bind (set_global_default (collector\<lparr> sb_tracer := Some (tracer, CARGO_PKG_NAME) \<rparr>) global)
                    (\<lambda>g. Returns (provider, g))
              | None \<Rightarrow> outcome_bind (set_global_default collector global) (\<lambda>g. Returns (provider, g))))))"

section \<open>What is set up\<close>

lemma setup_tracing_Returns:
  assumes "setup_tracing env json global = Returns (provider, g)"
  shows "global = None \<and> get_trace_provider env = Returns provider \<and>
     (\<exists>sub. g = Some sub \<and> sb_logger sub = get_logger_layer json \<and>
        sb_tracer sub = map_option (\<lambda>p. (p, CARGO_PKG_NAME)) provider \<and>
        (case filter_from_default_env env of Inr f \<Rightarrow> sb_filter sub = f
         | Inl _ \<Rightarrow> filter_try_new env ''info'' = Inr (sb_filter sub)))"
  using assms
  by (auto simp: setup_tracing_def set_global_default_def outcome_bind_Returns_iff Let_def
      split: sum.splits option.splits)

text \<open>Without an endpoint no provider is made, with one exactly the exporter for it.\<close>

lemma get_trace_provider_Returns:
  "get_trace_provider env = Returns provider \<longleftrightarrow>
     (case process_env env OPENTELEMETRY_ENDPOINT_URL_ENV_NAME of
        None \<Rightarrow> provider = None
      | Some endpoint \<Rightarrow> \<exists>x. span_exporter_build env endpoint = Inr x \<and>
          provider = Some \<lparr> tp_exporter = x, tp_service_name = CARGO_PKG_NAME \<rparr>)"
  by (auto simp: get_trace_provider_def split: option.splits sum.splits)

end
