(* ===== verification/Runner.thy ===== *)
theory Runner
  imports Cli Controller Web_Server Metrics Signals Tracing
begin

text \<open>
  The main program (\<^verbatim>\<open>src/bin/git-events-runner.rs\<close>): the commands, the start of the components in
  their order with the errors and panics that stop it, the loop that follows leadership and signals,
  and the end. The channels and the spawning of tasks are tokio's; an event of the loop is what its
  \<^verbatim>\<open>select!\<close> wakes up for.
\<close>

section \<open>Start\<close>

text \<open>The tasks spawned by \<^verbatim>\<open>run\<close>, with the arguments that later parts depend on.\<close>

datatype ('t, 'g) spawned_task =
    ConfigWatch string
  | CacheWatch
  | LeaseWatch
  | JobsQueueWatch string
  | UtilsWeb utils_web
  | HooksWeb "('t, 'g) hooks_web"

text \<open>What \<^verbatim>\<open>run\<close> holds once it enters its loop.\<close>

record ('t, 'g, 's, 'f, 'x) started =
  sd_trace_provider :: "'x trace_provider option"
  sd_subscriber :: "('f, 'x) subscriber option"
  sd_identity :: string
  sd_tls :: "'t option"
  sd_secrets :: "secrets_cache option"
  sd_app_state :: app_state
  sd_signals :: "'s signal_handler"
  sd_spawned :: "('t, 'g) spawned_task list"

datatype run_error = RunTls tls_error | RunLease string

record ('w, 'g, 's, 'f, 'x) runner_env = "('w, 'g) server_env" +
  run_tracing :: "('f, 'x) tracing_env"
  run_signals :: "('w, 's) signal_env"
  new_uuid :: "'w \<Rightarrow> string \<times> 'w"
  lease_manager_build :: "string \<Rightarrow> string \<Rightarrow> string \<Rightarrow> u64 \<Rightarrow> u64 \<Rightarrow> 'w \<Rightarrow> (string + unit) \<times> 'w"

definition run_limits :: "cli_config \<Rightarrow> request_rate_limits_config" where
  "run_limits cli =
     \<lparr> rrl_global = hooks_rrl_global cli, rrl_trigger = hooks_rrl_trigger cli, rrl_source = hooks_rrl_source cli \<rparr>"

text \<open>From the signal handler on: the web servers, after which nothing can fail any more.\<close>

definition run_start_servers ::
    "('w, 'g, 's, 'f, 'x, 'y) runner_env_scheme \<Rightarrow> cli_config \<Rightarrow> string \<Rightarrow> app_state \<Rightarrow> 't option \<Rightarrow> 'w \<Rightarrow>
     (('s signal_handler \<times> ('t, 'g) spawned_task list) \<times> 'w) outcome" where
  "run_start_servers env cli_config ident st tls_config w =
     (case signal_handler_new (run_signals env) w of
        (Inl e, w1) \<Rightarrow> Panics ''unable to create signal handler''
      | (Inr signals, w1) \<Rightarrow>
          outcome_bind (build_utils_web env st (utility_port cli_config) w1) (\<lambda>(utils_web, w2).
          outcome_bind (build_hooks_web env (webhooks_parallelism cli_config) (webhooks_port cli_config)
              (source_clone_folder cli_config) (run_limits cli_config) tls_config) (\<lambda>hooks_web.
            Returns ((signals, [JobsQueueWatch ident, UtilsWeb utils_web, HooksWeb hooks_web]), w2))))"

definition run_start ::
    "('w, 't, 'z) tls_env_scheme \<Rightarrow> ('w, 'g, 's, 'f, 'x, 'y) runner_env_scheme \<Rightarrow> cli_config \<Rightarrow>
     ('f, 'x) subscriber option \<Rightarrow> secrets_cache option \<Rightarrow> 'w \<Rightarrow>
     ((run_error + ('t, 'g, 's, 'f, 'x) started) \<times> 'w) outcome" where
  "run_start tls_env env cli_config global shared w =
     outcome_bind (setup_tracing (run_tracing env) (json_logs cli_config) global) (\<lambda>(provider, sub).
     (case build_tls_config tls_env cli_config w of
        (Inl e, w1) \<Rightarrow> Returns (Inl (RunTls e), w1)
      | (Inr tls_config, w1) \<Rightarrow>
          (case new_uuid env w1 of (ident, w2) \<Rightarrow>
          (case new_app_state tls_env (source_clone_folder cli_config) w2 of (st, w3) \<Rightarrow>
          outcome_bind (init_secrets_cache (from_secs (secrets_cache_time cli_config)) shared) (\<lambda>cache.
          (case lease_manager_build env (leader_lease_name cli_config) ident (client_namespace tls_env)
                  (leader_lease_duration cli_config) (leader_lease_grace cli_config) w3 of
             (Inl e, w4) \<Rightarrow> Returns (Inl (RunLease e), w4)
           | (Inr _, w4) \<Rightarrow>
               outcome_bind (run_start_servers env cli_config ident st tls_config w4) (\<lambda>((signals, servers), w5).
                 Returns (Inr \<lparr> sd_trace_provider = provider, sd_subscriber = sub, sd_identity = ident,
                   sd_tls = tls_config, sd_secrets = cache, sd_app_state = st, sd_signals = signals,
                   sd_spawned = [ConfigWatch (config_map_name cli_config), CacheWatch, LeaseWatch] @ servers \<rparr>,
                   w5))))))))"

section \<open>Leadership and signals\<close>

text \<open>
  The task of the controllers (\<^verbatim>\<open>run_leader_controllers\<close>): it first checks that the custom resources
  can be listed, and ends the process when they cannot; then it controls until it is told to stop,
  or ends by itself, for example by a panic. It is over once it has ended, whether or not the loop
  has waited for it.
\<close>

datatype controllers_task = CheckingApi | Controlling | ControllersOver

text \<open>The tasks \<^verbatim>\<open>run\<close> waits for after its loop.\<close>

datatype joined_task = LeaderLeaseTask | UtilsWebTask | HooksWebTask | JobsQueueTask

text \<open>Where \<^verbatim>\<open>run\<close> is: in the \<^verbatim>\<open>select!\<close> of its loop, waiting for controllers it has told to stop, in the
  \<^verbatim>\<open>join!\<close> after the loop, or past that; or the process has exited.\<close>

datatype runner_phase = InSelect | StoppingControllers | JoiningTasks | RunOver | Exited nat

datatype runner_event =
    SignalReceived
  | LeaseUpdated bool
  | LeaseChannelClosed
  | ApiChecked bool
  | ControllersEnded
  | TaskEnded joined_task

datatype controllers_event = ControllersStarted | ControllersStopped

record runner_state =
  rn_phase :: runner_phase
  rn_lease :: bool
  rn_lease_closed :: bool
  rn_is_leader :: bool
  rn_controllers :: "controllers_task option"
  rn_ready :: bool
  rn_shutdown :: bool
  rn_shutdown_sent :: bool
  rn_ended :: "joined_task list"
  rn_trace :: "controllers_event list"

definition runner_init :: "bool \<Rightarrow> runner_state" where
  "runner_init lease =
     \<lparr> rn_phase = InSelect, rn_lease = lease, rn_lease_closed = False, rn_is_leader = False,
       rn_controllers = None, rn_ready = False, rn_shutdown = False, rn_shutdown_sent = False,
       rn_ended = [], rn_trace = [] \<rparr>"

text \<open>\<^verbatim>\<open>join!\<close> is over when all four tasks have ended.\<close>

definition join_tasks :: "runner_state \<Rightarrow> runner_state" where
  "join_tasks s =
     (if list_all (\<lambda>t. t \<in> set (rn_ended s)) [LeaderLeaseTask, UtilsWebTask, HooksWebTask, JobsQueueTask]
      then s\<lparr> rn_phase := RunOver \<rparr> else s)"

text \<open>
  The head of the loop: the controllers start when the lease is held, the process is ready. A wait
  for a lease whose channel is closed fails at once, which sets the flag, and is repeated.
\<close>

definition begin_iteration :: "runner_state \<Rightarrow> runner_state" where
  "begin_iteration s =
     (if rn_shutdown s then join_tasks (s\<lparr> rn_phase := JoiningTasks \<rparr>)
      else s\<lparr> rn_phase := InSelect, rn_is_leader := rn_lease s,
              rn_controllers := (if rn_lease s then Some CheckingApi else None), rn_ready := True,
              rn_shutdown := rn_lease_closed s,
              rn_trace := rn_trace s @ (if rn_lease s then [ControllersStarted] else []) \<rparr>)"

text \<open>The end of an iteration: controllers, when there are any, are told to stop and are waited for.\<close>

definition end_iteration :: "runner_state \<Rightarrow> runner_state" where
  "end_iteration s =
     (case rn_controllers s of
        None \<Rightarrow> begin_iteration s
      | Some ControllersOver \<Rightarrow> begin_iteration (s\<lparr> rn_controllers := None \<rparr>)
      | Some _ \<Rightarrow> s\<lparr> rn_phase := StoppingControllers \<rparr>)"

text \<open>What the task of the controllers does.\<close>

definition controllers_step :: "runner_event \<Rightarrow> runner_state \<Rightarrow> runner_state option" where
  "controllers_step ev s =
     (case (ev, rn_controllers s) of
        (ApiChecked True, Some CheckingApi) \<Rightarrow> Some (s\<lparr> rn_controllers := Some Controlling \<rparr>)
      | (ApiChecked False, Some CheckingApi) \<Rightarrow> Some (s\<lparr> rn_phase := Exited 1 \<rparr>)
      | (ControllersEnded, Some Controlling) \<Rightarrow>
          (let s1 = s\<lparr> rn_trace := rn_trace s @ [ControllersStopped] \<rparr> in
           Some (if rn_phase s = StoppingControllers then begin_iteration (s1\<lparr> rn_controllers := None \<rparr>)
                 else s1\<lparr> rn_controllers := Some ControllersOver \<rparr>))
      | _ \<Rightarrow> None)"

text \<open>
  A step, \<open>None\<close> for an event that cannot happen. In its \<^verbatim>\<open>select!\<close> the loop sees signals, of which one
  ends the wait, and the lease: a change ends the wait when the value differs from that of this
  iteration; a closed channel only sets the flag. While the loop waits for controllers it looks at
  neither, so a signal is seen later and of the lease only its last value counts.
\<close>

definition runner_step :: "runner_event \<Rightarrow> runner_state \<Rightarrow> runner_state option" where
  "runner_step ev s =
     (case ev of
        SignalReceived \<Rightarrow>
          (if rn_phase s = InSelect
           then Some (end_iteration (s\<lparr> rn_shutdown_sent := True, rn_shutdown := True \<rparr>)) else None)
      | LeaseUpdated b \<Rightarrow>
          (if rn_lease_closed s then None
           else (case rn_phase s of
             InSelect \<Rightarrow> Some (if b = rn_is_leader s then s\<lparr> rn_lease := b \<rparr> else end_iteration (s\<lparr> rn_lease := b \<rparr>))
           | StoppingControllers \<Rightarrow> Some (s\<lparr> rn_lease := b \<rparr>)
           | _ \<Rightarrow> None))
      | LeaseChannelClosed \<Rightarrow>
          (if rn_lease_closed s then None
           else (case rn_phase s of
             InSelect \<Rightarrow> Some (s\<lparr> rn_lease_closed := True, rn_shutdown := True \<rparr>)
           | StoppingControllers \<Rightarrow> Some (s\<lparr> rn_lease_closed := True \<rparr>)
           | _ \<Rightarrow> None))
      | TaskEnded t \<Rightarrow>
          (if t \<in> set (rn_ended s) then None
           else (case rn_phase s of
             JoiningTasks \<Rightarrow> Some (join_tasks (s\<lparr> rn_ended := t # rn_ended s \<rparr>))
           | RunOver \<Rightarrow> None
           | Exited n \<Rightarrow> None
           | _ \<Rightarrow> Some (s\<lparr> rn_ended := t # rn_ended s \<rparr>)))
      | _ \<Rightarrow>
          (if rn_phase s = InSelect \<or> rn_phase s = StoppingControllers then controllers_step ev s else None))"

fun runner_steps :: "runner_event list \<Rightarrow> runner_state \<Rightarrow> runner_state option" where
  "runner_steps [] s = Some s"
| "runner_steps (ev # events) s = Option.bind (runner_step ev s) (runner_steps events)"

definition runner_loop :: "bool \<Rightarrow> runner_event list \<Rightarrow> runner_state option" where
  "runner_loop lease events = runner_steps events (begin_iteration (runner_init lease))"

section \<open>The end\<close>

text \<open>What became of the run: after \<^verbatim>\<open>join!\<close> the trace provider is shut down, whose error is the only
  one.\<close>

datatype run_end = StillRunning | RunReturned "string + unit" | ProcessExited nat

definition run_finish :: "('x trace_provider \<Rightarrow> string + unit) \<Rightarrow> 'x trace_provider option \<Rightarrow> runner_state \<Rightarrow>
    run_end" where
  "run_finish provider_shutdown provider s =
     (case rn_phase s of
        RunOver \<Rightarrow> RunReturned (case provider of Some p \<Rightarrow> provider_shutdown p | None \<Rightarrow> Inr ())
      | Exited n \<Rightarrow> ProcessExited n
      | _ \<Rightarrow> StillRunning)"

section \<open>The other commands\<close>

definition get_all_crds :: "(string \<Rightarrow> 'c) \<Rightarrow> 'c list" where
  "get_all_crds crd =
     map crd [''GitRepo'', ''ClusterGitRepo'', ''ScheduleTrigger'', ''WebhookTrigger'', ''Action'', ''ClusterAction'']"

text \<open>The text printed to the standard output; the serialisation of a definition is unwrapped.\<close>

fun generate_crds :: "('c \<Rightarrow> string option) \<Rightarrow> 'c list \<Rightarrow> string outcome" where
  "generate_crds to_yaml [] = Returns ''''"
| "generate_crds to_yaml (crd # rest) =
     outcome_bind (unwrap (to_yaml crd)) (\<lambda>s.
     outcome_bind (generate_crds to_yaml rest) (\<lambda>out. Returns (''---'' @ [CHR 0x0A] @ s @ out)))"

definition generate_config_yaml ::
    "(runtime_config \<Rightarrow> string + string) \<Rightarrow> cli_config_dump_options \<Rightarrow> error + string" where
  "generate_config_yaml to_yaml options =
     (let opts = (if helm_template options then HelmTemplate else Raw) in default_as_yaml_string to_yaml opts)"

text \<open>\<^verbatim>\<open>main\<close> up to the loop: what is printed, or what was started.\<close>

datatype 's main_result = Printed string | MainError run_error | ConfigError error | ClientError string | Started 's

record ('w, 'c) main_env =
  install_crypto_provider :: "'w \<Rightarrow> bool \<times> 'w"
  crd_definition :: "string \<Rightarrow> 'c"
  crd_to_yaml :: "'c \<Rightarrow> string option"
  config_to_yaml :: "runtime_config \<Rightarrow> string + string"
  client_try_default :: "'w \<Rightarrow> (string + unit) \<times> 'w"

definition runner_main ::
    "('w, 'c, 'm) main_env_scheme \<Rightarrow> ('w, 't, 'z) tls_env_scheme \<Rightarrow> ('w, 'g, 's, 'f, 'x, 'y) runner_env_scheme \<Rightarrow>
     cli_command \<Rightarrow> 'w \<Rightarrow> (('t, 'g, 's, 'f, 'x) started main_result \<times> 'w) outcome" where
  "runner_main menv tls_env env command w =
     (case install_crypto_provider menv w of
        (False, w0) \<Rightarrow> Panics ''Failed to install rustls crypto provider''
      | (True, w0) \<Rightarrow>
          outcome_bind (cli_new command None) (\<lambda>(cli, shared).
            (case cli of
               Crds \<Rightarrow>
                 outcome_bind (generate_crds (crd_to_yaml menv) (get_all_crds (crd_definition menv))) (\<lambda>s.
                   Returns (Printed s, w0))
             | ConfigDump options \<Rightarrow>
                 Returns (case generate_config_yaml (config_to_yaml menv) options of
                            Inl e \<Rightarrow> ConfigError e | Inr s \<Rightarrow> Printed s, w0)
             | Run cli_config \<Rightarrow>
                 (case client_try_default menv w0 of
                    (Inl e, w1) \<Rightarrow> Returns (ClientError e, w1)
                  | (Inr _, w1) \<Rightarrow>
                      outcome_bind (run_start tls_env env cli_config None None w1) (\<lambda>(r, w2).
                        Returns (case r of Inl e \<Rightarrow> MainError e | Inr sd \<Rightarrow> Started sd, w2))))))"

end
