(* ===== verification/Rate_Limit_Correct.thy ===== *)
theory Rate_Limit_Correct
  imports Rate_Limit
begin

text \<open>
  What the rate limits promise: a limit is accepted exactly when it is two positive integers in
  range, and the period of one token is the quotient up to the rounding of the floating-point
  arithmetic; which limits make the server panic; which requests share a key.
\<close>

section \<open>Rounding\<close>

lemma round_div_error:
  assumes "0 < d"
  shows "\<bar>real d * real (round_div n d) - real n\<bar> \<le> real d / 2"
proof -
  have n: "real n = real d * real (n div d) + real (n mod d)"
    by (metis mult_div_mod_eq of_nat_add of_nat_mult)
  have r: "n mod d < d" using assms by simp
  show ?thesis
  proof (cases "2 * (n mod d) < d \<or> (2 * (n mod d) = d \<and> even (n div d))")
    case True
    then have "round_div n d = n div d" "2 * real (n mod d) \<le> real d" by (auto simp: round_div_def)
    with n show ?thesis by simp
  next
    case False
    then have "round_div n d = Suc (n div d)" "real d \<le> 2 * real (n mod d)" by (auto simp: round_div_def)
    with n r show ?thesis by (simp add: algebra_simps)
  qed
qed

lemma round_div_one [simp]: "round_div n (Suc 0) = n"
  by (simp add: round_div_def)

lemma round_div_zero_iff:
  assumes "0 < d"
  shows "round_div n d = 0 \<longleftrightarrow> 2 * n \<le> d"
proof (cases "n < d")
  case True
  then show ?thesis by (auto simp: round_div_def)
next
  case False
  then have "0 < n div d" using assms by (simp add: div_greater_zero_iff)
  with False assms show ?thesis by (simp add: round_div_def Let_def)
qed

lemma bit_length_upper: "n < 2 ^ bit_length n"
proof (induction n rule: bit_length.induct)
  case (1 n)
  then show ?case by (cases "n = 0") (auto simp: bit_length.simps [of n])
qed

lemma bit_length_lower: "0 < n \<Longrightarrow> 2 ^ (bit_length n - 1) \<le> n"
proof (induction n rule: bit_length.induct)
  case (1 n)
  show ?case
  proof (cases "n div 2 = 0")
    case True
    with 1 have "n = 1" by simp
    then show ?thesis by (simp add: bit_length.simps)
  next
    case False
    with 1 have "2 ^ (bit_length (n div 2) - 1) \<le> n div 2" by simp
    moreover have "bit_length (n div 2) \<noteq> 0" using False by (simp add: bit_length.simps)
    ultimately have "2 ^ bit_length (n div 2) \<le> 2 * (n div 2)"
      by (cases "bit_length (n div 2)") simp_all
    with 1 show ?thesis by (simp add: bit_length.simps [of n])
  qed
qed

text \<open>Rounding to 53 bits has a relative error of at most \<open>2 ^ -53\<close>.\<close>

lemma f64_round_error:
  assumes "d = 1 \<or> 0 < d \<and> 2 ^ 52 \<le> n div d"
  shows "\<bar>real d * real (f64_round n d) - real n\<bar> \<le> real n / 2 ^ 53"
proof (cases "2 ^ 52 \<le> n div d")
  case True
  define k where "k = bit_length (n div d) - 53"
  have d: "0 < d" using True by (cases "d = 0") simp_all
  have "2 ^ (52 + k) \<le> n div d"
  proof (cases "bit_length (n div d) \<le> 53")
    case False
    have "0 < n div d" using True by (metis less_le_trans zero_less_numeral zero_less_power)
    from bit_length_lower [OF this] False show ?thesis by (simp add: k_def)
  qed (use True in \<open>simp add: k_def\<close>)
  then have "2 ^ (52 + k) * d \<le> n div d * d" by (rule mult_le_mono1)
  also have "\<dots> \<le> n" by simp
  finally have "real (2 ^ (52 + k) * d) \<le> real n" by (simp only: of_nat_le_iff)
  then have "real (d * 2 ^ k) / 2 \<le> real n / 2 ^ 53" by (simp add: power_add ac_simps)
  moreover have "\<bar>real d * real (f64_round n d) - real n\<bar> \<le> real (d * 2 ^ k) / 2"
    using round_div_error [of "d * 2 ^ k" n] d
    by (simp add: f64_round_def k_def [symmetric] Let_def ac_simps)
  ultimately show ?thesis by linarith
next
  case False
  then have d: "d = 1" and "n < 2 ^ 52" using assms by auto
  have "bit_length n \<le> 53"
  proof (rule ccontr)
    assume "\<not> bit_length n \<le> 53"
    moreover from this have "0 < n" by (cases "n = 0") (auto simp: bit_length.simps)
    ultimately have "2 ^ 53 \<le> n"
      using bit_length_lower [of n] power_increasing [of 53 "bit_length n - 1" "2 :: nat"] by linarith
    with \<open>n < 2 ^ 52\<close> show False by simp
  qed
  with d show ?thesis by (simp add: f64_round_def)
qed

lemma f64_of_u64_error: "\<bar>real (f64_of_u64 n) - real n\<bar> \<le> real n / 2 ^ 53"
  using f64_round_error [of 1 n] by (simp add: f64_of_u64_def)

lemma f64_of_u64_pos: "0 < n \<Longrightarrow> 0 < f64_of_u64 n"
  using f64_of_u64_error [of n] by (cases "f64_of_u64 n = 0") (auto simp: field_simps)

lemma f64_div_error:
  assumes "0 < x" and "0 < y" and "y < 2 ^ 32"
  shows "\<bar>real y * real (f64_div x y) - real x * 2 ^ 85\<bar> \<le> real x * 2 ^ 85 / 2 ^ 53"
proof -
  have "2 ^ 52 * y \<le> 2 ^ 85" using assms(3) by simp
  also have "\<dots> \<le> x * 2 ^ 85" using assms(1) by simp
  finally have "2 ^ 52 \<le> x * 2 ^ 85 div y" using assms(2) by (simp add: less_eq_div_iff_mult_less_eq)
  with f64_round_error [of y "x * 2 ^ 85"] assms(2) show ?thesis
    by (simp add: f64_div_def f64_scale_def)
qed

section \<open>The period of a limit\<close>

lemma bit_length_eq: "2 ^ k \<le> n \<Longrightarrow> n < 2 ^ Suc k \<Longrightarrow> bit_length n = Suc k"
proof -
  assume a: "2 ^ k \<le> n" "n < 2 ^ Suc k"
  then have n: "0 < n" by (metis less_le_trans zero_less_numeral zero_less_power)
  have "k < bit_length n"
    using a(1) bit_length_upper [of n] by (meson le_less_trans nat_power_less_imp_less pos2)
  moreover have "bit_length n - 1 < Suc k"
    using a(2) bit_length_lower [OF n] by (meson le_less_trans nat_power_less_imp_less pos2)
  ultimately show ?thesis by simp
qed

text \<open>The 1024 largest numbers of 64 bits become \<open>2 ^ 64\<close>, all others stay below it.\<close>

lemma f64_of_u64_top:
  assumes "2 ^ 63 \<le> n" and "n < 2 ^ 64"
  shows "f64_of_u64 n = round_div n 2048 * 2048"
  using bit_length_eq [of 63 n] assms by (simp add: f64_of_u64_def f64_round_def)

lemma f64_of_u64_huge:
  assumes "2 ^ 64 - 1024 \<le> n" and "n < 2 ^ 64"
  shows "f64_of_u64 n = 2 ^ 64"
proof -
  have q: "2048 * (n div 2048) + n mod 2048 = n" "n mod 2048 < 2048" by simp_all
  then have "\<not> n div 2048 \<le> 2 ^ 53 - 2" "\<not> 2 ^ 53 \<le> n div 2048" using assms by simp_all
  then have "n div 2048 = 2 ^ 53 - 1" by simp
  moreover from this have "1024 \<le> n mod 2048" using q assms by simp
  ultimately have "round_div n 2048 = 2 ^ 53" by (simp add: round_div_def Let_def)
  with f64_of_u64_top [of n] assms show ?thesis by simp
qed

lemma f64_of_u64_below:
  assumes "n < 2 ^ 64 - 1024"
  shows "real (f64_of_u64 n) \<le> 2 ^ 64 - 2 ^ 11"
proof (cases "2 ^ 63 \<le> n")
  case True
  have q: "2048 * (n div 2048) + n mod 2048 = n" "n mod 2048 < 2048" by simp_all
  have "round_div n 2048 \<le> 2 ^ 53 - 1"
  proof (cases "n div 2048 = 2 ^ 53 - 1")
    case True
    with q assms have "n mod 2048 < 1024" by simp
    with True show ?thesis by (simp add: round_div_def)
  next
    case False
    have "\<not> 2 ^ 53 \<le> n div 2048" using q assms by simp
    with False have "n div 2048 \<le> 2 ^ 53 - 2" by simp
    then show ?thesis by (simp add: round_div_def Let_def)
  qed
  then have "real (round_div n 2048) \<le> 2 ^ 53 - 1" by (simp add: of_nat_le_iff [symmetric] del: of_nat_le_iff)
  moreover have "real (f64_of_u64 n) = real (round_div n 2048) * 2048"
    using f64_of_u64_top [of n] True assms by simp
  ultimately show ?thesis by simp
next
  case False
  then have "real n \<le> 2 ^ 63" by (simp add: not_le)
  moreover from this have "real n / 2 ^ 53 \<le> 2 ^ 10" by simp
  ultimately have "real (f64_of_u64 n) \<le> 2 ^ 63 + 2 ^ 10" using f64_of_u64_error [of n] by linarith
  also have "\<dots> \<le> (2 ^ 64 - 2 ^ 11 :: real)" by simp
  finally show ?thesis .
qed

lemma f64_div_huge: "f64_div (2 ^ 64) 1 = 2 ^ 64 * f64_scale"
  using bit_length_eq [of 149 "2 ^ 149"] by (simp add: f64_div_def f64_round_def f64_scale_def round_div_def)

text \<open>The division stays in the range of a duration unless the divisor is one and the dividend was
  rounded up to \<open>2 ^ 64\<close>.\<close>

lemma f64_div_in_range:
  assumes "0 < p" and "p < 2 ^ 64" and "0 < b" and "b < 2 ^ 32" and "b = 1 \<longrightarrow> p < 2 ^ 64 - 1024"
  shows "f64_div (f64_of_u64 p) b < 2 ^ 64 * f64_scale"
proof -
  let ?x = "real (f64_of_u64 p)" and ?q = "real (f64_div (f64_of_u64 p) b)"
  have e: "real b * ?q \<le> ?x * (1 + 1 / 2 ^ 53) * 2 ^ 85"
    using f64_div_error [OF f64_of_u64_pos [OF assms(1)] assms(3,4)] by (simp add: abs_le_iff field_simps)
  have "real b * ?q < real b * (2 ^ 64 * 2 ^ 85)"
  proof (cases "b = 1")
    case True
    with assms(5) have "?x \<le> 2 ^ 64 - 2 ^ 11" by (intro f64_of_u64_below) blast
    then have "?x * (1 + 1 / 2 ^ 53) \<le> (2 ^ 64 - 2 ^ 11) * (1 + 1 / 2 ^ 53)" by (rule mult_right_mono) simp
    also have "\<dots> < 2 ^ 64" by simp
    finally show ?thesis using e True by simp
  next
    case False
    with assms(3) have b: "2 \<le> real b" by simp
    have "real p \<le> 2 ^ 64" using assms(2) by (simp add: of_nat_le_iff [symmetric] del: of_nat_le_iff)
    moreover from this have "real p / 2 ^ 53 \<le> 2 ^ 11" by simp
    ultimately have "?x \<le> 2 ^ 64 + 2 ^ 11" using f64_of_u64_error [of p] by linarith
    then have "?x * (1 + 1 / 2 ^ 53) \<le> (2 ^ 64 + 2 ^ 11) * (1 + 1 / 2 ^ 53)" by (rule mult_right_mono) simp
    also have "\<dots> < 2 * 2 ^ 64" by simp
    also have "\<dots> \<le> real b * 2 ^ 64" using b by simp
    finally have "?x * (1 + 1 / 2 ^ 53) * 2 ^ 85 < real b * 2 ^ 64 * 2 ^ 85"
      by (rule mult_strict_right_mono) simp
    with e show ?thesis unfolding mult.assoc by (rule le_less_trans)
  qed
  then have "?q < 2 ^ 64 * 2 ^ 85" using assms(3) by simp
  then have "real (f64_div (f64_of_u64 p) b) < real (2 ^ 64 * f64_scale)" by (simp add: f64_scale_def)
  then show ?thesis by (simp only: of_nat_less_iff)
qed

lemma error_chain:
  fixes x y z :: real
  shows "\<bar>y - x\<bar> \<le> a \<Longrightarrow> \<bar>x - z\<bar> \<le> b \<Longrightarrow> a \<le> c \<Longrightarrow> b + c \<le> e \<Longrightarrow> \<bar>y - z\<bar> \<le> e"
  by linarith

text \<open>The error of the period, in nanoseconds times the burst size.\<close>

lemma period_error:
  assumes "0 < p" and "0 < b" and "b < 2 ^ 32"
    and "d = round_div (f64_div (f64_of_u64 p) b * 1000000000) f64_scale"
  shows "\<bar>real b * real d - real p * 10 ^ 9\<bar> \<le> real b / 2 + real p * 10 ^ 9 / 2 ^ 51"
proof -
  let ?x = "real (f64_of_u64 p)" and ?q = "real (f64_div (f64_of_u64 p) b) / 2 ^ 85"
  have x: "\<bar>?x - real p\<bar> \<le> real p / 2 ^ 53" by (rule f64_of_u64_error)
  have q: "\<bar>real b * ?q - ?x\<bar> \<le> ?x / 2 ^ 53"
    using f64_div_error [OF f64_of_u64_pos [OF assms(1)] assms(2,3)] by (simp add: abs_le_iff field_simps)
  have "\<bar>2 ^ 85 * real d - real (f64_div (f64_of_u64 p) b) * 10 ^ 9\<bar> \<le> 2 ^ 85 / 2"
    using round_div_error [of f64_scale "f64_div (f64_of_u64 p) b * 1000000000"] assms(4)
    by (simp add: f64_scale_def)
  then have "\<bar>real d - ?q * 10 ^ 9\<bar> \<le> 1 / 2" by (simp add: abs_le_iff field_simps)
  then have "real b * \<bar>real d - ?q * 10 ^ 9\<bar> \<le> real b * (1 / 2)" by (rule mult_left_mono) simp
  moreover have "real b * \<bar>real d - ?q * 10 ^ 9\<bar> = \<bar>real b * (real d - ?q * 10 ^ 9)\<bar>"
    by (simp only: abs_mult abs_of_nat)
  ultimately have d: "\<bar>real b * real d - real b * ?q * 10 ^ 9\<bar> \<le> real b / 2"
    by (simp only: right_diff_distrib mult.assoc mult_1_right times_divide_eq_right times_divide_eq_left)
  have "real p / 2 ^ 53 \<le> real p" by simp
  with x have "?x \<le> 2 * real p" by linarith
  then have "?x / 2 ^ 53 \<le> 2 * real p / 2 ^ 53" by (rule divide_right_mono) simp
  moreover have "real p / 2 ^ 53 + 2 * real p / 2 ^ 53 \<le> real p / 2 ^ 51" by simp
  ultimately have "\<bar>real b * ?q - real p\<bar> \<le> real p / 2 ^ 51" by (rule error_chain [OF q x])
  then have "\<bar>real b * ?q - real p\<bar> * 10 ^ 9 \<le> real p / 2 ^ 51 * 10 ^ 9" by (rule mult_right_mono) simp
  then have "\<bar>real b * ?q * 10 ^ 9 - real p * 10 ^ 9\<bar> \<le> real p * 10 ^ 9 / 2 ^ 51"
    by (simp add: abs_le_iff field_simps)
  from error_chain [OF d this order_refl order_eq_refl [OF add.commute]] show ?thesis .
qed

text \<open>The two numbers of a limit.\<close>

definition limit_numbers :: "string \<Rightarrow> nat \<Rightarrow> nat \<Rightarrow> bool" where
  "limit_numbers s b p \<longleftrightarrow>
     (\<exists>s1 s2. s = s1 @ CHR ''/'' # s2 \<and> CHR ''/'' \<notin> set s1 \<and> CHR ''/'' \<notin> set s2 \<and>
        parse_uint (2 ^ 32) s1 = Some b \<and> parse_uint (2 ^ 64) s2 = Some p \<and> 0 < b \<and> 0 < p)"

lemma split_on_two:
  "split_on c s = [s1, s2] \<longleftrightarrow> s = s1 @ c # s2 \<and> c \<notin> set s1 \<and> c \<notin> set s2"
proof
  assume a: "split_on c s = [s1, s2]"
  from join_split [of c s] a have "s = s1 @ c # s2" by simp
  with a split_on_pieces [of _ c s] show "s = s1 @ c # s2 \<and> c \<notin> set s1 \<and> c \<notin> set s2" by simp
qed (auto simp: split_on_append_sep split_on_no_sep)

lemma rrl_try_from_numbers:
  assumes "limit_numbers s b p"
  shows "rrl_try_from s = outcome_bind (from_secs_f64 (f64_div (f64_of_u64 p) b)) (\<lambda>d.
           Returns (Inr \<lparr> rrl_burst = b, rrl_period = d \<rparr>))"
  using assms by (auto simp: limit_numbers_def rrl_try_from_def split_on_append_sep split_on_no_sep)

lemma rrl_try_from_other:
  assumes "\<nexists>b p. limit_numbers s b p"
  shows "rrl_try_from s = Returns (Inl (InvalidRequestRateLimit s))"
proof (cases "\<exists>s1 s2. split_on CHR ''/'' s = [s1, s2]")
  case True
  then obtain s1 s2 where s: "split_on CHR ''/'' s = [s1, s2]" by blast
  then have "\<not> (parse_uint (2 ^ 32) s1 = Some b \<and> parse_uint (2 ^ 64) s2 = Some p \<and> 0 < b \<and> 0 < p)" for b p
    using assms unfolding split_on_two limit_numbers_def by blast
  with s show ?thesis by (auto simp: rrl_try_from_def split: option.splits)
next
  case False
  then show ?thesis by (auto simp: rrl_try_from_def split: list.splits)
qed

text \<open>
  C37. Parsing of a request rate limit: the text is rejected with the error for it exactly when it
  is not two positive integers, of 32 and of 64 bits, with one slash between them. Otherwise the
  result has this burst size, and the period of one token times the burst size differs from the
  given period by at most half a nanosecond per token and a relative error of \<open>2 ^ -51\<close>; but the
  parser panics for a burst size of one and a period among the 1024 largest.
\<close>

theorem rrl_parse:
  "((\<nexists>b p. limit_numbers s b p) \<longrightarrow> rrl_try_from s = Returns (Inl (InvalidRequestRateLimit s))) \<and>
   (limit_numbers s b p \<longrightarrow>
      (if b = 1 \<and> 2 ^ 64 - 1024 \<le> p then \<not> returns (rrl_try_from s)
       else \<exists>d. rrl_try_from s = Returns (Inr \<lparr> rrl_burst = b, rrl_period = d \<rparr>) \<and>
              \<bar>real b * real d - real p * 10 ^ 9\<bar> \<le> real b / 2 + real p * 10 ^ 9 / 2 ^ 51))"
proof (intro conjI impI rrl_try_from_other)
  assume l: "limit_numbers s b p"
  then have b: "0 < b" "b < 2 ^ 32" and p: "0 < p" "p < 2 ^ 64"
    using parse_uint_bound unfolding limit_numbers_def by blast+
  show "if b = 1 \<and> 2 ^ 64 - 1024 \<le> p then \<not> returns (rrl_try_from s)
       else \<exists>d. rrl_try_from s = Returns (Inr \<lparr> rrl_burst = b, rrl_period = d \<rparr>) \<and>
              \<bar>real b * real d - real p * 10 ^ 9\<bar> \<le> real b / 2 + real p * 10 ^ 9 / 2 ^ 51"
  proof (cases "b = 1 \<and> 2 ^ 64 - 1024 \<le> p")
    case True
    with f64_of_u64_huge [of p] p f64_div_huge rrl_try_from_numbers [OF l] show ?thesis
      by (simp add: from_secs_f64_def)
  next
    case False
    then have "b = 1 \<longrightarrow> p < 2 ^ 64 - 1024" by (simp add: not_le)
    from f64_div_in_range [OF p b this] rrl_try_from_numbers [OF l]
    have "rrl_try_from s = Returns (Inr \<lparr> rrl_burst = b,
        rrl_period = round_div (f64_div (f64_of_u64 p) b * 1000000000) f64_scale \<rparr>)"
      by (simp add: from_secs_f64_def)
    with False period_error [OF p(1) b refl] show ?thesis by (simp only: if_False) blast
  qed
qed

theorem rrl_parse_witness:
  "\<not> returns (rrl_try_from ''1/18446744073709551615'') \<and>
   (\<exists>d. rrl_try_from ''10/60'' = Returns (Inr \<lparr> rrl_burst = 10, rrl_period = d \<rparr>))"
proof -
  have "limit_numbers ''1/18446744073709551615'' 1 18446744073709551615"
    unfolding limit_numbers_def
    by (rule exI [of _ "''1''"], rule exI [of _ "''18446744073709551615''"])
      (simp add: parse_uint_def is_digit_def digit_val_def)
  moreover have "limit_numbers ''10/60'' 10 60"
    unfolding limit_numbers_def
    by (rule exI [of _ "''10''"], rule exI [of _ "''60''"])
      (simp add: parse_uint_def is_digit_def digit_val_def)
  ultimately show ?thesis
    using rrl_parse [of "''1/18446744073709551615''" 1 18446744073709551615] rrl_parse [of "''10/60''" 10 60]
    by auto
qed

section \<open>Layers\<close>

text \<open>The documented contract of the governor's builder: no configuration for a zero burst size or a
  zero period, and only then.\<close>

definition governor_finish_law :: "'g governor_finish \<Rightarrow> bool" where
  "governor_finish_law finish \<longleftrightarrow> (\<forall>l b d. finish l b d = None \<longleftrightarrow> b = 0 \<or> d = 0)"

definition optional_limit ::
    "requests_rate_limiter \<Rightarrow> requests_rate_limit_params option \<Rightarrow>
     (requests_rate_limiter \<times> requests_rate_limit_params) list" where
  "optional_limit l params = (case params of None \<Rightarrow> [] | Some r \<Rightarrow> [(l, r)])"

definition configured_limits ::
    "request_rate_limits_config \<Rightarrow> (requests_rate_limiter \<times> requests_rate_limit_params) list" where
  "configured_limits cfg = optional_limit GlobalLimit (rrl_global cfg) @
     optional_limit TriggerLimit (rrl_trigger cfg) @ optional_limit SourceLimit (rrl_source cfg)"

definition layer_of :: "'g governor_finish \<Rightarrow> requests_rate_limiter \<times> requests_rate_limit_params \<Rightarrow> 'g" where
  "layer_of finish lr = the (finish (fst lr) (rrl_burst (snd lr)) (rrl_period (snd lr)))"

lemma optional_rrl_layer_spec:
  assumes "governor_finish_law finish" and "\<forall>(l, r) \<in> set (optional_limit l params). rrl_burst r \<noteq> 0"
  shows "\<exists>m. optional_rrl_layer finish l params router =
           (if \<forall>(l, r) \<in> set (optional_limit l params). rrl_period r \<noteq> 0
            then Returns (router @ map (layer_of finish) (optional_limit l params)) else Panics m)"
proof (cases params)
  case None
  then show ?thesis by (simp add: optional_rrl_layer_def optional_limit_def)
next
  case (Some r)
  have law: "finish l b d = None \<longleftrightarrow> b = 0 \<or> d = 0" for b d
    using assms(1) unfolding governor_finish_law_def by simp
  show ?thesis
  proof (cases "rrl_period r = 0")
    case True
    then have "finish l (rrl_burst r) (rrl_period r) = None" using law by blast
    with Some True show ?thesis
      by (simp add: optional_rrl_layer_def limiter_add_rrl_layer_def optional_limit_def)
  next
    case False
    then obtain g where "finish l (rrl_burst r) (rrl_period r) = Some g"
      using law [of "rrl_burst r" "rrl_period r"] assms(2) Some by (auto simp: optional_limit_def)
    with Some False show ?thesis
      by (simp add: optional_rrl_layer_def limiter_add_rrl_layer_def optional_limit_def layer_of_def)
  qed
qed

lemma parsed_burst_pos:
  assumes "rrl_try_from s = Returns (Inr r)"
  shows "\<exists>b p. limit_numbers s b p \<and> rrl_burst r = b \<and> 0 < b"
proof -
  obtain b p where l: "limit_numbers s b p" using assms rrl_try_from_other [of s] by fastforce
  from assms rrl_try_from_numbers [OF l] have "rrl_burst r = b" by auto
  moreover have "0 < b" using l unfolding limit_numbers_def by blast
  ultimately show ?thesis using l by blast
qed

text \<open>A limit of at most a token per nanosecond has a period.\<close>

lemma parsed_period_pos:
  assumes "limit_numbers s b p" and "rrl_try_from s = Returns (Inr r)" and "b \<le> 10 ^ 9 * p"
  shows "0 < rrl_period r"
proof (rule ccontr)
  assume z: "\<not> 0 < rrl_period r"
  from assms(1) have b: "0 < b" "b < 2 ^ 32" and p: "0 < p"
    using parse_uint_bound unfolding limit_numbers_def by blast+
  from assms(2) rrl_try_from_numbers [OF assms(1)]
  have "rrl_period r = round_div (f64_div (f64_of_u64 p) b * 1000000000) f64_scale"
    by (auto simp: from_secs_f64_def split: if_splits)
  from period_error [OF p b this] z have "real p * 10 ^ 9 \<le> real b / 2 + real p * 10 ^ 9 / 2 ^ 51" by simp
  moreover have "real b \<le> real (10 ^ 9 * p)" using assms(3) by (simp only: of_nat_le_iff)
  then have "real b \<le> real p * 10 ^ 9" by simp
  moreover have "real p * 10 ^ 9 / 2 ^ 51 < real p * 10 ^ 9 / 2" using p by simp
  ultimately show False by linarith
qed

lemma zero_period_limit:
  "rrl_try_from ''4294967295/1'' = Returns (Inr \<lparr> rrl_burst = 4294967295, rrl_period = 0 \<rparr>)"
proof -
  have "limit_numbers ''4294967295/1'' 4294967295 1"
    unfolding limit_numbers_def
    by (rule exI [of _ "''4294967295''"], rule exI [of _ "''1''"])
      (simp add: parse_uint_def is_digit_def digit_val_def)
  moreover have "f64_of_u64 1 = 1" by (simp add: f64_of_u64_def f64_round_def bit_length.simps)
  moreover have "f64_div 1 4294967295 = 9007199256838144"
    using bit_length_eq [of 53 9007199256838144] by (simp add: f64_div_def f64_round_def f64_scale_def round_div_def)
  ultimately show ?thesis
    by (simp add: rrl_try_from_numbers from_secs_f64_def round_div_zero_iff f64_scale_def)
qed

lemma configured_layers:
  assumes "governor_finish_law finish" and b: "\<forall>(l, r) \<in> set (configured_limits cfg). rrl_burst r \<noteq> 0"
  shows "(returns (add_rrl_layer finish cfg router) \<longleftrightarrow>
            (\<forall>(l, r) \<in> set (configured_limits cfg). rrl_period r \<noteq> 0)) \<and>
         (\<forall>router'. add_rrl_layer finish cfg router = Returns router' \<longrightarrow>
            router' = router @ map (layer_of finish) (configured_limits cfg))"
proof -
  let ?ok = "\<lambda>l params. \<forall>(l, r) \<in> set (optional_limit l params). rrl_period r \<noteq> 0"
  from b have g: "\<exists>m. optional_rrl_layer finish l params router =
           (if ?ok l params then Returns (router @ map (layer_of finish) (optional_limit l params)) else Panics m)"
    if "(l, params) \<in> {(GlobalLimit, rrl_global cfg), (TriggerLimit, rrl_trigger cfg), (SourceLimit, rrl_source cfg)}"
    for l params router
    using that by (intro optional_rrl_layer_spec [OF assms(1)]) (auto simp: configured_limits_def)
  show ?thesis
    using g [of GlobalLimit "rrl_global cfg" router]
      g [of TriggerLimit "rrl_trigger cfg" "router @ map (layer_of finish) (optional_limit GlobalLimit (rrl_global cfg))"]
      g [of SourceLimit "rrl_source cfg" "router @ map (layer_of finish) (optional_limit GlobalLimit (rrl_global cfg)) @
            map (layer_of finish) (optional_limit TriggerLimit (rrl_trigger cfg))"]
    by (auto simp: add_rrl_layer_def configured_limits_def ball_Un split: if_splits)
qed

lemma parsed_limits_positive:
  "\<forall>(l, r) \<in> set limits. \<exists>s. rrl_try_from s = Returns (Inr r) \<Longrightarrow> \<forall>(l, r) \<in> set limits. rrl_burst r \<noteq> 0"
  using parsed_burst_pos by fastforce

text \<open>
  C38. Adding the rate limits to the webhooks server: with limits that the parser accepted, it
  panics exactly when the period of a configured limit was rounded to zero, and otherwise adds one
  layer per configured limit, in the order global, trigger, source. A limit of at most a token per
  nanosecond is never the reason; the accepted limit \<^verbatim>\<open>4294967295/1\<close> is one.
\<close>

theorem rrl_layers:
  assumes "governor_finish_law finish"
    and "\<forall>(l, r) \<in> set (configured_limits cfg). \<exists>s. rrl_try_from s = Returns (Inr r)"
  shows "(returns (add_rrl_layer finish cfg router) \<longleftrightarrow>
            (\<forall>(l, r) \<in> set (configured_limits cfg). rrl_period r \<noteq> 0)) \<and>
         (\<forall>router'. add_rrl_layer finish cfg router = Returns router' \<longrightarrow>
            router' = router @ map (layer_of finish) (configured_limits cfg)) \<and>
         (\<forall>s b p r. limit_numbers s b p \<longrightarrow> rrl_try_from s = Returns (Inr r) \<longrightarrow> b \<le> 10 ^ 9 * p \<longrightarrow>
            rrl_period r \<noteq> 0) \<and>
         rrl_try_from ''4294967295/1'' = Returns (Inr \<lparr> rrl_burst = 4294967295, rrl_period = 0 \<rparr>)"
proof -
  note layers = configured_layers [OF assms(1) parsed_limits_positive [OF assms(2)], of router]
  moreover note zero_period_limit
  moreover have "\<forall>s b p r. limit_numbers s b p \<longrightarrow> rrl_try_from s = Returns (Inr r) \<longrightarrow> b \<le> 10 ^ 9 * p \<longrightarrow>
      rrl_period r \<noteq> 0" using parsed_period_pos by fast
  ultimately show ?thesis using layers by blast
qed

theorem rrl_layers_witness:
  "returns (add_rrl_layer (\<lambda>l b d. if b = 0 \<or> d = 0 then None else Some l)
      \<lparr> rrl_global = None, rrl_trigger = None, rrl_source = None \<rparr> []) \<and>
   \<not> returns (add_rrl_layer (\<lambda>l b d. if b = 0 \<or> d = 0 then None else Some l)
      \<lparr> rrl_global = Some \<lparr> rrl_burst = 4294967295, rrl_period = 0 \<rparr>, rrl_trigger = None, rrl_source = None \<rparr> [])"
proof -
  let ?f = "\<lambda>(l :: requests_rate_limiter) (b :: nat) (d :: nat). if b = 0 \<or> d = 0 then None else Some l"
  let ?none = "\<lparr> rrl_global = None, rrl_trigger = None, rrl_source = None \<rparr> :: request_rate_limits_config"
  let ?zero = "\<lparr> rrl_global = Some \<lparr> rrl_burst = 4294967295, rrl_period = 0 \<rparr>, rrl_trigger = None,
    rrl_source = None \<rparr> :: request_rate_limits_config"
  have law: "governor_finish_law ?f" by (simp add: governor_finish_law_def)
  have limits: "configured_limits ?none = []"
    "configured_limits ?zero = [(GlobalLimit, \<lparr> rrl_burst = 4294967295, rrl_period = 0 \<rparr>)]"
    by (simp_all add: configured_limits_def optional_limit_def)
  then have "\<forall>(l, r) \<in> set (configured_limits ?none). \<exists>s. rrl_try_from s = Returns (Inr r)"
    and "\<forall>(l, r) \<in> set (configured_limits ?zero). \<exists>s. rrl_try_from s = Returns (Inr r)"
    using zero_period_limit by auto
  from rrl_layers [OF law this(1), of "[]"] rrl_layers [OF law this(2), of "[]"] limits show ?thesis by simp
qed

section \<open>Keys\<close>

text \<open>The two forms of the path of a webhook; a segment is not empty and has no slash.\<close>

definition hook_path :: "string \<Rightarrow> string \<Rightarrow> string option \<Rightarrow> string" where
  "hook_path ns trg source =
     ''/'' @ ns @ ''/'' @ trg @ (case source of None \<Rightarrow> '''' | Some s \<Rightarrow> ''/'' @ s)"

definition segment :: "string \<Rightarrow> bool" where
  "segment s \<longleftrightarrow> s \<noteq> [] \<and> CHR ''/'' \<notin> set s"

lemma split_hook_path:
  assumes "segment ns" and "segment trg" and "pred_option segment source"
  shows "split_on CHR ''/'' (hook_path ns trg source) =
           [[], ns, trg] @ (case source of None \<Rightarrow> [] | Some s \<Rightarrow> [s])"
  using assms
  by (cases source) (simp_all add: hook_path_def segment_def split_on_append_sep split_on_no_sep)

lemma extract_hook_path:
  assumes "segment ns" and "segment trg" and "pred_option segment source"
  shows "extract_path_key u TriggerLimit (hook_path ns trg source) =
           Inr \<lparr> rlk_ns = Some ns, rlk_trigger = Some trg, rlk_source = None, rlk_strip_source = False \<rparr>"
    and "extract_path_key u SourceLimit (hook_path ns trg source) =
           Inr \<lparr> rlk_ns = Some ns, rlk_trigger = Some trg, rlk_source = Some (unwrap_or source u),
                 rlk_strip_source = (source = None) \<rparr>"
  using assms split_hook_path [OF assms]
  by (cases source; auto simp: default_rate_limiter_key_def segment_def)+

text \<open>Two requests, each with the identifier that was drawn for it, are counted in one bucket.\<close>

definition same_bucket ::
    "requests_rate_limiter \<Rightarrow> string \<times> string \<Rightarrow> string \<times> string \<Rightarrow> bool" where
  "same_bucket limiter r r' \<longleftrightarrow>
     (\<exists>k. extract_path_key (fst r) limiter (snd r) = Inr k \<and> extract_path_key (fst r') limiter (snd r') = Inr k)"

text \<open>
  C39. Which requests share a bucket, for two requests that drew different random identifiers. The
  global limit: any two. The limit of a trigger: exactly those whose paths have the same namespace
  and trigger, with a source or without. The limit of a source: exactly those that name the same
  source of the same trigger and namespace; a request without a source shares its bucket with no
  other request, not even one of the same path, so this limit never delays it. The names of the
  buckets in the headers of a refusal leave the identifier out: they agree exactly when namespace,
  trigger and source, or its absence, do.
\<close>

theorem rrl_keys:
  assumes "segment ns" and "segment trg" and "pred_option segment source"
    and "segment ns'" and "segment trg'" and "pred_option segment source'" and "u \<noteq> u'"
  shows "same_bucket GlobalLimit (u, hook_path ns trg source) (u', hook_path ns' trg' source') \<and>
         (same_bucket TriggerLimit (u, hook_path ns trg source) (u', hook_path ns' trg' source') \<longleftrightarrow>
            ns = ns' \<and> trg = trg') \<and>
         (same_bucket SourceLimit (u, hook_path ns trg source) (u', hook_path ns' trg' source') \<longleftrightarrow>
            ns = ns' \<and> trg = trg' \<and> source = source' \<and> source \<noteq> None) \<and>
         (\<forall>k k'. extract_path_key u SourceLimit (hook_path ns trg source) = Inr k \<longrightarrow>
           extract_path_key u' SourceLimit (hook_path ns' trg' source') = Inr k' \<longrightarrow>
           (rate_limiter_key_name SourceLimit k = rate_limiter_key_name SourceLimit k' \<longleftrightarrow>
            ns = ns' \<and> trg = trg' \<and> source = source'))"
proof -
  note e = extract_hook_path [OF assms(1-3)] extract_hook_path [OF assms(4-6)]
  show ?thesis
  proof (intro conjI allI impI)
    show "same_bucket GlobalLimit (u, hook_path ns trg source) (u', hook_path ns' trg' source')"
      by (simp add: same_bucket_def)
    show "same_bucket TriggerLimit (u, hook_path ns trg source) (u', hook_path ns' trg' source') \<longleftrightarrow>
        ns = ns' \<and> trg = trg'"
      unfolding same_bucket_def fst_conv snd_conv e by auto
    show "same_bucket SourceLimit (u, hook_path ns trg source) (u', hook_path ns' trg' source') \<longleftrightarrow>
        ns = ns' \<and> trg = trg' \<and> source = source' \<and> source \<noteq> None"
      unfolding same_bucket_def fst_conv snd_conv e using assms(7) by (cases source; cases source') auto
    fix k k'
    assume "extract_path_key u SourceLimit (hook_path ns trg source) = Inr k"
      and "extract_path_key u' SourceLimit (hook_path ns' trg' source') = Inr k'"
    then have k: "rate_limiter_key_to_string k = ns @ CHR ''/'' # (trg @ CHR ''/'' # unwrap_or source [])"
      "rate_limiter_key_to_string k' = ns' @ CHR ''/'' # (trg' @ CHR ''/'' # unwrap_or source' [])"
      unfolding e by (cases source; cases source'; auto simp: rate_limiter_key_to_string_def)+
    have "ns @ CHR ''/'' # (trg @ CHR ''/'' # unwrap_or source []) =
        ns' @ CHR ''/'' # (trg' @ CHR ''/'' # unwrap_or source' []) \<longleftrightarrow>
        ns = ns' \<and> trg = trg' \<and> unwrap_or source [] = unwrap_or source' []"
      using slash_key_inject assms(1,2,4,5) unfolding segment_def by blast
    moreover have "unwrap_or source [] = unwrap_or source' [] \<longleftrightarrow> source = source'"
      using assms(3,6) by (cases source; cases source') (auto simp: segment_def)
    ultimately show "rate_limiter_key_name SourceLimit k = rate_limiter_key_name SourceLimit k' \<longleftrightarrow>
           ns = ns' \<and> trg = trg' \<and> source = source'" using k by simp
  qed
qed

theorem rrl_keys_witness:
  "\<not> same_bucket SourceLimit (''u1'', ''/apps/nightly'') (''u2'', ''/apps/nightly'') \<and>
   same_bucket SourceLimit (''u1'', ''/apps/nightly/repo'') (''u2'', ''/apps/nightly/repo'') \<and>
   same_bucket TriggerLimit (''u1'', ''/apps/nightly'') (''u2'', ''/apps/nightly/repo'')"
proof -
  have p: "hook_path ''apps'' ''nightly'' None = ''/apps/nightly''"
    "hook_path ''apps'' ''nightly'' (Some ''repo'') = ''/apps/nightly/repo''"
    by (simp_all add: hook_path_def)
  have s: "segment ''apps''" "segment ''nightly''" "pred_option segment None" "pred_option segment (Some ''repo'')"
    by (simp_all add: segment_def)
  have u: "''u1'' \<noteq> ''u2''" by simp
  show ?thesis
    using rrl_keys [OF s(1-3) s(1-3) u] rrl_keys [OF s(1,2,4) s(1,2,4) u] rrl_keys [OF s(1-3) s(1,2,4) u]
    unfolding p by simp
qed

end
