(* ===== verification/Cli_Correct.thy ===== *)
theory Cli_Correct
  imports Cli Cache_Correct
begin

text \<open>
  What the command line promises: the webhooks server speaks plain HTTP only when no TLS option was
  given, and a certificate comes from exactly where the options say.
\<close>

lemma tls_from_data_ok:
  "tls_from_data env n d w = (Inr c, w') \<longleftrightarrow>
     (\<exists>cert key t. d ''tls.crt'' = Some cert \<and> utf8_valid cert \<and> d ''tls.key'' = Some key \<and> utf8_valid key \<and>
        from_pem env cert key w = (Inr t, w') \<and> c = Some t)"
  by (auto simp: tls_from_data_def from_utf8_def split: option.splits prod.splits sum.splits)

lemma tls_from_data_some: "fst (tls_from_data env n d w) \<noteq> Inr None"
  using tls_from_data_ok [of env n d w None] by (metis option.distinct(1) prod.collapse)

lemma build_tls_config_None:
  assumes "cli_config_ok c"
  shows "fst (build_tls_config env c w) = Inr None \<longleftrightarrow>
     tls_cert_path c = None \<and> tls_key_path c = None \<and> tls_secret_name c = None \<and> tls_secret_namespace c = None"
  using assms
  by (auto simp: build_tls_config_def cli_config_ok_def tls_from_data_some split: option.splits prod.splits sum.splits)

text \<open>
  C40. TLS of the webhooks server: there is no configuration exactly when the command line has no TLS
  option, so an error never makes the server fall back to plain HTTP; and a configuration comes
  from the two named files, or from the two keys of the named secret, in the given namespace or
  else in that of the process, both of them valid UTF-8.
\<close>

theorem tls_config_source:
  assumes "cli_config_ok c"
  shows "(fst (build_tls_config env c w) = Inr None \<longleftrightarrow>
            tls_cert_path c = None \<and> tls_key_path c = None \<and> tls_secret_name c = None \<and>
            tls_secret_namespace c = None) \<and>
         (\<forall>t w'. build_tls_config env c w = (Inr (Some t), w') \<longrightarrow>
            (\<exists>cert key. tls_cert_path c = Some cert \<and> tls_key_path c = Some key \<and>
               from_pem_file env cert key w = (Inr t, w')) \<or>
            (\<exists>name d cert key w1. tls_secret_name c = Some name \<and>
               get_secret env (unwrap_or (tls_secret_namespace c) (client_namespace env)) name w = (Inr (Some d), w1) \<and>
               d ''tls.crt'' = Some cert \<and> d ''tls.key'' = Some key \<and> utf8_valid cert \<and> utf8_valid key \<and>
               from_pem env cert key w1 = (Inr t, w')))"
proof (cases "tls_cert_path c")
  case (Some cert)
  with assms obtain key where k: "tls_key_path c = Some key" "tls_secret_name c = None" "tls_secret_namespace c = None"
    by (auto simp: cli_config_ok_def)
  show ?thesis
    using Some k by (cases "from_pem_file env cert key w"; cases "fst (from_pem_file env cert key w)")
      (auto simp: build_tls_config_def)
next
  case None
  with assms have k: "tls_key_path c = None" by (auto simp: cli_config_ok_def)
  show ?thesis
  proof (cases "tls_secret_name c")
    case None
    with assms \<open>tls_cert_path c = None\<close> k show ?thesis by (auto simp: build_tls_config_def cli_config_ok_def)
  next
    case (Some name)
    obtain r w1 where g: "get_secret env (unwrap_or (tls_secret_namespace c) (client_namespace env)) name w = (r, w1)"
      by (metis prod.exhaust)
    have b: "build_tls_config env c w =
        (case r of Inl e \<Rightarrow> (Inl (TlsContext (''Unable to get TLS secret '' @ name)), w1)
         | Inr None \<Rightarrow>
             (Inl (TlsSecret (SecretDecodingError (''no `data` part in the secret `'' @ name @ ''`''))), w1)
         | Inr (Some d) \<Rightarrow> tls_from_data env name d w1)"
      using None k Some g by (auto simp: build_tls_config_def split: sum.split option.split)
    show ?thesis
    proof (cases r)
      case (Inl e)
      with b Some show ?thesis by simp
    next
      case (Inr o')
      show ?thesis
      proof (cases o')
        case None
        with b Inr Some show ?thesis by simp
      next
        case (Some d)
        have t: "build_tls_config env c w = tls_from_data env name d w1" using b Inr Some by simp
        then have "fst (build_tls_config env c w) \<noteq> Inr None"
          using tls_from_data_ok [of env name d w1 None] by (metis option.distinct(1) prod.collapse)
        moreover have "get_secret env (unwrap_or (tls_secret_namespace c) (client_namespace env)) name w =
            (Inr (Some d), w1)" using g Inr Some by simp
        ultimately show ?thesis
          using t tls_from_data_ok [of env name d w1] \<open>tls_secret_name c = Some name\<close> by auto
      qed
    qed
  qed
qed

definition sample_tls_env :: "(nat, string) tls_env" where
  "sample_tls_env = secrets_env.extend sample_secrets_env
     \<lparr> client_namespace = ''default'', from_pem_file = (\<lambda>cert key w. (Inr (cert @ key), w)),
       from_pem = (\<lambda>cert key w. (Inr (cert @ key), w)) \<rparr>"

theorem tls_config_source_witness:
  "fst (build_tls_config sample_tls_env default_cli_config 0) = Inr None \<and>
   fst (build_tls_config sample_tls_env (default_cli_config\<lparr> tls_secret_name := Some ''tls'' \<rparr>) 0) \<noteq> Inr None"
proof -
  have "cli_config_ok default_cli_config" "cli_config_ok (default_cli_config\<lparr> tls_secret_name := Some ''tls'' \<rparr>)"
    by (simp_all add: cli_config_ok_def default_cli_config_def)
  from tls_config_source [OF this(1), of sample_tls_env 0] tls_config_source [OF this(2), of sample_tls_env 0]
  show ?thesis by (simp add: default_cli_config_def)
qed

end
