(* ===== verification/Runner_Correct.thy ===== *)
theory Runner_Correct
  imports Runner Rate_Limit_Correct Cli_Correct
begin

text \<open>
  What the main program promises: the controllers of schedule triggers start when this process gets
  the lease, never twice at a time, and are stopped before it goes on without it; only a signal ends
  the loop, and the run returns exactly when all its tasks have ended after that; the servers are
  wired as the command line says.
\<close>

section \<open>Alternation\<close>

text \<open>Whether controllers run after a trace, \<open>None\<close> when some were started twice or stopped twice.\<close>

fun controllers_after :: "bool \<Rightarrow> controllers_event list \<Rightarrow> bool option" where
  "controllers_after r [] = Some r"
| "controllers_after r (ControllersStarted # tr) = (if r then None else controllers_after True tr)"
| "controllers_after r (ControllersStopped # tr) = (if r then controllers_after False tr else None)"

lemma controllers_after_append:
  "controllers_after r (tr @ tr') =
     (case controllers_after r tr of None \<Rightarrow> None | Some r' \<Rightarrow> controllers_after r' tr')"
  by (induction r tr rule: controllers_after.induct) auto

section \<open>The invariant of the loop\<close>

definition controllers_alive :: "runner_state \<Rightarrow> bool" where
  "controllers_alive s \<longleftrightarrow> rn_controllers s = Some CheckingApi \<or> rn_controllers s = Some Controlling"

definition loop_over :: "runner_state \<Rightarrow> bool" where
  "loop_over s \<longleftrightarrow> rn_phase s = JoiningTasks \<or> rn_phase s = RunOver"

definition all_ended :: "runner_state \<Rightarrow> bool" where
  "all_ended s \<longleftrightarrow> {LeaderLeaseTask, UtilsWebTask, HooksWebTask, JobsQueueTask} \<subseteq> set (rn_ended s)"

lemma joined_task_UNIV: "{LeaderLeaseTask, UtilsWebTask, HooksWebTask, JobsQueueTask} = UNIV"
  by (auto intro: joined_task.exhaust)

text \<open>What holds between two events, given whether the shutdown message was sent.\<close>

definition runner_inv :: "runner_state \<Rightarrow> bool" where
  "runner_inv s \<longleftrightarrow>
     rn_ready s \<and> controllers_after False (rn_trace s) = Some (controllers_alive s) \<and>
     (case rn_phase s of
        InSelect \<Rightarrow> (rn_controllers s \<noteq> None \<longleftrightarrow> rn_lease s) \<and> rn_is_leader s = rn_lease s \<and>
          \<not> rn_shutdown_sent s \<and> rn_shutdown s = rn_lease_closed s
      | StoppingControllers \<Rightarrow> controllers_alive s \<and> rn_shutdown s = rn_shutdown_sent s
      | JoiningTasks \<Rightarrow> rn_controllers s = None \<and> rn_shutdown_sent s \<and> \<not> all_ended s
      | RunOver \<Rightarrow> rn_controllers s = None \<and> rn_shutdown_sent s \<and> all_ended s
      | Exited n \<Rightarrow> n = 1)"

lemma all_ended_phase [simp]: "all_ended (s\<lparr> rn_phase := p \<rparr>) = all_ended s"
  by (simp add: all_ended_def)

lemma join_tasks_cases:
  "join_tasks s = (if all_ended s then s\<lparr> rn_phase := RunOver \<rparr> else s)"
  by (simp add: join_tasks_def all_ended_def)

text \<open>Going on to the next iteration, when no controllers run.\<close>

lemma begin_iteration_inv:
  assumes "rn_controllers s = None" and "controllers_after False (rn_trace s) = Some False"
    and "rn_shutdown s = rn_shutdown_sent s" and "rn_shutdown s \<longrightarrow> rn_ready s"
  shows "runner_inv (begin_iteration s)"
  using assms
  by (auto simp: begin_iteration_def join_tasks_cases runner_inv_def controllers_alive_def all_ended_def
      controllers_after_append)

lemma begin_iteration_frame:
  "rn_ended (begin_iteration s) = rn_ended s" "rn_shutdown_sent (begin_iteration s) = rn_shutdown_sent s"
  "rn_phase (begin_iteration s) \<noteq> Exited n"
  by (auto simp: begin_iteration_def join_tasks_cases)

lemma end_iteration_frame:
  "rn_ended (end_iteration s) = rn_ended s" "rn_shutdown_sent (end_iteration s) = rn_shutdown_sent s"
  "rn_phase (end_iteration s) \<noteq> Exited n"
  by (auto simp: end_iteration_def begin_iteration_frame split: option.split controllers_task.split)

lemma end_iteration_inv:
  assumes "controllers_after False (rn_trace s) = Some (controllers_alive s)" and "rn_ready s"
    and "rn_shutdown s = rn_shutdown_sent s"
  shows "runner_inv (end_iteration s)"
proof (cases "controllers_alive s")
  case True
  then have "end_iteration s = s\<lparr> rn_phase := StoppingControllers \<rparr>"
    by (auto simp: end_iteration_def controllers_alive_def)
  with True assms show ?thesis by (simp add: runner_inv_def controllers_alive_def)
next
  case False
  then have "end_iteration s = begin_iteration (s\<lparr> rn_controllers := None \<rparr>)"
    by (cases s; cases "rn_controllers s")
      (auto simp: end_iteration_def controllers_alive_def split: controllers_task.split)
  with False assms show ?thesis by (auto intro: begin_iteration_inv)
qed

lemma controllers_step_inv:
  assumes "runner_inv s" and "rn_phase s = InSelect \<or> rn_phase s = StoppingControllers"
    and "controllers_step ev s = Some s'"
  shows "runner_inv s'"
proof (cases "ev = ControllersEnded \<and> rn_phase s = StoppingControllers")
  case True
  with assms(3) have c: "rn_controllers s = Some Controlling"
    and s': "s' = begin_iteration (s\<lparr> rn_trace := rn_trace s @ [ControllersStopped], rn_controllers := None \<rparr>)"
    by (auto simp: controllers_step_def Let_def split: option.splits controllers_task.splits)
  from assms(1) c True have "runner_inv
      (begin_iteration (s\<lparr> rn_trace := rn_trace s @ [ControllersStopped], rn_controllers := None \<rparr>))"
    by (intro begin_iteration_inv)
      (simp_all add: runner_inv_def controllers_alive_def controllers_after_append)
  with s' show ?thesis by simp
next
  case False
  with assms show ?thesis
    by (auto simp: controllers_step_def Let_def runner_inv_def controllers_alive_def controllers_after_append
        split: runner_event.splits bool.splits option.splits controllers_task.splits)
qed

lemma runner_step_controllers:
  assumes "runner_step ev s = Some s'" and "ev = ControllersEnded \<or> (\<exists>ok. ev = ApiChecked ok)"
  shows "rn_phase s = InSelect \<or> rn_phase s = StoppingControllers" and "controllers_step ev s = Some s'"
  using assms by (auto simp: runner_step_def split: if_splits)

lemma runner_step_task:
  assumes "runner_step (TaskEnded t) s = Some s'"
  shows "(rn_phase s = InSelect \<or> rn_phase s = StoppingControllers) \<and> s' = s\<lparr> rn_ended := t # rn_ended s \<rparr> \<or>
     rn_phase s = JoiningTasks \<and> s' = join_tasks (s\<lparr> rn_ended := t # rn_ended s \<rparr>)"
  using assms by (cases "rn_phase s") (simp_all add: runner_step_def split: if_splits)

lemma runner_step_inv:
  assumes "runner_inv s" and "runner_step ev s = Some s'"
  shows "runner_inv s'"
proof (cases ev)
  case SignalReceived
  with assms(2) have "rn_phase s = InSelect"
    and s': "s' = end_iteration (s\<lparr> rn_shutdown_sent := True, rn_shutdown := True \<rparr>)"
    by (auto simp: runner_step_def split: if_splits)
  with assms(1) have "runner_inv (end_iteration (s\<lparr> rn_shutdown_sent := True, rn_shutdown := True \<rparr>))"
    by (intro end_iteration_inv) (simp_all add: runner_inv_def controllers_alive_def)
  with s' show ?thesis by simp
next
  case (LeaseUpdated b)
  show ?thesis
  proof (cases "rn_phase s = InSelect \<and> b \<noteq> rn_is_leader s")
    case True
    with LeaseUpdated assms(2) have "\<not> rn_lease_closed s" and s': "s' = end_iteration (s\<lparr> rn_lease := b \<rparr>)"
      by (simp_all add: runner_step_def split: if_splits)
    with True assms(1) have "runner_inv (end_iteration (s\<lparr> rn_lease := b \<rparr>))"
      by (intro end_iteration_inv) (simp_all add: runner_inv_def controllers_alive_def)
    with s' show ?thesis by simp
  next
    case False
    with LeaseUpdated assms show ?thesis
      by (auto simp: runner_step_def runner_inv_def controllers_alive_def split: if_splits runner_phase.splits)
  qed
next
  case LeaseChannelClosed
  with assms show ?thesis
    by (auto simp: runner_step_def runner_inv_def controllers_alive_def split: if_splits runner_phase.splits)
next
  case (TaskEnded t)
  from runner_step_task [OF assms(2) [unfolded TaskEnded]] show ?thesis
  proof (elim disjE conjE)
    assume "rn_phase s = JoiningTasks" "s' = join_tasks (s\<lparr> rn_ended := t # rn_ended s \<rparr>)"
    with assms(1) show ?thesis by (simp add: join_tasks_cases runner_inv_def controllers_alive_def)
  qed (use assms(1) in \<open>simp_all add: runner_inv_def controllers_alive_def\<close>)
next
  case (ApiChecked ok)
  with controllers_step_inv [OF assms(1) runner_step_controllers [OF assms(2)]] show ?thesis by simp
next
  case ControllersEnded
  with controllers_step_inv [OF assms(1) runner_step_controllers [OF assms(2)]] show ?thesis by simp
qed

section \<open>What the events say\<close>

text \<open>The parts of the state that record what has happened.\<close>

definition records :: "runner_event list \<Rightarrow> runner_state \<Rightarrow> bool" where
  "records events s \<longleftrightarrow>
     (rn_shutdown_sent s \<longleftrightarrow> SignalReceived \<in> set events) \<and>
     (\<forall>t. t \<in> set (rn_ended s) \<longleftrightarrow> TaskEnded t \<in> set events) \<and>
     ((\<exists>n. rn_phase s = Exited n) \<longleftrightarrow> ApiChecked False \<in> set events)"

lemma controllers_step_records:
  assumes "records events s" and "rn_phase s = InSelect \<or> rn_phase s = StoppingControllers"
    and "controllers_step ev s = Some s'"
  shows "records (events @ [ev]) s'"
proof -
  have "rn_shutdown_sent s' = rn_shutdown_sent s \<and> rn_ended s' = rn_ended s \<and>
      ((\<exists>n. rn_phase s' = Exited n) \<longleftrightarrow> ev = ApiChecked False) \<and>
      ev \<noteq> SignalReceived \<and> (\<forall>t. ev \<noteq> TaskEnded t)"
    using assms(2,3)
    by (auto simp: controllers_step_def Let_def begin_iteration_frame
        split: runner_event.splits bool.splits option.splits controllers_task.splits if_splits)
  with assms(1,2) show ?thesis by (auto simp: records_def)
qed

lemma runner_step_records:
  assumes "records events s" and "runner_step ev s = Some s'"
  shows "records (events @ [ev]) s'"
proof (cases ev)
  case (TaskEnded t)
  from runner_step_task [OF assms(2) [unfolded TaskEnded]]
  have "rn_shutdown_sent s' = rn_shutdown_sent s \<and> set (rn_ended s') = insert t (set (rn_ended s)) \<and>
      (\<forall>n. rn_phase s' \<noteq> Exited n) \<and> (\<forall>n. rn_phase s \<noteq> Exited n)"
    by (auto simp: join_tasks_cases split: if_splits)
  with assms(1) TaskEnded show ?thesis by (auto simp: records_def)
next
  case SignalReceived
  with assms(2) have "rn_phase s = InSelect"
    and s': "s' = end_iteration (s\<lparr> rn_shutdown_sent := True, rn_shutdown := True \<rparr>)"
    by (simp_all add: runner_step_def split: if_splits)
  with assms(1) SignalReceived show ?thesis
    by (simp add: records_def end_iteration_frame)
next
  case (LeaseUpdated b)
  with assms(2) have "rn_shutdown_sent s' = rn_shutdown_sent s \<and> rn_ended s' = rn_ended s \<and>
      (\<forall>n. rn_phase s' \<noteq> Exited n) \<and> (\<forall>n. rn_phase s \<noteq> Exited n)"
    by (auto simp: runner_step_def end_iteration_frame split: if_splits runner_phase.splits)
  with assms(1) LeaseUpdated show ?thesis by (simp add: records_def)
next
  case LeaseChannelClosed
  with assms(2) have "rn_shutdown_sent s' = rn_shutdown_sent s \<and> rn_ended s' = rn_ended s \<and>
      (\<forall>n. rn_phase s' \<noteq> Exited n) \<and> (\<forall>n. rn_phase s \<noteq> Exited n)"
    by (auto simp: runner_step_def split: if_splits runner_phase.splits)
  with assms(1) LeaseChannelClosed show ?thesis by (simp add: records_def)
next
  case (ApiChecked ok)
  with controllers_step_records [OF assms(1) runner_step_controllers [OF assms(2)]] show ?thesis by simp
next
  case ControllersEnded
  with controllers_step_records [OF assms(1) runner_step_controllers [OF assms(2)]] show ?thesis by simp
qed

lemma runner_loop_reachable:
  assumes "runner_loop lease events = Some s"
  shows "runner_inv s \<and> records events s"
proof -
  have "runner_inv s' \<and> records (before @ events) s'"
    if "runner_inv s0" "records before s0" "runner_steps events s0 = Some s'" for before s0 s'
    using that
  proof (induction events arbitrary: before s0)
    case (Cons ev events)
    from Cons.prems(3) obtain s1 where "runner_step ev s0 = Some s1" "runner_steps events s1 = Some s'"
      by (cases "runner_step ev s0") auto
    with Cons.IH [of s1 "before @ [ev]"] Cons.prems runner_step_inv runner_step_records show ?case by simp
  qed simp
  moreover have "runner_inv (begin_iteration (runner_init lease))"
    by (rule begin_iteration_inv) (simp_all add: runner_init_def)
  moreover have "records [] (begin_iteration (runner_init lease))"
    by (simp add: records_def begin_iteration_frame) (simp add: runner_init_def)
  ultimately show ?thesis using assms by (fastforce simp: runner_loop_def)
qed

section \<open>When the loop ends\<close>

lemma signal_ends_loop:
  assumes "runner_inv s" and "rn_phase s = InSelect"
  shows "\<exists>s'. runner_step SignalReceived s = Some s' \<and>
     (if controllers_alive s then rn_phase s' = StoppingControllers else loop_over s')"
  using assms
  by (cases "rn_controllers s")
    (auto simp: runner_step_def end_iteration_def begin_iteration_def join_tasks_cases loop_over_def
      controllers_alive_def split: controllers_task.splits)

lemma stopped_controllers_end_loop:
  assumes "rn_phase s = StoppingControllers" and "rn_controllers s = Some Controlling" and "rn_shutdown s"
  shows "\<exists>s'. runner_step ControllersEnded s = Some s' \<and> loop_over s'"
  using assms
  by (auto simp: runner_step_def controllers_step_def Let_def begin_iteration_def join_tasks_cases loop_over_def)

lemma over_controllers_stay:
  assumes "rn_phase s = InSelect" and "rn_controllers s = Some ControllersOver" and "runner_step ev s = Some s'"
    and "ev \<noteq> SignalReceived" and "ev \<noteq> LeaseUpdated (\<not> rn_is_leader s)"
  shows "rn_phase s' = InSelect \<and> rn_controllers s' = Some ControllersOver"
  using assms
  by (auto simp: runner_step_def controllers_step_def split: runner_event.splits if_splits bool.splits)

text \<open>
  C17. Leadership and shutdown, for every possible sequence of what the main loop sees and what its
  tasks do: (1) while the loop waits, controllers were started exactly if this process holds the
  lease, and never two at a time: between two starts the first task has ended; (2) the process is
  ready; (3) the loop is over only after a signal, which was passed on to the servers, and then no
  controllers are left; a closed lease channel, which sets the shutdown flag, does not end it; (4)
  a signal is always seen while the loop waits and leads to its end, at once or, when controllers
  run, as soon as they have ended; (5) the run returns exactly when the loop is over and all four
  tasks have ended, and then without an error unless the shutdown of a configured trace provider
  fails; (6) the process exits, with code 1, exactly when the controllers find that the custom
  resources cannot be listed, signal or not; (7) controllers that end by themselves are not started
  again before a signal or a change of the lease, although the process keeps the lease.
\<close>

theorem leader_loop:
  assumes "runner_loop lease events = Some s"
  shows "(rn_phase s = InSelect \<longrightarrow> (rn_controllers s \<noteq> None \<longleftrightarrow> rn_lease s)) \<and>
     controllers_after False (rn_trace s) = Some (controllers_alive s) \<and> rn_ready s \<and>
     (loop_over s \<longrightarrow> SignalReceived \<in> set events \<and> rn_shutdown_sent s \<and> rn_controllers s = None) \<and>
     (rn_phase s = InSelect \<longrightarrow> SignalReceived \<notin> set events \<and>
        (\<exists>s'. runner_step SignalReceived s = Some s' \<and>
           (if controllers_alive s then rn_phase s' = StoppingControllers else loop_over s'))) \<and>
     (rn_phase s = StoppingControllers \<and> rn_controllers s = Some Controlling \<and> SignalReceived \<in> set events \<longrightarrow>
        (\<exists>s'. runner_step ControllersEnded s = Some s' \<and> loop_over s')) \<and>
     ((\<exists>r. run_finish provider_shutdown provider s = RunReturned r) \<longleftrightarrow>
        loop_over s \<and> (\<forall>t. TaskEnded t \<in> set events)) \<and>
     (\<forall>r. run_finish provider_shutdown provider s = RunReturned r \<longrightarrow>
        r = (case provider of Some p \<Rightarrow> provider_shutdown p | None \<Rightarrow> Inr ())) \<and>
     (\<forall>n. run_finish provider_shutdown provider s = ProcessExited n \<longleftrightarrow> n = 1 \<and> ApiChecked False \<in> set events) \<and>
     (rn_phase s = InSelect \<and> rn_controllers s = Some ControllersOver \<longrightarrow>
        (\<forall>ev s'. runner_step ev s = Some s' \<and> ev \<noteq> SignalReceived \<and> ev \<noteq> LeaseUpdated (\<not> rn_is_leader s) \<longrightarrow>
           rn_phase s' = InSelect \<and> rn_controllers s' = Some ControllersOver))"
proof -
  from runner_loop_reachable [OF assms] have inv: "runner_inv s" and rec: "records events s" by simp_all
  have all: "all_ended s \<longleftrightarrow> (\<forall>t. TaskEnded t \<in> set events)"
    using rec unfolding all_ended_def joined_task_UNIV by (auto simp: records_def)
  have returned: "run_finish provider_shutdown provider s = RunReturned r \<longleftrightarrow> rn_phase s = RunOver \<and>
      r = (case provider of Some p \<Rightarrow> provider_shutdown p | None \<Rightarrow> Inr ())" for r
    by (auto simp: run_finish_def split: runner_phase.splits)
  have exited: "run_finish provider_shutdown provider s = ProcessExited n \<longleftrightarrow> rn_phase s = Exited n" for n
    by (auto simp: run_finish_def split: runner_phase.splits)
  have over: "rn_phase s = RunOver \<longleftrightarrow> loop_over s \<and> all_ended s"
    using inv by (auto simp: runner_inv_def loop_over_def)
  have code: "rn_phase s = Exited n \<longleftrightarrow> n = 1 \<and> ApiChecked False \<in> set events" for n
    using inv rec by (cases "rn_phase s") (auto simp: runner_inv_def records_def)
  have sent: "rn_shutdown_sent s \<longleftrightarrow> SignalReceived \<in> set events" using rec by (simp add: records_def)
  have "loop_over s \<longrightarrow> rn_shutdown_sent s \<and> rn_controllers s = None"
    and "rn_phase s = InSelect \<longrightarrow> \<not> rn_shutdown_sent s \<and> (rn_controllers s \<noteq> None \<longleftrightarrow> rn_lease s)"
    and "rn_phase s = StoppingControllers \<longrightarrow> rn_shutdown s = rn_shutdown_sent s"
    and "controllers_after False (rn_trace s) = Some (controllers_alive s)" "rn_ready s"
    using inv by (auto simp: runner_inv_def loop_over_def)
  with sent signal_ends_loop [OF inv] stopped_controllers_end_loop [of s] over_controllers_stay [of s] show ?thesis
    unfolding returned exited code over all by blast
qed

text \<open>The lease is held, the controllers panic, the channel of the lease closes, a signal arrives and the
  four tasks end.\<close>

definition sample_runner_events :: "runner_event list" where
  "sample_runner_events =
     [ApiChecked True, ControllersEnded, LeaseChannelClosed, SignalReceived, TaskEnded JobsQueueTask,
      TaskEnded LeaderLeaseTask, TaskEnded HooksWebTask, TaskEnded UtilsWebTask]"

theorem leader_loop_witness:
  "\<exists>s s0. runner_loop True sample_runner_events = Some s \<and>
     (\<exists>r. run_finish (\<lambda>_. Inl ''timeout'') (None :: unit trace_provider option) s = RunReturned r) \<and>
     runner_loop True [ApiChecked False] = Some s0 \<and>
     run_finish (\<lambda>_. Inl ''timeout'') (None :: unit trace_provider option) s0 = ProcessExited 1"
proof -
  note step = runner_loop_def runner_init_def begin_iteration_def runner_step_def controllers_step_def
    end_iteration_def join_tasks_def Let_def
  have "\<exists>s. runner_loop True sample_runner_events = Some s \<and> loop_over s"
    by (simp add: sample_runner_events_def step loop_over_def)
  then obtain s where s: "runner_loop True sample_runner_events = Some s" "loop_over s" by blast
  have "\<exists>s. runner_loop True [ApiChecked False] = Some s" by (simp add: step)
  then obtain s0 where s0: "runner_loop True [ApiChecked False] = Some s0" by blast
  have "TaskEnded t \<in> set sample_runner_events" for t by (cases t) (simp_all add: sample_runner_events_def)
  with s leader_loop [OF s(1), of "\<lambda>_. Inl ''timeout''" "None :: unit trace_provider option"]
  have "\<exists>r. run_finish (\<lambda>_. Inl ''timeout'') (None :: unit trace_provider option) s = RunReturned r" by blast
  moreover have "run_finish (\<lambda>_. Inl ''timeout'') (None :: unit trace_provider option) s0 = ProcessExited 1"
    using leader_loop [OF s0, of "\<lambda>_. Inl ''timeout''" "None :: unit trace_provider option"] by simp
  ultimately show ?thesis using s(1) s0 by blast
qed

section \<open>Start\<close>

lemma rrl_layers_Returns:
  assumes "governor_finish_law finish"
    and "\<forall>(l, r) \<in> set (configured_limits cfg). \<exists>s. rrl_try_from s = Returns (Inr r)"
  shows "add_rrl_layer finish cfg [] = Returns layers \<longleftrightarrow>
     (\<forall>(l, r) \<in> set (configured_limits cfg). rrl_period r \<noteq> 0) \<and> layers = map (layer_of finish) (configured_limits cfg)"
  using configured_layers [OF assms(1) parsed_limits_positive [OF assms(2)], of "[]"]
  by (cases "add_rrl_layer finish cfg []") auto

lemma build_utils_web_Returns:
  "build_utils_web env st p w = Returns (web, w') \<longleftrightarrow>
     (\<forall>r \<in> set utils_routes. route_accepts env (fst r)) \<and> bind_listener env p w = (Inr (), w') \<and>
     web = \<lparr> uw_port = p, uw_app = utils_routes, uw_state = st \<rparr>"
  by (auto simp: build_utils_web_def outcome_bind_Returns_iff add_routes_Returns split: prod.splits sum.splits)

lemma build_hooks_web_Returns:
  "build_hooks_web env scheduler p folder limits tls = Returns web \<longleftrightarrow>
     (\<forall>r \<in> set hooks_routes. route_accepts env (fst r)) \<and>
     (\<exists>layers. add_rrl_layer (governor_finish env) limits [] = Returns layers \<and>
        web = \<lparr> hw_listener = hooks_web_listener p tls, hw_app = hooks_routes, hw_layers = layers,
                hw_scheduler = scheduler, hw_source_clone_folder = folder \<rparr>)"
  by (auto simp: build_hooks_web_def outcome_bind_Returns_iff add_routes_Returns)

text \<open>The servers as the command line wants them.\<close>

definition wanted_servers ::
    "cli_config \<Rightarrow> string \<Rightarrow> app_state \<Rightarrow> 't option \<Rightarrow> 'g list \<Rightarrow> ('t, 'g) spawned_task list" where
  "wanted_servers cli ident st tls layers =
     [JobsQueueWatch ident,
      UtilsWeb \<lparr> uw_port = utility_port cli, uw_app = utils_routes, uw_state = st \<rparr>,
      HooksWeb \<lparr> hw_listener = (case tls of Some t \<Rightarrow> BindRustls (webhooks_port cli) t | None \<Rightarrow> Bind (webhooks_port cli)),
                 hw_app = hooks_routes, hw_layers = layers, hw_scheduler = webhooks_parallelism cli,
                 hw_source_clone_folder = source_clone_folder cli \<rparr>]"

lemma run_start_servers_Returns:
  "run_start_servers env cli ident st tls w = Returns ((signals, spawned), w') \<longleftrightarrow>
     (\<exists>w1. signal_handler_new (run_signals env) w = (Inr signals, w1) \<and>
        bind_listener env (utility_port cli) w1 = (Inr (), w')) \<and>
     (\<forall>r \<in> set (utils_routes @ hooks_routes). route_accepts env (fst r)) \<and>
     (\<exists>layers. add_rrl_layer (governor_finish env) (run_limits cli) [] = Returns layers \<and>
        spawned = wanted_servers cli ident st tls layers)"
  unfolding wanted_servers_def
  by (auto simp: run_start_servers_def outcome_bind_Returns_iff build_utils_web_Returns build_hooks_web_Returns
      hooks_web_listener_def split: prod.splits sum.splits)

lemma new_app_state_eq:
  "new_app_state env folder w = (st, w') \<longleftrightarrow>
     now env w = (last_event (as_diagnostics st), w') \<and> reporter (as_diagnostics st) = ''git-events-runner'' \<and>
     \<not> as_ready st \<and> as_source_clone_folder st = folder"
  by (cases st; cases "as_diagnostics st")
    (auto simp: new_app_state_def default_diagnostics_def case_prod_beta prod_eq_iff)

lemma run_start_Returns:
  "run_start tls_env env cli global shared w = Returns (Inr sd, w') \<longleftrightarrow>
     (\<exists>provider sub t w1 ident w2 st w3 cache w4 signals servers.
        setup_tracing (run_tracing env) (json_logs cli) global = Returns (provider, sub) \<and>
        build_tls_config tls_env cli w = (Inr t, w1) \<and> new_uuid env w1 = (ident, w2) \<and>
        new_app_state tls_env (source_clone_folder cli) w2 = (st, w3) \<and>
        init_secrets_cache (from_secs (secrets_cache_time cli)) shared = Returns cache \<and>
        lease_manager_build env (leader_lease_name cli) ident (client_namespace tls_env)
          (leader_lease_duration cli) (leader_lease_grace cli) w3 = (Inr (), w4) \<and>
        run_start_servers env cli ident st t w4 = Returns ((signals, servers), w') \<and>
        sd = \<lparr> sd_trace_provider = provider, sd_subscriber = sub, sd_identity = ident,
               sd_tls = t, sd_secrets = cache, sd_app_state = st, sd_signals = signals,
               sd_spawned = [ConfigWatch (config_map_name cli), CacheWatch, LeaseWatch] @ servers \<rparr>)"
  (is "?run \<longleftrightarrow> ?steps")
proof
  assume ?run then show ?steps
    by (auto simp: run_start_def outcome_bind_Returns_iff case_prod_beta case_sum_eq_iff prod_eq_iff)
next
  assume ?steps then show ?run by (auto simp: run_start_def)
qed

text \<open>
  C18. The start of the controller and its wiring: it succeeds exactly when tracing can be set up, the
  TLS configuration loads, the lease manager can be built, all signal handlers register, the
  utility port can be bound, the router accepts every route, and no configured rate limit has a
  period rounded to zero. Then this process uses one fresh identity both for the lease and for the
  queue of Jobs, the secrets cache has the configured timeout and no entries, and the process is not
  yet ready. The utility server listens on its port with its routes and the state that becomes ready;
  the webhooks server has its routes, one layer per configured limit, the configured port,
  parallelism and folder for clones, and is bound with the TLS configuration that was loaded, so it
  serves plain HTTP exactly when the command line has no TLS option.
\<close>

theorem run_start_succeeds_iff:
  assumes "governor_finish_law (governor_finish env)"
    and "\<forall>(l, r) \<in> set (configured_limits (run_limits cli)). \<exists>s. rrl_try_from s = Returns (Inr r)"
    and "cli_config_ok cli"
  shows "(run_start tls_env env cli None None w = Returns (Inr sd, w') \<longleftrightarrow>
     setup_tracing (run_tracing env) (json_logs cli) None = Returns (sd_trace_provider sd, sd_subscriber sd) \<and>
     (\<exists>w1 w2 w3 w4 w5. build_tls_config tls_env cli w = (Inr (sd_tls sd), w1) \<and>
        new_uuid env w1 = (sd_identity sd, w2) \<and>
        now tls_env w2 = (last_event (as_diagnostics (sd_app_state sd)), w3) \<and>
        lease_manager_build env (leader_lease_name cli) (sd_identity sd) (client_namespace tls_env)
          (leader_lease_duration cli) (leader_lease_grace cli) w3 = (Inr (), w4) \<and>
        signal_handler_new (run_signals env) w4 = (Inr (sd_signals sd), w5) \<and>
        bind_listener env (utility_port cli) w5 = (Inr (), w')) \<and>
     sd_spawned sd = [ConfigWatch (config_map_name cli), CacheWatch, LeaseWatch] @
       wanted_servers cli (sd_identity sd) (sd_app_state sd) (sd_tls sd)
         (map (layer_of (governor_finish env)) (configured_limits (run_limits cli))) \<and>
     (\<forall>r \<in> set (utils_routes @ hooks_routes). route_accepts env (fst r)) \<and>
     (\<forall>(l, r) \<in> set (configured_limits (run_limits cli)). rrl_period r \<noteq> 0) \<and>
     reporter (as_diagnostics (sd_app_state sd)) = ''git-events-runner'' \<and> \<not> as_ready (sd_app_state sd) \<and>
     as_source_clone_folder (sd_app_state sd) = source_clone_folder cli \<and>
     sd_secrets sd = Some \<lparr> expiration_timeout = from_secs (secrets_cache_time cli), sc_cache = Map.empty \<rparr>) \<and>
     (\<forall>h. run_start tls_env env cli None None w = Returns (Inr sd, w') \<and> HooksWeb h \<in> set (sd_spawned sd) \<longrightarrow>
        (hw_listener h = Bind (webhooks_port cli) \<longleftrightarrow>
           tls_cert_path cli = None \<and> tls_key_path cli = None \<and> tls_secret_name cli = None \<and>
           tls_secret_namespace cli = None))"
  (is "(?run \<longleftrightarrow> ?steps) \<and> ?tls")
proof
  show iff: "?run \<longleftrightarrow> ?steps"
    unfolding run_start_Returns run_start_servers_Returns rrl_layers_Returns [OF assms(1,2)] new_app_state_eq
    by (cases sd) (auto simp: init_secrets_cache_def)
  have listener: "hw_listener h = Bind (webhooks_port cli) \<longleftrightarrow> fst (build_tls_config tls_env cli w) = Inr None"
    if "?run" "HooksWeb h \<in> set (sd_spawned sd)" for h
  proof -
    from that(1) [unfolded iff] have b: "fst (build_tls_config tls_env cli w) = Inr (sd_tls sd)" by force
    from that(1) [unfolded iff] have "sd_spawned sd = [ConfigWatch (config_map_name cli), CacheWatch, LeaseWatch] @
       wanted_servers cli (sd_identity sd) (sd_app_state sd) (sd_tls sd)
         (map (layer_of (governor_finish env)) (configured_limits (run_limits cli)))" by (elim conjE)
    with that(2) have "hw_listener h =
        (case sd_tls sd of Some t \<Rightarrow> BindRustls (webhooks_port cli) t | None \<Rightarrow> Bind (webhooks_port cli))"
      by (auto simp: wanted_servers_def)
    with b show ?thesis by (simp split: option.split)
  qed
  show ?tls
  proof (intro allI impI, elim conjE)
    fix h assume "?run" "HooksWeb h \<in> set (sd_spawned sd)"
    from listener [OF this] show "hw_listener h = Bind (webhooks_port cli) \<longleftrightarrow>
           tls_cert_path cli = None \<and> tls_key_path cli = None \<and> tls_secret_name cli = None \<and>
           tls_secret_namespace cli = None"
      unfolding build_tls_config_None [OF assms(3)] .
  qed
qed

definition sample_runner_env ::
    "(string \<Rightarrow> bool) \<Rightarrow> (nat, requests_rate_limiter, signal_kind, string, string) runner_env" where
  "sample_runner_env accepts =
     \<lparr> route_accepts = accepts, bind_listener = (\<lambda>p w. (Inr (), w)),
       governor_finish = (\<lambda>l b d. if b = 0 \<or> d = 0 then None else Some l),
       run_tracing = \<lparr> filter_from_default_env = Inl '''', filter_try_new = Inr, process_env = Map.empty,
         span_exporter_build = Inr \<rparr>,
       run_signals = \<lparr> signal_register = (\<lambda>k w. (Inr k, w)) \<rparr>,
       new_uuid = (\<lambda>w. (''me'', w)), lease_manager_build = (\<lambda>n i ns d g w. (Inr (), w)) \<rparr>"

lemma sample_runner_laws:
  "governor_finish_law (governor_finish (sample_runner_env accepts))"
  "configured_limits (run_limits default_cli_config) = []"
  by (simp_all add: sample_runner_env_def governor_finish_law_def run_limits_def configured_limits_def
      optional_limit_def default_cli_config_def)

lemma sample_run_start:
  "\<exists>sd w'. run_start sample_tls_env (sample_runner_env (\<lambda>_. True)) default_cli_config None None 0 = Returns (Inr sd, w')"
  by (simp add: run_start_def setup_tracing_def get_trace_provider_def set_global_default_def build_tls_config_def
      run_start_servers_def signal_handler_new_def build_utils_web_def build_hooks_web_def utils_routes_def hooks_routes_def
      add_rrl_layer_def optional_rrl_layer_def run_limits_def init_secrets_cache_def sample_runner_env_def
      new_app_state_def default_diagnostics_def hooks_web_listener_def
      default_cli_config_def Let_def split: prod.splits)

theorem run_start_succeeds_iff_witness:
  "\<exists>sd w'. run_start sample_tls_env (sample_runner_env (\<lambda>_. True)) default_cli_config None None 0 = Returns (Inr sd, w') \<and>
     sd_identity sd = ''me'' \<and>
     sd_spawned sd = [ConfigWatch (config_map_name default_cli_config), CacheWatch, LeaseWatch] @
       wanted_servers default_cli_config ''me'' (sd_app_state sd) None []"
proof -
  obtain sd w' where r: "run_start sample_tls_env (sample_runner_env (\<lambda>_. True)) default_cli_config None None 0 =
    Returns (Inr sd, w')" using sample_run_start by blast
  have ident: "new_uuid (sample_runner_env (\<lambda>_. True)) w = (i, w1) \<longleftrightarrow> i = ''me'' \<and> w1 = w" for w w1 i
    by (auto simp: sample_runner_env_def)
  have tls: "build_tls_config sample_tls_env default_cli_config 0 = (Inr None, 0)"
    by (simp add: build_tls_config_def default_cli_config_def)
  have "\<forall>(l, r) \<in> set (configured_limits (run_limits default_cli_config)). \<exists>s. rrl_try_from s = Returns (Inr r)"
    by (simp add: sample_runner_laws)
  note start = run_start_succeeds_iff [OF sample_runner_laws(1) [of "\<lambda>_. True"] this, where sd = sd and w' = w'
        and tls_env = sample_tls_env and w = 0]
  have "cli_config_ok default_cli_config" by (simp add: cli_config_ok_def default_cli_config_def)
  from conjunct1 [OF start [OF this]] r have "sd_identity sd = ''me'' \<and>
     sd_spawned sd = [ConfigWatch (config_map_name default_cli_config), CacheWatch, LeaseWatch] @
       wanted_servers default_cli_config ''me'' (sd_app_state sd) None []"
    unfolding tls ident sample_runner_laws(2) by auto
  with r show ?thesis by blast
qed

section \<open>Routes of axum 0.8\<close>

text \<open>The router of axum since version 0.8, which the lock file pins: \<^verbatim>\<open>Router::route\<close> panics on a path
  with a segment that starts with a colon, the syntax of captures up to version 0.7.\<close>

definition axum_08_paths :: "(string \<Rightarrow> bool) \<Rightarrow> bool" where
  "axum_08_paths accepts \<longleftrightarrow>
     (\<forall>p. accepts p \<longrightarrow> (\<forall>seg \<in> set (split_on CHR ''/'' p). seg = [] \<or> hd seg \<noteq> CHR '':''))"

lemma axum_08_rejects_hooks:
  assumes "axum_08_paths accepts"
  shows "add_routes accepts hooks_routes router = Panics ''invalid route''"
proof -
  have "CHR '':'' # ''trigger'' \<in> set (split_on CHR ''/'' ''/:namespace/:trigger'')" by simp
  then have "\<not> accepts ''/:namespace/:trigger''" using assms unfolding axum_08_paths_def by (metis list.discI list.sel(1))
  then show ?thesis by (simp add: hooks_routes_def)
qed

text \<open>
  C19. With the router that the lock file pins the controller never starts: whatever the command line
  and the environment, no run gets as far as its loop, and when every step before the webhooks
  server succeeds the process panics while adding the route \<^verbatim>\<open>/:namespace/:trigger\<close>.
\<close>

theorem axum_08_never_starts:
  assumes "axum_08_paths (route_accepts env)"
  shows "(\<forall>sd w'. run_start tls_env env cli global shared w \<noteq> Returns (Inr sd, w')) \<and>
     (\<forall>p t w1 ident w2 st w3 cache w4 signals w5 utils.
        setup_tracing (run_tracing env) (json_logs cli) global = Returns p \<and>
        build_tls_config tls_env cli w = (Inr t, w1) \<and> new_uuid env w1 = (ident, w2) \<and>
        new_app_state tls_env (source_clone_folder cli) w2 = (st, w3) \<and>
        init_secrets_cache (from_secs (secrets_cache_time cli)) shared = Returns cache \<and>
        lease_manager_build env (leader_lease_name cli) ident (client_namespace tls_env)
          (leader_lease_duration cli) (leader_lease_grace cli) w3 = (Inr (), w4) \<and>
        signal_handler_new (run_signals env) w4 = (Inr signals, w5) \<and>
        build_utils_web env st (utility_port cli) w5 = Returns utils \<longrightarrow>
        run_start tls_env env cli global shared w = Panics ''invalid route'')"
proof -
  note hooks = axum_08_rejects_hooks [OF assms]
  have "\<not> (\<forall>r \<in> set hooks_routes. route_accepts env (fst r))"
    using add_routes_Returns [of "route_accepts env" hooks_routes "[]" hooks_routes] hooks [of "[]"] by auto
  then have "\<forall>sd w'. run_start tls_env env cli global shared w \<noteq> Returns (Inr sd, w')"
    unfolding run_start_Returns run_start_servers_Returns by auto
  then show ?thesis
    by (auto simp: run_start_def run_start_servers_def build_hooks_web_def hooks)
qed

theorem axum_08_never_starts_witness:
  "run_start sample_tls_env (sample_runner_env (\<lambda>p. CHR '':'' \<notin> set p)) default_cli_config None None 0 =
     Panics ''invalid route''"
proof -
  have colon: "c \<in> set seg \<Longrightarrow> seg \<in> set (split_on d s) \<Longrightarrow> c \<in> set s" for c d seg s
    by (induction s arbitrary: seg) (fastforce split: if_splits list.splits)+
  have "axum_08_paths (route_accepts (sample_runner_env (\<lambda>p. CHR '':'' \<notin> set p)))"
    by (auto simp: axum_08_paths_def sample_runner_env_def) (metis colon list.set_sel(1))
  from axum_08_never_starts [OF this, of sample_tls_env default_cli_config None None 0] show ?thesis
    by (simp add: sample_runner_env_def setup_tracing_def get_trace_provider_def set_global_default_def Let_def
        build_tls_config_def default_cli_config_def signal_handler_new_def build_utils_web_def utils_routes_def
        init_secrets_cache_def case_prod_beta)
qed

end
