(* ===== verification/Metrics_Correct.thy ===== *)
theory Metrics_Correct
  imports Metrics
begin

text \<open>
  What the metrics promise: whatever components use them, in whatever order and how often, no use
  panics and every metric is registered exactly once, provided the prefix is a valid beginning of a
  metric name; with any other prefix, which the command line accepts, every use panics, and the jobs
  queue is dead from the start.
\<close>

section \<open>Names\<close>

definition metric_start_char :: "char \<Rightarrow> bool" where
  "metric_start_char c \<longleftrightarrow>
     (65 \<le> (of_char c :: nat) \<and> (of_char c :: nat) \<le> 90) \<or> (97 \<le> (of_char c :: nat) \<and> (of_char c :: nat) \<le> 122) \<or>
     c = CHR ''_'' \<or> c = CHR '':''"

definition metric_char :: "char \<Rightarrow> bool" where
  "metric_char c \<longleftrightarrow> metric_start_char c \<or> is_digit c"

text \<open>The names Prometheus documents as valid: \<^verbatim>\<open>[a-zA-Z_:][a-zA-Z0-9_:]*\<close>, for labels without the colon.\<close>

definition valid_metric_name :: "string \<Rightarrow> bool" where
  "valid_metric_name s \<longleftrightarrow> s \<noteq> [] \<and> metric_start_char (hd s) \<and> list_all metric_char (tl s)"

definition valid_label_name :: "string \<Rightarrow> bool" where
  "valid_label_name s \<longleftrightarrow> valid_metric_name s \<and> CHR '':'' \<notin> set s"

text \<open>A prefix that makes valid names.\<close>

definition valid_prefix :: "string \<Rightarrow> bool" where
  "valid_prefix p \<longleftrightarrow> p = [] \<or> valid_metric_name p"

definition metric_suffix :: "string \<Rightarrow> bool" where
  "metric_suffix s \<longleftrightarrow> s \<noteq> [] \<and> hd s = CHR ''_'' \<and> list_all metric_char s"

lemma prefixed_name_valid: "metric_suffix s \<Longrightarrow> valid_metric_name (p @ s) \<longleftrightarrow> valid_prefix p"
  by (cases p; cases s) (auto simp: metric_suffix_def valid_metric_name_def valid_prefix_def metric_start_char_def)

section \<open>What Prometheus promises\<close>

text \<open>A constructor accepts exactly the valid definitions; registration fails exactly for a name that is
  registered already. \<open>registered\<close> are the names in a registry.\<close>

definition valid_metric_def :: "metric_def \<Rightarrow> bool" where
  "valid_metric_def m \<longleftrightarrow>
     valid_metric_name (mt_name m) \<and> mt_help m \<noteq> [] \<and> list_all valid_label_name (mt_labels m) \<and>
     distinct (mt_labels m) \<and>
     (mt_kind m = Histogram \<or> mt_kind m = HistogramVec \<longrightarrow>
        ''le'' \<notin> set (mt_labels m) \<and> sorted_wrt (<) (mt_buckets m))"

definition prometheus_laws :: "('r, 'z) prometheus_scheme \<Rightarrow> ('r \<Rightarrow> string set) \<Rightarrow> bool" where
  "prometheus_laws prom registered \<longleftrightarrow>
     (\<forall>m. (\<exists>u. metric_new prom m = Inr u) \<longleftrightarrow> valid_metric_def m) \<and>
     (\<forall>m r. mt_name m \<notin> registered r \<longrightarrow>
        (\<exists>r'. registry_add prom m r = Inr r' \<and> registered r' = insert (mt_name m) (registered r))) \<and>
     (\<forall>m r. mt_name m \<in> registered r \<longrightarrow> (\<exists>e. registry_add prom m r = Inl e))"

lemma new_metric_law:
  assumes "prometheus_laws prom registered"
  shows "new_metric prom m =
     (if valid_metric_def m then Returns m else Panics ''called Result::unwrap() on an Err value'')"
proof -
  have "(\<exists>u. metric_new prom m = Inr u) \<longleftrightarrow> valid_metric_def m"
    using assms by (simp add: prometheus_laws_def)
  then show ?thesis by (auto simp: new_metric_def split: sum.splits)
qed

lemma register_all_law:
  assumes "prometheus_laws prom registered" and "distinct (map mt_name ms)"
    and "set (map mt_name ms) \<inter> registered r = {}"
  shows "\<exists>r'. register_all prom ms r = (Returns (), r') \<and> registered r' = registered r \<union> set (map mt_name ms)"
  using assms(2,3)
proof (induction ms arbitrary: r)
  case (Cons m ms)
  obtain r1 where r1: "registry_add prom m r = Inr r1" "registered r1 = insert (mt_name m) (registered r)"
    using assms(1) Cons.prems(2) unfolding prometheus_laws_def by (metis disjoint_iff list.set_intros(1) list.simps(9))
  with Cons.IH [of r1] Cons.prems show ?case by auto
qed simp

section \<open>The metrics of each component\<close>

text \<open>The documented names (\<^verbatim>\<open>docs/guides/observability.md\<close>), in the order of registration.\<close>

fun metric_names :: "string \<Rightarrow> metrics_user \<Rightarrow> string list" where
  "metric_names p JobsUser =
     [p @ ''_jobs_queue_limit'', p @ ''_jobs_queue_running'', p @ ''_jobs_queue_waiting'',
      p @ ''_jobs_queue_waiting_duration_seconds'', p @ ''_jobs_queue_completed_count'',
      p @ ''_jobs_queue_completed_duration_seconds'']"
| "metric_names p ControllerUser =
     [p @ ''_reconcile_count'', p @ ''_reconcile_duration_seconds'', p @ ''_failed_reconcile_count'']"
| "metric_names p TriggerUser = [p @ ''_trigger_check_count'', p @ ''_trigger_check_duration_seconds'']"
| "metric_names p WebUser = [p @ ''_webhook_requests_duration_seconds'', p @ ''_webhook_requests_count'']"

lemma metric_names_distinct: "distinct (metric_names p u)"
  by (cases u) simp_all

lemma metric_names_disjoint: "u \<noteq> v \<Longrightarrow> set (metric_names p u) \<inter> set (metric_names p v) = {}"
  by (cases u; cases v) simp_all

text \<open>The suffixes, labels and buckets are fine; only the prefix decides.\<close>

lemma label_names_valid:
  "list_all valid_label_name completed_label_names" "distinct completed_label_names" "''le'' \<notin> set completed_label_names"
  "list_all valid_label_name reconcile_label_names" "distinct reconcile_label_names" "''le'' \<notin> set reconcile_label_names"
  "list_all valid_label_name trigger_label_names" "distinct trigger_label_names" "''le'' \<notin> set trigger_label_names"
  "list_all valid_label_name web_label_names" "distinct web_label_names" "''le'' \<notin> set web_label_names"
  by (simp_all add: completed_label_names_def reconcile_label_names_def trigger_label_names_def web_label_names_def
      valid_label_name_def valid_metric_name_def metric_char_def metric_start_char_def)

lemma suffixes_valid:
  "metric_suffix ''_jobs_queue_limit''" "metric_suffix ''_jobs_queue_running''" "metric_suffix ''_jobs_queue_waiting''"
  "metric_suffix ''_jobs_queue_waiting_duration_seconds''" "metric_suffix ''_jobs_queue_completed_count''"
  "metric_suffix ''_jobs_queue_completed_duration_seconds''" "metric_suffix ''_reconcile_count''"
  "metric_suffix ''_reconcile_duration_seconds''" "metric_suffix ''_failed_reconcile_count''"
  "metric_suffix ''_trigger_check_count''" "metric_suffix ''_trigger_check_duration_seconds''"
  "metric_suffix ''_webhook_requests_duration_seconds''" "metric_suffix ''_webhook_requests_count''"
  by (simp_all add: metric_suffix_def metric_char_def metric_start_char_def)

lemmas prefixed_names_valid = suffixes_valid [THEN prefixed_name_valid]

lemmas own_metric_valid =
  valid_metric_def_def metric_constructors prefixed_names_valid label_names_valid

text \<open>What the default and the registration of a component do together.\<close>

definition makes_metrics ::
    "('r \<Rightarrow> string set) \<Rightarrow> bool \<Rightarrow> string list \<Rightarrow> ('r \<Rightarrow> 'a outcome \<times> 'r) \<Rightarrow> bool" where
  "makes_metrics registered valid names init \<longleftrightarrow>
     (\<forall>r. if valid
          then set names \<inter> registered r = {} \<longrightarrow>
                 (\<exists>x r'. init r = (Returns x, r') \<and> registered r' = registered r \<union> set names)
          else \<exists>m. init r = (Panics m, r))"

lemma makes_metricsI:
  assumes laws: "prometheus_laws prom registered" and "distinct names"
    and "valid \<Longrightarrow> \<exists>x. dflt = Returns x \<and> map mt_name (metrics_of x) = names"
    and "\<not> valid \<Longrightarrow> \<exists>m. dflt = Panics m"
  shows "makes_metrics registered valid names (metrics_init dflt (register_self prom metrics_of))"
proof (cases valid)
  case True
  then obtain x where x: "dflt = Returns x" "map mt_name (metrics_of x) = names" using assms(3) by blast
  have "\<exists>r'. register_all prom (metrics_of x) r = (Returns (), r') \<and> registered r' = registered r \<union> set names"
    if "set names \<inter> registered r = {}" for r
    using register_all_law [OF laws, of "metrics_of x" r] x(2) assms(2) that by simp
  with True x(1) show ?thesis
    by (fastforce simp: makes_metrics_def metrics_init_def register_self_def)
next
  case False
  with assms(4) show ?thesis by (auto simp: makes_metrics_def metrics_init_def)
qed

lemma component_metrics:
  assumes "prometheus_laws prom registered"
  shows jobs_makes_metrics:
      "makes_metrics registered (valid_prefix (metrics_prefix cli)) (metric_names (metrics_prefix cli) JobsUser)
         (metrics_init (jobs_metrics_default prom (Some cli)) (jobs_metrics_register prom))"
    and controller_makes_metrics:
      "makes_metrics registered (valid_prefix (metrics_prefix cli)) (metric_names (metrics_prefix cli) ControllerUser)
         (metrics_init (controller_metrics_default prom (Some cli)) (controller_metrics_register prom))"
    and trigger_makes_metrics:
      "makes_metrics registered (valid_prefix (metrics_prefix cli)) (metric_names (metrics_prefix cli) TriggerUser)
         (metrics_init (trigger_metrics_default prom (Some cli)) (trigger_metrics_register prom))"
    and web_makes_metrics:
      "makes_metrics registered (valid_prefix (metrics_prefix cli)) (metric_names (metrics_prefix cli) WebUser)
         (metrics_init (web_metrics_default prom (Some cli)) (web_metrics_register prom))"
  unfolding jobs_metrics_register_def controller_metrics_register_def trigger_metrics_register_def web_metrics_register_def
  by (rule makes_metricsI [OF assms metric_names_distinct];
      simp add: jobs_metrics_default_def controller_metrics_default_def trigger_metrics_default_def
        web_metrics_default_def cli_config_get_def unwrap_def new_metric_law [OF assms] own_metric_valid)+

section \<open>The statics\<close>

text \<open>The state of a component's static, whatever it holds.\<close>

definition lock_state :: "'r metrics_statics \<Rightarrow> metrics_user \<Rightarrow> unit lazy_lock" where
  "lock_state s u =
     (case u of
        JobsUser \<Rightarrow> map_lazy_lock (\<lambda>_. ()) (mst_jobs s)
      | ControllerUser \<Rightarrow> map_lazy_lock (\<lambda>_. ()) (mst_controller s)
      | TriggerUser \<Rightarrow> map_lazy_lock (\<lambda>_. ()) (mst_trigger s)
      | WebUser \<Rightarrow> map_lazy_lock (\<lambda>_. ()) (mst_web s))"

text \<open>The outcome of one use of the static of \<open>u\<close>, by the state of the static before.\<close>

definition used_metrics ::
    "('r \<Rightarrow> string set) \<Rightarrow> string \<Rightarrow> metrics_user \<Rightarrow> 'r metrics_statics \<Rightarrow> unit outcome \<Rightarrow> 'r metrics_statics \<Rightarrow> bool" where
  "used_metrics registered p u s x s' \<longleftrightarrow>
     (if valid_prefix p then
        lock_state s u \<noteq> LazyPoisoned \<and>
        (lock_state s u = LazyUninit \<longrightarrow> set (metric_names p u) \<inter> registered (mst_registry s) = {}) \<longrightarrow>
        x = Returns () \<and> lock_state s' = (lock_state s)(u := LazyReady ()) \<and>
        registered (mst_registry s') =
          registered (mst_registry s) \<union> (if lock_state s u = LazyUninit then set (metric_names p u) else {})
      else
        lock_state s u \<noteq> LazyReady () \<longrightarrow>
        (\<exists>m. x = Panics m) \<and> lock_state s' = (lock_state s)(u := LazyPoisoned) \<and> mst_registry s' = mst_registry s)"

lemma lock_state_upd:
  "lock_state (s\<lparr> mst_jobs := j, mst_registry := r \<rparr>) = (lock_state s)(JobsUser := map_lazy_lock (\<lambda>_. ()) j)"
  "lock_state (s\<lparr> mst_controller := c, mst_registry := r \<rparr>) = (lock_state s)(ControllerUser := map_lazy_lock (\<lambda>_. ()) c)"
  "lock_state (s\<lparr> mst_trigger := t, mst_registry := r \<rparr>) = (lock_state s)(TriggerUser := map_lazy_lock (\<lambda>_. ()) t)"
  "lock_state (s\<lparr> mst_web := w, mst_registry := r \<rparr>) = (lock_state s)(WebUser := map_lazy_lock (\<lambda>_. ()) w)"
  by (auto simp: lock_state_def fun_eq_iff split: metrics_user.splits)

lemma lazy_force_makes:
  assumes "makes_metrics registered valid names init"
  shows "case lazy_force init l r of (x, l', r') \<Rightarrow>
     if valid then
       l \<noteq> LazyPoisoned \<and> (l = LazyUninit \<longrightarrow> set names \<inter> registered r = {}) \<longrightarrow>
       (\<exists>v. x = Returns v) \<and> map_lazy_lock (\<lambda>_. ()) l' = LazyReady () \<and>
       registered r' = registered r \<union> (if l = LazyUninit then set names else {})
     else (\<forall>v. l \<noteq> LazyReady v) \<longrightarrow> (\<exists>m. x = Panics m) \<and> l' = LazyPoisoned \<and> r' = r"
  using assms spec [OF assms [unfolded makes_metrics_def], of r]
  by (cases l) (auto simp: lazy_force_def split: if_splits)

lemma map_lazy_lock_iff:
  "map_lazy_lock (\<lambda>_. ()) l = LazyUninit \<longleftrightarrow> l = LazyUninit"
  "map_lazy_lock (\<lambda>_. ()) l = LazyPoisoned \<longleftrightarrow> l = LazyPoisoned"
  "map_lazy_lock (\<lambda>_. ()) l = LazyReady u \<longleftrightarrow> (\<exists>v. l = LazyReady v)"
  by (cases l; simp)+

text \<open>
  What a static promises, for each of the four components: where its lock is kept, that a use forces
  the lock and touches nothing but the lock and the registry, and what its initialiser makes.
\<close>

locale lazy_static =
  fixes user :: metrics_user
    and lock :: "'r metrics_statics \<Rightarrow> 'a lazy_lock"
    and upd :: "'a lazy_lock \<Rightarrow> 'r \<Rightarrow> 'r metrics_statics \<Rightarrow> 'r metrics_statics"
    and init :: "('r, 'z) prometheus_scheme \<Rightarrow> cli_config option \<Rightarrow> 'r \<Rightarrow> 'a outcome \<times> 'r"
  assumes lock_state_lock: "lock_state s user = map_lazy_lock (\<lambda>_. ()) (lock s)"
    and lock_state_set: "lock_state (upd l r s) = (lock_state s)(user := map_lazy_lock (\<lambda>_. ()) l)"
    and registry_set: "mst_registry (upd l r s) = r"
    and use_forces: "use_metrics prom shared user s =
      (case lazy_force (init prom shared) (lock s) (mst_registry s) of
         (x, l, r) \<Rightarrow> (outcome_bind x (\<lambda>_. Returns ()), upd l r s))"
    and init_makes: "prometheus_laws prom registered \<Longrightarrow>
      makes_metrics registered (valid_prefix (metrics_prefix cli)) (metric_names (metrics_prefix cli) user)
        (init prom (Some cli))"
begin

lemma use_used:
  fixes prom :: "('r, 'z) prometheus_scheme"
  assumes "prometheus_laws prom registered" and "use_metrics prom (Some cli) user s = (x, s')"
  shows "used_metrics registered (metrics_prefix cli) user s x s'"
proof -
  obtain y l r where f: "lazy_force (init prom (Some cli)) (lock s) (mst_registry s) = (y, l, r)"
    by (metis prod.exhaust)
  with assms(2) have "x = outcome_bind y (\<lambda>_. Returns ())" "s' = upd l r s" by (simp_all add: use_forces)
  with lazy_force_makes [OF init_makes [OF assms(1)], of cli "lock s" "mst_registry s"] f show ?thesis
    by (auto simp: used_metrics_def lock_state_lock lock_state_set registry_set map_lazy_lock_iff split: if_splits)
qed

end

interpretation jobs_static: lazy_static JobsUser mst_jobs "\<lambda>l r s. s\<lparr> mst_jobs := l, mst_registry := r \<rparr>"
  "\<lambda>prom shared. metrics_init (jobs_metrics_default prom shared) (jobs_metrics_register prom)"
  by unfold_locales (simp_all add: lock_state_def [of _ JobsUser] lock_state_upd use_metrics_def jobs_METRICS_def
      jobs_makes_metrics case_prod_beta del: metric_names.simps)

interpretation controller_static: lazy_static ControllerUser mst_controller
  "\<lambda>l r s. s\<lparr> mst_controller := l, mst_registry := r \<rparr>"
  "\<lambda>prom shared. metrics_init (controller_metrics_default prom shared) (controller_metrics_register prom)"
  by unfold_locales (simp_all add: lock_state_def [of _ ControllerUser] lock_state_upd use_metrics_def
      controller_METRICS_def controller_makes_metrics case_prod_beta del: metric_names.simps)

interpretation trigger_static: lazy_static TriggerUser mst_trigger
  "\<lambda>l r s. s\<lparr> mst_trigger := l, mst_registry := r \<rparr>"
  "\<lambda>prom shared. metrics_init (trigger_metrics_default prom shared) (trigger_metrics_register prom)"
  by unfold_locales (simp_all add: lock_state_def [of _ TriggerUser] lock_state_upd use_metrics_def
      trigger_METRICS_def trigger_makes_metrics case_prod_beta del: metric_names.simps)

interpretation web_static: lazy_static WebUser mst_web "\<lambda>l r s. s\<lparr> mst_web := l, mst_registry := r \<rparr>"
  "\<lambda>prom shared. metrics_init (web_metrics_default prom shared) (web_metrics_register prom)"
  by unfold_locales (simp_all add: lock_state_def [of _ WebUser] lock_state_upd use_metrics_def web_METRICS_def
      web_makes_metrics case_prod_beta del: metric_names.simps)

lemma use_metrics_used:
  assumes "prometheus_laws prom registered"
  shows "case use_metrics prom (Some cli) u s of (x, s') \<Rightarrow> used_metrics registered (metrics_prefix cli) u s x s'"
  using jobs_static.use_used [OF assms] controller_static.use_used [OF assms] trigger_static.use_used [OF assms]
    web_static.use_used [OF assms]
  by (cases u) (simp_all split: prod.splits)

section \<open>Any order of uses\<close>

definition fresh_names :: "('r \<Rightarrow> string set) \<Rightarrow> string \<Rightarrow> 'r \<Rightarrow> bool" where
  "fresh_names registered p r \<longleftrightarrow> (\<forall>u. set (metric_names p u) \<inter> registered r = {})"

text \<open>After the components in \<open>used\<close> have used their metrics.\<close>

definition statics_ok ::
    "('r \<Rightarrow> string set) \<Rightarrow> string \<Rightarrow> 'r \<Rightarrow> metrics_user set \<Rightarrow> 'r metrics_statics \<Rightarrow> bool" where
  "statics_ok registered p r0 used s \<longleftrightarrow>
     lock_state s = (\<lambda>u. if u \<in> used then LazyReady () else LazyUninit) \<and>
     registered (mst_registry s) = registered r0 \<union> (\<Union>u \<in> used. set (metric_names p u))"

definition statics_poisoned :: "'r \<Rightarrow> 'r metrics_statics \<Rightarrow> bool" where
  "statics_poisoned r0 s \<longleftrightarrow> (\<forall>u. lock_state s u \<noteq> LazyReady ()) \<and> mst_registry s = r0"

lemma lock_state_initial: "lock_state (initial_statics r) = (\<lambda>u. LazyUninit)" "mst_registry (initial_statics r) = r"
  by (auto simp: lock_state_def initial_statics_def split: metrics_user.splits)

lemma use_metrics_ok:
  assumes "prometheus_laws prom registered" and "valid_prefix (metrics_prefix cli)"
    and fresh: "fresh_names registered (metrics_prefix cli) r0"
    and "statics_ok registered (metrics_prefix cli) r0 used s"
  shows "\<exists>s'. use_metrics prom (Some cli) u s = (Returns (), s') \<and>
              statics_ok registered (metrics_prefix cli) r0 (insert u used) s'"
proof -
  obtain x s' where x: "use_metrics prom (Some cli) u s = (x, s')" by (cases "use_metrics prom (Some cli) u s")
  have "set (metric_names (metrics_prefix cli) u) \<inter> registered (mst_registry s) = {}" if "u \<notin> used"
  proof -
    have "set (metric_names (metrics_prefix cli) u) \<inter> set (metric_names (metrics_prefix cli) v) = {}" if "v \<in> used" for v
      using metric_names_disjoint \<open>u \<notin> used\<close> that by metis
    with fresh assms(4) show ?thesis unfolding fresh_names_def statics_ok_def by blast
  qed
  with use_metrics_used [OF assms(1), of cli u s] x assms(2,4) show ?thesis
    by (auto simp: used_metrics_def statics_ok_def fun_eq_iff)
qed

lemma use_metrics_poisoned:
  assumes "prometheus_laws prom registered" and "\<not> valid_prefix (metrics_prefix cli)" and "statics_poisoned r0 s"
  shows "\<exists>m s'. use_metrics prom (Some cli) u s = (Panics m, s') \<and> statics_poisoned r0 s'"
  using use_metrics_used [OF assms(1), of cli u s] assms(2,3)
  by (auto simp: used_metrics_def statics_poisoned_def split: prod.splits)

lemma use_all_ok:
  assumes "prometheus_laws prom registered" and "valid_prefix (metrics_prefix cli)"
    and "fresh_names registered (metrics_prefix cli) r0" and "statics_ok registered (metrics_prefix cli) r0 used s"
  shows "\<exists>s'. use_all prom (Some cli) users s = (map (\<lambda>_. Returns ()) users, s') \<and>
              statics_ok registered (metrics_prefix cli) r0 (used \<union> set users) s'"
  using assms(4)
proof (induction users arbitrary: used s)
  case (Cons u users)
  from use_metrics_ok [OF assms(1-3) Cons.prems, of u] obtain s1 where
    "use_metrics prom (Some cli) u s = (Returns (), s1)"
    "statics_ok registered (metrics_prefix cli) r0 (insert u used) s1" by blast
  with Cons.IH [of "insert u used" s1] show ?case by auto
qed simp

lemma use_all_poisoned:
  assumes "prometheus_laws prom registered" and "\<not> valid_prefix (metrics_prefix cli)" and "statics_poisoned r0 s"
  shows "case use_all prom (Some cli) users s of (xs, s') \<Rightarrow>
           length xs = length users \<and> (\<forall>x \<in> set xs. \<exists>m. x = Panics m) \<and> statics_poisoned r0 s'"
  using assms(3)
proof (induction users arbitrary: s)
  case (Cons u users)
  from use_metrics_poisoned [OF assms(1,2) Cons.prems, of u] obtain m s1 where
    "use_metrics prom (Some cli) u s = (Panics m, s1)" "statics_poisoned r0 s1" by blast
  with Cons.IH [of s1] show ?case by (auto split: prod.splits)
qed simp

text \<open>
  C20. Initialisation of the metrics, for every sequence of uses by the four components, in any
  order and however often: when the prefix given on the command line begins a valid metric name no
  use panics, and the registry gains exactly the documented names of the components that were
  used, each once (registering one twice would panic). With any other prefix, such as one with a
  hyphen, every use of every component panics and nothing is registered.
\<close>

theorem metrics_initialised:
  assumes "prometheus_laws prom registered" and "fresh_names registered (metrics_prefix cli) r"
  shows "case use_all prom (Some cli) users (initial_statics r) of (xs, s) \<Rightarrow>
     if valid_prefix (metrics_prefix cli) then
       xs = map (\<lambda>_. Returns ()) users \<and>
       registered (mst_registry s) = registered r \<union> (\<Union>u \<in> set users. set (metric_names (metrics_prefix cli) u))
     else length xs = length users \<and> (\<forall>x \<in> set xs. \<exists>m. x = Panics m) \<and> mst_registry s = r"
proof (cases "valid_prefix (metrics_prefix cli)")
  case True
  have "statics_ok registered (metrics_prefix cli) r {} (initial_statics r)"
    by (simp add: statics_ok_def lock_state_initial)
  from use_all_ok [OF assms(1) True assms(2) this, of users] True show ?thesis
    by (auto simp: statics_ok_def)
next
  case False
  have "statics_poisoned r (initial_statics r)"
    by (simp add: statics_poisoned_def lock_state_initial)
  from use_all_poisoned [OF assms(1) False this, of users] False show ?thesis
    by (auto simp: statics_poisoned_def split: prod.splits)
qed

definition sample_prometheus :: "string list prometheus" where
  "sample_prometheus =
     \<lparr> metric_new = (\<lambda>m. if valid_metric_def m then Inr () else Inl ''invalid''),
       registry_add = (\<lambda>m r. if mt_name m \<in> set r then Inl ''duplicate'' else Inr (mt_name m # r)) \<rparr>"

lemma sample_prometheus_laws: "prometheus_laws sample_prometheus set" "fresh_names set p []"
  by (auto simp: prometheus_laws_def sample_prometheus_def fresh_names_def)

lemma sample_prefixes: "valid_prefix DEFAULT_METRICS_PREFIX" "\<not> valid_prefix ''git-events-runner''"
  by (simp_all add: DEFAULT_METRICS_PREFIX_def valid_prefix_def valid_metric_name_def metric_char_def
      metric_start_char_def is_digit_def)

theorem metrics_initialised_witness:
  "fst (use_all sample_prometheus (Some default_cli_config) [WebUser, JobsUser, WebUser] (initial_statics [])) =
     [Returns (), Returns (), Returns ()] \<and>
   list_all (\<lambda>x. \<exists>m. x = Panics m)
     (fst (use_all sample_prometheus (Some (default_cli_config\<lparr> metrics_prefix := ''git-events-runner'' \<rparr>))
        [WebUser, JobsUser] (initial_statics [])))"
  using metrics_initialised [OF sample_prometheus_laws, of default_cli_config "[WebUser, JobsUser, WebUser]"]
    metrics_initialised [OF sample_prometheus_laws, of "default_cli_config\<lparr> metrics_prefix := ''git-events-runner'' \<rparr>"
      "[WebUser, JobsUser]"]
    sample_prefixes
  by (auto simp: default_cli_config_def list_all_iff split: prod.splits)

section \<open>Labels\<close>

text \<open>Every counting site passes as many values as its metric declares labels, so no count is dropped.\<close>

lemma new_metric_Returns_iff: "new_metric prom m = Returns m' \<longleftrightarrow> (\<exists>u. metric_new prom m = Inr u) \<and> m' = m"
  by (auto simp: new_metric_def split: sum.splits)

lemma completed_labels_match:
  assumes "completed_labels j status = Returns values" and "jobs_metrics_default prom shared = Returns ms"
  shows "length values = length (mt_labels (jm_completed_count ms)) \<and>
         length values = length (mt_labels (jm_completed_duration ms))"
  using assms
  by (auto simp: completed_labels_def jobs_metrics_default_def outcome_bind_Returns_iff new_metric_Returns_iff
      int_counter_vec_def histogram_vec_def completed_label_names_def)

section \<open>The jobs queue\<close>

lemma with_metrics_result:
  assumes "prometheus_laws prom registered" and "fresh_names registered (metrics_prefix cli) r"
  shows "if valid_prefix (metrics_prefix cli)
         then fst (with_metrics prom (Some cli) user x (initial_statics r)) = x
         else \<not> returns (fst (with_metrics prom (Some cli) user x (initial_statics r)))"
  using use_metrics_used [OF assms(1), of cli user "initial_statics r"]
    assms(2) [unfolded fresh_names_def, rule_format, of user]
  by (cases x; cases "use_metrics prom (Some cli) user (initial_statics r)")
    (auto simp: with_metrics_def used_metrics_def lock_state_initial split: if_splits)

text \<open>
  C21. A prefix that Prometheus rejects kills the jobs queue: its task panics at the start, and from
  then on every attempt to enqueue a Job is answered with an error, although the Job is kept in a
  channel nobody reads; and the first request, run of a task and reconciliation panic at their end,
  after their work. With a valid prefix, and a limit that fits the gauge, the start returns, the
  queue accepts Jobs and the metrics change no result.
\<close>

theorem metrics_prefix_decides_queue:
  assumes "prometheus_laws prom registered" and "fresh_names registered (metrics_prefix cli) r"
    and "unat (max_running_jobs (action cfg)) < 9223372036854775808"
  shows "\<exists>x q s. jobs_queue_start prom (Some cli) cfg ident (None, initial_statics r) = (x, Some q, s) \<and>
     identity q = ident \<and> queue_jobs q = [] \<and>
     (if valid_prefix (metrics_prefix cli)
      then x = Returns () \<and> (\<forall>env j ns exp w. fst (enqueue env j ns exp (Some q, w)) = Inr ()) \<and>
        (\<forall>user (y :: 'v outcome). fst (with_metrics prom (Some cli) user y (initial_statics r)) = y)
      else (\<exists>m. x = Panics m) \<and>
        (\<forall>env j ns exp w. \<exists>e. fst (enqueue env j ns exp (Some q, w)) = Inl (JobsQueueError e)) \<and>
        (\<forall>user (y :: 'v outcome). \<not> returns (fst (with_metrics prom (Some cli) user y (initial_statics r)))))"
proof -
  obtain x s where u: "use_metrics prom (Some cli) JobsUser (initial_statics r) = (x, s)"
    by (cases "use_metrics prom (Some cli) JobsUser (initial_statics r)")
  have "if valid_prefix (metrics_prefix cli) then x = Returns () else \<exists>m. x = Panics m"
    using use_metrics_used [OF assms(1), of cli JobsUser "initial_statics r"] u
      assms(2) [unfolded fresh_names_def, rule_format, of JobsUser]
    by (simp add: used_metrics_def lock_state_initial split: if_splits)
  moreover have "if valid_prefix (metrics_prefix cli)
      then \<forall>user (y :: 'v outcome). fst (with_metrics prom (Some cli) user y (initial_statics r)) = y
      else \<forall>user (y :: 'v outcome). \<not> returns (fst (with_metrics prom (Some cli) user y (initial_statics r)))"
    by (auto simp: with_metrics_result [OF assms(1,2), simplified if_bool_eq_conj])
  ultimately show ?thesis
    using u assms(3)
    by (auto simp: use_metrics_def jobs_queue_start_def init_jobs_queue_def enqueue_def update_gauges_def
        i64_try_from_def unwrap_def Let_def split: prod.splits if_splits outcome.splits)
qed

theorem metrics_prefix_decides_queue_witness:
  "\<exists>q s m. jobs_queue_start sample_prometheus (Some (default_cli_config\<lparr> metrics_prefix := ''git-events-runner'' \<rparr>))
       default_runtime_config ''me'' (None, initial_statics []) = (Panics m, Some q, s)"
proof -
  have "unat (max_running_jobs (action default_runtime_config)) < 9223372036854775808"
    by (simp add: default_runtime_config_def default_action_config_def)
  from metrics_prefix_decides_queue [OF sample_prometheus_laws this,
      of "default_cli_config\<lparr> metrics_prefix := ''git-events-runner'' \<rparr>" "''me''"] sample_prefixes
  show ?thesis by auto
qed

end
