(* ===== verification/Jobs_Interleaving.thy ===== *)
theory Jobs_Interleaving
  imports Jobs_Correct
begin

text \<open>
  The jobs queue at the granularity of its \<^verbatim>\<open>await\<close> points. A pass of \<^verbatim>\<open>run_queue\<close> waits for the API
  server after it has submitted a job, and in the meantime jobs are enqueued and watch events are
  handled; the pass holds the lock of the waiting channel, so there is one pass at a time. \<open>Jobs\<close>
  has the pass as one operation, which is the special case in which nothing happens in between.
\<close>

section \<open>A pass in pieces\<close>

text \<open>Where a pass is, with its locals \<^verbatim>\<open>waiting_jobs\<close> and \<^verbatim>\<open>free_capacity\<close>: none runs, before
  the condition of the loop, waiting for the answer to a submitted job, or dropped by the shutdown
  with the job it waited for.\<close>

datatype pass_state =
    NoPass
  | Receiving nat usize
  | Creating nat usize jobs_queue_item string
  | Stopped "jobs_queue_item option"

fun in_flight :: "pass_state \<Rightarrow> jobs_queue_item list" where
  "in_flight NoPass = []"
| "in_flight (Receiving waiting free) = []"
| "in_flight (Creating waiting free item ns) = [item]"
| "in_flight (Stopped None) = []"
| "in_flight (Stopped (Some item)) = [item]"

text \<open>Up to the loop.\<close>

definition pass_begin :: "runtime_config \<Rightarrow> jobs_queue \<Rightarrow> (jobs_queue \<times> pass_state) outcome" where
  "pass_begin cfg q =
     (let running = running_jobs q;
          waiting = length (queue_jobs q);
          limit = max_running_jobs (action cfg)
      in outcome_bind (update_gauges cfg waiting q) (\<lambda>q1.
           Returns (q1, if running > limit then NoPass else Receiving waiting (limit - running))))"

text \<open>From the condition of the loop to the next \<^verbatim>\<open>await\<close> that is not ready at once: the end of
  the pass, an expired item, or a job that is submitted. An empty channel makes \<^verbatim>\<open>recv\<close> wait.\<close>

definition pass_receive ::
    "('w, 'z) jobs_env_scheme \<Rightarrow> runtime_config \<Rightarrow> nat \<Rightarrow> usize \<Rightarrow> jobs_queue \<times> 'w \<Rightarrow>
     (jobs_queue \<times> pass_state \<times> 'w) outcome" where
  "pass_receive env cfg waiting free qw =
     (case qw of (q, w) \<Rightarrow>
      if waiting = 0 \<or> free = 0 then Returns (q, NoPass, w)
      else (case queue_jobs q of
              [] \<Rightarrow> Returns (q, Receiving waiting free, w)
            | item # rest \<Rightarrow>
                outcome_bind (unwrap (om_namespace (job_meta (item_job item)))) (\<lambda>ns.
                outcome_bind (is_expired env cfg item w) (\<lambda>(expired, w1).
                  if \<not> expired then
                    (case now env w1 of (t, w2) \<Rightarrow>
                       outcome_bind (unwrap (duration_since t (enqueued_at item))) (\<lambda>d.
                         Returns (measure_waiting_duration d (q\<lparr> queue_jobs := rest \<rparr>),
                                  Creating (waiting - 1) free item ns, w2)))
                  else
                    outcome_bind
                      (count_and_measure_completed env (item_job item) Expired
                         (q\<lparr> queue_jobs := rest, trace := trace q @ [JobExpired item] \<rparr>, w1))
                      (\<lambda>(q2, w2). outcome_bind (update_gauges cfg (waiting - 1) q2) (\<lambda>q3.
                         Returns (q3, Receiving (waiting - 1) free, w2)))))))"

text \<open>The answer of the API server to a submitted job, up to the condition of the loop.\<close>

definition pass_answer ::
    "('w, 'z) jobs_env_scheme \<Rightarrow> runtime_config \<Rightarrow> nat \<Rightarrow> usize \<Rightarrow> jobs_queue_item \<Rightarrow> string \<Rightarrow>
     jobs_queue \<times> 'w \<Rightarrow> (jobs_queue \<times> pass_state \<times> 'w) outcome" where
  "pass_answer env cfg waiting free item ns qw =
     (case qw of (q, w) \<Rightarrow>
      (case create_job env ns (item_job item) w of
         (Inr _, w1) \<Rightarrow>
           outcome_bind (update_gauges cfg waiting (q\<lparr> trace := trace q @ [JobCreated item] \<rparr>)) (\<lambda>q1.
             Returns (q1, Receiving waiting (free - 1), w1))
       | (Inl e, w1) \<Rightarrow>
           outcome_bind
             (count_and_measure_completed env (item_job item) CreateError
                (q\<lparr> trace := trace q @ [JobCreateError item] \<rparr>, w1))
             (\<lambda>(q1, w2). outcome_bind (update_gauges cfg waiting q1) (\<lambda>q2.
                Returns (q2, Receiving waiting free, w2)))))"

text \<open>What the shutdown leaves of a pass.\<close>

fun pass_dropped :: "pass_state \<Rightarrow> pass_state" where
  "pass_dropped NoPass = Stopped None"
| "pass_dropped (Receiving waiting free) = Stopped None"
| "pass_dropped (Creating waiting free item ns) = Stopped (Some item)"
| "pass_dropped (Stopped i) = Stopped i"

lemma in_flight_dropped [simp]: "in_flight (pass_dropped p) = in_flight p"
  by (cases p rule: pass_dropped.cases) simp_all

section \<open>Interleaved steps\<close>

text \<open>A step of the running pass. The configuration is the one in force at that moment.\<close>

inductive pass_step ::
    "('w, 'z) jobs_env_scheme \<Rightarrow> jobs_queue \<times> pass_state \<times> 'w \<Rightarrow> jobs_queue \<times> pass_state \<times> 'w \<Rightarrow> bool"
  for env where
  receive: "pass_receive env cfg waiting free (q, w) = Returns (q', p', w') \<Longrightarrow>
     pass_step env (q, Receiving waiting free, w) (q', p', w')"
| answer: "pass_answer env cfg waiting free item ns (q, w) = Returns (q', p', w') \<Longrightarrow>
     pass_step env (q, Creating waiting free item ns, w) (q', p', w')"

text \<open>What happens besides it: a trigger task enqueues a job with the labels an action gives it, an
  element of the watch stream is handled, the outside world moves. \<open>ok\<close> restricts the events of the
  watch stream.\<close>

inductive other_step ::
    "('w, 'z) jobs_env_scheme \<Rightarrow> (jobs_queue \<Rightarrow> (string \<times> string \<rightharpoonup> job) \<Rightarrow> string + job \<Rightarrow> bool) \<Rightarrow>
     jobs_queue \<times> 'w \<Rightarrow> jobs_queue \<times> 'w \<Rightarrow> bool"
  for env ok where
  enqueued: "labelled j \<Longrightarrow> enqueue env j ns exp (Some q, w) = (r, Some q', w') \<Longrightarrow>
     other_step env ok (q, w) (q', w')"
| touched: "ok q store ev \<Longrightarrow> job_stream_event env store ev (q, w) = Returns (q', w') \<Longrightarrow>
     other_step env ok (q, w) (q', w')"
| outside: "other_step env ok (q, w) (q, w')"

inductive interleaved_step ::
    "('w, 'z) jobs_env_scheme \<Rightarrow> (jobs_queue \<Rightarrow> (string \<times> string \<rightharpoonup> job) \<Rightarrow> string + job \<Rightarrow> bool) \<Rightarrow>
     jobs_queue \<times> pass_state \<times> 'w \<Rightarrow> jobs_queue \<times> pass_state \<times> 'w \<Rightarrow> bool"
  for env ok where
  begins: "event_loop_alive q \<Longrightarrow> pass_begin cfg (q\<lparr> queue_event := ev \<rparr>) = Returns (q', p') \<Longrightarrow>
     interleaved_step env ok (q, NoPass, w) (q', p', w)"
| passes: "pass_step env s s' \<Longrightarrow> interleaved_step env ok s s'"
| other: "other_step env ok (q, w) (q', w') \<Longrightarrow> interleaved_step env ok (q, p, w) (q', p, w')"
| shutdown: "interleaved_step env ok (q, p, w) (q\<lparr> event_loop_alive := False \<rparr>, pass_dropped p, w)"

inductive_cases pass_stepE: "pass_step env (q, p, w) (q', p', w')"
inductive_cases other_stepE: "other_step env ok (q, w) (q', w')"
inductive_cases interleaved_stepE: "interleaved_step env ok (q, p, w) (q', p', w')"

text \<open>Every event of the watch stream, and the regular ones only.\<close>

definition any_event :: "jobs_queue \<Rightarrow> (string \<times> string \<rightharpoonup> job) \<Rightarrow> string + job \<Rightarrow> bool" where
  "any_event q store ev \<longleftrightarrow> True"

definition regular_events :: "jobs_queue \<Rightarrow> (string \<times> string \<rightharpoonup> job) \<Rightarrow> string + job \<Rightarrow> bool" where
  "regular_events q store ev \<longleftrightarrow> (case ev of Inl e \<Rightarrow> True | Inr j \<Rightarrow> regular_event q store j)"

lemma interleaved_step_weaken:
  assumes "interleaved_step env ok s s'"
  shows "interleaved_step env any_event s s'"
  using assms
  by (induction rule: interleaved_step.induct)
    (auto intro: interleaved_step.intros other_step.intros elim!: other_step.cases simp: any_event_def)

section \<open>The undisturbed pass\<close>

lemma measure_waiting_duration_frame [simp]:
  "queue_jobs (measure_waiting_duration d q) = queue_jobs q"
  "trace (measure_waiting_duration d q) = trace q"
  "running_jobs (measure_waiting_duration d q) = running_jobs q"
  "statuses (measure_waiting_duration d q) = statuses q"
  "identity (measure_waiting_duration d q) = identity q"
  by (simp_all add: measure_waiting_duration_def)

lemma create_is_pass_steps:
  assumes "queue_jobs q = item # rest" and "free \<noteq> 0"
    and "om_namespace (job_meta (item_job item)) = Some ns"
    and "is_expired env cfg item w = Returns (False, w0)"
    and "run_queue_create env ns item (q\<lparr> queue_jobs := rest \<rparr>, w0) = Returns (c, q1, w1)"
    and "update_gauges cfg n q1 = Returns q2"
  shows "(pass_step env)\<^sup>*\<^sup>* (q, Receiving (Suc n) free, w)
           (q2, Receiving n (if c then free - 1 else free), w1)"
proof -
  obtain t w2 where n: "now env w0 = (t, w2)" by force
  from assms(5) n obtain d where d: "duration_since t (enqueued_at item) = Some d"
    by (auto simp: run_queue_create_def)
  let ?q = "measure_waiting_duration d (q\<lparr> queue_jobs := rest \<rparr>)"
  have "pass_receive env cfg (Suc n) free (q, w) = Returns (?q, Creating n free item ns, w2)"
    using assms(1-4) n d by (simp add: pass_receive_def)
  then have "pass_step env (q, Receiving (Suc n) free, w) (?q, Creating n free item ns, w2)"
    by (rule pass_step.receive)
  moreover have "pass_answer env cfg n free item ns (?q, w2)
      = Returns (q2, Receiving n (if c then free - 1 else free), w1)"
    using assms(5,6) n d
    by (cases "create_job env ns (item_job item) w2"; cases "fst (create_job env ns (item_job item) w2)")
      (auto simp: pass_answer_def run_queue_create_def)
  then have "pass_step env (?q, Creating n free item ns, w2)
      (q2, Receiving n (if c then free - 1 else free), w1)"
    by (rule pass_step.answer)
  ultimately show ?thesis by (meson converse_rtranclp_into_rtranclp r_into_rtranclp)
qed

lemma item_is_pass_steps:
  assumes "queue_jobs q = item # rest" and "free \<noteq> 0"
    and "run_queue_item env cfg item (q\<lparr> queue_jobs := rest \<rparr>, w) = Returns (c, q1, w1)"
    and "update_gauges cfg n q1 = Returns q2"
  shows "(pass_step env)\<^sup>*\<^sup>* (q, Receiving (Suc n) free, w)
           (q2, Receiving n (if c then free - 1 else free), w1)"
proof -
  from assms(3) obtain ns b w0 where ns: "om_namespace (job_meta (item_job item)) = Some ns"
    and ex: "is_expired env cfg item w = Returns (b, w0)"
    by (auto simp: run_queue_item_def)
  show ?thesis
  proof (cases b)
    case False
    with assms(3) ns ex have "run_queue_create env ns item (q\<lparr> queue_jobs := rest \<rparr>, w0) = Returns (c, q1, w1)"
      and ex': "is_expired env cfg item w = Returns (False, w0)"
      by (simp_all add: run_queue_item_def)
    from create_is_pass_steps [OF assms(1,2) ns ex' this(1) assms(4)] show ?thesis .
  next
    case True
    with assms(3) ns ex have c: "\<not> c" and "count_and_measure_completed env (item_job item) Expired
         (q\<lparr> queue_jobs := rest, trace := trace q @ [JobExpired item] \<rparr>, w0) = Returns (q1, w1)"
      by (auto simp: run_queue_item_def)
    with True assms(1,2,4) ns ex
    have "pass_receive env cfg (Suc n) free (q, w) = Returns (q2, Receiving n free, w1)"
      by (simp add: pass_receive_def)
    then have "pass_step env (q, Receiving (Suc n) free, w) (q2, Receiving n free, w1)"
      by (rule pass_step.receive)
    with c show ?thesis by auto
  qed
qed

lemma loop_is_pass_steps:
  assumes "run_queue_loop env cfg n free (q, w) = Returns (q', w')" and "n \<le> length (queue_jobs q)"
  shows "(pass_step env)\<^sup>*\<^sup>* (q, Receiving n free, w) (q', NoPass, w')"
  using assms
proof (induction n arbitrary: free q w)
  case 0
  then have "pass_receive env cfg 0 free (q, w) = Returns (q', NoPass, w')"
    by (simp add: pass_receive_def)
  then show ?case by (blast intro: pass_step.receive)
next
  case (Suc n)
  show ?case
  proof (cases "free = 0")
    case True
    with Suc.prems have "pass_receive env cfg (Suc n) free (q, w) = Returns (q', NoPass, w')"
      by (simp add: pass_receive_def)
    then show ?thesis by (blast intro: pass_step.receive)
  next
    case False
    from Suc.prems(2) obtain item rest where qj: "queue_jobs q = item # rest"
      by (cases "queue_jobs q") auto
    from Suc.prems(1) False qj obtain c q1 w1 q2 where
      item: "run_queue_item env cfg item (q\<lparr> queue_jobs := rest \<rparr>, w) = Returns (c, q1, w1)"
      and gauges: "update_gauges cfg n q1 = Returns q2"
      and loop: "run_queue_loop env cfg n (if c then free - 1 else free) (q2, w1) = Returns (q', w')"
      by auto
    have "queue_jobs q2 = rest"
      using run_queue_item_Returns [OF item] update_gauges_frame [OF gauges] by auto
    then have "n \<le> length (queue_jobs q2)" using Suc.prems(2) qj by simp
    from item_is_pass_steps [OF qj False item gauges] Suc.IH [OF loop this]
    show ?thesis by (rule rtranclp_trans)
  qed
qed

lemma pass_steps_interleaved:
  "(pass_step env)\<^sup>*\<^sup>* s s' \<Longrightarrow> (interleaved_step env ok)\<^sup>*\<^sup>* s s'"
  by (erule rtranclp_mono [THEN predicate2D, rotated]) (blast intro: interleaved_step.passes)

text \<open>The atomic pass of \<open>Jobs\<close> is the interleaved one with nothing in between.\<close>

lemma run_queue_interleaved:
  assumes "run_queue env cfg (q\<lparr> queue_event := ev \<rparr>, w) = Returns (q', w')" and "event_loop_alive q"
  shows "(interleaved_step env ok)\<^sup>*\<^sup>* (q, NoPass, w) (q', NoPass, w')"
proof -
  let ?q = "q\<lparr> queue_event := ev \<rparr>" and ?limit = "max_running_jobs (action cfg)"
  from assms(1) obtain q1 where g: "update_gauges cfg (length (queue_jobs ?q)) ?q = Returns q1"
    and body: "(if running_jobs ?q > ?limit then Returns (q1, w)
                else run_queue_loop env cfg (length (queue_jobs ?q)) (?limit - running_jobs ?q) (q1, w))
               = Returns (q', w')"
    by (auto simp: run_queue_def Let_def)
  let ?p = "if running_jobs ?q > ?limit then NoPass
            else Receiving (length (queue_jobs ?q)) (?limit - running_jobs ?q)"
  from g have "pass_begin cfg ?q = Returns (q1, ?p)" by (simp add: pass_begin_def Let_def)
  with assms(2) have b: "interleaved_step env ok (q, NoPass, w) (q1, ?p, w)"
    by (rule interleaved_step.begins)
  have "(interleaved_step env ok)\<^sup>*\<^sup>* (q1, ?p, w) (q', NoPass, w')"
  proof (cases "running_jobs ?q > ?limit")
    case False
    with body have "run_queue_loop env cfg (length (queue_jobs ?q)) (?limit - running_jobs ?q) (q1, w)
        = Returns (q', w')" by simp
    moreover have "length (queue_jobs ?q) \<le> length (queue_jobs q1)"
      using update_gauges_frame [OF g] by auto
    ultimately have "(pass_step env)\<^sup>*\<^sup>* (q1, ?p, w) (q', NoPass, w')"
      using loop_is_pass_steps False by simp
    then show ?thesis by (rule pass_steps_interleaved)
  qed (use body in simp)
  with b show ?thesis by (rule converse_rtranclp_into_rtranclp)
qed

section \<open>What the pieces do\<close>

lemma pass_receiveE [consumes 1, case_names ended waits submits expires]:
  assumes "pass_receive env cfg waiting free (q, w) = Returns (q', p', w')"
  obtains "waiting = 0 \<or> free = 0" "q' = q" "p' = NoPass" "w' = w"
  | "waiting \<noteq> 0" "queue_jobs q = []" "q' = q" "p' = Receiving waiting free" "w' = w"
  | item rest ns d where "waiting \<noteq> 0" "free \<noteq> 0" "queue_jobs q = item # rest"
      "om_namespace (job_meta (item_job item)) = Some ns" "\<not> past_deadline cfg item (fst (now env w))"
      "q' = measure_waiting_duration d (q\<lparr> queue_jobs := rest \<rparr>)"
      "p' = Creating (waiting - 1) free item ns"
  | item rest w1 q2 where "waiting \<noteq> 0" "queue_jobs q = item # rest"
      "past_deadline cfg item (fst (now env w))"
      "count_and_measure_completed env (item_job item) Expired
         (q\<lparr> queue_jobs := rest, trace := trace q @ [JobExpired item] \<rparr>, w1) = Returns (q2, w')"
      "update_gauges cfg (waiting - 1) q2 = Returns q'" "p' = Receiving (waiting - 1) free"
proof (cases "waiting = 0 \<or> free = 0 \<or> queue_jobs q = []")
  case True
  show thesis
  proof (cases "waiting = 0 \<or> free = 0")
    case True
    with assms show thesis by (intro that(1)) (simp_all add: pass_receive_def)
  next
    case False
    with assms \<open>waiting = 0 \<or> free = 0 \<or> queue_jobs q = []\<close> show thesis
      by (intro that(2)) (simp_all add: pass_receive_def)
  qed
next
  case False
  then obtain item rest where qj: "queue_jobs q = item # rest" by (cases "queue_jobs q") auto
  with assms False obtain ns b w1 where ns: "om_namespace (job_meta (item_job item)) = Some ns"
    and ex: "is_expired env cfg item w = Returns (b, w1)"
    by (auto simp: pass_receive_def)
  from ex have b: "b \<longleftrightarrow> past_deadline cfg item (fst (now env w))"
    by (auto simp: is_expired_Returns past_deadline_def checked_add_Some_iff)
  show thesis
  proof (cases b)
    case True
    with assms False qj ns ex obtain q2 where
      "count_and_measure_completed env (item_job item) Expired
         (q\<lparr> queue_jobs := rest, trace := trace q @ [JobExpired item] \<rparr>, w1) = Returns (q2, w')"
      "update_gauges cfg (waiting - 1) q2 = Returns q'" "p' = Receiving (waiting - 1) free"
      by (auto simp: pass_receive_def)
    with that(4) False qj b True show thesis by blast
  next
    case not_expired: False
    with assms False qj ns ex obtain d where
      "q' = measure_waiting_duration d (q\<lparr> queue_jobs := rest \<rparr>)"
      "p' = Creating (waiting - 1) free item ns"
      by (cases "now env w1") (auto simp: pass_receive_def)
    with that(3) False qj ns b not_expired show thesis by blast
  qed
qed

lemma pass_answerE [consumes 1, case_names created refused]:
  assumes "pass_answer env cfg waiting free item ns (q, w) = Returns (q', p', w')"
  obtains "fst (create_job env ns (item_job item) w) = Inr ()"
      "update_gauges cfg waiting (q\<lparr> trace := trace q @ [JobCreated item] \<rparr>) = Returns q'"
      "p' = Receiving waiting (free - 1)"
  | e w1 q1 where "fst (create_job env ns (item_job item) w) = Inl e"
      "count_and_measure_completed env (item_job item) CreateError
         (q\<lparr> trace := trace q @ [JobCreateError item] \<rparr>, w1) = Returns (q1, w')"
      "update_gauges cfg waiting q1 = Returns q'" "p' = Receiving waiting free"
proof -
  obtain r w1 where cr: "create_job env ns (item_job item) w = (r, w1)" by force
  show thesis
  proof (cases r)
    case (Inl e)
    with assms cr obtain q1 where
      "count_and_measure_completed env (item_job item) CreateError
         (q\<lparr> trace := trace q @ [JobCreateError item] \<rparr>, w1) = Returns (q1, w')"
      "update_gauges cfg waiting q1 = Returns q'" "p' = Receiving waiting free"
      by (auto simp: pass_answer_def)
    with that(2) cr Inl show thesis by simp
  next
    case (Inr u)
    with assms cr that(1) show thesis by (auto simp: pass_answer_def)
  qed
qed

text \<open>The trace entry a piece of a pass adds, and what else it changes of the queue.\<close>

definition piece_result ::
    "jobs_queue \<times> pass_state \<Rightarrow> jobs_queue \<times> pass_state \<Rightarrow> queue_trace list \<Rightarrow> bool" where
  "piece_result qp qp' done \<longleftrightarrow>
     (case (qp, qp') of ((q, p), (q', p')) \<Rightarrow>
        trace q' = trace q @ done \<and>
        map trace_item done @ in_flight p' @ queue_jobs q' = in_flight p @ queue_jobs q \<and>
        running_jobs q' = running_jobs q \<and> statuses q' = statuses q \<and> identity q' = identity q \<and>
        event_loop_alive q' = event_loop_alive q)"

lemma pass_receive_result:
  assumes "pass_receive env cfg waiting free (q, w) = Returns (q', p', w')"
  shows "\<exists>done. piece_result (q, Receiving waiting free) (q', p') done \<and>
           (\<forall>tr \<in> set done. trace_justified env cfg tr)"
  using assms
proof (cases rule: pass_receiveE)
  case (submits item rest ns d)
  then show ?thesis
    by (intro exI [of _ "[]"]) (simp add: piece_result_def measure_waiting_duration_def)
next
  case (expires item rest w1 q2)
  with count_and_measure_completed_frame [OF expires(4)] update_gauges_frame [OF expires(5)] show ?thesis
    by (intro exI [of _ "[JobExpired item]"]) (auto simp: piece_result_def)
qed (auto simp: piece_result_def)

lemma pass_answer_result:
  assumes "pass_answer env cfg waiting free item ns (q, w) = Returns (q', p', w')"
    and "om_namespace (job_meta (item_job item)) = Some ns"
    and "\<not> past_deadline cfg' item (fst (now env w0))"
  shows "\<exists>done. piece_result (q, Creating waiting free item ns) (q', p') done \<and>
           (\<forall>tr \<in> set done. trace_justified env cfg' tr)"
  using assms(1)
proof (cases rule: pass_answerE)
  case created
  with assms(2,3) update_gauges_frame [OF created(2)] show ?thesis
    by (intro exI [of _ "[JobCreated item]"]) (auto simp: piece_result_def)
next
  case (refused e w1 q1)
  with assms(2,3) count_and_measure_completed_frame [OF refused(2)] update_gauges_frame [OF refused(3)]
  show ?thesis by (intro exI [of _ "[JobCreateError item]"]) (auto simp: piece_result_def)
qed

lemma pass_step_piece:
  assumes "pass_step env (q, p, w) (q', p', w')"
  shows "\<exists>done. piece_result (q, p) (q', p') done"
  using assms
proof (cases rule: pass_step.cases)
  case (receive cfg waiting free)
  from pass_receive_result [OF receive(2)] receive(1) show ?thesis by blast
next
  case (answer cfg waiting free item ns)
  from answer(2) show ?thesis
  proof (cases rule: pass_answerE)
    case created
    with answer(1) update_gauges_frame [OF created(2)] show ?thesis
      by (intro exI [of _ "[JobCreated item]"]) (auto simp: piece_result_def)
  next
    case (refused e w1 q1)
    with answer(1) count_and_measure_completed_frame [OF refused(2)] update_gauges_frame [OF refused(3)]
    show ?thesis by (intro exI [of _ "[JobCreateError item]"]) (auto simp: piece_result_def)
  qed
qed

lemma enqueue_appends:
  assumes "enqueue env j ns exp (Some q, w) = (r, Some q', w')"
  shows "\<exists>item. queue_jobs q' = queue_jobs q @ [item]" "trace q' = trace q"
    "running_jobs q' = running_jobs q" "statuses q' = statuses q"
  using assms by (auto simp: enqueue_def Let_def split: prod.splits if_splits)

lemma job_stream_event_keeps:
  assumes "job_stream_event env store ev (q, w) = Returns (q', w')"
  shows "queue_jobs q' = queue_jobs q \<and> trace q' = trace q \<and> identity q' = identity q"
proof (cases ev)
  case (Inr j)
  with assms obtain q1 w1 where t: "job_touched env store j (q, w) = Returns (q1, w1)"
    and q': "q' = q1\<lparr> queue_event := True \<rparr>" by (auto simp: job_stream_event_def)
  from job_touched_effect [OF t]
  have "queue_jobs q1 = queue_jobs q \<and> trace q1 = trace q \<and> identity q1 = identity q"
    by (auto split: option.splits)
  with q' show ?thesis by simp
qed (use assms in \<open>auto simp: job_stream_event_def\<close>)

lemma other_step_appends:
  assumes "other_step env ok (q, w) (q', w')"
  shows "\<exists>items. queue_jobs q' = queue_jobs q @ items \<and> trace q' = trace q"
  using assms
proof (cases rule: other_step.cases)
  case (enqueued j ns exp r)
  from enqueue_appends [OF enqueued(2)] show ?thesis by auto
next
  case (touched store ev)
  from job_stream_event_keeps [OF touched(2)] show ?thesis by simp
qed auto

lemma pass_begin_Returns:
  assumes "pass_begin cfg q = Returns (q', p')"
  shows "\<exists>m. q' = q\<lparr> metrics := m \<rparr>"
    and "p' = (if running_jobs q > max_running_jobs (action cfg) then NoPass
               else Receiving (length (queue_jobs q)) (max_running_jobs (action cfg) - running_jobs q))"
  using assms update_gauges_frame by (auto simp: pass_begin_def Let_def)

section \<open>One pass among other steps\<close>

text \<open>A handled item is justified under some configuration that was in force.\<close>

definition justified :: "('w, 'z) jobs_env_scheme \<Rightarrow> queue_trace \<Rightarrow> bool" where
  "justified env tr \<longleftrightarrow> (\<exists>cfg. trace_justified env cfg tr)"

lemma justifiedI: "\<forall>tr \<in> set done. trace_justified env cfg tr \<Longrightarrow> \<forall>tr \<in> set done. justified env tr"
  by (auto simp: justified_def)

text \<open>A submitted job was not expired when it was taken from the queue.\<close>

definition submission_ok :: "('w, 'z) jobs_env_scheme \<Rightarrow> pass_state \<Rightarrow> bool" where
  "submission_ok env p \<longleftrightarrow>
     (case p of
        Creating waiting free item ns \<Rightarrow>
          om_namespace (job_meta (item_job item)) = Some ns \<and>
          (\<exists>cfg w. \<not> past_deadline cfg item (fst (now env w)))
      | _ \<Rightarrow> True)"

lemma pass_step_result:
  assumes "pass_step env (q, p, w) (q', p', w')" and "submission_ok env p"
  shows "\<exists>done. piece_result (q, p) (q', p') done \<and> (\<forall>tr \<in> set done. justified env tr)"
    and "submission_ok env p'"
proof -
  show "\<exists>done. piece_result (q, p) (q', p') done \<and> (\<forall>tr \<in> set done. justified env tr)"
    using assms(1)
  proof (cases rule: pass_step.cases)
    case (receive cfg waiting free)
    from pass_receive_result [OF receive(2)] receive(1) show ?thesis by (auto dest: justifiedI)
  next
    case (answer cfg waiting free item ns)
    with assms(2) obtain cfg' w0 where "om_namespace (job_meta (item_job item)) = Some ns"
      "\<not> past_deadline cfg' item (fst (now env w0))" by (auto simp: submission_ok_def)
    from pass_answer_result [OF answer(2) this] answer(1) show ?thesis by (auto dest: justifiedI)
  qed
  show "submission_ok env p'"
    using assms(1)
  proof (cases rule: pass_step.cases)
    case (receive cfg waiting free)
    from receive(2) show ?thesis by (cases rule: pass_receiveE) (auto simp: submission_ok_def)
  next
    case (answer cfg waiting free item ns)
    from answer(2) show ?thesis by (cases rule: pass_answerE) (auto simp: submission_ok_def)
  qed
qed

text \<open>The steps from the beginning of a pass to its end.\<close>

inductive during_pass ::
    "('w, 'z) jobs_env_scheme \<Rightarrow> jobs_queue \<times> pass_state \<times> 'w \<Rightarrow> jobs_queue \<times> pass_state \<times> 'w \<Rightarrow> bool"
  for env where
  piece: "pass_step env s s' \<Longrightarrow> during_pass env s s'"
| meanwhile: "other_step env any_event (q, w) (q', w') \<Longrightarrow> during_pass env (q, p, w) (q', p, w')"

text \<open>The progress of a pass that found \<open>n\<close> waiting items and room for \<open>f\<close> jobs, after it has
  handled \<open>done\<close>.\<close>

fun pass_progress :: "nat \<Rightarrow> nat \<Rightarrow> pass_state \<Rightarrow> queue_trace list \<Rightarrow> bool" where
  "pass_progress n f NoPass done \<longleftrightarrow>
     length done \<le> n \<and> length (filter is_created done) \<le> f \<and>
     (length done = n \<or> length (filter is_created done) = f)"
| "pass_progress n f (Receiving waiting free) done \<longleftrightarrow>
     waiting + length done = n \<and> unat free + length (filter is_created done) = f"
| "pass_progress n f (Creating waiting free item ns) done \<longleftrightarrow>
     Suc waiting + length done = n \<and> unat free + length (filter is_created done) = f \<and> free \<noteq> 0"
| "pass_progress n f (Stopped i) done \<longleftrightarrow> False"

lemma unat_pos: "(x :: 'a :: len word) \<noteq> 0 \<Longrightarrow> unat x \<noteq> 0"
  by (simp add: unat_eq_0)

lemma pass_step_progress:
  assumes "pass_step env (q, p, w) (q', p', w')" and "piece_result (q, p) (q', p') don"
    and "pass_progress n f p done"
  shows "pass_progress n f p' (done @ don)"
  using assms(1)
proof (cases rule: pass_step.cases)
  case (receive cfg waiting free)
  from receive(2) show ?thesis
  proof (cases rule: pass_receiveE)
    case ended
    with receive(1) assms(2,3) show ?thesis by (auto simp: piece_result_def unat_eq_0)
  next
    case waits
    with receive(1) assms(2,3) show ?thesis by (auto simp: piece_result_def)
  next
    case (submits item rest ns d)
    with receive(1) assms(2,3) show ?thesis by (auto simp: piece_result_def)
  next
    case (expires item rest w1 q2)
    from count_and_measure_completed_frame [OF expires(4)] update_gauges_frame [OF expires(5)]
    have "trace q' = trace q @ [JobExpired item]" by auto
    with expires receive(1) assms(2,3) show ?thesis by (auto simp: piece_result_def)
  qed
next
  case (answer cfg waiting free item ns)
  from answer(2) show ?thesis
  proof (cases rule: pass_answerE)
    case created
    from update_gauges_frame [OF created(2)] have "trace q' = trace q @ [JobCreated item]" by auto
    with created answer(1) assms(2,3) unat_pos [of free] show ?thesis
      by (auto simp: piece_result_def unat_minus_one)
  next
    case (refused e w1 q1)
    from count_and_measure_completed_frame [OF refused(2)] update_gauges_frame [OF refused(3)]
    have "trace q' = trace q @ [JobCreateError item]" by auto
    with refused answer(1) assms(2,3) show ?thesis by (auto simp: piece_result_def)
  qed
qed

lemma during_pass_progress:
  assumes "(during_pass env)\<^sup>*\<^sup>* (q0, p0, w0) (q, p, w)" and "submission_ok env p0"
    and "pass_progress n f p0 []"
  shows "\<exists>done submitted. trace q = trace q0 @ done \<and>
           map trace_item done @ in_flight p @ queue_jobs q = in_flight p0 @ queue_jobs q0 @ submitted \<and>
           (\<forall>tr \<in> set done. justified env tr) \<and> pass_progress n f p done \<and> submission_ok env p"
  using assms(1)
proof (induction "(q, p, w)" arbitrary: q p w rule: rtranclp_induct)
  case base
  with assms(2,3) show ?case by (intro exI [of _ "[]"]) simp
next
  case (step s q' p' w')
  obtain q p w where s: "s = (q, p, w)" by (cases s)
  from step(3) [OF s] obtain don sub where
    ih: "trace q = trace q0 @ don"
      "map trace_item don @ in_flight p @ queue_jobs q = in_flight p0 @ queue_jobs q0 @ sub"
      "\<forall>tr \<in> set don. justified env tr" "pass_progress n f p don" "submission_ok env p" by blast
  from step(2) [unfolded s] show ?case
  proof (cases rule: during_pass.cases)
    case piece
    from pass_step_result [OF piece ih(5)] obtain d where
      d: "piece_result (q, p) (q', p') d" "\<forall>tr \<in> set d. justified env tr" "submission_ok env p'" by blast
    from pass_step_progress [OF piece d(1) ih(4)] d ih(1-3) show ?thesis
      by (intro exI [of _ "don @ d"] exI [of _ sub]) (auto simp: piece_result_def)
  next
    case meanwhile
    from other_step_appends [OF meanwhile(2)] obtain items where
      "queue_jobs q' = queue_jobs q @ items" "trace q' = trace q" by blast
    with meanwhile(1) ih show ?thesis
      by (intro exI [of _ don] exI [of _ "sub @ items"]) (simp flip: append_assoc)
  qed
qed

text \<open>How many steps of its own a pass can still take.\<close>

fun pass_rank :: "pass_state \<Rightarrow> nat" where
  "pass_rank NoPass = 0"
| "pass_rank (Receiving waiting free) = 2 * waiting + 1"
| "pass_rank (Creating waiting free item ns) = 2 * waiting + 2"
| "pass_rank (Stopped i) = 0"

lemma pass_step_rank:
  assumes "pass_step env (q, p, w) (q', p', w')"
    and "\<And>waiting free. p = Receiving waiting free \<Longrightarrow> 0 < waiting \<Longrightarrow> queue_jobs q \<noteq> []"
  shows "pass_rank p' < pass_rank p"
  using assms(1)
proof (cases rule: pass_step.cases)
  case (receive cfg waiting free)
  from receive(2) show ?thesis
    by (cases rule: pass_receiveE) (use receive(1) assms(2) in auto)
next
  case (answer cfg waiting free item ns)
  from answer(2) show ?thesis by (cases rule: pass_answerE) (use answer(1) in auto)
qed

lemma pass_begin_progress:
  assumes "pass_begin cfg q = Returns (q1, p1)"
  shows "pass_progress (length (queue_jobs q)) (free_capacity cfg q) p1 []"
    "submission_ok env p1" "in_flight p1 = []" "trace q1 = trace q" "queue_jobs q1 = queue_jobs q"
proof -
  note b = pass_begin_Returns [OF assms]
  from b(1) show "trace q1 = trace q" "queue_jobs q1 = queue_jobs q" by auto
  from b(2) show "submission_ok env p1" "in_flight p1 = []" by (simp_all add: submission_ok_def)
  show "pass_progress (length (queue_jobs q)) (free_capacity cfg q) p1 []"
    using b(2) unat_sub [of "running_jobs q" "max_running_jobs (action cfg)"]
    by (cases "running_jobs q > max_running_jobs (action cfg)")
      (simp_all add: free_capacity_def word_less_nat_alt word_le_nat_alt)
qed

text \<open>
  C4. One pass of \<^verbatim>\<open>run_queue\<close> while, at its \<^verbatim>\<open>await\<close> points, jobs are enqueued, watch events change
  the counter and the configuration changes. It handles the items it found waiting, in order and
  for justified reasons, and those that were enqueued meanwhile wait behind them; the jobs it has
  created and the one it waits for never exceed the room that the limit left at its beginning; it
  ends only when it has handled all it found or has used that room up. It never waits on an empty
  channel, and each of its own steps brings it closer to its end, whatever happens in between.
\<close>

theorem interleaved_pass_limit:
  assumes "pass_begin cfg q0 = Returns (q1, p1)"
    and "(during_pass env)\<^sup>*\<^sup>* (q1, p1, w1) (q, p, w)"
  shows "(\<exists>done submitted. trace q = trace q0 @ done \<and>
            map trace_item done @ in_flight p @ queue_jobs q = queue_jobs q0 @ submitted \<and>
            (\<forall>tr \<in> set done. justified env tr) \<and>
            length done + length (in_flight p) \<le> length (queue_jobs q0) \<and>
            length (filter is_created done) + length (in_flight p)
              \<le> unat (max_running_jobs (action cfg)) - unat (running_jobs q0) \<and>
            (p = NoPass \<longrightarrow> length done = length (queue_jobs q0) \<or>
               length (filter is_created done)
                 = unat (max_running_jobs (action cfg)) - unat (running_jobs q0))) \<and>
         (\<forall>waiting free. p = Receiving waiting free \<longrightarrow> 0 < waiting \<longrightarrow> queue_jobs q \<noteq> []) \<and>
         (\<forall>q' p' w'. pass_step env (q, p, w) (q', p', w') \<longrightarrow> pass_rank p' < pass_rank p)"
proof -
  note b = pass_begin_progress [OF assms(1)]
  from during_pass_progress [OF assms(2) b(2) b(1)] b(3,4,5) obtain don sub where
    d: "trace q = trace q0 @ don"
      "map trace_item don @ in_flight p @ queue_jobs q = queue_jobs q0 @ sub"
      "\<forall>tr \<in> set don. justified env tr"
      "pass_progress (length (queue_jobs q0)) (free_capacity cfg q0) p don" by auto
  from arg_cong [OF d(2), of length]
  have len: "length don + length (in_flight p) + length (queue_jobs q) = length (queue_jobs q0) + length sub"
    by simp
  have bounds: "length don + length (in_flight p) \<le> length (queue_jobs q0)"
    "length (filter is_created don) + length (in_flight p) \<le> free_capacity cfg q0"
    "p = NoPass \<longrightarrow> length don = length (queue_jobs q0) \<or>
       length (filter is_created don) = free_capacity cfg q0"
    using d(4) unat_pos
    by (cases p; force)+
  have recv: "queue_jobs q \<noteq> []" if "p = Receiving n f" "0 < n" for n f
    using that d(4) len by auto
  have "pass_rank p' < pass_rank p" if "pass_step env (q, p, w) (q', p', w')" for q' p' w'
    using that recv by (rule pass_step_rank)
  with recv d(1-3) bounds show ?thesis unfolding free_capacity_def by blast
qed

text \<open>A pass over two waiting jobs, one of which has expired, while a third one is enqueued.\<close>

lemma sample_queue_jobs [simp]: "event_loop_alive sample_queue" "identity sample_queue = ''me''"
  by (simp_all add: sample_queue_def init_jobs_queue_def)

lemma sample_job_labelled: "labelled sample_job"
  using sample_job_measurable by (simp add: labelled_def measurable_def)

lemma sample_pass_begins:
  "\<exists>q1. pass_begin default_runtime_config sample_queue = Returns (q1, Receiving 2 16)"
  by (simp add: pass_begin_def Let_def update_gauges_def i64_try_from_def)
    (simp add: default_runtime_config_def default_action_config_def)

theorem interleaved_pass_limit_witness:
  "\<exists>q1 q r done submitted. pass_begin default_runtime_config sample_queue = Returns (q1, Receiving 2 16) \<and>
     enqueue sample_env sample_job ''default'' None (Some q1, ()) = (r, Some q, ()) \<and>
     trace q = done \<and> map trace_item done @ queue_jobs q = queue_jobs sample_queue @ submitted \<and>
     length (filter is_created done) \<le> 16"
proof -
  from sample_pass_begins obtain q1 where
    b: "pass_begin default_runtime_config sample_queue = Returns (q1, Receiving 2 16)" by blast
  obtain r q where e: "enqueue sample_env sample_job ''default'' None (Some q1, ()) = (r, Some q, ())"
    by (cases "event_loop_alive q1") (auto simp: enqueue_def sample_env_def Let_def)
  have "(during_pass sample_env)\<^sup>*\<^sup>* (q1, Receiving 2 16, ()) (q, Receiving 2 16, ())"
    using other_step.enqueued [OF sample_job_labelled e] by (blast intro: during_pass.meanwhile)
  from interleaved_pass_limit [OF b this] obtain don sub where
    "trace q = don" "map trace_item don @ queue_jobs q = queue_jobs sample_queue @ sub"
    "length (filter is_created don) \<le> 16" by auto
  with b e show ?thesis by blast
qed

end
