(* ===== verification/Jobs_Runs.thy ===== *)
theory Jobs_Runs
  imports Jobs_Interleaving
begin

text \<open>
  Whole runs of the jobs queue: the counter of running jobs over every interleaving of regular
  watch events with enqueueing and passes, the agreement of the metrics with what happened to the
  jobs in every reachable queue, and that passes with room empty the queue.
\<close>

section \<open>The counter over regular runs\<close>

lemma pass_step_counter_frame:
  assumes "pass_step env (q, p, w) (q', p', w')"
  shows "running_jobs q' = running_jobs q" "statuses q' = statuses q"
  using pass_step_piece [OF assms] by (auto simp: piece_result_def)

lemma other_step_counter:
  assumes "other_step env regular_events (q, w) (q', w')" and "counter_exact q"
  shows "counter_exact q'"
  using assms(1)
proof (cases rule: other_step.cases)
  case (enqueued j ns exp r)
  with assms(2) counter_exact_frame [OF enqueue_appends(3,4)] show ?thesis by metis
next
  case (touched store ev)
  show ?thesis
  proof (cases ev)
    case (Inl e)
    with touched(2) assms(2) show ?thesis
      by (auto simp: job_stream_event_def counter_exact_def active_keys_def)
  next
    case (Inr j)
    with touched(2) obtain q1 w1 where t: "job_touched env store j (q, w) = Returns (q1, w1)"
      and q': "q' = q1\<lparr> queue_event := True \<rparr>" by (auto simp: job_stream_event_def)
    have "counter_exact q1"
      using running_counter_exact [OF assms(2) _ t] touched(1) Inr by (simp add: regular_events_def)
    with q' show ?thesis by (simp add: counter_exact_def active_keys_def)
  qed
qed (use assms(2) in simp)

lemma interleaved_step_counter:
  assumes "interleaved_step env regular_events s s'" and "counter_exact (fst s)"
  shows "counter_exact (fst s')"
  using assms
proof (induction rule: interleaved_step.induct)
  case (begins q cfg ev q' p' w)
  from pass_begin_Returns(1) [OF begins.hyps(2)] begins.prems show ?case
    by (auto simp: counter_exact_def active_keys_def)
next
  case (passes s s')
  obtain q p w q' p' w' where s: "s = (q, p, w)" "s' = (q', p', w')" by (cases s, cases s')
  with passes counter_exact_frame [OF pass_step_counter_frame] show ?case by (metis fst_conv)
next
  case (other q w q' w' p)
  then show ?case using other_step_counter by (metis fst_conv)
qed (simp add: counter_exact_def active_keys_def)

lemma interleaved_steps_counter:
  "(interleaved_step env regular_events)\<^sup>*\<^sup>* s s' \<Longrightarrow> counter_exact (fst s) \<Longrightarrow> counter_exact (fst s')"
  by (induction rule: rtranclp_induct) (auto intro: interleaved_step_counter)

text \<open>
  C10. From the start of the queue and over every interleaving of enqueueing, pieces of passes,
  configuration changes and regular watch events (a job is first seen unfinished, and does not
  change once seen finished) the counter of running jobs equals the number of tracked jobs that
  were unfinished when last seen. So a pass that begins after any such history has room for
  exactly the limit minus that number of jobs, and for none when there are as many or more.
\<close>

theorem running_counter_exact_over_runs:
  assumes "(interleaved_step env regular_events)\<^sup>*\<^sup>* (init_jobs_queue ident, NoPass, w0) (q, p, w)"
    and "card (active_keys q) < 2 ^ 64"
  shows "unat (running_jobs q) = card (active_keys q) \<and>
    (\<forall>cfg q' p'. pass_begin cfg q = Returns (q', p') \<longrightarrow>
       p' = (if unat (max_running_jobs (action cfg)) < card (active_keys q) then NoPass
             else Receiving (length (queue_jobs q))
               (word_of_nat (unat (max_running_jobs (action cfg)) - card (active_keys q)))))"
proof -
  have c: "counter_exact q"
    using interleaved_steps_counter [OF assms(1)] by (simp add: counter_exact_init)
  then have u: "unat (running_jobs q) = card (active_keys q)"
    using assms(2) by (simp add: counter_exact_def unat_of_nat take_bit_eq_mod)
  have "p' = (if unat (max_running_jobs (action cfg)) < card (active_keys q) then NoPass
             else Receiving (length (queue_jobs q))
               (word_of_nat (unat (max_running_jobs (action cfg)) - card (active_keys q))))"
    if "pass_begin cfg q = Returns (q', p')" for cfg q' p'
    using pass_begin_Returns(2) [OF that] u c [unfolded counter_exact_def]
      unat_sub [of "running_jobs q" "max_running_jobs (action cfg)"]
    by (auto simp: word_less_nat_alt word_le_nat_alt of_nat_diff)
  with u show ?thesis by blast
qed

lemma first_seen_step:
  "interleaved_step sample_env regular_events (init_jobs_queue ident, NoPass, w)
     ((init_jobs_queue ident)\<lparr> running_jobs := 1,
        statuses := [(''job-1'', ''default'') \<mapsto> running_status], queue_event := True \<rparr>, NoPass, w)"
proof (intro interleaved_step.other other_step.touched)
  show "regular_events (init_jobs_queue ident) (store_with_status running_status)
      (Inr (job_with_status running_status))"
    by (simp add: regular_events_def regular_event_def store_with_status_def init_jobs_queue_def
        finished_def running_status_def)
qed (simp add: job_stream_event_def first_seen_touched)

theorem running_counter_exact_over_runs_witness:
  "\<exists>q'. pass_begin limit_one ((init_jobs_queue ''me'')\<lparr> running_jobs := 1,
        statuses := [(''job-1'', ''default'') \<mapsto> running_status], queue_event := True \<rparr>)
      = Returns (q', Receiving 0 0)"
proof -
  let ?q = "(init_jobs_queue ''me'')\<lparr> running_jobs := 1,
        statuses := [(''job-1'', ''default'') \<mapsto> running_status], queue_event := True \<rparr>"
  have a: "active_keys ?q = {(''job-1'', ''default'')}"
    by (auto simp: active_keys_def finished_def running_status_def)
  obtain q' p' where b: "pass_begin limit_one ?q = Returns (q', p')"
    by (auto simp: pass_begin_def Let_def update_gauges_def i64_try_from_def init_jobs_queue_def)
  have "(interleaved_step sample_env regular_events)\<^sup>*\<^sup>* (init_jobs_queue ''me'', NoPass, ()) (?q, NoPass, ())"
    using first_seen_step by blast
  moreover have "card (active_keys ?q) < 2 ^ 64" by (simp only: a) simp
  ultimately have "p' = (if unat (max_running_jobs (action limit_one)) < card (active_keys ?q) then NoPass
      else Receiving (length (queue_jobs ?q))
        (word_of_nat (unat (max_running_jobs (action limit_one)) - card (active_keys ?q))))"
    by (rule running_counter_exact_over_runs [THEN conjunct2, rule_format, OF _ _ b])
  then have "p' = Receiving 0 0" by (simp only: a) (simp add: init_jobs_queue_def)
  with b show ?thesis by blast
qed

section \<open>What the metrics say\<close>

text \<open>
  The counter of completed jobs gets one entry for every job of the trace that was refused or had
  expired, with the labels of that job; the histogram of waiting times one observation for every
  job that was submitted, the one still unanswered included (\<open>k\<close> is their number).
\<close>

fun trace_counts :: "queue_trace \<Rightarrow> string list outcome list" where
  "trace_counts (JobCreated i) = []"
| "trace_counts (JobCreateError i) = [completed_labels (item_job i) CreateError]"
| "trace_counts (JobExpired i) = [completed_labels (item_job i) Expired]"

fun is_submitted :: "queue_trace \<Rightarrow> bool" where
  "is_submitted (JobExpired i) = False"
| "is_submitted (JobCreated i) = True"
| "is_submitted (JobCreateError i) = True"

text \<open>The entries that passes count, as opposed to the watcher.\<close>

definition counted_by_pass :: "string list \<Rightarrow> bool" where
  "counted_by_pass labels \<longleftrightarrow>
     last labels \<in> {completion_status_to_string Expired, completion_status_to_string CreateError}"

definition metrics_agree :: "nat \<Rightarrow> jobs_queue \<Rightarrow> bool" where
  "metrics_agree k q \<longleftrightarrow>
     map Returns (filter counted_by_pass (m_completed_count (metrics q))) =
       concat (map trace_counts (trace q)) \<and>
     length (m_waiting_duration (metrics q)) = length (filter is_submitted (trace q)) + k"

lemma counted_by_pass_iff:
  "completed_labels j s = Returns ls \<Longrightarrow> counted_by_pass ls \<longleftrightarrow> s = Expired \<or> s = CreateError"
  by (cases s) (auto simp: completed_labels_def counted_by_pass_def)

lemma count_and_measure_completed_metrics:
  assumes "count_and_measure_completed env j s (q, w) = Returns (q', w')"
  shows "m_waiting_duration (metrics q') = m_waiting_duration (metrics q)" "trace q' = trace q"
    and "\<exists>ls. completed_labels j s = Returns ls \<and>
           filter counted_by_pass (m_completed_count (metrics q')) =
             filter counted_by_pass (m_completed_count (metrics q)) @
             (if s = Expired \<or> s = CreateError then [ls] else [])"
proof -
  show "m_waiting_duration (metrics q') = m_waiting_duration (metrics q)"
    using assms by (cases "completed_labels j s")
      (auto simp: count_and_measure_completed_def Let_def split: if_splits option.splits prod.splits)
  show "trace q' = trace q" using count_and_measure_completed_frame [OF assms] by auto
  from count_and_measure_completed_counts [OF assms] obtain ls where
    "completed_labels j s = Returns ls"
    "m_completed_count (metrics q') = m_completed_count (metrics q) @ [ls]" by blast
  with counted_by_pass_iff [of j s ls]
  show "\<exists>ls. completed_labels j s = Returns ls \<and>
           filter counted_by_pass (m_completed_count (metrics q')) =
             filter counted_by_pass (m_completed_count (metrics q)) @
             (if s = Expired \<or> s = CreateError then [ls] else [])" by auto
qed

lemma metrics_agree_cong:
  "m_completed_count (metrics q') = m_completed_count (metrics q) \<Longrightarrow>
   m_waiting_duration (metrics q') = m_waiting_duration (metrics q) \<Longrightarrow> trace q' = trace q \<Longrightarrow>
   metrics_agree k q' = metrics_agree k q"
  by (simp add: metrics_agree_def)

lemma update_gauges_agree: "update_gauges cfg n q = Returns q' \<Longrightarrow> metrics_agree k q' = metrics_agree k q"
  by (rule metrics_agree_cong) (auto simp: update_gauges_def)

text \<open>What the watcher counts, and what a pass counts for the job it has just put into the trace.\<close>

lemma count_watched_agree:
  assumes "count_and_measure_completed env j s (q, w) = Returns (q', w')"
    and "s \<noteq> Expired" "s \<noteq> CreateError"
  shows "metrics_agree k q' = metrics_agree k q"
  using count_and_measure_completed_metrics [OF assms(1)] assms(2,3)
  by (auto simp: metrics_agree_def)

lemma count_expired_agree:
  assumes "count_and_measure_completed env (item_job i) Expired
      (q\<lparr> trace := trace q @ [JobExpired i] \<rparr>, w) = Returns (q', w')"
    and "metrics_agree k q"
  shows "metrics_agree k q'"
  using count_and_measure_completed_metrics [OF assms(1)] assms(2)
  by (auto simp: metrics_agree_def)

lemma job_status_changed_agree:
  assumes "job_status_changed env j s prev (q, w) = Returns (q', w')"
  shows "metrics_agree k q' = metrics_agree k q"
proof -
  have "metrics_agree k (q\<lparr> running_jobs := r \<rparr>) = metrics_agree k q" for r
    by (simp add: metrics_agree_def)
  with assms count_watched_agree [of env j Succeed "q\<lparr> running_jobs := running_jobs q - 1 \<rparr>" w q' w']
    count_watched_agree [of env j Failed "q\<lparr> running_jobs := running_jobs q - 1 \<rparr>" w q' w']
  show ?thesis by (simp add: job_status_changed_def split: option.splits if_splits)
qed

lemma job_touched_agree:
  assumes "job_touched env store j (q, w) = Returns (q', w')"
  shows "metrics_agree k q' = metrics_agree k q"
proof -
  from assms obtain n ns where nm: "om_name (job_meta j) = Some n" "om_namespace (job_meta j) = Some ns"
    by (auto simp: job_touched_def)
  show ?thesis
  proof (cases "Option.bind (store (n, ns)) job_status_of")
    case None
    let ?q1 = "q\<lparr> statuses := (statuses q)((n, ns) := None) \<rparr>"
    have frame: "metrics_agree k (?q1\<lparr> running_jobs := r \<rparr>) = metrics_agree k q" "metrics_agree k ?q1 = metrics_agree k q"
      for r by (simp_all add: metrics_agree_def)
    show ?thesis
      using assms nm None frame
        count_watched_agree [of env j Deleted "?q1\<lparr> running_jobs := running_jobs q - 1 \<rparr>" w q' w']
      by (auto simp: job_touched_def Let_def split: option.splits if_splits)
  next
    case (Some s)
    with assms nm obtain q1 where
      ch: "job_status_changed env j s (statuses q (n, ns)) (q, w) = Returns (q1, w')"
      and q': "metrics q' = metrics q1" "trace q' = trace q1"
      by (auto simp: job_touched_def Let_def)
    from q' have "metrics_agree k q' = metrics_agree k q1" by (simp add: metrics_agree_def)
    with job_status_changed_agree [OF ch] show ?thesis by simp
  qed
qed

lemma job_stream_event_agree:
  assumes "job_stream_event env store ev (q, w) = Returns (q', w')"
  shows "metrics_agree k q' = metrics_agree k q"
proof (cases ev)
  case (Inr j)
  with assms obtain q1 w1 where t: "job_touched env store j (q, w) = Returns (q1, w1)"
    and q': "metrics q' = metrics q1" "trace q' = trace q1" by (auto simp: job_stream_event_def)
  from q' have "metrics_agree k q' = metrics_agree k q1" by (simp add: metrics_agree_def)
  with job_touched_agree [OF t] show ?thesis by simp
qed (use assms in \<open>auto simp: job_stream_event_def metrics_agree_def\<close>)

lemma enqueue_agree:
  assumes "enqueue env j ns exp (Some q, w) = (r, Some q', w')"
  shows "metrics_agree k q' = metrics_agree k q"
  using assms by (auto simp: enqueue_def Let_def metrics_agree_def split: if_splits prod.splits)

lemma metrics_agree_queue_jobs [simp]:
  "metrics_agree k (q\<lparr> queue_jobs := jobs \<rparr>) = metrics_agree k q"
  "metrics_agree k (q\<lparr> queue_event := ev \<rparr>) = metrics_agree k q"
  "metrics_agree k (q\<lparr> event_loop_alive := alive \<rparr>) = metrics_agree k q"
  by (simp_all add: metrics_agree_def)

lemma pass_step_agree:
  assumes "pass_step env (q, p, w) (q', p', w')" and "metrics_agree (length (in_flight p)) q"
  shows "metrics_agree (length (in_flight p')) q'"
  using assms(1)
proof (cases rule: pass_step.cases)
  case (receive cfg waiting free)
  from receive(2) show ?thesis
  proof (cases rule: pass_receiveE)
    case (submits item rest ns d)
    with receive(1) assms(2) show ?thesis by (simp add: metrics_agree_def measure_waiting_duration_def)
  next
    case (expires item rest w1 q2)
    have "metrics_agree 0 (q\<lparr> queue_jobs := rest \<rparr>)" using assms(2) receive(1) by simp
    moreover have "count_and_measure_completed env (item_job item) Expired
        ((q\<lparr> queue_jobs := rest \<rparr>)\<lparr> trace := trace (q\<lparr> queue_jobs := rest \<rparr>) @ [JobExpired item] \<rparr>, w1)
        = Returns (q2, w')"
      using expires(4) by simp
    ultimately have "metrics_agree 0 q2" by (rule count_expired_agree [rotated])
    with expires(6) update_gauges_agree [OF expires(5)] show ?thesis by simp
  qed (use receive(1) assms(2) in simp_all)
next
  case (answer cfg waiting free item ns)
  then have agree: "metrics_agree 1 q" using assms(2) by simp
  from answer(2) show ?thesis
  proof (cases rule: pass_answerE)
    case created
    from agree have "metrics_agree 0 (q\<lparr> trace := trace q @ [JobCreated item] \<rparr>)"
      by (simp add: metrics_agree_def)
    with created(3) update_gauges_agree [OF created(2)] show ?thesis by simp
  next
    case (refused e w1 q1)
    from count_and_measure_completed_metrics [OF refused(2)] agree have "metrics_agree 0 q1"
      by (auto simp: metrics_agree_def)
    with refused(4) update_gauges_agree [OF refused(3)] show ?thesis by simp
  qed
qed

lemma other_step_agree:
  assumes "other_step env ok (q, w) (q', w')"
  shows "metrics_agree k q' = metrics_agree k q"
  using assms by (cases rule: other_step.cases) (simp_all add: enqueue_agree job_stream_event_agree)

section \<open>The invariant of all reachable queues\<close>

text \<open>The invariant of a queue with a running pass: the one of the queue, the same for the job the
  pass waits for, and the agreement of the metrics.\<close>

definition run_inv :: "string \<Rightarrow> jobs_queue \<times> pass_state \<Rightarrow> bool" where
  "run_inv ident qp \<longleftrightarrow>
     (case qp of (q, p) \<Rightarrow>
        queue_inv ident q \<and>
        (\<forall>item \<in> set (in_flight p). owned_by ident (item_job item) \<and> measurable (item_job item)) \<and>
        metrics_agree (length (in_flight p)) q)"

lemma pass_step_run_inv:
  assumes "pass_step env (q, p, w) (q', p', w')" and "run_inv ident (q, p)"
  shows "run_inv ident (q', p')"
proof -
  let ?ok = "\<lambda>item. owned_by ident (item_job item) \<and> measurable (item_job item)"
  from pass_step_piece [OF assms(1)] obtain don where
    d: "trace q' = trace q @ don" "identity q' = identity q"
      "map trace_item don @ in_flight p' @ queue_jobs q' = in_flight p @ queue_jobs q"
    by (auto simp: piece_result_def)
  from assms(2) have "list_all ?ok (in_flight p @ queue_jobs q)"
    by (auto simp: run_inv_def queue_inv_def list_all_iff)
  with d(3) have "list_all ?ok (map trace_item don @ in_flight p' @ queue_jobs q')" by simp
  with assms(2) d(1,2) pass_step_agree [OF assms(1)] show ?thesis
    by (auto simp: run_inv_def queue_inv_def list_all_iff)
qed

lemma other_step_run_inv:
  assumes "other_step env ok (q, w) (q', w')" and "run_inv ident (q, p)"
  shows "run_inv ident (q', p)"
proof -
  have "queue_inv ident q'"
    using assms(1)
  proof (cases rule: other_step.cases)
    case (enqueued j ns exp r)
    with assms(2) enqueue_inv show ?thesis by (auto simp: run_inv_def)
  next
    case (touched store ev)
    with assms(2) job_stream_event_inv show ?thesis by (auto simp: run_inv_def)
  qed (use assms(2) in \<open>simp add: run_inv_def\<close>)
  with assms(2) other_step_agree [OF assms(1)] show ?thesis by (simp add: run_inv_def)
qed

lemma interleaved_step_run_inv:
  assumes "interleaved_step env ok (q, p, w) (q', p', w')" and "run_inv ident (q, p)"
  shows "run_inv ident (q', p')"
  using assms(1)
proof (cases rule: interleaved_step.cases)
  case (begins cfg ev)
  from begins(4) obtain q1 where g: "update_gauges cfg (length (queue_jobs q)) (q\<lparr> queue_event := ev \<rparr>) = Returns q'"
    and "in_flight p' = []"
    by (auto simp: pass_begin_def Let_def)
  with assms(2) begins(1) update_gauges_agree [OF g] update_gauges_frame [OF g] show ?thesis
    by (auto simp: run_inv_def queue_inv_def)
next
  case passes
  with assms(2) show ?thesis by (rule pass_step_run_inv [rotated])
next
  case other
  with assms(2) show ?thesis using other_step_run_inv by simp
next
  case shutdown
  with assms(2) show ?thesis by (simp add: run_inv_def queue_inv_def)
qed

text \<open>
  C23. In every state that a controller's queue can reach, at every \<^verbatim>\<open>await\<close> point of its passes:
  every waiting job, every job it has submitted and the one it waits for carry the controller's
  identity label and a namespace, so that its own watcher selects them; waiting jobs carry the
  labels that the metrics unwrap; the metrics count exactly the refused and the expired jobs, in
  order and with their labels, and the waiting time of every submitted job was observed once.
\<close>

theorem queue_reachable_inv:
  assumes "(interleaved_step env any_event)\<^sup>*\<^sup>* (init_jobs_queue ident, NoPass, w0) (q, p, w)"
  shows "run_inv ident (q, p)"
  using assms
proof (induction "(q, p, w)" arbitrary: q p w rule: rtranclp_induct)
  case base
  then show ?case
    by (simp add: run_inv_def queue_inv_def metrics_agree_def init_jobs_queue_def
        default_jobs_metrics_def)
next
  case (step s q' p' w')
  obtain q p w where s: "s = (q, p, w)" by (cases s)
  from interleaved_step_run_inv [OF step(2) [unfolded s] step(3) [OF s]] show ?case .
qed

lemma sample_enqueue_step:
  "\<exists>q. interleaved_step sample_env any_event (init_jobs_queue ident, NoPass, ()) (q, NoPass, ()) \<and>
     length (queue_jobs q) = 1"
proof -
  obtain r q where e: "enqueue sample_env sample_job ''default'' None (Some (init_jobs_queue ident), ())
      = (r, Some q, ())"
    by (simp add: enqueue_def sample_env_def Let_def init_jobs_queue_def)
  from enqueue_appends(1) [OF e] have "length (queue_jobs q) = 1" by (auto simp: init_jobs_queue_def)
  with interleaved_step.other [OF other_step.enqueued [OF sample_job_labelled e]] show ?thesis by blast
qed

theorem queue_reachable_inv_witness:
  "\<exists>q. length (queue_jobs q) = 1 \<and> run_inv ''me'' (q, NoPass)"
proof -
  from sample_enqueue_step obtain q where
    s: "interleaved_step sample_env any_event (init_jobs_queue ''me'', NoPass, ()) (q, NoPass, ())"
    and l: "length (queue_jobs q) = 1" by blast
  from queue_reachable_inv [OF r_into_rtranclp [of "interleaved_step sample_env any_event", OF s]] l
  show ?thesis by blast
qed

section \<open>Passes empty the queue\<close>

text \<open>Passes one after the other; the watcher has set the counter to the listed value before each.\<close>

fun run_passes ::
    "('w, 'z) jobs_env_scheme \<Rightarrow> runtime_config \<Rightarrow> usize list \<Rightarrow> jobs_queue \<times> 'w \<Rightarrow>
     (jobs_queue \<times> 'w) outcome" where
  "run_passes env cfg [] qw = Returns qw"
| "run_passes env cfg (r # rs) (q, w) =
     outcome_bind (run_queue env cfg (q\<lparr> running_jobs := r \<rparr>, w)) (run_passes env cfg rs)"

lemma run_queue_handles_front:
  assumes "run_queue env cfg (q, w) = Returns (q', w')"
  shows "\<exists>done. trace q' = trace q @ done \<and> map trace_item done @ queue_jobs q' = queue_jobs q \<and>
           (running_jobs q < max_running_jobs (action cfg) \<longrightarrow> queue_jobs q \<noteq> [] \<longrightarrow> done \<noteq> [])"
proof -
  from run_queue_result [OF assms] obtain don where
    r: "loop_result env cfg (length (queue_jobs q)) (free_capacity cfg q) q q' don" by blast
  have "don \<noteq> []" if "running_jobs q < max_running_jobs (action cfg)" "queue_jobs q \<noteq> []"
    using r that by (auto simp: loop_result_def free_capacity_def word_less_nat_alt)
  with loop_result_split [OF r] show ?thesis by blast
qed

text \<open>
  C22. Passes cannot panic when every waiting item carries its namespace and the six labels, its
  deadline fits a \<^verbatim>\<open>SystemTime\<close> and the clock has not gone back behind its enqueueing time, and the
  counter, the limit and the queue length fit an \<^verbatim>\<open>i64\<close>. Whatever the watcher makes of the counter
  in between, each pass that finds room handles at least the item at the front: as many such passes
  as there are waiting items leave none, each handled exactly once, in order.
\<close>

theorem queue_drains:
  assumes "\<forall>item \<in> set (queue_jobs q). item_ok env cfg item"
    and "length (queue_jobs q) < 9223372036854775808"
    and "unat (max_running_jobs (action cfg)) < 9223372036854775808"
    and "\<forall>r \<in> set rs. unat r < 9223372036854775808"
  shows "\<exists>q' w' done. run_passes env cfg rs (q, w) = Returns (q', w') \<and>
           trace q' = trace q @ done \<and> map trace_item done @ queue_jobs q' = queue_jobs q \<and>
           (length (queue_jobs q) \<le> length (filter (\<lambda>r. r < max_running_jobs (action cfg)) rs) \<longrightarrow>
              queue_jobs q' = [])"
  using assms
proof (induction rs arbitrary: q w)
  case Nil
  then show ?case by simp
next
  case (Cons r rs)
  let ?q = "q\<lparr> running_jobs := r \<rparr>"
  have "returns (run_queue env cfg (?q, w))"
    using Cons.prems by (intro run_queue_returns) (simp_all add: gauges_ok_def)
  then obtain q1 w1 where r: "run_queue env cfg (?q, w) = Returns (q1, w1)" by (auto simp: returns_iff)
  from run_queue_handles_front [OF r] obtain d1 where
    d1: "trace q1 = trace q @ d1" "map trace_item d1 @ queue_jobs q1 = queue_jobs q"
      "r < max_running_jobs (action cfg) \<Longrightarrow> queue_jobs q \<noteq> [] \<Longrightarrow> d1 \<noteq> []" by auto
  have len: "length d1 + length (queue_jobs q1) = length (queue_jobs q)"
    using arg_cong [OF d1(2), of length] by simp
  have "set (queue_jobs q1) \<subseteq> set (queue_jobs q)" using d1(2) by (metis Un_upper2 set_append)
  with Cons.prems len have "\<forall>item \<in> set (queue_jobs q1). item_ok env cfg item"
    "length (queue_jobs q1) < 9223372036854775808" by auto
  from Cons.IH [OF this Cons.prems(3), of w1] Cons.prems(4) obtain q' w' d2 where
    d2: "run_passes env cfg rs (q1, w1) = Returns (q', w')" "trace q' = trace q1 @ d2"
      "map trace_item d2 @ queue_jobs q' = queue_jobs q1"
      "length (queue_jobs q1) \<le> length (filter (\<lambda>r. r < max_running_jobs (action cfg)) rs) \<Longrightarrow>
       queue_jobs q' = []" by auto
  have "queue_jobs q' = []"
    if "length (queue_jobs q) \<le> length (filter (\<lambda>r. r < max_running_jobs (action cfg)) (r # rs))"
  proof (cases "queue_jobs q = []")
    case True
    with d1(2) d2(3) show ?thesis by simp
  next
    case False
    with d1(3) have "r < max_running_jobs (action cfg) \<Longrightarrow> 0 < length d1" by simp
    with that len show ?thesis
      by (intro d2(4), cases "r < max_running_jobs (action cfg)") (simp_all del: length_greater_0_conv)
  qed
  with r d1(1,2) d2(1-3) show ?case
    by (intro exI [of _ q'] exI [of _ w'] exI [of _ "d1 @ d2"]) auto
qed

theorem queue_drains_witness:
  "\<exists>q' w'. run_passes sample_env default_runtime_config [0, 15] (sample_queue, ()) = Returns (q', w') \<and>
     queue_jobs q' = [] \<and> map trace_item (trace q') = queue_jobs sample_queue"
proof -
  have "\<forall>r \<in> set [0, 15 :: usize]. unat r < 9223372036854775808" by simp
  moreover have "filter (\<lambda>r. r < max_running_jobs (action default_runtime_config)) [0, 15] = [0, 15]"
    by (simp add: default_runtime_config_def default_action_config_def)
  ultimately show ?thesis
    using queue_drains [OF sample_queue_ok, of "[0, 15]" "()"] by fastforce
qed

end
