(* ===== verification/Jobs_Refinement.thy ===== *)
theory Jobs_Refinement
  imports Jobs_Runs
begin

text \<open>
  The jobs queue as a refinement of a plain queue: an abstract specification in which a job is
  submitted at the end and only the job at the front is handled, for a stated reason, and the
  simulation that every step of the detailed model is a sequence of such steps.
\<close>

section \<open>The interface of a queue\<close>

text \<open>What a first-in first-out queue promises to its clients. The history of everything that was
  ever submitted is what was handled followed by what still waits.\<close>

locale fifo_queue =
  fixes waiting :: "'s \<Rightarrow> 'i list" and handled :: "'s \<Rightarrow> 'h list" and item_of :: "'h \<Rightarrow> 'i"
    and step :: "'s \<Rightarrow> 's \<Rightarrow> bool"
  assumes step_fifo: "step s s' \<Longrightarrow>
      (\<exists>hs items. handled s' = handled s @ hs \<and>
         map item_of hs @ waiting s' = waiting s @ items)"
begin

definition history :: "'s \<Rightarrow> 'i list" where
  "history s = map item_of (handled s) @ waiting s"

lemma step_history: "step s s' \<Longrightarrow> \<exists>items. history s' = history s @ items"
  using step_fifo [of s s'] by (auto simp: history_def)

lemma steps_history: "rtranclp step s s' \<Longrightarrow> \<exists>items. history s' = history s @ items"
proof (induction rule: rtranclp_induct)
  case (step s' s'')
  from step.IH step_history [OF step.hyps(2)] show ?case by (metis append.assoc)
qed simp

text \<open>Nothing that waits is lost or overtaken: it is handled, or it still waits behind what was
  before it.\<close>

lemma steps_keep_order:
  assumes "rtranclp step s s'"
  shows "\<exists>items. map item_of (drop (length (handled s)) (handled s')) @ waiting s' = waiting s @ items"
proof -
  have "\<exists>hs. handled s' = handled s @ hs"
    using assms
  proof (induction rule: rtranclp_induct)
    case (step s' s'')
    with step_fifo [OF step.hyps(2)] show ?case by auto
  qed simp
  then obtain hs where hs: "handled s' = handled s @ hs" by blast
  from steps_history [OF assms] hs show ?thesis by (auto simp: history_def)
qed

end

section \<open>The specification\<close>

record fifo =
  pending :: "jobs_queue_item list"
  log :: "queue_trace list"

inductive fifo_step :: "(queue_trace \<Rightarrow> bool) \<Rightarrow> fifo \<Rightarrow> fifo \<Rightarrow> bool"
  for reason where
  submit: "fifo_step reason s (s\<lparr> pending := pending s @ [item] \<rparr>)"
| handle: "pending s = item # rest \<Longrightarrow> trace_item tr = item \<Longrightarrow> reason tr \<Longrightarrow>
     fifo_step reason s (s\<lparr> pending := rest, log := log s @ [tr] \<rparr>)"

inductive_cases fifo_stepE: "fifo_step reason s s'"

text \<open>The job a pass waits for is still at the front.\<close>

definition fifo_of :: "jobs_queue \<times> pass_state \<Rightarrow> fifo" where
  "fifo_of qp = (case qp of (q, p) \<Rightarrow> \<lparr> pending = in_flight p @ queue_jobs q, log = trace q \<rparr>)"

interpretation spec_queue: fifo_queue pending log trace_item "fifo_step j" for j
proof
  fix s s'
  assume "fifo_step j s s'"
  then show "\<exists>hs items. log s' = log s @ hs \<and> map trace_item hs @ pending s' = pending s @ items"
  proof (cases rule: fifo_step.cases)
    case (handle item rest tr)
    then show ?thesis by (intro exI [of _ "[tr]"] exI [of _ "[]"]) simp
  qed simp
qed

text \<open>The jobs queue itself keeps the law, at every step of every interleaving.\<close>

interpretation jobs_fifo: fifo_queue "\<lambda>(q, p, w). in_flight p @ queue_jobs q" "\<lambda>(q, p, w). trace q"
    trace_item "interleaved_step env ok" for env ok
proof
  fix s s'
  assume step: "interleaved_step env ok s s'"
  obtain q p w q' p' w' where s: "s = (q, p, w)" "s' = (q', p', w')" by (cases s, cases s')
  have "\<exists>hs items. trace q' = trace q @ hs \<and>
      map trace_item hs @ in_flight p' @ queue_jobs q' = (in_flight p @ queue_jobs q) @ items"
    using step [unfolded s]
  proof (cases rule: interleaved_step.cases)
    case (begins cfg ev)
    from pass_begin_progress [OF begins(4)] begins(1) show ?thesis by simp
  next
    case passes
    from pass_step_piece [OF this] obtain don where "trace q' = trace q @ don"
      "map trace_item don @ in_flight p' @ queue_jobs q' = in_flight p @ queue_jobs q"
      by (auto simp: piece_result_def)
    then show ?thesis by (intro exI [of _ don] exI [of _ "[]"]) simp
  next
    case other
    from other_step_appends [OF other(2)] other(1) show ?thesis by (auto intro!: exI [of _ "[]"])
  qed simp
  with s show "\<exists>hs items. (case s' of (q, p, w) \<Rightarrow> trace q) = (case s of (q, p, w) \<Rightarrow> trace q) @ hs \<and>
      map trace_item hs @ (case s' of (q, p, w) \<Rightarrow> in_flight p @ queue_jobs q) =
      (case s of (q, p, w) \<Rightarrow> in_flight p @ queue_jobs q) @ items" by simp
qed

section \<open>The simulation\<close>

lemma fifo_handles:
  "pending s = map trace_item don @ rest \<Longrightarrow> \<forall>tr \<in> set don. j tr \<Longrightarrow>
     rtranclp (fifo_step j) s (s\<lparr> pending := rest, log := log s @ don \<rparr>)"
proof (induction don arbitrary: s)
  case Nil
  then show ?case by (cases s) auto
next
  case (Cons tr don)
  let ?s1 = "s\<lparr> pending := map trace_item don @ rest, log := log s @ [tr] \<rparr>"
  have "fifo_step j s ?s1" using Cons.prems by (intro fifo_step.handle) simp_all
  moreover have "rtranclp (fifo_step j) ?s1 (?s1\<lparr> pending := rest, log := log ?s1 @ don \<rparr>)"
    using Cons.prems by (intro Cons.IH) simp_all
  ultimately show ?case by (simp add: converse_rtranclp_into_rtranclp)
qed

lemma pass_step_simulated:
  assumes "pass_step env (q, p, w) (q', p', w')" and "submission_ok env p"
  shows "rtranclp (fifo_step (justified env)) (fifo_of (q, p)) (fifo_of (q', p'))"
proof -
  from pass_step_result(1) [OF assms] obtain don where "piece_result (q, p) (q', p') don"
    "\<forall>tr \<in> set don. justified env tr" by blast
  with fifo_handles [of "fifo_of (q, p)" don "in_flight p' @ queue_jobs q'" "justified env"]
  show ?thesis by (simp add: fifo_of_def piece_result_def)
qed

lemma other_step_simulated:
  assumes "other_step env ok (q, w) (q', w')"
  shows "rtranclp (fifo_step j) (fifo_of (q, p)) (fifo_of (q', p))"
  using assms
proof (cases rule: other_step.cases)
  case (enqueued jb ns exp r)
  from enqueue_appends [OF enqueued(2)] obtain item where
    "queue_jobs q' = queue_jobs q @ [item]" "trace q' = trace q" by blast
  then have "fifo_of (q', p) = (fifo_of (q, p))\<lparr> pending := pending (fifo_of (q, p)) @ [item] \<rparr>"
    by (simp add: fifo_of_def)
  with fifo_step.submit show ?thesis by (metis r_into_rtranclp)
next
  case (touched store ev)
  from job_stream_event_keeps [OF touched(2)] show ?thesis by (simp add: fifo_of_def)
qed simp

lemma interleaved_step_simulated:
  assumes "interleaved_step env ok (q, p, w) (q', p', w')" and "submission_ok env p"
  shows "rtranclp (fifo_step (justified env)) (fifo_of (q, p)) (fifo_of (q', p')) \<and> submission_ok env p'"
  using assms(1)
proof (cases rule: interleaved_step.cases)
  case (begins cfg ev)
  from pass_begin_progress [OF begins(4)] begins(1) show ?thesis by (simp add: fifo_of_def)
next
  case passes
  from pass_step_simulated [OF this assms(2)] pass_step_result(2) [OF this assms(2)] show ?thesis ..
next
  case other
  with assms(2) show ?thesis using other_step_simulated by simp
next
  case shutdown
  then show ?thesis
    by (cases p rule: pass_dropped.cases) (simp_all add: fifo_of_def submission_ok_def)
qed

lemma interleaved_steps_simulated:
  assumes "rtranclp (interleaved_step env ok) (q, p, w) (q', p', w')" and "submission_ok env p"
  shows "rtranclp (fifo_step (justified env)) (fifo_of (q, p)) (fifo_of (q', p')) \<and> submission_ok env p'"
  using assms(1)
proof (induction "(q', p', w')" arbitrary: q' p' w' rule: rtranclp_induct)
  case base
  with assms(2) show ?case by simp
next
  case (step s q'' p'' w'')
  obtain q1 p1 w1 where s: "s = (q1, p1, w1)" by (cases s)
  note ih = step(3) [OF s]
  from interleaved_step_simulated [OF step(2) [unfolded s]] ih
  show ?case by (meson rtranclp_trans)
qed

text \<open>
  C3. The jobs queue, driven by any interleaving of submitted jobs, events of the watched Jobs,
  the pieces of its passes between their \<^verbatim>\<open>await\<close> points and the shutdown, refines a plain first-in
  first-out queue, whose only steps are to submit an item at the end and to handle the one at the
  front for a justified reason (created, refused by the API server, expired). So nothing that waits
  is lost or overtaken: what was handled since, followed by the job a pass waits for and by what
  waits now, is what waited before, followed by what was submitted since.
\<close>

theorem jobs_queue_refines_fifo:
  assumes "rtranclp (interleaved_step env any_event) (q, NoPass, w) (q', p', w')"
  shows "rtranclp (fifo_step (justified env)) (fifo_of (q, NoPass)) (fifo_of (q', p')) \<and>
         (\<exists>submitted. map trace_item (drop (length (trace q)) (trace q')) @ in_flight p' @ queue_jobs q' =
            queue_jobs q @ submitted)"
proof -
  have r: "rtranclp (fifo_step (justified env)) (fifo_of (q, NoPass)) (fifo_of (q', p'))"
    using interleaved_steps_simulated [OF assms] by (simp add: submission_ok_def)
  from jobs_fifo.steps_keep_order [OF assms] r show ?thesis by simp
qed

theorem jobs_queue_refines_fifo_witness:
  "\<exists>q' w'. run_queue sample_env default_runtime_config (sample_queue\<lparr> queue_event := False \<rparr>, ()) = Returns (q', w') \<and>
     rtranclp (fifo_step (justified sample_env)) (fifo_of (sample_queue, NoPass)) (fifo_of (q', NoPass))"
proof -
  have "returns (run_queue sample_env default_runtime_config (sample_queue\<lparr> queue_event := False \<rparr>, ()))"
    using sample_queue_ok sample_queue_gauges by (intro run_queue_returns) (simp_all add: gauges_ok_def)
  then obtain q' w' where
    r: "run_queue sample_env default_runtime_config (sample_queue\<lparr> queue_event := False \<rparr>, ()) = Returns (q', w')"
    by (auto simp: returns_iff)
  from run_queue_interleaved [OF r, of any_event]
  have "rtranclp (interleaved_step sample_env any_event) (sample_queue, NoPass, ()) (q', NoPass, w')" by simp
  from jobs_queue_refines_fifo [OF this] r show ?thesis by blast
qed

end
