(* ===== verification/Job_Names.thy ===== *)
theory Job_Names
  imports Action_Correct
begin

text \<open>
  The names of Jobs (\<^verbatim>\<open>job_name\<close> in \<^verbatim>\<open>src/resources/action.rs\<close>, \<^verbatim>\<open>random_string\<close> in
  \<^verbatim>\<open>src/resources/mod.rs\<close>): that they are names Kubernetes accepts, how long they are, and when two of
  them are the same.
\<close>

section \<open>Names of Kubernetes\<close>

definition dns_alnum :: "char \<Rightarrow> bool" where
  "dns_alnum c \<longleftrightarrow> is_digit c \<or> (97 \<le> (of_char c :: nat) \<and> (of_char c :: nat) \<le> 122)"

definition ascii_alnum :: "char \<Rightarrow> bool" where
  "ascii_alnum c \<longleftrightarrow> dns_alnum c \<or> (65 \<le> (of_char c :: nat) \<and> (of_char c :: nat) \<le> 90)"

text \<open>A label of RFC 1123 and a dot-separated subdomain, without the limits on the length.\<close>

definition dns_label :: "string \<Rightarrow> bool" where
  "dns_label s \<longleftrightarrow> s \<noteq> [] \<and> dns_alnum (hd s) \<and> dns_alnum (last s) \<and> (\<forall>c \<in> set s. dns_alnum c \<or> c = CHR ''-'')"

definition dns_subdomain :: "string \<Rightarrow> bool" where
  "dns_subdomain s \<longleftrightarrow> (\<forall>l \<in> set (split_on CHR ''.'' s). dns_label l)"

text \<open>The text of a time in the format \<^verbatim>\<open>%Y%m%d-%H%M%S\<close>, for a year of four digits.\<close>

definition timestamp_text :: "string \<Rightarrow> bool" where
  "timestamp_text s \<longleftrightarrow> length s = 15 \<and> (\<forall>c \<in> set s. is_digit c \<or> c = CHR ''-'')"

lemma split_on_append:
  "c \<notin> set b \<Longrightarrow> split_on c (a @ b) = butlast (split_on c a) @ [last (split_on c a) @ b]"
proof (induction a)
  case (Cons x a)
  then show ?case by (cases "split_on c a") (auto simp: Let_def)
qed (simp add: split_on_no_sep)

lemma dns_label_append:
  assumes "dns_label l" and "\<forall>c \<in> set b. dns_alnum c \<or> c = CHR ''-''" and "b \<noteq> []" and "dns_alnum (last b)"
  shows "dns_label (l @ b)"
  using assms by (auto simp: dns_label_def)

lemma dns_subdomain_append:
  assumes "dns_subdomain s" and "\<forall>c \<in> set b. dns_alnum c \<or> c = CHR ''-''" and "b \<noteq> []" and "dns_alnum (last b)"
  shows "dns_subdomain (s @ b)"
proof -
  have "CHR ''.'' \<notin> set b" using assms(2) by (auto simp: dns_alnum_def is_digit_def)
  moreover have "dns_label (last (split_on CHR ''.'' s) @ b)"
    using assms(1) by (intro dns_label_append [OF _ assms(2-4)]) (simp add: dns_subdomain_def)
  ultimately show ?thesis
    using assms(1) by (auto simp: dns_subdomain_def split_on_append dest: in_set_butlastD)
qed

lemma in_split_on_chars: "c \<in> set s \<Longrightarrow> c = d \<or> (\<exists>l \<in> set (split_on d s). c \<in> set l)"
proof (induction s)
  case (Cons a s)
  then show ?case by (cases "split_on d s") auto
qed simp

lemma dns_subdomain_chars:
  assumes "dns_subdomain s"
  shows "\<forall>c \<in> set s. dns_alnum c \<or> c = CHR ''-'' \<or> c = CHR ''.''"
  using assms in_split_on_chars [of _ s "CHR ''.''"] by (fastforce simp: dns_subdomain_def dns_label_def)

section \<open>Lower case\<close>

lemma of_char_upper: "65 \<le> (of_char c :: nat) \<and> (of_char c :: nat) \<le> 90 \<Longrightarrow> (of_char (lower_char c) :: nat) = of_char c + 32"
  by (simp add: lower_char_def)

lemma lower_char_dns: "dns_alnum c \<or> c = CHR ''-'' \<or> c = CHR ''.'' \<Longrightarrow> lower_char c = c"
  by (auto simp: lower_char_def dns_alnum_def is_digit_def)

lemma lower_char_alnum: "ascii_alnum c \<Longrightarrow> dns_alnum (lower_char c)"
  using of_char_upper [of c] lower_char_dns [of c] by (auto simp: ascii_alnum_def) (simp add: dns_alnum_def)

lemma to_lowercase_id: "\<forall>c \<in> set s. dns_alnum c \<or> c = CHR ''-'' \<or> c = CHR ''.'' \<Longrightarrow> to_lowercase s = s"
  by (simp add: to_lowercase_def lower_char_dns map_idI)

lemma to_lowercase_append [simp]: "to_lowercase (a @ b) = to_lowercase a @ to_lowercase b"
  by (simp add: to_lowercase_def)

lemma to_lowercase_hyphen [simp]: "to_lowercase (CHR ''-'' # s) = CHR ''-'' # to_lowercase s"
  by (simp add: to_lowercase_def lower_char_dns)

section \<open>The name of a Job\<close>

lemma job_name_eq:
  assumes "dns_subdomain (name_any (action_meta ops self))" and "timestamp_text (format_local env (fst (now env w)))"
    and "random_string env 2 (snd (now env w)) = (rnd, w')"
  shows "job_name env ops self w =
     (name_any (action_meta ops self) @ ''-'' @ format_local env (fst (now env w)) @ ''-'' @ to_lowercase rnd, w')"
proof -
  have "to_lowercase (format_local env (fst (now env w))) = format_local env (fst (now env w))"
    using assms(2) by (intro to_lowercase_id) (auto simp: timestamp_text_def dns_alnum_def)
  then show ?thesis
    using assms(3) to_lowercase_id [OF dns_subdomain_chars [OF assms(1)]]
    by (simp add: job_name_def case_prod_beta)
qed

lemma lower_random_string:
  assumes "\<forall>w. ascii_alnum (fst (sample_alphanumeric env w))" and "random_string env 2 w = (rnd, w')"
  shows "length (to_lowercase rnd) = 2" "\<forall>c \<in> set (to_lowercase rnd). dns_alnum c"
  using length_random_string [OF assms(2)] random_string_chars [OF assms] lower_char_alnum
  by (auto simp: to_lowercase_def)

text \<open>
  C35. The names of Jobs: for an action with a valid name, at a time whose year has four digits and
  with alphanumeric samples, the name is a valid subdomain that begins with the action's name and is
  19 characters longer, so it keeps the limit of 63 characters for Jobs exactly when the action's
  name has at most 44. Two names of Jobs of one action are equal exactly when they were made in the
  same second and their two random characters are equal up to case.
\<close>

theorem job_name_valid:
  assumes "dns_subdomain (name_any (action_meta ops self))" and "\<forall>w. ascii_alnum (fst (sample_alphanumeric env w))"
    and "timestamp_text (format_local env (fst (now env w)))" and "timestamp_text (format_local env (fst (now env v)))"
  shows "dns_subdomain (fst (job_name env ops self w)) \<and>
     take (length (name_any (action_meta ops self))) (fst (job_name env ops self w)) = name_any (action_meta ops self) \<and>
     (length (fst (job_name env ops self w)) \<le> 63 \<longleftrightarrow> length (name_any (action_meta ops self)) \<le> 44) \<and>
     (fst (job_name env ops self w) = fst (job_name env ops self v) \<longleftrightarrow>
        format_local env (fst (now env w)) = format_local env (fst (now env v)) \<and>
        to_lowercase (fst (random_string env 2 (snd (now env w)))) =
        to_lowercase (fst (random_string env 2 (snd (now env v)))))"
proof -
  obtain r1 w1 r2 w2 where r: "random_string env 2 (snd (now env w)) = (r1, w1)"
    "random_string env 2 (snd (now env v)) = (r2, w2)" by (metis prod.exhaust)
  note n = job_name_eq [OF assms(1,3) r(1)] job_name_eq [OF assms(1,4) r(2)]
  note l = lower_random_string [OF assms(2) r(1)] lower_random_string [OF assms(2) r(2)]
  have len: "length (format_local env (fst (now env w))) = 15" "length (format_local env (fst (now env v))) = 15"
    using assms(3,4) by (simp_all add: timestamp_text_def)
  let ?b = "''-'' @ format_local env (fst (now env w)) @ ''-'' @ to_lowercase r1"
  have "dns_subdomain (name_any (action_meta ops self) @ ?b)"
  proof (rule dns_subdomain_append [OF assms(1)])
    show "\<forall>c \<in> set ?b. dns_alnum c \<or> c = CHR ''-''"
      using assms(3) l(2) by (auto simp: timestamp_text_def dns_alnum_def)
    have "to_lowercase r1 \<noteq> []" using l(1) by auto
    then show "dns_alnum (last ?b)" using l(2) by simp
  qed simp
  with n l len r show ?thesis by auto
qed

theorem job_name_valid_witness:
  "dns_subdomain (fst (job_name sample_env sample_action_ops sample_action ())) \<and>
   length (fst (job_name sample_env sample_action_ops sample_action ())) \<le> 63"
proof -
  have "dns_subdomain (name_any (action_meta sample_action_ops sample_action))"
    and "\<forall>w. ascii_alnum (fst (sample_alphanumeric sample_env w))"
    and "timestamp_text (format_local sample_env (fst (now sample_env ())))"
    and "length (name_any (action_meta sample_action_ops sample_action)) \<le> 44"
    by (simp_all add: sample_env_def sample_action_def action_internals_def name_any_def dns_subdomain_def dns_label_def
        dns_alnum_def ascii_alnum_def is_digit_def timestamp_text_def)
  with job_name_valid [of sample_action_ops sample_action sample_env "()" "()"] show ?thesis by blast
qed

end
