(* ===== verification/Build_Script.thy ===== *)
theory Build_Script
  imports Prelude
begin

text \<open>
  The build script (\<^verbatim>\<open>build.rs\<close>): it runs the generator of the test certificates and tells Cargo when
  to run it again. Running a command belongs to the environment; its answer is whether the command
  could be started and, if so, its exit status.
\<close>

definition CERTIFICATES_GENERATOR_SCRIPT_FOLDER :: string where
  "CERTIFICATES_GENERATOR_SCRIPT_FOLDER = ''tests/scripts''"

definition CERTIFICATES_GENERATOR_SCRIPT :: string where
  "CERTIFICATES_GENERATOR_SCRIPT = ''prepare-test-env.sh''"

definition OPENSSL_CONFIG :: string where
  "OPENSSL_CONFIG = ''openssl.cnf''"

text \<open>The result and the printed lines.\<close>

definition build_main ::
    "(string \<Rightarrow> string option) \<Rightarrow> (string \<Rightarrow> string list \<Rightarrow> 'w \<Rightarrow> (string + int) \<times> 'w) \<Rightarrow> 'w \<Rightarrow>
     ((string + string list) \<times> 'w) outcome" where
  "build_main env_var command_status w =
     outcome_bind (expect ''`OUT_DIR` environment variable isn`t set, use Cargo to run build'' (env_var ''OUT_DIR''))
       (\<lambda>out_dir.
          let dest_prefix = out_dir @ ''/'';
              script_path = CERTIFICATES_GENERATOR_SCRIPT_FOLDER @ ''/'' @ CERTIFICATES_GENERATOR_SCRIPT;
              openssl_config_path = CERTIFICATES_GENERATOR_SCRIPT_FOLDER @ ''/'' @ OPENSSL_CONFIG
          in (case command_status script_path [dest_prefix] w of
                (Inl e, w1) \<Rightarrow> Returns (Inl e, w1)
              | (Inr status, w1) \<Rightarrow>
                  Returns (Inr [''cargo::rerun-if-changed='' @ script_path,
                                ''cargo::rerun-if-changed='' @ openssl_config_path,
                                ''cargo::rerun-if-changed=build.rs''], w1)))"

text \<open>A build succeeds when the generator can be started, whatever its exit status.\<close>

lemma build_main_ignores_status:
  assumes "env_var ''OUT_DIR'' = Some out_dir"
    and "command_status ''tests/scripts/prepare-test-env.sh'' [out_dir @ ''/''] w = (Inr status, w')"
  shows "\<exists>printed. build_main env_var command_status w = Returns (Inr printed, w') \<and> length printed = 3"
  using assms
  by (simp add: build_main_def CERTIFICATES_GENERATOR_SCRIPT_FOLDER_def CERTIFICATES_GENERATOR_SCRIPT_def)

end
