(* ===== verification/Spec2Isabelle.thy ===== *)
theory Spec2Isabelle
  imports Web_Correct Cloner_Correct Controller_Correct Runner_Correct Metrics_Correct Jobs_Refinement Job_Names Build_Script
begin

text \<open>
  \<^bold>\<open>A verification library of git-events-runner\<close>

  git-events-runner is a Kubernetes operator. Custom resources describe git repositories
  (\<^verbatim>\<open>GitRepo\<close>, \<^verbatim>\<open>ClusterGitRepo\<close>), actions (\<^verbatim>\<open>Action\<close>, \<^verbatim>\<open>ClusterAction\<close>) and triggers
  (\<^verbatim>\<open>ScheduleTrigger\<close>, \<^verbatim>\<open>WebhookTrigger\<close>). A trigger's task, started by a schedule or by a request,
  fetches the watched reference of each source, compares its commit and the hash of the watched
  files with the recorded ones, and for a changed source executes the action: a Job whose init
  container clones the source and whose worker runs the user's command. Jobs pass through a queue
  with a limit on running jobs. One replica, the holder of a lease, reconciles schedule triggers;
  every replica serves webhooks.

  \<^bold>\<open>Theories and sources\<close> (paths below \<^verbatim>\<open>src/\<close>)

  \<^item> \<^verbatim>\<open>Prelude\<close>: outcomes (returning or panicking), machine integers, the parts of the Rust standard
    library the sources use, and shared lemmas. \<^verbatim>\<open>Errors\<close> is the error enum of \<^verbatim>\<open>src/lib.rs\<close>;
    \<^verbatim>\<open>Kube_Types\<close> the fields of the Kubernetes objects the program touches; \<^verbatim>\<open>Resources\<close> the custom
    resources of \<^verbatim>\<open>src/resources/\<close> with the required methods of their traits as records of
    operations (\<open>git_repo_ops\<close>, \<open>action_ops\<close>, \<open>trigger_ops\<close>).
  \<^item> \<^verbatim>\<open>Config\<close> (\<^verbatim>\<open>src/config.rs\<close>): the runtime configuration, its loading and its reload loop.
  \<^item> \<^verbatim>\<open>Jobs\<close>, \<^verbatim>\<open>Jobs_Correct\<close>, \<^verbatim>\<open>Jobs_Interleaving\<close>, \<^verbatim>\<open>Jobs_Runs\<close>, \<^verbatim>\<open>Jobs_Refinement\<close>
    (\<^verbatim>\<open>src/jobs.rs\<close>): the record \<open>jobs_queue\<close> is the static \<^verbatim>\<open>JobsQueue\<close>; \<open>run_queue\<close>, \<open>enqueue\<close> and
    \<open>job_stream_event\<close> are its operations. \<open>pass_begin\<close>, \<open>pass_receive\<close> and \<open>pass_answer\<close> are the same
    \<^verbatim>\<open>run_queue\<close> cut at its \<^verbatim>\<open>await\<close> points, where \<open>interleaved_step\<close>, the event loops, lets jobs be
    enqueued, watch events be handled, the configuration change and the shutdown drop the pass; the
    uncut pass, which has one configuration, is the special case without interruptions. The fields \<open>trace\<close> and \<open>metrics\<close> record what was done with each item.
  \<^item> \<^verbatim>\<open>Cache\<close>, \<^verbatim>\<open>Cache_Correct\<close> (\<^verbatim>\<open>src/cache.rs\<close>): the stores of custom resources, filled by
    watchers, and the cache of secrets.
  \<^item> \<^verbatim>\<open>Git_Repo\<close>, \<^verbatim>\<open>Git_Repo_Correct\<close> (\<^verbatim>\<open>src/resources/git_repo.rs\<close>): which secrets a fetch reads,
    the credentials and certificate callbacks, and \<open>fetch_repo_ref\<close>.
  \<^item> \<^verbatim>\<open>Action\<close>, \<^verbatim>\<open>Action_Correct\<close>, \<^verbatim>\<open>Job_Names\<close> (\<^verbatim>\<open>src/resources/action.rs\<close>): the Job of an action, its
    name and \<open>execute\<close>. The record \<open>config_reads\<close> holds what each of the reads of the shared
    configuration returns while one Job is built; \<open>steady\<close> is the case that all return the same.
    What the parsed arguments of the Job's containers mean is in \<^verbatim>\<open>Cloner_Correct\<close>.
  \<^item> \<^verbatim>\<open>Trigger\<close>, \<^verbatim>\<open>Trigger_Correct\<close>, \<^verbatim>\<open>Schedule\<close>, \<^verbatim>\<open>Schedule_Correct\<close> (\<^verbatim>\<open>src/resources/trigger.rs\<close>):
    status updates, \<open>run_trigger_task\<close> and, with its metrics, \<open>run_counted_task\<close>, hashes of files; the
    reconciliation of schedule triggers on the maps of tasks and schedules.
  \<^item> \<^verbatim>\<open>Controller\<close>, \<^verbatim>\<open>Controller_Correct\<close> (\<^verbatim>\<open>src/controller.rs\<close>): \<open>reconcile_namespaced\<close>, the error
    policy and \<open>run_leader_controllers\<close>.
  \<^item> \<^verbatim>\<open>Web\<close>, \<^verbatim>\<open>Web_Correct\<close>, \<^verbatim>\<open>Web_Server\<close>, \<^verbatim>\<open>Rate_Limit\<close>, \<^verbatim>\<open>Rate_Limit_Correct\<close> (\<^verbatim>\<open>src/web.rs\<close>): the
    handlers of webhooks with their authorisation and status codes; the routes of the two servers;
    the request rate limits.
  \<^item> \<^verbatim>\<open>Metrics\<close>, \<^verbatim>\<open>Metrics_Correct\<close>: the Prometheus metrics of the jobs queue, the controller, the triggers
    and the webhooks, each a lazily initialised static (\<open>jobs_METRICS\<close> and so on); \<open>jobs_queue_start\<close> is
    the start of the jobs queue, which uses the first of them. The values counted are fields of the
    components' own states, and the theorems of a component speak of the case that its static could
    be initialised; \<open>with_metrics\<close> is what a failed initialisation does to a result.
  \<^item> \<^verbatim>\<open>Cli\<close>, \<^verbatim>\<open>Cli_Correct\<close> (\<^verbatim>\<open>src/cli.rs\<close>): parameters and TLS configuration.
  \<^item> \<^verbatim>\<open>Cloner\<close>, \<^verbatim>\<open>Cloner_Correct\<close> (\<^verbatim>\<open>src/bin/gitrepo-cloner.rs\<close>) and \<^verbatim>\<open>Runner\<close>, \<^verbatim>\<open>Runner_Correct\<close>
    (\<^verbatim>\<open>src/bin/git-events-runner.rs\<close>): the two programs; \<^verbatim>\<open>Signals\<close> (\<^verbatim>\<open>src/signals.rs\<close>) and \<^verbatim>\<open>Tracing\<close>
    are parts of the second, \<^verbatim>\<open>Build_Script\<close> is \<^verbatim>\<open>build.rs\<close>.

  A model theory holds definitions; the theory with the suffix \<^verbatim>\<open>_Correct\<close> holds its lemmas. The small
  theories without such a companion hold both.

  \<^bold>\<open>Conventions.\<close> Everything outside the process is an abstract world \<open>'w\<close> that the operations
  thread; what they call there are fields of environment records, each record extending the one
  of the component below: clock, jobs or secrets, git, trigger, schedule, controller. What the
  program relies on about them is a named hypothesis of the theorems that need it: \<open>timed_env\<close>
  (the clock does not go back, an answer of the API server was true during the call; the states
  reachable under it carry the history of the reads of secrets), \<open>scheduler_laws\<close>,
  \<open>finalizer_law\<close>, \<open>store_keyed\<close>, \<open>stays_cached\<close>, \<open>namespaced_objects\<close> and \<open>cluster_objects\<close> (what a
  reflector keeps under which key), \<open>fetch_safe\<close>, \<open>governor_finish_law\<close>, \<open>parses_options\<close>,
  \<open>prometheus_laws\<close>, \<open>hash_set_order\<close>, \<open>axum_08_paths\<close>. Each such
  theorem has a witness with concrete functions. A panic is the value \<open>Panics\<close>, a \<^verbatim>\<open>Result\<close> a sum.

  \<^bold>\<open>Interfaces.\<close> The locale \<open>api_cache\<close> is the trait \<^verbatim>\<open>ApiCache\<close>, interpreted for the six stores;
  \<open>git_repo_kind\<close> and \<open>action_kind_ops\<close> are what the two kinds of repositories and of actions
  promise, interpreted for both; \<open>fifo_queue\<close> is what a queue promises to its clients, interpreted
  for the jobs queue and for the specification that it refines; \<open>lazy_static\<close> is what the static metrics of a
  component promise, interpreted for the four of them.

  \<^bold>\<open>What is shown\<close>
  \<^item> Jobs queue: a pass respects the limit and uses it up, handles a prefix in order, accounts for
    every item, also while its \<^verbatim>\<open>await\<close> points let other events in; passes do not panic on
    well-formed items and empty the queue; the metrics agree with what happened to the jobs in every
    reachable state; the counter of running jobs is exact in every run of regular events; all
    interleavings refine a plain queue. Two executions outside these conditions, a counter that
    wraps and a limit exceeded over two passes, are proved as well.
  \<^item> Secrets: a returned value was read from the API server during the call or by a recorded read
    that is not older than the expiration time, under every interleaving; which calls are answered
    without the API server; isolation of namespaces in fetches.
  \<^item> Git: which certificates are accepted, which credentials are sent, exactly when fetching panics.
  \<^item> Triggers: what a run adds to the queue, that a changed source runs the action once, that status
    updates accumulate, that equal file hashes mean equal contents unless two of the strings that
    were hashed collide.
  \<^item> Actions: a Job runs once, and its worker starts in the directory into which the source was
    cloned exactly when the reads of the configuration agree on it.
  \<^item> Schedules and controller: tasks correspond to triggers whatever is reconciled or deleted; what
    a successful and a failed reconciliation leave, and the case that a failure is not repaired.
  \<^item> Webhooks: who can start a task, the answer to every request, termination of the shutdown;
    rate limits: parsing with exact floating-point rounding, keys, layers.
  \<^item> Metrics: with a valid prefix nothing panics in any order of uses and every documented name is
    registered once; with another prefix the jobs queue is dead from the start.
  \<^item> Programs: the cloner clones what the action asked for; TLS comes from where the options say; when
    the start succeeds and how the servers are wired, and that it never succeeds with the router the
    lock file pins; controllers are started exactly for the lease, the loop ends only by a signal,
    the process exits where the resource definitions cannot be listed, and the run returns when all
    joined tasks have ended; and, below, from an accepted request and from a schedule to their Jobs.

  \<^bold>\<open>Bounds and termination.\<close> All loops of the model are structural recursions: over the waiting items
  counted at the start of a pass, over a list of events, sources or files, over the ten polls of a
  shutdown; no fuel is used. Endless loops of the program (watchers, the leader loop) are modelled
  by the sequence of their events. Quotients of rate limits are scaled by \<open>2 ^ 85\<close>, which is exact
  because a quotient is at least \<open>2 ^ -32\<close> and a mantissa has 53 bits.

  \<^bold>\<open>Not modelled:\<close> the HTTP, git, TLS, Kubernetes, Prometheus and tracing libraries (fields of the
  environments), the log messages themselves, the schemas generated for the custom resources, the
  implementations of \<^verbatim>\<open>Debug\<close>, and the tests with their support.
\<close>

section \<open>From a request to a Job\<close>

lemma single_source_checked:
  "length (sources_to_check env (SingleSource source) names) = 1"
  by (simp add: sources_to_check_def)

lemma grown_at_most_one:
  assumes "length items \<le> 1" and "grown q items q1" and "request_items ns ident items"
  shows "(queue_jobs q1 = queue_jobs q) \<or> (\<exists>item. grown q [item] q1 \<and> request_items ns ident [item])"
  using assms by (cases items) (auto simp: grown_def)

text \<open>
  C7. What an accepted request for one source can lead to: the request was authorised for the
  trigger in the cache, which names the source, and the task it added, whenever the scheduler runs
  it, puts at most one Job into the queue, in the trigger's namespace, labelled as this
  controller's and with the labels the metrics read; no waiting Job is lost or changed.
\<close>

theorem webhook_to_job:
  assumes "timed_env env clock contents" and "secrets_reachable env clock timeout reads (c, w)"
    and "ws_secrets s = Some c"
    and "acs_webhook_trigger (caches env w) = Some store" and "store_keyed wt_meta store"
    and "handle_post_source_webhook env cfg fe folder hs ns name source (s, w) = Returns (Inr resp, s', w')"
  shows "\<exists>trg task tid w1.
     store (cache_key name (Some ns)) = Some trg \<and> source \<in> set (source_names (wt_sources (wt_spec trg))) \<and>
     request_authorised contents timeout reads (clock w) (clock w1) cfg hs trg ns \<and>
     scheduler_add env task w1 = (Inr tid, w') \<and> wr_task_id resp = Some tid \<and>
     (\<forall>configs q w2 q' w3. run_trigger_task env configs webhook_trigger_ops webhook_trigger_cache task (Some q, w2) =
        Returns (q', w3) \<longrightarrow>
        (\<exists>q1. q' = Some q1 \<and>
           (queue_jobs q1 = queue_jobs q \<or>
            (\<exists>item. grown q [item] q1 \<and> request_items ns (identity q) [item]))))"
proof -
  from assms(6) obtain s1 where
    "source_webhook_result env cfg fe folder hs ns name source (s, w) = Returns (Inr resp, s1, w')"
    by (auto simp: handle_post_source_webhook_def)
  from gated_result_ok [OF assms(1-5) this [unfolded webhook_results_gated]] obtain trg tid w1 where
    a: "store (cache_key name (Some ns)) = Some trg" "source \<in> set (source_names (wt_sources (wt_spec trg)))"
      "request_authorised contents timeout reads (clock w) (clock w1) cfg hs trg ns"
      "scheduler_add env (hook_task ns name (SingleSource source) folder) w1 = (Inr tid, w')"
      "resp = response_of_task_id tid" by blast
  have "\<exists>q1. q' = Some q1 \<and>
           (queue_jobs q1 = queue_jobs q \<or>
            (\<exists>item. grown q [item] q1 \<and> request_items ns (identity q) [item]))"
    if "run_trigger_task env configs webhook_trigger_ops webhook_trigger_cache
         (hook_task ns name (SingleSource source) folder) (Some q, w2) = Returns (q', w3)" for configs q w2 q' w3
    using run_trigger_task_queue [OF that] grown_at_most_one [of _ q _ ns "identity q"]
    by (fastforce simp: hook_task_def single_source_checked)
  with a show ?thesis
    by (intro exI [of _ trg] exI [of _ "hook_task ns name (SingleSource source) folder"] exI [of _ tid] exI [of _ w1])
      (simp add: response_of_task_id_def)
qed

theorem webhook_to_job_witness:
  "\<exists>resp s' w'. handle_post_source_webhook sample_hook_env default_runtime_config (\<lambda>_. '''') ''/tmp''
       [''x-token'' \<mapsto> ''s3cret''] ''apps'' ''nightly'' ''repo'' (sample_web_state, []) =
     Returns (Inr resp, s', w') \<and>
     request_authorised sample_contents (60 * 1000000000) [] 0 0 default_runtime_config
       [''x-token'' \<mapsto> ''s3cret''] sample_hook_trigger ''apps'' \<and> wr_task_id resp = Some ''t''"
proof -
  obtain s' where r: "handle_post_source_webhook sample_hook_env default_runtime_config (\<lambda>_. '''') ''/tmp''
       [''x-token'' \<mapsto> ''s3cret''] ''apps'' ''nightly'' ''repo'' (sample_web_state, []) =
     Returns (Inr (response_of_task_id ''t''), s', [''t''])" using sample_hook_request by blast
  have st: "ws_secrets sample_web_state = Some sample_secrets_cache" by (simp add: sample_web_state_def)
  from webhook_to_job [OF sample_hook_laws(1,5) st sample_hook_env_fields(3) sample_hook_laws(6) r]
  have "request_authorised sample_contents (60 * 1000000000) [] 0 0 default_runtime_config
       [''x-token'' \<mapsto> ''s3cret''] sample_hook_trigger ''apps'' \<and>
     wr_task_id (response_of_task_id ''t'') = Some ''t''"
    by (auto simp: sample_hook_store_def response_of_task_id_def)
  with r show ?thesis by blast
qed

section \<open>From a schedule to a Job\<close>

text \<open>The iteration over a \<^verbatim>\<open>HashSet\<close> visits each element once, in some order.\<close>

definition hash_set_order :: "('w, 'z) trigger_env_scheme \<Rightarrow> bool" where
  "hash_set_order env \<longleftrightarrow> (\<forall>xs. distinct xs \<longrightarrow> distinct (set_order env xs) \<and> set (set_order env xs) = set xs)"

lemma all_sources_checked:
  assumes "hash_set_order env"
  shows "length (sources_to_check env AllSources names) = card (set names)"
proof -
  have "distinct (set_order env (remdups names))" "set (set_order env (remdups names)) = set names"
    using assms by (simp_all add: hash_set_order_def)
  then show ?thesis by (simp add: sources_to_check_def distinct_card [symmetric])
qed

definition schedule_task_of :: "schedule_trigger \<Rightarrow> string \<Rightarrow> string \<Rightarrow> task_schedule \<Rightarrow> trigger_task" where
  "schedule_task_of self ns folder ts =
     \<lparr> tt_schedule = ts, tt_name = name_any (st_meta self), tt_ns = ns, tt_sources = AllSources, tt_folder = folder \<rparr>"

lemma schedule_task_added:
  assumes "schedule_task env folder self key (Inr ts) (s, w) = Returns (Inr u, s', w')"
  shows "\<exists>ns tid. om_namespace (st_meta self) = Some ns \<and>
     scheduler_add env (schedule_task_of self ns folder ts) w = (Inr tid, w') \<and> tasks s' key = Some tid"
  using assms
  by (cases "om_namespace (st_meta self)")
    (auto simp: schedule_task_def create_trigger_task_def schedule_task_of_def case_sum_eq_iff case_prod_beta prod_eq_iff)

lemma reconcile_adds_task:
  assumes "reconcile env folder self (s, w) = Returns (Inr act, s', w')"
    and "trigger_hash_key schedule_trigger_ops self = Returns key"
    and "schedules s key \<noteq> Some (st_schedule (st_spec self))"
    and "is_valid_schedule (parse_duration env) (cron_ok env) (st_schedule (st_spec self))"
  shows "\<exists>ns ts tid w1 w2. om_namespace (st_meta self) = Some ns \<and>
     scheduler_add env (schedule_task_of self ns folder ts) w1 = (Inr tid, w2) \<and> tasks s' key = Some tid"
proof -
  obtain s1 w1 where c: "cancel_existing env CancelIgnore key (s, w) = (s1, w1)" by (metis prod.exhaust)
  from assms(1-3) c obtain lr sched w2 r s3 w3 where
    g: "get_task_schedule env (st_schedule (st_spec self)) lr w1 = Returns (sched, w2)" and
    t: "schedule_task env folder self key sched (s1, w2) = Returns (r, s3, w3)" and
    rest: "(case r of Inl e \<Rightarrow> Returns (Inl e, s3, w3)
       | Inr _ \<Rightarrow> outcome_bind (update_trigger_status env schedule_trigger_ops schedule_trigger_cache self
            None None None w3) (\<lambda>(r4, w4). (case r4 of Inl e \<Rightarrow> Returns (Inl e, s3, w4)
            | Inr _ \<Rightarrow> Returns (Inr AwaitChange,
                 s3\<lparr> schedules := (schedules s3)(key \<mapsto> st_schedule (st_spec self)) \<rparr>, w4)))) =
       Returns (Inr act, s', w')"
    by (auto simp: reconcile_def reconcile_changed_def)
  from rest obtain u where r: "r = Inr u" by (cases r) auto
  from rest have "tasks s' = tasks s3" unfolding r
    by (auto simp: outcome_bind_Returns_iff case_sum_eq_iff)
  moreover obtain ts where "sched = Inr ts" using get_task_schedule_result [OF g] assms(4) by blast
  ultimately show ?thesis using schedule_task_added [of env folder self key ts s1 w2 u s3 w3] t r by metis
qed

text \<open>
  C8. From a schedule to Jobs: the reconciliation of a trigger with a new valid schedule adds one
  task to the scheduler and records it; whenever the scheduler runs that task, the run is counted
  once under the trigger's namespace, kind and name, and adds to the queue at most one Job per source
  that the trigger names at that time, in its namespace, labelled as this controller's and with the
  labels the metrics read, without losing or changing a waiting Job.
\<close>

theorem schedule_to_job:
  assumes "hash_set_order env" and "reconcile env folder self (s, w) = Returns (Inr act, s', w')"
    and "trigger_hash_key schedule_trigger_ops self = Returns key"
    and "schedules s key \<noteq> Some (st_schedule (st_spec self))"
    and "is_valid_schedule (parse_duration env) (cron_ok env) (st_schedule (st_spec self))"
  shows "\<exists>ns task tid w1 w2. om_namespace (st_meta self) = Some ns \<and>
     scheduler_add env task w1 = (Inr tid, w2) \<and> tasks s' key = Some tid \<and>
     (\<forall>configs m q w3 m' q' w4.
        run_counted_task env configs schedule_trigger_ops schedule_trigger_cache task (m, Some q, w3) = Returns (m', q', w4) \<longrightarrow>
        trigger_check_count m' = trigger_check_count m @ [(ns, ''ScheduleTrigger'', name_any (st_meta self))] \<and>
        (\<exists>q1 items. q' = Some q1 \<and> grown q items q1 \<and> request_items ns (identity q) items \<and>
           (items = [] \<or>
            (\<exists>trg. api_cache_get schedule_trigger_cache (name_any (st_meta self)) (Some ns) (caches env w3) =
                Returns (Inr trg) \<and>
              length items \<le> card (set (source_names (st_sources (st_spec trg))))))))"
proof -
  from reconcile_adds_task [OF assms(2-5)] obtain ns ts tid w1 w2 where
    a: "om_namespace (st_meta self) = Some ns"
      "scheduler_add env (schedule_task_of self ns folder ts) w1 = (Inr tid, w2)" "tasks s' key = Some tid" by blast
  let ?task = "schedule_task_of self ns folder ts"
  have fields: "tt_ns ?task = ns" "tt_name ?task = name_any (st_meta self)" "tt_sources ?task = AllSources"
    by (simp_all add: schedule_task_of_def)
  have none: "grown q [] q \<and> request_items ns (identity q) []" for q by (simp add: request_items_def)
  have "trigger_check_count m' = trigger_check_count m @ [(ns, ''ScheduleTrigger'', name_any (st_meta self))] \<and>
        (\<exists>q1 items. q' = Some q1 \<and> grown q items q1 \<and> request_items ns (identity q) items \<and>
           (items = [] \<or>
            (\<exists>trg. api_cache_get schedule_trigger_cache (name_any (st_meta self)) (Some ns) (caches env w3) =
                Returns (Inr trg) \<and>
              length items \<le> card (set (source_names (st_sources (st_spec trg)))))))"
    if "run_counted_task env configs schedule_trigger_ops schedule_trigger_cache ?task (m, Some q, w3) = Returns (m', q', w4)"
    for configs m q w3 m' q' w4
  proof -
    from that have r: "run_trigger_task env configs schedule_trigger_ops schedule_trigger_cache ?task (Some q, w3) =
        Returns (q', w4)" and m: "trigger_check_count m' =
        trigger_check_count m @ [(ns, ''ScheduleTrigger'', name_any (st_meta self))]"
      by (auto simp: run_counted_task_def count_check_def fields)
    from run_trigger_task_queue [OF r, unfolded fields all_sources_checked [OF assms(1)]] m none [of q]
    show ?thesis by (metis trigger_ops_simps(5))
  qed
  with a show ?thesis by blast
qed

theorem schedule_to_job_witness:
  "\<exists>s' tid. reconcile sample_schedule_env ''/tmp'' (sample_schedule_trigger None) (empty_triggers_state, []) =
       Returns (Inr AwaitChange, s', [''t'']) \<and> tasks s' ''apps/nightly'' = Some tid"
proof -
  obtain s' where s': "reconcile sample_schedule_env ''/tmp'' (sample_schedule_trigger None)
      (empty_triggers_state, []) = Returns (Inr AwaitChange, s', [''t''])" using sample_reconcile by blast
  have h: "hash_set_order sample_schedule_env"
    and n: "schedules empty_triggers_state ''apps/nightly'' \<noteq> Some (st_schedule (st_spec (sample_schedule_trigger None)))"
    and v: "is_valid_schedule (parse_duration sample_schedule_env) (cron_ok sample_schedule_env)
      (st_schedule (st_spec (sample_schedule_trigger None)))"
    by (simp_all add: hash_set_order_def sample_schedule_env_def sample_schedule_trigger_def empty_triggers_state_def)
  from schedule_to_job [OF h s' sample_key n v] s' show ?thesis by blast
qed

end
